(* ===== verification/Prelude.thy ===== *)
theory Prelude
  imports Main
begin

text \<open>
  Prelude of the development: the exceptions of the modelled Python code, computations that
  may raise (a sum type) and computations that may raise while they change a store, and the
  generic lemmas on lists the components share. The collection \<open>res_simps\<close> says when a fallible
  computation succeeds, \<open>err_simps\<close> when it raises; component proofs pass them to the simplifier.
\<close>

named_theorems res_simps
named_theorems err_simps

section \<open>Exceptions and results\<close>

text \<open>The exceptions that the modelled code raises itself or lets escape, with their message
  where the code composes one. \<open>OtherError\<close> stands for any other class, given by its name: what a
  callback may raise.\<close>

datatype py_exc =
    ValueError string
  | TypeError string
  | RuntimeError string
  | KeyError string
  | AttributeError string
  | OverflowError
  | FileNotFoundError
  | FileExistsError
  | AccountSubmissionError string
  | OtherError string

type_synonym 'a res = "py_exc + 'a"

definition bind_res :: "'a res \<Rightarrow> ('a \<Rightarrow> 'b res) \<Rightarrow> 'b res" where
  "bind_res m f = (case m of Inl e \<Rightarrow> Inl e | Inr a \<Rightarrow> f a)"

definition map_res :: "('a \<Rightarrow> 'b) \<Rightarrow> 'a res \<Rightarrow> 'b res" where
  "map_res f m = bind_res m (\<lambda>a. Inr (f a))"

text \<open>\<open>require b e k\<close> is the statement \<open>if not b: raise e\<close> followed by \<open>k\<close>.\<close>

definition require :: "bool \<Rightarrow> py_exc \<Rightarrow> 'a res \<Rightarrow> 'a res" where
  "require b e k = (if b then k else Inl e)"

fun is_value_error :: "py_exc \<Rightarrow> bool" where
  "is_value_error (ValueError _) = True"
| "is_value_error _ = False"

fun is_type_error :: "py_exc \<Rightarrow> bool" where
  "is_type_error (TypeError _) = True"
| "is_type_error _ = False"

text \<open>The name of an exception's class, \<open>type(exc).__name__\<close>.\<close>

fun exc_class :: "py_exc \<Rightarrow> string" where
  "exc_class (ValueError _) = ''ValueError''"
| "exc_class (TypeError _) = ''TypeError''"
| "exc_class (RuntimeError _) = ''RuntimeError''"
| "exc_class (KeyError _) = ''KeyError''"
| "exc_class (AttributeError _) = ''AttributeError''"
| "exc_class OverflowError = ''OverflowError''"
| "exc_class FileNotFoundError = ''FileNotFoundError''"
| "exc_class FileExistsError = ''FileExistsError''"
| "exc_class (AccountSubmissionError _) = ''AccountSubmissionError''"
| "exc_class (OtherError name) = name"

lemma bind_res_simps [simp, res_simps]:
  "bind_res (Inl e) f = Inl e"
  "bind_res (Inr a) f = f a"
  by (simp_all add: bind_res_def)

lemma bind_res_Inr_iff [res_simps]:
  "bind_res m f = Inr b \<longleftrightarrow> (\<exists>a. m = Inr a \<and> f a = Inr b)"
  by (cases m) auto

lemma bind_res_assoc: "bind_res (bind_res m f) g = bind_res m (\<lambda>a. bind_res (f a) g)"
  by (cases m) auto

lemma map_res_simps [simp, res_simps]:
  "map_res f (Inl e) = Inl e"
  "map_res f (Inr a) = Inr (f a)"
  by (simp_all add: map_res_def)

lemma map_res_Inr_iff [res_simps]: "map_res f m = Inr b \<longleftrightarrow> (\<exists>a. m = Inr a \<and> f a = b)"
  by (cases m) auto

lemma require_simps [simp, res_simps]:
  "require True e k = k"
  "require False e k = Inl e"
  by (simp_all add: require_def)

lemma require_Inr_iff [res_simps]: "require b e k = Inr a \<longleftrightarrow> b \<and> k = Inr a"
  by (simp add: require_def)

lemma bind_res_Inl_iff [err_simps]:
  "bind_res m f = Inl e \<longleftrightarrow> m = Inl e \<or> (\<exists>a. m = Inr a \<and> f a = Inl e)"
  by (cases m) auto

lemma map_res_Inl_iff [err_simps]: "map_res f m = Inl e \<longleftrightarrow> m = Inl e"
  by (cases m) auto

lemma require_Inl_iff [err_simps]:
  "require b e k = Inl x \<longleftrightarrow> (\<not> b \<and> x = e) \<or> (b \<and> k = Inl x)"
  by (auto simp: require_def)

text \<open>Running a fallible step on every element of a list, stopping at the first exception.\<close>

fun mapM :: "('a \<Rightarrow> 'b res) \<Rightarrow> 'a list \<Rightarrow> 'b list res" where
  "mapM f [] = Inr []"
| "mapM f (x # xs) = bind_res (f x) (\<lambda>y. map_res (\<lambda>ys. y # ys) (mapM f xs))"

lemma mapM_Inr_iff: "mapM f xs = Inr ys \<longleftrightarrow> list_all2 (\<lambda>x y. f x = Inr y) xs ys"
proof (induction xs arbitrary: ys)
  case (Cons x xs)
  then show ?case by (cases "f x"; cases ys) (auto simp: res_simps)
qed auto

lemma mapM_Inl: "mapM f xs = Inl e \<Longrightarrow> \<exists>x \<in> set xs. f x = Inl e"
  by (induction xs) (auto simp: err_simps)

lemma mapM_Inr_map: "(\<And>x. x \<in> set xs \<Longrightarrow> f x = Inr (g x)) \<Longrightarrow> mapM f xs = Inr (map g xs)"
  by (induction xs) auto

section \<open>Computations on a store\<close>

text \<open>
  A statement that reads or writes a store and may raise: it returns the outcome and the
  store it leaves behind (an exception does not undo the writes made before it).
\<close>

type_synonym ('s, 'a) act = "'s \<Rightarrow> 'a res \<times> 's"

definition ret :: "'a \<Rightarrow> ('s, 'a) act" where
  "ret a s = (Inr a, s)"

definition raise_act :: "py_exc \<Rightarrow> ('s, 'a) act" where
  "raise_act e s = (Inl e, s)"

definition bind_act :: "('s, 'a) act \<Rightarrow> ('a \<Rightarrow> ('s, 'b) act) \<Rightarrow> ('s, 'b) act" where
  "bind_act m f s = (case m s of (Inl e, s') \<Rightarrow> (Inl e, s') | (Inr a, s') \<Rightarrow> f a s')"

text \<open>A computation that does not touch the store.\<close>

definition lift_res :: "'a res \<Rightarrow> ('s, 'a) act" where
  "lift_res r s = (r, s)"

text \<open>\<open>try: m except Exception as exc: h(exc)\<close>.\<close>

definition try_act :: "('s, 'a) act \<Rightarrow> (py_exc \<Rightarrow> ('s, 'a) act) \<Rightarrow> ('s, 'a) act" where
  "try_act m h s = (case m s of (Inl e, s') \<Rightarrow> h e s' | (Inr a, s') \<Rightarrow> (Inr a, s'))"

lemma act_simps [simp]:
  "ret a s = (Inr a, s)"
  "raise_act e s = (Inl e, s)"
  "lift_res r s = (r, s)"
  by (simp_all add: ret_def raise_act_def lift_res_def)

lemma bind_act_ret [simp]: "bind_act (ret a) f = f a"
  by (rule ext) (simp add: bind_act_def)

lemma bind_act_eq:
  "m s = (Inr a, s') \<Longrightarrow> bind_act m f s = f a s'"
  "m s = (Inl e, s') \<Longrightarrow> bind_act m f s = (Inl e, s')"
  by (simp_all add: bind_act_def)

lemma bind_act_Inr_iff [res_simps]:
  "bind_act m f s = (Inr b, s') \<longleftrightarrow> (\<exists>a s1. m s = (Inr a, s1) \<and> f a s1 = (Inr b, s'))"
  by (auto simp: bind_act_def split: prod.splits sum.splits)

lemma lift_res_Inr_iff [res_simps]: "lift_res r s = (Inr a, s') \<longleftrightarrow> r = Inr a \<and> s' = s"
  by auto

lemma bind_act_lift [simp]:
  "bind_act (lift_res (Inr a)) f s = f a s"
  "bind_act (lift_res (Inl e)) f s = (Inl e, s)"
  by (simp_all add: bind_act_def)

section \<open>Lists\<close>

text \<open>\<open>if x not in xs: xs.append(x)\<close>.\<close>

definition append_new :: "'a list \<Rightarrow> 'a \<Rightarrow> 'a list" where
  "append_new xs x = (if x \<in> set xs then xs else xs @ [x])"

lemma set_append_new [simp]: "set (append_new xs x) = insert x (set xs)"
  by (auto simp: append_new_def)

lemma distinct_append_new [simp]: "distinct xs \<Longrightarrow> distinct (append_new xs x)"
  by (simp add: append_new_def)

text \<open>\<open>dict.fromkeys(xs)\<close> keeps the first occurrence of every element, in order.\<close>

fun dedup_from :: "'a list \<Rightarrow> 'a list \<Rightarrow> 'a list" where
  "dedup_from seen [] = []"
| "dedup_from seen (x # xs) =
     (if x \<in> set seen then dedup_from seen xs else x # dedup_from (x # seen) xs)"

definition dedup :: "'a list \<Rightarrow> 'a list" where
  "dedup xs = dedup_from [] xs"

lemma set_dedup_from: "set (dedup_from seen xs) = set xs - set seen"
  by (induction xs arbitrary: seen) auto

lemma set_dedup [simp]: "set (dedup xs) = set xs"
  by (simp add: dedup_def set_dedup_from)

lemma distinct_dedup_from: "distinct (dedup_from seen xs)"
  by (induction xs arbitrary: seen) (auto simp: set_dedup_from)

lemma distinct_dedup [simp]: "distinct (dedup xs)"
  by (simp add: dedup_def distinct_dedup_from)

lemma dedup_from_distinct:
  "distinct xs \<Longrightarrow> set xs \<inter> set seen = {} \<Longrightarrow> dedup_from seen xs = xs"
  by (induction xs arbitrary: seen) auto

lemma dedup_distinct [simp]: "distinct xs \<Longrightarrow> dedup xs = xs"
  by (simp add: dedup_def dedup_from_distinct)

lemma fold_append_new_set:
  "set (fold (\<lambda>x acc. append_new acc (f x)) xs acc) = set acc \<union> f ` set xs"
  by (induction xs arbitrary: acc) auto

lemma last_dropWhile_rev:
  "xs \<noteq> [] \<Longrightarrow> \<not> P (last xs) \<Longrightarrow> dropWhile P (rev xs) = rev xs"
  by (cases xs rule: rev_cases) auto

end
