(* ===== verification/ExecutionKernel.thy ===== *)
theory ExecutionKernel
  imports Prelude
begin

text \<open>
  The pure submission guards of \<open>execution_kernel/guards.py\<close> over the vocabulary of
  \<open>execution_kernel/types.py\<close>: three tables that decide, from a snapshot, whether a broker
  write may proceed. They keep no state.
\<close>

named_theorems guard_simps

section \<open>Vocabulary\<close>

datatype execution_mode = LIVE | DRY_RUN | PAPER

datatype submission_certainty =
    KNOWN_FAILED | UNKNOWN | FILLED_ACCOUNTING_PENDING | TERMINAL | NOT_APPLICABLE

datatype decision_literal = Allow | Deny

record guard_decision =
  gd_decision :: decision_literal
  gd_reason_code :: string
  gd_certainty :: "submission_certainty option"
  gd_notes :: string

definition allowed :: "guard_decision \<Rightarrow> bool" where
  "allowed d \<longleftrightarrow> gd_decision d = Allow"

record live_submit_snapshot =
  ls_mode :: execution_mode
  ls_dry_run_bypass :: bool
  ls_identity_held :: bool

record submission_unknown_snapshot =
  su_certainty :: submission_certainty
  su_requesting_new_cycle_submit :: bool

record submission_retry_snapshot =
  sr_transport_uncertain :: bool
  sr_reconciled :: bool
  sr_requesting_blind_retry :: bool

section \<open>Guards\<close>

definition deny_live_submit_without_durable_identity ::
  "live_submit_snapshot \<Rightarrow> guard_decision" where
  "deny_live_submit_without_durable_identity s =
     (let requires_identity = ls_mode s = LIVE \<and> \<not> ls_dry_run_bypass s in
      if requires_identity \<and> \<not> ls_identity_held s
      then \<lparr>gd_decision = Deny, gd_reason_code = ''missing_durable_identity'', gd_certainty = None,
            gd_notes = ''live submit requires adapter-held durable identity''\<rparr>
      else \<lparr>gd_decision = Allow, gd_reason_code = ''ok'', gd_certainty = None, gd_notes = []\<rparr>)"

definition deny_new_cycle_when_submission_unknown ::
  "submission_unknown_snapshot \<Rightarrow> guard_decision" where
  "deny_new_cycle_when_submission_unknown s =
     (if su_requesting_new_cycle_submit s \<and> su_certainty s = UNKNOWN
      then \<lparr>gd_decision = Deny, gd_reason_code = ''submission_uncertain'',
            gd_certainty = Some UNKNOWN,
            gd_notes = ''unknown submission blocks a new cycle submit''\<rparr>
      else \<lparr>gd_decision = Allow, gd_reason_code = ''ok'', gd_certainty = Some (su_certainty s),
            gd_notes = []\<rparr>)"

definition deny_blind_retry_after_uncertain_transport ::
  "submission_retry_snapshot \<Rightarrow> guard_decision" where
  "deny_blind_retry_after_uncertain_transport s =
     (if sr_requesting_blind_retry s \<and> sr_transport_uncertain s \<and> \<not> sr_reconciled s
      then \<lparr>gd_decision = Deny, gd_reason_code = ''reconcile_required'',
            gd_certainty = Some UNKNOWN,
            gd_notes = ''uncertain transport requires reconcile before retry''\<rparr>
      else \<lparr>gd_decision = Allow, gd_reason_code = ''ok'', gd_certainty = None, gd_notes = []\<rparr>)"

lemma live_submit_allowed_iff [guard_simps]:
  "allowed (deny_live_submit_without_durable_identity s) \<longleftrightarrow>
     (ls_mode s = LIVE \<longrightarrow> ls_dry_run_bypass s \<or> ls_identity_held s)"
  by (auto simp: allowed_def deny_live_submit_without_durable_identity_def Let_def)

lemma new_cycle_allowed_iff [guard_simps]:
  "allowed (deny_new_cycle_when_submission_unknown s) \<longleftrightarrow>
     (su_requesting_new_cycle_submit s \<longrightarrow> su_certainty s \<noteq> UNKNOWN)"
  by (auto simp: allowed_def deny_new_cycle_when_submission_unknown_def)

lemma blind_retry_allowed_iff [guard_simps]:
  "allowed (deny_blind_retry_after_uncertain_transport s) \<longleftrightarrow>
     (sr_requesting_blind_retry s \<longrightarrow> sr_transport_uncertain s \<longrightarrow> sr_reconciled s)"
  by (auto simp: allowed_def deny_blind_retry_after_uncertain_transport_def)

text \<open>A guard denies exactly with a reason and a note, and never with the reason of success.\<close>

lemma guard_reason_ok [guard_simps]:
  "gd_reason_code (deny_live_submit_without_durable_identity s) = ''ok''
     \<longleftrightarrow> allowed (deny_live_submit_without_durable_identity s)"
  "gd_reason_code (deny_new_cycle_when_submission_unknown t) = ''ok''
     \<longleftrightarrow> allowed (deny_new_cycle_when_submission_unknown t)"
  "gd_reason_code (deny_blind_retry_after_uncertain_transport u) = ''ok''
     \<longleftrightarrow> allowed (deny_blind_retry_after_uncertain_transport u)"
  by (simp_all add: allowed_def deny_live_submit_without_durable_identity_def
      deny_new_cycle_when_submission_unknown_def deny_blind_retry_after_uncertain_transport_def)

end
