(* ===== verification/PyText.thy ===== *)
theory PyText
  imports Prelude "HOL-Library.Char_ord" "HOL-Library.List_Lexorder"
begin

text \<open>
  The operations of Python's \<open>str\<close> and the regular expressions that the modelled code uses.
  A text is a \<open>string\<close>, a list of characters with codes 0 to 255, read as the Unicode code
  points of the same number (the Latin-1 range); texts with larger code points are outside
  the model. Whitespace and lower case are exact on that range. Upper case is exact but for
  the three characters whose upper case leaves the range or grows (codes 181, 223 and 255),
  which it leaves alone.
\<close>

section \<open>Characters\<close>

abbreviation ord :: "char \<Rightarrow> nat" where
  "ord c \<equiv> of_char c"

definition is_space :: "char \<Rightarrow> bool" where
  "is_space c \<longleftrightarrow> (let n = ord c in
     (9 \<le> n \<and> n \<le> 13) \<or> (28 \<le> n \<and> n \<le> 32) \<or> n = 133 \<or> n = 160)"

definition is_lower :: "char \<Rightarrow> bool" where
  "is_lower c \<longleftrightarrow> 97 \<le> ord c \<and> ord c \<le> 122"

definition is_upper :: "char \<Rightarrow> bool" where
  "is_upper c \<longleftrightarrow> 65 \<le> ord c \<and> ord c \<le> 90"

definition is_digit :: "char \<Rightarrow> bool" where
  "is_digit c \<longleftrightarrow> 48 \<le> ord c \<and> ord c \<le> 57"

definition digit_val :: "char \<Rightarrow> nat" where
  "digit_val c = ord c - 48"

definition is_alnum :: "char \<Rightarrow> bool" where
  "is_alnum c \<longleftrightarrow> is_lower c \<or> is_upper c \<or> is_digit c"

definition lower_char :: "char \<Rightarrow> char" where
  "lower_char c = (let n = ord c in
     if (65 \<le> n \<and> n \<le> 90) \<or> (192 \<le> n \<and> n \<le> 222 \<and> n \<noteq> 215) then char_of (n + 32) else c)"

definition upper_char :: "char \<Rightarrow> char" where
  "upper_char c = (let n = ord c in
     if (97 \<le> n \<and> n \<le> 122) \<or> (224 \<le> n \<and> n \<le> 254 \<and> n \<noteq> 247) then char_of (n - 32) else c)"

definition lower :: "string \<Rightarrow> string" where
  "lower s = map lower_char s"

definition upper :: "string \<Rightarrow> string" where
  "upper s = map upper_char s"

lemma ord_char_of [simp]: "n < 256 \<Longrightarrow> ord (char_of n) = n"
  by simp

lemma ord_lt [simp]: "ord c < 256"
  by simp

lemma ord_lower_char:
  "ord (lower_char c) =
     (if (65 \<le> ord c \<and> ord c \<le> 90) \<or> (192 \<le> ord c \<and> ord c \<le> 222 \<and> ord c \<noteq> 215)
      then ord c + 32 else ord c)"
  by (auto simp: lower_char_def Let_def)

lemma ord_inject: "c = d \<longleftrightarrow> ord c = ord d"
  by simp

lemma lower_char_idem [simp]: "lower_char (lower_char c) = lower_char c"
  by (subst ord_inject) (auto simp: ord_lower_char)

lemma lower_idem [simp]: "lower (lower s) = lower s"
  by (simp add: lower_def)

lemma is_space_lower_char [simp]: "is_space (lower_char c) = is_space c"
  by (auto simp: is_space_def ord_lower_char Let_def)

lemma lower_Nil_iff [simp]: "lower s = [] \<longleftrightarrow> s = []"
  by (simp add: lower_def)

lemma length_lower [simp]: "length (lower s) = length s"
  by (simp add: lower_def)

lemma lower_fixed: "(\<And>c. c \<in> set s \<Longrightarrow> lower_char c = c) \<Longrightarrow> lower s = s"
  by (simp add: lower_def map_idI)

lemma lower_char_fixed:
  "is_lower c \<Longrightarrow> lower_char c = c" "is_digit c \<Longrightarrow> lower_char c = c"
  by (auto simp: lower_char_def is_lower_def is_digit_def Let_def)

section \<open>Stripping\<close>

text \<open>\<open>strip_by P\<close> removes the leading and trailing characters in \<open>P\<close>: \<open>s.strip()\<close> for
  whitespace, \<open>s.strip("-.")\<close> for a given set.\<close>

definition strip_by :: "(char \<Rightarrow> bool) \<Rightarrow> string \<Rightarrow> string" where
  "strip_by P s = rev (dropWhile P (rev (dropWhile P s)))"

definition strip :: "string \<Rightarrow> string" where
  "strip s = strip_by is_space s"

definition rstrip_by :: "(char \<Rightarrow> bool) \<Rightarrow> string \<Rightarrow> string" where
  "rstrip_by P s = rev (dropWhile P (rev s))"

text \<open>A text that stripping leaves alone.\<close>

definition trimmed_by :: "(char \<Rightarrow> bool) \<Rightarrow> string \<Rightarrow> bool" where
  "trimmed_by P s \<longleftrightarrow> s = [] \<or> (\<not> P (hd s) \<and> \<not> P (last s))"

abbreviation trimmed :: "string \<Rightarrow> bool" where
  "trimmed s \<equiv> trimmed_by is_space s"

lemma strip_by_trimmed [simp]: "trimmed_by P s \<Longrightarrow> strip_by P s = s"
  by (cases s) (auto simp: strip_by_def trimmed_by_def last_dropWhile_rev
    simp del: rev.simps)

lemma hd_dropWhile_not: "dropWhile P s \<noteq> [] \<Longrightarrow> \<not> P (hd (dropWhile P s))"
  by (rule hd_dropWhile)

lemma trimmed_strip_by [simp]: "trimmed_by P (strip_by P s)"
proof (cases "strip_by P s = []")
  case False
  define t where "t = dropWhile P s"
  define u where "u = dropWhile P (rev t)"
  have eq: "strip_by P s = rev u"
    by (simp add: strip_by_def t_def u_def)
  with False have u: "u \<noteq> []" by simp
  have "\<not> P (hd u)"
    unfolding u_def by (rule hd_dropWhile_not) (use u u_def in simp)
  moreover have "\<not> P (last u)"
  proof -
    obtain pre where "rev t = pre @ u"
      unfolding u_def by (metis takeWhile_dropWhile_id)
    then have "t = rev u @ rev pre"
      by (metis rev_append rev_rev_ident)
    with u have "hd t = last u" and "t \<noteq> []"
      by (simp_all add: hd_append hd_rev)
    then show ?thesis
      using hd_dropWhile_not [of P s] by (simp add: t_def)
  qed
  ultimately show ?thesis
    using u eq by (simp add: trimmed_by_def hd_rev last_rev)
qed (simp add: trimmed_by_def)

lemma strip_by_idem [simp]: "strip_by P (strip_by P s) = strip_by P s"
  by simp

lemma strip_idem [simp]: "strip (strip s) = strip s"
  by (simp add: strip_def)

lemma trimmed_strip [simp]: "trimmed (strip s)"
  by (simp add: strip_def)

lemma strip_trimmed [simp]: "trimmed s \<Longrightarrow> strip s = s"
  by (simp add: strip_def)

lemma set_strip_by: "set (strip_by P s) \<subseteq> set s"
  by (auto simp: strip_by_def dest!: set_dropWhileD)

lemma trimmed_all: "(\<And>c. c \<in> set s \<Longrightarrow> \<not> P c) \<Longrightarrow> trimmed_by P s"
  by (cases s) (auto simp: trimmed_by_def)

lemma trimmed_lower [simp]: "trimmed (lower s) = trimmed s"
  by (cases s) (auto simp: trimmed_by_def lower_def last_map)

section \<open>Searching and replacing\<close>

text \<open>\<open>s.startswith(p)\<close>, \<open>s.endswith(p)\<close> and \<open>s.removeprefix(p)\<close>.\<close>

definition starts_with :: "string \<Rightarrow> string \<Rightarrow> bool" where
  "starts_with p s \<longleftrightarrow> take (length p) s = p"

definition ends_with :: "string \<Rightarrow> string \<Rightarrow> bool" where
  "ends_with p s \<longleftrightarrow> length p \<le> length s \<and> drop (length s - length p) s = p"

definition remove_prefix :: "string \<Rightarrow> string \<Rightarrow> string" where
  "remove_prefix p s = (if starts_with p s then drop (length p) s else s)"

text \<open>\<open>re.sub("[^...]+", "-", s)\<close> for the character class \<open>ok\<close>: every maximal run of characters
  outside it becomes one hyphen.\<close>

function sub_runs :: "(char \<Rightarrow> bool) \<Rightarrow> string \<Rightarrow> string" where
  "sub_runs ok [] = []"
| "sub_runs ok (c # cs) =
     (if ok c then c # sub_runs ok cs
      else CHR ''-'' # sub_runs ok (dropWhile (\<lambda>d. \<not> ok d) cs))"
  by pat_completeness auto
termination
  by (relation "measure (\<lambda>(ok, s). length s)")
    (auto simp: le_imp_less_Suc length_dropWhile_le)

text \<open>\<open>re.sub("-{2,}", "-", s)\<close>: every run of two or more hyphens becomes one.\<close>

fun squeeze :: "string \<Rightarrow> string" where
  "squeeze (c # d # cs) =
     (if c = CHR ''-'' \<and> d = CHR ''-'' then squeeze (d # cs) else c # squeeze (d # cs))"
| "squeeze s = s"

lemma set_sub_runs: "c \<in> set (sub_runs ok s) \<Longrightarrow> (ok c \<and> c \<in> set s) \<or> c = CHR ''-''"
  by (induction ok s rule: sub_runs.induct) (auto split: if_splits dest: set_dropWhileD)

lemma sub_runs_safe: "(\<And>c. c \<in> set s \<Longrightarrow> ok c) \<Longrightarrow> sub_runs ok s = s"
  by (induction s) auto

lemma sub_runs_Nil_iff [simp]: "sub_runs ok s = [] \<longleftrightarrow> s = []"
  by (cases s) auto

section \<open>Joining and splitting\<close>

text \<open>\<open>sep.join(parts)\<close> for a one-character separator, and \<open>s.split(sep)\<close>.\<close>

fun join :: "string \<Rightarrow> string list \<Rightarrow> string" where
  "join sep [] = []"
| "join sep [x] = x"
| "join sep (x # xs) = x @ sep @ join sep xs"

fun split_on :: "char \<Rightarrow> string \<Rightarrow> string list" where
  "split_on d [] = [[]]"
| "split_on d (c # cs) =
     (if c = d then [] # split_on d cs
      else (case split_on d cs of [] \<Rightarrow> [[c]] | p # ps \<Rightarrow> (c # p) # ps))"

lemma split_on_nonempty [simp]: "split_on d s \<noteq> []"
  by (induction s) (auto split: list.splits)

lemma join_Cons: "xs \<noteq> [] \<Longrightarrow> join sep (x # xs) = x @ sep @ join sep xs"
  by (cases xs) auto

lemma split_on_append_sep: "d \<notin> set p \<Longrightarrow> split_on d (p @ d # s) = p # split_on d s"
  by (induction p) auto

lemma split_on_single: "d \<notin> set p \<Longrightarrow> split_on d p = [p]"
  by (induction p) auto

lemma split_on_join:
  "ps \<noteq> [] \<Longrightarrow> (\<And>p. p \<in> set ps \<Longrightarrow> d \<notin> set p) \<Longrightarrow> split_on d (join [d] ps) = ps"
  by (induction ps rule: induct_list012) (auto simp: split_on_single split_on_append_sep)

section \<open>Decimal numerals\<close>

text \<open>\<open>str(n)\<close> for a natural number and an integer, and \<open>int(s)\<close> on a text of digits.\<close>

definition digit_char :: "nat \<Rightarrow> char" where
  "digit_char n = char_of (48 + n)"

fun nat_str :: "nat \<Rightarrow> string" where
  "nat_str n = (if n < 10 then [digit_char n] else nat_str (n div 10) @ [digit_char (n mod 10)])"

declare nat_str.simps [simp del]

text \<open>The same digits computed on \<open>int\<close>, which the simplifier and the code generator evaluate
  without unary numbers.\<close>

function digits10 :: "int \<Rightarrow> string" where
  "digits10 i = (if i < 10 then [digit_char (nat i)]
     else digits10 (i div 10) @ [digit_char (nat (i mod 10))])"
  by pat_completeness auto
termination
  by (relation "measure nat") auto

declare digits10.simps [simp del]

definition int_str :: "int \<Rightarrow> string" where
  "int_str i = (if i < 0 then CHR ''-'' # digits10 (- i) else digits10 i)"

definition digits_val :: "string \<Rightarrow> nat" where
  "digits_val s = foldl (\<lambda>n c. 10 * n + digit_val c) 0 s"

text \<open>\<open>f"{n:0wd}"\<close>: padded on the left with zeros to width \<open>w\<close>.\<close>

definition zero_pad :: "nat \<Rightarrow> string \<Rightarrow> string" where
  "zero_pad w s = replicate (w - length s) (CHR ''0'') @ s"

lemma ord_digit_char [simp]: "n < 10 \<Longrightarrow> ord (digit_char n) = 48 + n"
  by (simp add: digit_char_def)

lemma is_digit_digit_char [simp]: "n < 10 \<Longrightarrow> is_digit (digit_char n)"
  by (simp add: is_digit_def)

lemma digit_val_digit_char [simp]: "n < 10 \<Longrightarrow> digit_val (digit_char n) = n"
  by (simp add: digit_val_def)

lemma digit_char_digit_val [simp]: "is_digit c \<Longrightarrow> digit_char (digit_val c) = c"
  by (simp add: digit_char_def digit_val_def is_digit_def)

lemma digit_val_lt [simp]: "is_digit c \<Longrightarrow> digit_val c < 10"
  by (auto simp: digit_val_def is_digit_def)

lemma nat_str_digits: "c \<in> set (nat_str n) \<Longrightarrow> is_digit c"
proof (induction n rule: nat_str.induct)
  case (1 n)
  then show ?case by (cases "n < 10") (auto simp: nat_str.simps [of n])
qed

lemma nat_str_nonempty [simp]: "nat_str n \<noteq> []"
  by (subst nat_str.simps) simp

lemma digits10_int: "digits10 (int n) = nat_str n"
proof (induction n rule: nat_str.induct)
  case (1 n)
  show ?case
  proof (cases "n < 10")
    case False
    with 1 have "digits10 (int n div 10) = nat_str (n div 10)"
      by (simp add: zdiv_int)
    moreover have "nat (int n mod 10) = n mod 10"
      by (simp add: nat_mod_distrib)
    ultimately show ?thesis
      using False by (simp add: digits10.simps [of "int n"] nat_str.simps [of n])
  qed (simp add: digits10.simps nat_str.simps)
qed

lemma digits10_nat: "0 \<le> i \<Longrightarrow> digits10 i = nat_str (nat i)"
  using digits10_int [of "nat i"] by simp

lemma nat_str_code [code]: "nat_str n = digits10 (int n)"
  by (simp add: digits10_int)

lemma digits_val_snoc: "digits_val (s @ [c]) = 10 * digits_val s + digit_val c"
  by (simp add: digits_val_def)

lemma digits_val_nat_str [simp]: "digits_val (nat_str n) = n"
proof (induction n rule: nat_str.induct)
  case (1 n)
  show ?case
  proof (cases "n < 10")
    case True
    then show ?thesis by (simp add: nat_str.simps [of n] digits_val_def)
  next
    case False
    with "1.IH" have "digits_val (nat_str (n div 10)) = n div 10" by simp
    with False show ?thesis
      by (simp add: nat_str.simps [of n] digits_val_snoc del: mult_div_mod_eq)
  qed
qed

lemma foldl_digits_zeros:
  "foldl (\<lambda>n c. 10 * n + digit_val c) 0 (replicate k (CHR ''0'') @ s) = digits_val s"
  by (induction k) (simp_all add: digits_val_def digit_val_def)

lemma digits_val_zero_pad [simp]: "digits_val (zero_pad w s) = digits_val s"
  unfolding zero_pad_def by (subst digits_val_def) (rule foldl_digits_zeros)

lemma zero_pad_digits:
  "c \<in> set (zero_pad w (nat_str n)) \<Longrightarrow> is_digit c"
  by (auto simp: zero_pad_def is_digit_def dest: nat_str_digits split: if_splits)

lemma nat_str_inject [simp]: "nat_str m = nat_str n \<longleftrightarrow> m = n"
  by (metis digits_val_nat_str)

lemma zero_pad_nat_str_inject [simp]:
  "zero_pad w (nat_str m) = zero_pad w (nat_str n) \<longleftrightarrow> m = n"
  by (metis digits_val_zero_pad digits_val_nat_str)

section \<open>Identifier patterns\<close>

text \<open>
  The full-match patterns of the identifiers. \<open>bounded_id first rest lo hi\<close> is
  \<open>[first][rest]{lo,hi}\<close>; \<open>scoped_id first seg sep\<close> is \<open>[first][seg]*(?:[sep][seg]+)*\<close>;
  \<open>is_sha256_hex\<close> is \<open>[0-9a-f]{64}\<close>.
\<close>

definition bounded_id :: "(char \<Rightarrow> bool) \<Rightarrow> (char \<Rightarrow> bool) \<Rightarrow> nat \<Rightarrow> nat \<Rightarrow> string \<Rightarrow> bool" where
  "bounded_id first rest lo hi s = (case s of [] \<Rightarrow> False
     | c # cs \<Rightarrow> first c \<and> list_all rest cs \<and> lo \<le> length cs \<and> length cs \<le> hi)"

fun scoped_tail :: "(char \<Rightarrow> bool) \<Rightarrow> (char \<Rightarrow> bool) \<Rightarrow> string \<Rightarrow> bool" where
  "scoped_tail seg sep [] = True"
| "scoped_tail seg sep (c # cs) =
     (if seg c then scoped_tail seg sep cs
      else sep c \<and> (case cs of [] \<Rightarrow> False | d # ds \<Rightarrow> seg d \<and> scoped_tail seg sep ds))"

definition scoped_id :: "(char \<Rightarrow> bool) \<Rightarrow> (char \<Rightarrow> bool) \<Rightarrow> (char \<Rightarrow> bool) \<Rightarrow> string \<Rightarrow> bool" where
  "scoped_id first seg sep s =
     (case s of [] \<Rightarrow> False | c # cs \<Rightarrow> first c \<and> scoped_tail seg sep cs)"

definition is_hex_lower :: "char \<Rightarrow> bool" where
  "is_hex_lower c \<longleftrightarrow> is_digit c \<or> (97 \<le> ord c \<and> ord c \<le> 102)"

definition is_hex_any :: "char \<Rightarrow> bool" where
  "is_hex_any c \<longleftrightarrow> is_hex_lower c \<or> (65 \<le> ord c \<and> ord c \<le> 70)"

definition is_sha256_hex :: "string \<Rightarrow> bool" where
  "is_sha256_hex s \<longleftrightarrow> length s = 64 \<and> list_all is_hex_lower s"

lemma scoped_tail_chars:
  "scoped_tail seg sep s \<Longrightarrow> c \<in> set s \<Longrightarrow> seg c \<or> sep c"
  by (induction seg sep s rule: scoped_tail.induct) (auto split: if_splits list.splits)

lemma scoped_id_chars:
  "scoped_id first seg sep s \<Longrightarrow> c \<in> set s \<Longrightarrow> first c \<or> seg c \<or> sep c"
  by (cases s) (auto simp: scoped_id_def dest: scoped_tail_chars)

lemma is_hex_lower_props:
  "is_hex_lower c \<Longrightarrow> lower_char c = c" "is_hex_lower c \<Longrightarrow> \<not> is_space c"
  by (auto simp: is_hex_lower_def is_digit_def lower_char_def is_space_def Let_def)

lemma sha256_hex_lower [simp]: "is_sha256_hex s \<Longrightarrow> lower s = s"
  by (rule lower_fixed) (auto simp: is_sha256_hex_def list_all_iff is_hex_lower_props)

lemma sha256_hex_trimmed [simp]: "is_sha256_hex s \<Longrightarrow> trimmed s"
  by (rule trimmed_all) (auto simp: is_sha256_hex_def list_all_iff is_hex_lower_props)

lemma sha256_hex_nonempty: "is_sha256_hex s \<Longrightarrow> s \<noteq> []"
  by (auto simp: is_sha256_hex_def)

end
