(* ===== verification/PyFloat.thy ===== *)
theory PyFloat
  imports PyText Complex_Main
begin

text \<open>
  Python's \<open>float\<close>: IEEE 754 binary64. A finite float is the rational number it stands for;
  negative zero, the infinities and NaN are constructors of their own. Conversions and
  arithmetic compute the exact rational result and round it to binary64, half to even,
  with gradual underflow and overflow to infinity. \<open>float_repr\<close> is \<open>repr\<close>: the shortest
  decimal that reads back as the same float, in Python's layout.
\<close>

datatype pyfloat = Fin rat | NegZero | PosInf | NegInf | NaN

section \<open>Rounding\<close>

definition pow2 :: "int \<Rightarrow> rat" where
  "pow2 e = (if 0 \<le> e then 2 ^ nat e else 1 / 2 ^ nat (- e))"

definition pow10 :: "int \<Rightarrow> rat" where
  "pow10 e = (if 0 \<le> e then 10 ^ nat e else 1 / 10 ^ nat (- e))"

function bit_len :: "int \<Rightarrow> int" where
  "bit_len n = (if n \<le> 0 then 0 else 1 + bit_len (n div 2))"
  by pat_completeness auto
termination
  by (relation "measure nat") auto

declare bit_len.simps [simp del]

text \<open>The exponent \<open>e\<close> with \<open>2^e \<le> q < 2^(e+1)\<close>, for positive \<open>q\<close>.\<close>

definition ilog2 :: "rat \<Rightarrow> int" where
  "ilog2 q = (case quotient_of q of (a, b) \<Rightarrow>
     let e = bit_len a - bit_len b
     in if pow2 e \<le> q then e else e - 1)"

definition round_half_even :: "rat \<Rightarrow> int" where
  "round_half_even x = (let f = \<lfloor>x\<rfloor>; d = x - of_int f in
     if d < 1 / 2 then f else if 1 / 2 < d then f + 1 else if even f then f else f + 1)"

text \<open>The spacing of binary64 numbers around a positive \<open>q\<close> is \<open>2^e\<close> with 53 significant
  bits, and never less than \<open>2^-1074\<close>.\<close>

definition round_pos :: "rat \<Rightarrow> rat" where
  "round_pos q = (let e = max (ilog2 q - 52) (-1074)
     in of_int (round_half_even (q / pow2 e)) * pow2 e)"

definition to_float :: "rat \<Rightarrow> pyfloat" where
  "to_float q = (if q = 0 then Fin 0 else
     let r = round_pos \<bar>q\<bar> in
     if 2 ^ 1024 \<le> r then (if 0 < q then PosInf else NegInf)
     else if r = 0 then (if 0 < q then Fin 0 else NegZero)
     else Fin (if 0 < q then r else - r))"

text \<open>\<open>float(n)\<close> of an int: too large an int raises OverflowError.\<close>

definition float_of_int :: "int \<Rightarrow> pyfloat option" where
  "float_of_int i = (case to_float (of_int i) of PosInf \<Rightarrow> None | NegInf \<Rightarrow> None | x \<Rightarrow> Some x)"

section \<open>Tests and comparisons\<close>

fun fin_val :: "pyfloat \<Rightarrow> rat" where
  "fin_val (Fin q) = q"
| "fin_val _ = 0"

fun f_isfinite :: "pyfloat \<Rightarrow> bool" where
  "f_isfinite (Fin _) = True"
| "f_isfinite NegZero = True"
| "f_isfinite _ = False"

fun f_le :: "pyfloat \<Rightarrow> pyfloat \<Rightarrow> bool" where
  "f_le NaN _ = False"
| "f_le _ NaN = False"
| "f_le NegInf _ = True"
| "f_le _ PosInf = True"
| "f_le PosInf _ = False"
| "f_le _ NegInf = False"
| "f_le x y = (fin_val x \<le> fin_val y)"

definition f_eq :: "pyfloat \<Rightarrow> pyfloat \<Rightarrow> bool" where
  "f_eq x y \<longleftrightarrow> f_le x y \<and> f_le y x"

definition f_lt :: "pyfloat \<Rightarrow> pyfloat \<Rightarrow> bool" where
  "f_lt x y \<longleftrightarrow> f_le x y \<and> \<not> f_le y x"

text \<open>Python's \<open>max(x, y)\<close> keeps the first argument unless the second is greater.\<close>

definition f_max :: "pyfloat \<Rightarrow> pyfloat \<Rightarrow> pyfloat" where
  "f_max x y = (if f_lt x y then y else x)"

section \<open>Arithmetic\<close>

fun f_neg :: "pyfloat \<Rightarrow> pyfloat" where
  "f_neg (Fin q) = (if q = 0 then NegZero else Fin (- q))"
| "f_neg NegZero = Fin 0"
| "f_neg PosInf = NegInf"
| "f_neg NegInf = PosInf"
| "f_neg NaN = NaN"

fun f_add :: "pyfloat \<Rightarrow> pyfloat \<Rightarrow> pyfloat" where
  "f_add NaN _ = NaN"
| "f_add _ NaN = NaN"
| "f_add PosInf NegInf = NaN"
| "f_add NegInf PosInf = NaN"
| "f_add PosInf _ = PosInf"
| "f_add _ PosInf = PosInf"
| "f_add NegInf _ = NegInf"
| "f_add _ NegInf = NegInf"
| "f_add NegZero NegZero = NegZero"
| "f_add x y = to_float (fin_val x + fin_val y)"

definition f_sub :: "pyfloat \<Rightarrow> pyfloat \<Rightarrow> pyfloat" where
  "f_sub x y = f_add x (f_neg y)"

fun f_sign_neg :: "pyfloat \<Rightarrow> bool" where
  "f_sign_neg (Fin q) = (q < 0)"
| "f_sign_neg NegZero = True"
| "f_sign_neg NegInf = True"
| "f_sign_neg _ = False"

definition f_is_zero :: "pyfloat \<Rightarrow> bool" where
  "f_is_zero x \<longleftrightarrow> x = NegZero \<or> x = Fin 0"

definition f_mul :: "pyfloat \<Rightarrow> pyfloat \<Rightarrow> pyfloat" where
  "f_mul x y = (let neg = (f_sign_neg x \<noteq> f_sign_neg y) in
     if x = NaN \<or> y = NaN then NaN
     else if \<not> f_isfinite x \<or> \<not> f_isfinite y then
       (if f_is_zero x \<or> f_is_zero y then NaN else if neg then NegInf else PosInf)
     else if f_is_zero x \<or> f_is_zero y then (if neg then NegZero else Fin 0)
     else to_float (fin_val x * fin_val y))"

section \<open>Printing\<close>

text \<open>\<open>ilog10 q\<close> is the exponent \<open>k\<close> with \<open>10^k \<le> q < 10^(k+1)\<close>, for positive \<open>q\<close>.\<close>

definition ilog10 :: "rat \<Rightarrow> int" where
  "ilog10 q =
     (if 1 \<le> q then int (length (digits10 \<lfloor>q\<rfloor>)) - 1
      else - int (length (digits10 (\<lceil>1 / q\<rceil> - 1))))"

text \<open>The decimal with \<open>n\<close> significant digits nearest to \<open>q\<close> among those that read back as
  \<open>q\<close>: its digits as an integer.\<close>

definition digits_cand :: "rat \<Rightarrow> nat \<Rightarrow> int option" where
  "digits_cand q n = (let s = pow10 (int n - 1 - ilog10 q); x = q * s;
       lo = \<lfloor>x\<rfloor>; hi = \<lceil>x\<rceil>;
       okl = (to_float (of_int lo / s) = Fin q); okh = (to_float (of_int hi / s) = Fin q)
     in if okl \<and> okh then (if x - of_int lo \<le> of_int hi - x then Some lo else Some hi)
        else if okl then Some lo else if okh then Some hi else None)"

fun shortest_from :: "nat \<Rightarrow> nat \<Rightarrow> rat \<Rightarrow> nat \<times> int" where
  "shortest_from 0 n q = (n, round_half_even (q * pow10 (int n - 1 - ilog10 q)))"
| "shortest_from (Suc k) n q = (case digits_cand q n of
     Some d \<Rightarrow> (n, d) | None \<Rightarrow> shortest_from k (Suc n) q)"

text \<open>The significant digits without trailing zeros and the position of the decimal point:
  \<open>0.d1d2... * 10^p\<close>.\<close>

definition float_digits :: "rat \<Rightarrow> string \<times> int" where
  "float_digits q = (case shortest_from 16 1 q of (n, d) \<Rightarrow>
     let s = digits10 d
     in (rstrip_by (\<lambda>c. c = CHR ''0'') s, ilog10 q + 1 + (int (length s) - int n)))"

definition layout :: "string \<Rightarrow> int \<Rightarrow> string" where
  "layout ds p =
     (if p \<le> -4 \<or> 16 < p then
        (case ds of [] \<Rightarrow> [] | c # cs \<Rightarrow> c # (if cs = [] then [] else CHR ''.'' # cs))
        @ ''e'' @ (if p - 1 < 0 then ''-'' else ''+'') @ zero_pad 2 (digits10 \<bar>p - 1\<bar>)
      else if p \<le> 0 then ''0.'' @ replicate (nat (- p)) (CHR ''0'') @ ds
      else if int (length ds) \<le> p then ds @ replicate (nat p - length ds) (CHR ''0'') @ ''.0''
      else take (nat p) ds @ ''.'' @ drop (nat p) ds)"

fun float_repr :: "pyfloat \<Rightarrow> string" where
  "float_repr (Fin q) = (if q = 0 then ''0.0''
     else if q < 0 then ''-'' @ (case float_digits (- q) of (ds, p) \<Rightarrow> layout ds p)
     else (case float_digits q of (ds, p) \<Rightarrow> layout ds p))"
| "float_repr NegZero = ''-0.0''"
| "float_repr PosInf = ''inf''"
| "float_repr NegInf = ''-inf''"
| "float_repr NaN = ''nan''"

section \<open>Reading\<close>

text \<open>An unsigned decimal: digits, an optional fraction, an optional exponent. The result is
  the three parts, with \<open>None\<close> for an absent one, and the rest of the text.\<close>

definition span_digits :: "string \<Rightarrow> string \<times> string" where
  "span_digits s = (takeWhile is_digit s, dropWhile is_digit s)"

definition lex_fraction :: "string \<Rightarrow> string option \<times> string" where
  "lex_fraction s = (case s of [] \<Rightarrow> (None, s)
     | c # cs \<Rightarrow> if c = CHR ''.'' then (Some (fst (span_digits cs)), snd (span_digits cs))
                 else (None, s))"

text \<open>An exponent is the letter, an optional sign and at least one digit; otherwise it is left
  in the text.\<close>

definition lex_exponent :: "string \<Rightarrow> int option \<times> string" where
  "lex_exponent s = (case s of [] \<Rightarrow> (None, s)
     | c # cs \<Rightarrow>
        if c \<noteq> CHR ''e'' \<and> c \<noteq> CHR ''E'' then (None, s)
        else let (neg, ds) = (case cs of [] \<Rightarrow> (False, [])
                 | d # ds' \<Rightarrow> if d = CHR ''-'' then (True, ds')
                             else if d = CHR ''+'' then (False, ds') else (False, cs))
             in (case span_digits ds of (e, rest) \<Rightarrow>
                 if e = [] then (None, s)
                 else (Some (if neg then - int (digits_val e) else int (digits_val e)), rest)))"

definition decimal_val :: "string \<Rightarrow> string option \<Rightarrow> int option \<Rightarrow> rat" where
  "decimal_val ip fp ex = (let f = (case fp of None \<Rightarrow> [] | Some ds \<Rightarrow> ds);
       e = (case ex of None \<Rightarrow> 0 | Some e \<Rightarrow> e)
     in of_nat (digits_val (ip @ f)) * pow10 (e - int (length f)))"

definition neg_if :: "bool \<Rightarrow> pyfloat \<Rightarrow> pyfloat" where
  "neg_if b x = (if b then f_neg x else x)"

text \<open>Underscores may separate digits and are dropped.\<close>

fun drop_underscores :: "bool \<Rightarrow> string \<Rightarrow> string option" where
  "drop_underscores prev [] = Some []"
| "drop_underscores prev (c # cs) =
     (if c = CHR ''_'' then
        (if prev \<and> cs \<noteq> [] \<and> is_digit (hd cs) then drop_underscores False cs else None)
      else map_option (\<lambda>r. c # r) (drop_underscores (is_digit c) cs))"

definition read_sign :: "string \<Rightarrow> bool \<times> string" where
  "read_sign s = (case s of [] \<Rightarrow> (False, [])
     | c # cs \<Rightarrow> if c = CHR ''-'' then (True, cs) else if c = CHR ''+'' then (False, cs)
                 else (False, s))"

text \<open>\<open>float(s)\<close> of a text; \<open>None\<close> is ValueError.\<close>

definition float_of_text :: "string \<Rightarrow> pyfloat option" where
  "float_of_text s0 = (case drop_underscores False (strip s0) of None \<Rightarrow> None
     | Some s \<Rightarrow> (case read_sign s of (neg, t) \<Rightarrow>
        if lower t = ''inf'' \<or> lower t = ''infinity'' then Some (neg_if neg PosInf)
        else if lower t = ''nan'' then Some NaN
        else (case span_digits t of (ip, t1) \<Rightarrow> (case lex_fraction t1 of (fp, t2) \<Rightarrow>
          (case lex_exponent t2 of (ex, t3) \<Rightarrow>
            if t3 \<noteq> [] \<or> (ip = [] \<and> (fp = None \<or> fp = Some [])) then None
            else Some (neg_if neg (to_float (decimal_val ip fp ex))))))))"

section \<open>Facts\<close>

lemma f_le_refl: "x \<noteq> NaN \<Longrightarrow> f_le x x"
  by (cases x) auto

lemma f_le_trans: "f_le x y \<Longrightarrow> f_le y z \<Longrightarrow> f_le x z"
  by (cases x; cases y; cases z) auto

lemma f_le_linear: "x \<noteq> NaN \<Longrightarrow> y \<noteq> NaN \<Longrightarrow> f_le x y \<or> f_le y x"
  by (cases x; cases y) auto

lemma f_le_not_NaN: "f_le x y \<Longrightarrow> x \<noteq> NaN \<and> y \<noteq> NaN"
  by (cases x; cases y) auto

lemma f_isfinite_not_NaN: "f_isfinite x \<Longrightarrow> x \<noteq> NaN"
  by auto

lemma f_lt_not_le: "x \<noteq> NaN \<Longrightarrow> y \<noteq> NaN \<Longrightarrow> \<not> f_lt x y \<longleftrightarrow> f_le y x"
  using f_le_linear [of x y] by (auto simp: f_lt_def)

lemma f_max_ge:
  assumes "x \<noteq> NaN" "y \<noteq> NaN"
  shows "f_le x (f_max x y)" "f_le y (f_max x y)"
  using assms f_lt_not_le [of x y] f_le_refl [of x] f_le_refl [of y]
  by (auto simp: f_max_def f_lt_def)

lemma f_max_cases: "f_max x y = x \<or> f_max x y = y"
  by (simp add: f_max_def)

lemma f_finite_le: "f_isfinite x \<Longrightarrow> f_isfinite y \<Longrightarrow> f_le x y \<longleftrightarrow> fin_val x \<le> fin_val y"
  by (cases x; cases y) auto

lemma f_finite_lt: "f_isfinite x \<Longrightarrow> f_isfinite y \<Longrightarrow> f_lt x y \<longleftrightarrow> fin_val x < fin_val y"
  by (auto simp: f_lt_def f_finite_le)

lemma f_neg_neg [simp]: "f_neg (f_neg x) = x"
  by (cases x) auto

end
