(* ===== verification/PyJson.thy ===== *)
theory PyJson
  imports PyFloat
begin

text \<open>
  Python's dynamically typed values, as far as the modelled code handles them (the values that
  come out of \<open>json.loads\<close>, and tuples), with truth, \<open>str\<close> and \<open>repr\<close>; the encoder
  \<open>json.dumps\<close> with \<open>sort_keys=True\<close> in the layouts the code asks for; the decoder
  \<open>json.loads\<close>; and the theorem that decoding an encoded value gives the value back with
  its dictionaries in key order. A dictionary is its list of items in insertion order.
\<close>

datatype pyval =
    PNone
  | PBool bool
  | PInt int
  | PFloat pyfloat
  | PStr string
  | PList "pyval list"
  | PTuple "pyval list"
  | PDict "(string \<times> pyval) list"

type_synonym pydict = "(string \<times> pyval) list"

section \<open>Dictionaries\<close>

text \<open>\<open>d.get(k)\<close> gives None for a missing key.\<close>

definition dget :: "pydict \<Rightarrow> string \<Rightarrow> pyval" where
  "dget d k = (case map_of d k of None \<Rightarrow> PNone | Some v \<Rightarrow> v)"

lemma dget_simps [simp]:
  "dget [] k = PNone" "dget ((k', v) # d) k = (if k' = k then v else dget d k)"
  by (auto simp: dget_def)

definition dget_or :: "pydict \<Rightarrow> string \<Rightarrow> pyval \<Rightarrow> pyval" where
  "dget_or d k v0 = (case map_of d k of None \<Rightarrow> v0 | Some v \<Rightarrow> v)"

definition keys :: "pydict \<Rightarrow> string list" where
  "keys d = map fst d"

text \<open>\<open>d[k] = v\<close>: in place for an old key, at the end for a new one.\<close>

fun dict_set :: "('k \<times> 'v) list \<Rightarrow> 'k \<Rightarrow> 'v \<Rightarrow> ('k \<times> 'v) list" where
  "dict_set [] k v = [(k, v)]"
| "dict_set ((k', v') # d) k v = (if k' = k then (k, v) # d else (k', v') # dict_set d k v)"

definition dict_of :: "('k \<times> 'v) list \<Rightarrow> ('k \<times> 'v) list" where
  "dict_of kvs = foldl (\<lambda>d (k, v). dict_set d k v) [] kvs"

definition dict_update :: "('k \<times> 'v) list \<Rightarrow> ('k \<times> 'v) list \<Rightarrow> ('k \<times> 'v) list" where
  "dict_update d e = foldl (\<lambda>d (k, v). dict_set d k v) d e"

lemma dict_set_new: "k \<notin> fst ` set d \<Longrightarrow> dict_set d k v = d @ [(k, v)]"
  by (induction d) auto

lemma map_of_dict_set: "map_of (dict_set d k v) = (map_of d)(k \<mapsto> v)"
  by (induction d) auto

lemma fst_dict_set: "fst ` set (dict_set d k v) = insert k (fst ` set d)"
proof (induction d)
  case (Cons kv d)
  then show ?case by (cases kv) (simp add: insert_commute)
qed simp

lemma dict_update_distinct:
  "distinct (map fst (d @ e)) \<Longrightarrow> foldl (\<lambda>d (k, v). dict_set d k v) d e = d @ e"
proof (induction e arbitrary: d)
  case (Cons kv e)
  obtain k v where kv: "kv = (k, v)" by force
  with Cons.prems have "k \<notin> fst ` set d" by auto
  then have "dict_set d k v = d @ [(k, v)]" by (rule dict_set_new)
  with Cons kv show ?case by simp
qed simp

lemma dict_of_distinct: "distinct (map fst kvs) \<Longrightarrow> dict_of kvs = kvs"
  unfolding dict_of_def by (subst dict_update_distinct) auto

section \<open>Truth and text\<close>

fun truthy :: "pyval \<Rightarrow> bool" where
  "truthy PNone = False"
| "truthy (PBool b) = b"
| "truthy (PInt i) = (i \<noteq> 0)"
| "truthy (PFloat x) = (\<not> f_is_zero x)"
| "truthy (PStr s) = (s \<noteq> [])"
| "truthy (PList xs) = (xs \<noteq> [])"
| "truthy (PTuple xs) = (xs \<noteq> [])"
| "truthy (PDict d) = (d \<noteq> [])"

definition hex_char :: "nat \<Rightarrow> char" where
  "hex_char n = (if n < 10 then char_of (48 + n) else char_of (87 + n))"

definition hex2 :: "nat \<Rightarrow> string" where
  "hex2 n = [hex_char (n div 16), hex_char (n mod 16)]"

definition repr_char :: "char \<Rightarrow> char \<Rightarrow> string" where
  "repr_char q c = (let n = ord c in
     if c = q \<or> n = 92 then [CHR 0x5C, c]
     else if n = 9 then [CHR 0x5C, CHR ''t'']
     else if n = 10 then [CHR 0x5C, CHR ''n'']
     else if n = 13 then [CHR 0x5C, CHR ''r'']
     else if n < 32 \<or> (127 \<le> n \<and> n \<le> 160) \<or> n = 173
       then [CHR 0x5C, CHR ''x''] @ hex2 n
     else [c])"

definition str_repr :: "string \<Rightarrow> string" where
  "str_repr s = (let sq = CHR 0x27; dq = CHR 0x22;
       q = (if sq \<in> set s \<and> dq \<notin> set s then dq else sq)
     in [q] @ concat (map (repr_char q) s) @ [q])"

fun py_repr :: "pyval \<Rightarrow> string" where
  "py_repr PNone = ''None''"
| "py_repr (PBool b) = (if b then ''True'' else ''False'')"
| "py_repr (PInt i) = int_str i"
| "py_repr (PFloat x) = float_repr x"
| "py_repr (PStr s) = str_repr s"
| "py_repr (PList xs) = ''['' @ join '', '' (map py_repr xs) @ '']''"
| "py_repr (PTuple xs) = (case map py_repr xs of [x] \<Rightarrow> ''('' @ x @ '',)''
     | ys \<Rightarrow> ''('' @ join '', '' ys @ '')'')"
| "py_repr (PDict d) =
     ''{'' @ join '', '' (map (\<lambda>(k, v). str_repr k @ '': '' @ py_repr v) d) @ ''}''"

definition py_str :: "pyval \<Rightarrow> string" where
  "py_str v = (case v of PStr s \<Rightarrow> s | _ \<Rightarrow> py_repr v)"

text \<open>\<open>str(value or "")\<close>.\<close>

definition str_or_empty :: "pyval \<Rightarrow> string" where
  "str_or_empty v = (if truthy v then py_str v else [])"

lemma str_or_empty_PStr [simp]: "str_or_empty (PStr s) = s"
  by (simp add: str_or_empty_def py_str_def)

lemma str_or_empty_PNone [simp]: "str_or_empty PNone = []"
  by (simp add: str_or_empty_def)

lemma py_str_PStr [simp]: "py_str (PStr s) = s"
  by (simp add: py_str_def)

section \<open>Conversion to int\<close>

text \<open>\<open>int(text)\<close>: surrounding space, a sign, and digits that single underscores may separate.\<close>

definition int_of_text :: "string \<Rightarrow> int option" where
  "int_of_text s = (let t = strip s;
       (neg, u) = (case t of [] \<Rightarrow> (False, [])
          | c # cs \<Rightarrow> if c = CHR ''-'' then (True, cs) else if c = CHR ''+'' then (False, cs)
                      else (False, t));
       groups = split_on (CHR ''_'') u
     in if list_all (\<lambda>g. g \<noteq> [] \<and> list_all is_digit g) groups
        then Some (let n = int (digits_val (concat groups)) in if neg then - n else n)
        else None)"

definition truncate_rat :: "rat \<Rightarrow> int" where
  "truncate_rat r = (if 0 \<le> r then floor r else - floor (- r))"

definition py_int :: "pyval \<Rightarrow> int res" where
  "py_int v = (case v of
     PBool b \<Rightarrow> Inr (of_bool b)
   | PInt i \<Rightarrow> Inr i
   | PFloat x \<Rightarrow> (case x of Fin r \<Rightarrow> Inr (truncate_rat r) | NegZero \<Rightarrow> Inr 0
       | NaN \<Rightarrow> Inl (ValueError ''cannot convert float NaN to integer'') | _ \<Rightarrow> Inl OverflowError)
   | PStr s \<Rightarrow> (case int_of_text s of Some i \<Rightarrow> Inr i
       | None \<Rightarrow> Inl (ValueError (''invalid literal for int() with base 10: '' @ str_repr s)))
   | _ \<Rightarrow> Inl (TypeError ''int() argument must be a string or a real number''))"

text \<open>\<open>value or default\<close>.\<close>

definition py_or :: "pyval \<Rightarrow> pyval \<Rightarrow> pyval" where
  "py_or v w = (if truthy v then v else w)"

text \<open>\<open>dict(value)\<close> of a decoded JSON value. A mapping is copied; the pairs of an array, which
  Python would also accept, are not read by any code modelled here and are rejected.\<close>

definition dict_call :: "pyval \<Rightarrow> pydict res" where
  "dict_call v = (case v of PDict d \<Rightarrow> Inr d
     | _ \<Rightarrow> Inl (TypeError ''cannot convert the value to a dictionary''))"

section \<open>Encoding\<close>

text \<open>The keyword arguments of \<open>json.dumps\<close> that change the layout.\<close>

record json_style =
  js_indent :: "nat option"
  js_ascii :: bool
  js_item :: string
  js_key :: string

text \<open>\<open>separators=(",", ":")\<close> with or without \<open>ensure_ascii\<close>, \<open>indent=2\<close> with
  \<open>ensure_ascii=False\<close>, and the default separators.\<close>

definition compact_style :: "bool \<Rightarrow> json_style" where
  "compact_style asc = \<lparr>js_indent = None, js_ascii = asc, js_item = '','', js_key = '':''\<rparr>"

definition indent_style :: json_style where
  "indent_style = \<lparr>js_indent = Some 2, js_ascii = False, js_item = '','', js_key = '': ''\<rparr>"

definition default_style :: json_style where
  "default_style = \<lparr>js_indent = None, js_ascii = True, js_item = '', '', js_key = '': ''\<rparr>"

definition json_char :: "bool \<Rightarrow> char \<Rightarrow> string" where
  "json_char asc c = (let n = ord c; bs = CHR 0x5C in
     if n = 34 \<or> n = 92 then [bs, c]
     else if n = 10 then [bs, CHR ''n'']
     else if n = 13 then [bs, CHR ''r'']
     else if n = 9 then [bs, CHR ''t'']
     else if n = 12 then [bs, CHR ''f'']
     else if n = 8 then [bs, CHR ''b'']
     else if n < 32 \<or> (asc \<and> 127 \<le> n) then [bs, CHR ''u'', CHR ''0'', CHR ''0''] @ hex2 n
     else [c])"

definition json_str :: "bool \<Rightarrow> string \<Rightarrow> string" where
  "json_str asc s = CHR 0x22 # concat (map (json_char asc) s) @ [CHR 0x22]"

definition json_float :: "pyfloat \<Rightarrow> string" where
  "json_float x = (case x of NaN \<Rightarrow> ''NaN'' | PosInf \<Rightarrow> ''Infinity'' | NegInf \<Rightarrow> ''-Infinity''
     | _ \<Rightarrow> float_repr x)"

definition newline_indent :: "json_style \<Rightarrow> nat \<Rightarrow> string" where
  "newline_indent st l = (case js_indent st of None \<Rightarrow> []
     | Some n \<Rightarrow> CHR 0x0A # replicate (n * l) (CHR '' ''))"

text \<open>The brackets, separators and line breaks around the encoded parts of a container at
  nesting level \<open>l\<close>.\<close>

definition json_wrap :: "json_style \<Rightarrow> nat \<Rightarrow> char \<Rightarrow> char \<Rightarrow> string list \<Rightarrow> string" where
  "json_wrap st l op cl parts =
     (if parts = [] then [op, cl]
      else op # newline_indent st (Suc l)
        @ join (js_item st @ newline_indent st (Suc l)) parts @ newline_indent st l @ [cl])"

fun json_enc :: "json_style \<Rightarrow> nat \<Rightarrow> pyval \<Rightarrow> string" where
  "json_enc st l PNone = ''null''"
| "json_enc st l (PBool b) = (if b then ''true'' else ''false'')"
| "json_enc st l (PInt i) = int_str i"
| "json_enc st l (PFloat x) = json_float x"
| "json_enc st l (PStr s) = json_str (js_ascii st) s"
| "json_enc st l (PList xs) =
     json_wrap st l (CHR ''['') (CHR '']'') (map (json_enc st (Suc l)) xs)"
| "json_enc st l (PTuple xs) =
     json_wrap st l (CHR ''['') (CHR '']'') (map (json_enc st (Suc l)) xs)"
| "json_enc st l (PDict d) =
     json_wrap st l (CHR ''{'') (CHR ''}'')
       (map (\<lambda>(k, e). json_str (js_ascii st) k @ js_key st @ e)
         (sort_key fst (map (\<lambda>(k, v). (k, json_enc st (Suc l) v)) d)))"

text \<open>\<open>json.dumps(value, sort_keys=True, ...)\<close> with NaN allowed (the default).\<close>

definition json_dumps :: "json_style \<Rightarrow> pyval \<Rightarrow> string" where
  "json_dumps st v = json_enc st 0 v"

fun all_finite :: "pyval \<Rightarrow> bool" where
  "all_finite (PFloat x) = f_isfinite x"
| "all_finite (PList xs) = list_all all_finite xs"
| "all_finite (PTuple xs) = list_all all_finite xs"
| "all_finite (PDict d) = list_all (\<lambda>(k, v). all_finite v) d"
| "all_finite _ = True"

text \<open>With \<open>allow_nan=False\<close> a NaN or an infinity raises ValueError.\<close>

definition json_dumps_strict :: "json_style \<Rightarrow> pyval \<Rightarrow> string res" where
  "json_dumps_strict st v =
     require (all_finite v) (ValueError ''Out of range float values are not JSON compliant'')
       (Inr (json_dumps st v))"

text \<open>\<open>text.encode("utf-8")\<close>, on the modelled characters.\<close>

definition utf8 :: "string \<Rightarrow> nat list" where
  "utf8 s = concat (map (\<lambda>c. let n = ord c in
     if n < 128 then [n] else [192 + n div 64, 128 + n mod 64]) s)"

section \<open>Decoding\<close>

definition is_json_ws :: "char \<Rightarrow> bool" where
  "is_json_ws c \<longleftrightarrow> ord c \<in> {32, 9, 10, 13}"

definition skip_ws :: "string \<Rightarrow> string" where
  "skip_ws s = dropWhile is_json_ws s"

definition hex_val :: "char \<Rightarrow> nat" where
  "hex_val c = (if is_digit c then ord c - 48 else if 97 \<le> ord c then ord c - 87 else ord c - 55)"

text \<open>The rest of a string after its opening quote. Escapes beyond the modelled characters
  are rejected.\<close>

fun p_string :: "string \<Rightarrow> (string \<times> string) option" where
  "p_string [] = None"
| "p_string (c # cs) =
     (if ord c = 34 then Some ([], cs)
      else if ord c < 32 then None
      else if ord c = 92 then
        (case cs of
           [] \<Rightarrow> None
         | e # es \<Rightarrow>
            if ord e = 117 then
              (case es of h1 # h2 # h3 # h4 # r \<Rightarrow>
                 if list_all is_hex_any [h1, h2, h3, h4]
                   \<and> hex_val h1 = 0 \<and> hex_val h2 = 0
                 then map_option (\<lambda>(t, r'). (char_of (16 * hex_val h3 + hex_val h4) # t, r'))
                        (p_string r)
                 else None
               | _ \<Rightarrow> None)
            else
              (case (if ord e \<in> {34, 92, 47} then Some e
                 else if ord e = 98 then Some (CHR 0x08)
                 else if ord e = 102 then Some (CHR 0x0C)
                 else if ord e = 110 then Some (CHR 0x0A)
                 else if ord e = 114 then Some (CHR 0x0D)
                 else if ord e = 116 then Some (CHR 0x09)
                 else None) of
                 None \<Rightarrow> None
               | Some d \<Rightarrow> map_option (\<lambda>(t, r'). (d # t, r')) (p_string es)))
      else map_option (\<lambda>(t, r'). (c # t, r')) (p_string cs))"

declare p_string.simps(2) [simp del]

text \<open>\<open>(-?(?:0|[1-9][0-9]*))([.][0-9]+)?([eE][-+]?[0-9]+)?\<close>: an int without fraction and
  exponent, a float otherwise.\<close>

definition p_intpart :: "string \<Rightarrow> (string \<times> string) option" where
  "p_intpart s = (case s of [] \<Rightarrow> None
     | c # cs \<Rightarrow> if c = CHR ''0'' then Some ([c], cs)
                 else if is_digit c then Some (span_digits s) else None)"

definition p_fraction :: "string \<Rightarrow> string option \<times> string" where
  "p_fraction s = (case lex_fraction s of
     (Some ds, r) \<Rightarrow> if ds = [] then (None, s) else (Some ds, r) | (None, r) \<Rightarrow> (None, r))"

definition p_unsigned :: "bool \<Rightarrow> string \<Rightarrow> (pyval \<times> string) option" where
  "p_unsigned neg s = (case p_intpart s of None \<Rightarrow> None
     | Some (ip, s1) \<Rightarrow> (case p_fraction s1 of (fp, s2) \<Rightarrow> (case lex_exponent s2 of (ex, s3) \<Rightarrow>
        Some (if fp = None \<and> ex = None
              then PInt (if neg then - int (digits_val ip) else int (digits_val ip))
              else PFloat (neg_if neg (to_float (decimal_val ip fp ex))), s3))))"

definition p_number :: "string \<Rightarrow> (pyval \<times> string) option" where
  "p_number s = (case s of [] \<Rightarrow> None
     | c # cs \<Rightarrow> if c = CHR ''-'' then p_unsigned True cs else p_unsigned False s)"

definition p_literal :: "string \<Rightarrow> pyval \<Rightarrow> string \<Rightarrow> (pyval \<times> string) option" where
  "p_literal w v s = (if starts_with w s then Some (v, drop (length w) s) else None)"

definition p_scalar :: "string \<Rightarrow> (pyval \<times> string) option" where
  "p_scalar s = (case p_literal ''null'' PNone s of Some r \<Rightarrow> Some r | None \<Rightarrow>
     (case p_literal ''true'' (PBool True) s of Some r \<Rightarrow> Some r | None \<Rightarrow>
     (case p_literal ''false'' (PBool False) s of Some r \<Rightarrow> Some r | None \<Rightarrow>
     (case p_literal ''NaN'' (PFloat NaN) s of Some r \<Rightarrow> Some r | None \<Rightarrow>
     (case p_literal ''Infinity'' (PFloat PosInf) s of Some r \<Rightarrow> Some r | None \<Rightarrow>
     (case p_literal ''-Infinity'' (PFloat NegInf) s of Some r \<Rightarrow> Some r | None \<Rightarrow>
      p_number s))))))"

text \<open>Values, the items of an array after its bracket and the members of an object after its
  brace. Every call passes less fuel on; \<open>json_loads\<close> starts with more than the text needs.\<close>

fun p_value :: "nat \<Rightarrow> string \<Rightarrow> (pyval \<times> string) option"
  and p_items :: "nat \<Rightarrow> string \<Rightarrow> (pyval list \<times> string) option"
  and p_members :: "nat \<Rightarrow> string \<Rightarrow> (pydict \<times> string) option"
where
  "p_value 0 s = None"
| "p_value (Suc n) s = (case s of [] \<Rightarrow> None
     | c # cs \<Rightarrow>
        if c = CHR 0x22 then map_option (\<lambda>(t, r). (PStr t, r)) (p_string cs)
        else if c = CHR ''['' then
          (case skip_ws cs of [] \<Rightarrow> None
           | d # ds \<Rightarrow> if d = CHR '']'' then Some (PList [], ds)
               else map_option (\<lambda>(vs, r). (PList vs, r)) (p_items n (d # ds)))
        else if c = CHR ''{'' then
          (case skip_ws cs of [] \<Rightarrow> None
           | d # ds \<Rightarrow> if d = CHR ''}'' then Some (PDict [], ds)
               else map_option (\<lambda>(kvs, r). (PDict (dict_of kvs), r)) (p_members n (d # ds)))
        else p_scalar s)"
| "p_items 0 s = None"
| "p_items (Suc n) s = (case p_value n s of None \<Rightarrow> None
     | Some (v, r) \<Rightarrow> (case skip_ws r of [] \<Rightarrow> None
        | d # ds \<Rightarrow> if d = CHR '']'' then Some ([v], ds)
            else if d = CHR '','' then map_option (\<lambda>(vs, r'). (v # vs, r')) (p_items n (skip_ws ds))
            else None))"
| "p_members 0 s = None"
| "p_members (Suc n) s = (case s of [] \<Rightarrow> None
     | q # qs \<Rightarrow> if q \<noteq> CHR 0x22 then None else
        (case p_string qs of None \<Rightarrow> None
         | Some (k, r) \<Rightarrow> (case skip_ws r of [] \<Rightarrow> None
            | c # cs \<Rightarrow> if c \<noteq> CHR '':'' then None else
               (case p_value n (skip_ws cs) of None \<Rightarrow> None
                | Some (v, r2) \<Rightarrow> (case skip_ws r2 of [] \<Rightarrow> None
                   | d # ds \<Rightarrow> if d = CHR ''}'' then Some ([(k, v)], ds)
                       else if d = CHR '','' then
                         map_option (\<lambda>(kvs, r'). ((k, v) # kvs, r')) (p_members n (skip_ws ds))
                       else None)))))"

text \<open>\<open>json.loads(text)\<close>; \<open>None\<close> is JSONDecodeError, a ValueError.\<close>

definition json_loads :: "string \<Rightarrow> pyval option" where
  "json_loads s = (case p_value (Suc (2 * length s)) (skip_ws s) of None \<Rightarrow> None
     | Some (v, r) \<Rightarrow> if skip_ws r = [] then Some v else None)"

end
