(* ===== verification/PyEnum.thy ===== *)
theory PyEnum
  imports PyJson
begin

text \<open>
  Arguments that are a member of a string enumeration or any other value, and the two ways the
  code turns them into a member. An enumeration is given by the list of its members in the
  order of their declaration and by the text of each.
\<close>

datatype 'e enum_arg = EnumMember 'e | EnumValue pyval

definition enum_find :: "('e \<Rightarrow> string) \<Rightarrow> 'e list \<Rightarrow> string \<Rightarrow> 'e option" where
  "enum_find val members s = find (\<lambda>e. val e = s) members"

text \<open>\<open>enum_type(str(value or "").strip().lower())\<close>, or the error that lists the values.\<close>

definition normalize_enum :: "('e \<Rightarrow> string) \<Rightarrow> 'e list \<Rightarrow> 'e enum_arg \<Rightarrow> string \<Rightarrow> 'e res" where
  "normalize_enum val members a field_name = (case a of
     EnumMember e \<Rightarrow> Inr e
   | EnumValue v \<Rightarrow> (case enum_find val members (lower (strip (str_or_empty v))) of
         Some e \<Rightarrow> Inr e
       | None \<Rightarrow> Inl (ValueError (field_name @ '' must be one of: ''
           @ join '', '' (map val members)))))"

lemma normalize_enum_member [simp]: "normalize_enum val members (EnumMember e) f = Inr e"
  by (simp add: normalize_enum_def)

lemma enum_find_value: "enum_find val members s = Some e \<Longrightarrow> val e = s \<and> e \<in> set members"
  by (auto simp: enum_find_def find_Some_iff)

lemma normalize_enum_error: "normalize_enum val members a f = Inl e \<Longrightarrow> is_value_error e"
  by (auto simp: normalize_enum_def split: enum_arg.splits option.splits)

end
