(* ===== verification/Sha256.thy ===== *)
theory Sha256
  imports PyJson "HOL-Library.Word"
begin

text \<open>
  \<open>hashlib.sha256(text.encode("utf-8")).hexdigest()\<close>, the content digest behind command ids,
  receipts and release manifests. The round and initial constants are computed from the
  primes, as the standard defines them. The proofs of the development use of it only that it
  is a function to 64 lower-case hexadecimal digits; where an argument needs that two texts
  do not collide, the theorem says so in a hypothesis about those two texts.
\<close>

unbundle bit_operations_syntax

type_synonym u32 = "32 word"

section \<open>Constants\<close>

text \<open>The largest \<open>x\<close> between the bounds with \<open>x^k \<le> m\<close>, by bisection; 40 halvings exhaust an
  interval of length \<open>2^36\<close>.\<close>

fun root_bisect :: "nat \<Rightarrow> nat \<Rightarrow> int \<Rightarrow> int \<Rightarrow> int \<Rightarrow> int" where
  "root_bisect 0 k m lo hi = lo"
| "root_bisect (Suc n) k m lo hi = (if hi - lo \<le> 1 then lo
     else let mid = (lo + hi) div 2
       in if mid ^ k \<le> m then root_bisect n k m mid hi else root_bisect n k m lo mid)"

definition first_primes :: "int list" where
  "first_primes = [2, 3, 5, 7, 11, 13, 17, 19, 23, 29, 31, 37, 41, 43, 47, 53, 59, 61, 67, 71,
     73, 79, 83, 89, 97, 101, 103, 107, 109, 113, 127, 131, 137, 139, 149, 151, 157, 163, 167,
     173, 179, 181, 191, 193, 197, 199, 211, 223, 227, 229, 233, 239, 241, 251, 257, 263, 269,
     271, 277, 281, 283, 293, 307, 311]"

definition round_consts :: "u32 list" where
  "round_consts = map (\<lambda>p. word_of_int (root_bisect 40 3 (p * 2 ^ 96) 0 (2 ^ 36))) first_primes"

definition init_hash :: "u32 list" where
  "init_hash = map (\<lambda>p. word_of_int (root_bisect 40 2 (p * 2 ^ 64) 0 (2 ^ 36)))
     (take 8 first_primes)"

section \<open>Compression\<close>

definition big_sigma0 :: "u32 \<Rightarrow> u32" where
  "big_sigma0 x = word_rotr 2 x XOR word_rotr 13 x XOR word_rotr 22 x"

definition big_sigma1 :: "u32 \<Rightarrow> u32" where
  "big_sigma1 x = word_rotr 6 x XOR word_rotr 11 x XOR word_rotr 25 x"

definition small_sigma0 :: "u32 \<Rightarrow> u32" where
  "small_sigma0 x = word_rotr 7 x XOR word_rotr 18 x XOR drop_bit 3 x"

definition small_sigma1 :: "u32 \<Rightarrow> u32" where
  "small_sigma1 x = word_rotr 17 x XOR word_rotr 19 x XOR drop_bit 10 x"

text \<open>The message schedule, newest word first.\<close>

fun schedule :: "nat \<Rightarrow> u32 list \<Rightarrow> u32 list" where
  "schedule 0 ws = ws"
| "schedule (Suc n) ws = schedule n
     ((small_sigma1 (ws ! 1) + ws ! 6 + small_sigma0 (ws ! 14) + ws ! 15) # ws)"

fun sha_round :: "u32 list \<Rightarrow> u32 \<times> u32 \<Rightarrow> u32 list" where
  "sha_round [a, b, c, d, e, f, g, h] (k, w) =
     (let t1 = h + big_sigma1 e + ((e AND f) XOR (NOT e AND g)) + k + w;
          t2 = big_sigma0 a + ((a AND b) XOR (a AND c) XOR (b AND c))
      in [t1 + t2, a, b, c, d + t1, e, f, g])"
| "sha_round st _ = st"

definition compress :: "u32 list \<Rightarrow> u32 list \<Rightarrow> u32 list" where
  "compress hs block = map2 (+) hs
     (foldl sha_round hs (zip round_consts (rev (schedule 48 (rev block)))))"

section \<open>Padding and blocks\<close>

definition bytes_of :: "nat \<Rightarrow> nat \<Rightarrow> nat list" where
  "bytes_of k n = map (\<lambda>i. n div 256 ^ i mod 256) (rev [0..<k])"

definition pad :: "nat list \<Rightarrow> nat list" where
  "pad bs = bs @ [128] @ replicate ((119 - length bs mod 64) mod 64) 0 @ bytes_of 8 (8 * length bs)"

function chunks :: "nat \<Rightarrow> 'a list \<Rightarrow> 'a list list" where
  "chunks k xs = (if xs = [] \<or> k = 0 then [] else take k xs # chunks k (drop k xs))"
  by pat_completeness auto
termination
  by (relation "measure (\<lambda>(k, xs). length xs)") auto

declare chunks.simps [simp del]

definition word_of_bytes :: "nat list \<Rightarrow> u32" where
  "word_of_bytes bs = foldl (\<lambda>w b. push_bit 8 w + of_nat b) 0 bs"

definition sha256_words :: "nat list \<Rightarrow> u32 list" where
  "sha256_words bs = foldl (\<lambda>hs blk. compress hs (map word_of_bytes (chunks 4 blk)))
     init_hash (chunks 64 (pad bs))"

definition word_hex :: "u32 \<Rightarrow> string" where
  "word_hex w = map (\<lambda>i. hex_char (unat (drop_bit (4 * i) w AND 15))) (rev [0..<8])"

definition sha256_hex :: "string \<Rightarrow> string" where
  "sha256_hex s = concat (map word_hex (sha256_words (utf8 s)))"

section \<open>The shape of a digest\<close>

lemma length_sha_round [simp]: "length (sha_round st kw) = length st"
  by (cases "(st, kw)" rule: sha_round.cases) (auto simp: Let_def)

lemma length_foldl_sha_round [simp]: "length (foldl sha_round hs kws) = length hs"
  by (induction kws arbitrary: hs) auto

lemma length_compress [simp]: "length (compress hs blk) = length hs"
  by (simp add: compress_def)

lemma length_foldl_compress [simp]: "length (foldl (\<lambda>hs b. compress hs (f b)) hs bs) = length hs"
  by (induction bs arbitrary: hs) auto

lemma length_sha256_words [simp]: "length (sha256_words bs) = 8"
  by (simp add: sha256_words_def init_hash_def first_primes_def)

lemma hex_char_lower: "n < 16 \<Longrightarrow> is_hex_lower (hex_char n)"
  by (auto simp: hex_char_def is_hex_lower_def is_digit_def)

lemma word_hex_shape: "length (word_hex w) = 8 \<and> list_all is_hex_lower (word_hex w)"
proof -
  have "unat (x AND 15) < 16" for x :: u32
  proof -
    have "x AND 15 \<le> 15" by (rule word_and_le1)
    then have "unat (x AND 15) \<le> unat (15 :: u32)" by (simp only: word_le_nat_alt)
    then show ?thesis by simp
  qed
  then show ?thesis
    by (auto simp: word_hex_def list_all_iff intro!: hex_char_lower)
qed

lemma length_concat_word_hex: "length (concat (map word_hex ws)) = 8 * length ws"
  by (induction ws) (simp_all add: word_hex_shape)

theorem sha256_hex_digest [simp]: "is_sha256_hex (sha256_hex s)"
proof -
  have "length (sha256_hex s) = 64"
    by (simp add: sha256_hex_def length_concat_word_hex)
  moreover have "list_all is_hex_lower (sha256_hex s)"
    using word_hex_shape by (auto simp: sha256_hex_def list_all_iff)
  ultimately show ?thesis by (simp add: is_sha256_hex_def)
qed

end
