(* ===== verification/PyDate.thy ===== *)
theory PyDate
  imports PyText
begin

text \<open>
  Calendar dates: the part of Python's \<open>datetime.date\<close> the modelled code uses. The text
  format is the one \<open>date.fromisoformat\<close> accepts in the oldest Python that pyproject.toml
  admits (3.10): exactly \<open>YYYY-MM-DD\<close>. Dates compare by year, month and day, and the
  difference of two dates is the difference of their proleptic Gregorian ordinals.
\<close>

record pydate =
  year :: nat
  month :: nat
  day :: nat

definition leap_year :: "nat \<Rightarrow> bool" where
  "leap_year y \<longleftrightarrow> y mod 4 = 0 \<and> (y mod 100 \<noteq> 0 \<or> y mod 400 = 0)"

definition days_in_month :: "nat \<Rightarrow> nat \<Rightarrow> nat" where
  "days_in_month y m =
     (if m = 2 then (if leap_year y then 29 else 28)
      else if m \<in> {4, 6, 9, 11} then 30 else 31)"

definition valid_date :: "pydate \<Rightarrow> bool" where
  "valid_date d \<longleftrightarrow> 1 \<le> year d \<and> year d \<le> 9999 \<and> 1 \<le> month d \<and> month d \<le> 12
     \<and> 1 \<le> day d \<and> day d \<le> days_in_month (year d) (month d)"

definition date_less :: "pydate \<Rightarrow> pydate \<Rightarrow> bool" where
  "date_less a b \<longleftrightarrow> year a < year b \<or> (year a = year b \<and> (month a < month b
     \<or> (month a = month b \<and> day a < day b)))"

definition date_le :: "pydate \<Rightarrow> pydate \<Rightarrow> bool" where
  "date_le a b \<longleftrightarrow> date_less a b \<or> a = b"

section \<open>Reading and printing\<close>

definition iso_shape :: "string \<Rightarrow> bool" where
  "iso_shape s \<longleftrightarrow> length s = 10 \<and> s ! 4 = CHR ''-'' \<and> s ! 7 = CHR ''-''
     \<and> list_all is_digit (take 4 s) \<and> list_all is_digit (take 2 (drop 5 s))
     \<and> list_all is_digit (drop 8 s)"

definition date_fromisoformat :: "string \<Rightarrow> pydate option" where
  "date_fromisoformat s =
     (if iso_shape s then
        let d = \<lparr>year = digits_val (take 4 s), month = digits_val (take 2 (drop 5 s)),
                 day = digits_val (drop 8 s)\<rparr>
        in if valid_date d then Some d else None
      else None)"

definition date_isoformat :: "pydate \<Rightarrow> string" where
  "date_isoformat d = zero_pad 4 (nat_str (year d)) @ ''-''
     @ zero_pad 2 (nat_str (month d)) @ ''-'' @ zero_pad 2 (nat_str (day d))"

text \<open>A fixed number of decimal digits, most significant first.\<close>

fun fixed_digits :: "nat \<Rightarrow> nat \<Rightarrow> string" where
  "fixed_digits 0 n = []"
| "fixed_digits (Suc w) n = fixed_digits w (n div 10) @ [digit_char (n mod 10)]"

lemma length_fixed_digits [simp]: "length (fixed_digits w n) = w"
  by (induction w arbitrary: n) auto

lemma fixed_digits_0: "fixed_digits w 0 = replicate w (CHR ''0'')"
proof -
  have "digit_char 0 = CHR ''0''" by (simp add: ord_inject digit_char_def)
  then show ?thesis by (induction w) (simp_all add: replicate_append_same)
qed

lemma length_nat_str_le: "n < 10 ^ w \<Longrightarrow> 0 < w \<Longrightarrow> length (nat_str n) \<le> w"
proof (induction w arbitrary: n)
  case (Suc w)
  show ?case
  proof (cases "n < 10")
    case True
    then show ?thesis by (simp add: nat_str.simps [of n])
  next
    case False
    with Suc.prems have "n div 10 < 10 ^ w" and "0 < w"
      by (auto simp: less_mult_imp_div_less) (cases w; simp)
    with Suc.IH [of "n div 10"] False show ?thesis
      by (simp add: nat_str.simps [of n])
  qed
qed simp

lemma zero_pad_fixed: "n < 10 ^ w \<Longrightarrow> 0 < w \<Longrightarrow> zero_pad w (nat_str n) = fixed_digits w n"
proof (induction w arbitrary: n)
  case (Suc w)
  show ?case
  proof (cases "n < 10")
    case True
    then show ?thesis
      by (simp add: nat_str.simps [of n] zero_pad_def fixed_digits_0)
  next
    case False
    with Suc.prems have "n div 10 < 10 ^ w" and "0 < w"
      by (auto simp: less_mult_imp_div_less) (cases w; simp)
    with Suc.IH [of "n div 10"] False show ?thesis
      by (simp add: nat_str.simps [of n] zero_pad_def)
  qed
qed simp

lemma digits_val_less: "list_all is_digit ds \<Longrightarrow> digits_val ds < 10 ^ length ds"
proof (induction ds rule: rev_induct)
  case Nil
  then show ?case by (simp add: digits_val_def)
next
  case (snoc d ds)
  then have "digits_val ds < 10 ^ length ds" and "digit_val d < 10" by auto
  then show ?case by (simp add: digits_val_snoc)
qed

lemma fixed_digits_digits_val: "list_all is_digit ds \<Longrightarrow> fixed_digits (length ds) (digits_val ds) = ds"
  by (induction ds rule: rev_induct) (simp_all add: digits_val_snoc)

lemma zero_pad_digits_val:
  "list_all is_digit ds \<Longrightarrow> ds \<noteq> [] \<Longrightarrow> length ds = w \<Longrightarrow> zero_pad w (nat_str (digits_val ds)) = ds"
  using digits_val_less [of ds] fixed_digits_digits_val [of ds]
  by (auto simp: zero_pad_fixed)

lemma digits_val_fixed: "n < 10 ^ w \<Longrightarrow> digits_val (fixed_digits w n) = n"
proof (induction w arbitrary: n)
  case 0
  then show ?case by (simp add: digits_val_def)
next
  case (Suc w)
  then have "n div 10 < 10 ^ w" by (auto simp: less_mult_imp_div_less)
  with Suc.IH show ?case by (simp add: digits_val_snoc del: mult_div_mod_eq)
qed

lemma fixed_digits_are_digits: "list_all is_digit (fixed_digits w n)"
  by (induction w arbitrary: n) auto

lemma iso_shape_split:
  assumes "iso_shape s"
  shows "s = take 4 s @ ''-'' @ take 2 (drop 5 s) @ ''-'' @ drop 8 s"
proof -
  have len: "length s = 10" and m: "s ! 4 = CHR ''-''" "s ! 7 = CHR ''-''"
    using assms by (auto simp: iso_shape_def)
  have "drop 4 s = CHR ''-'' # drop 5 s" and "drop 7 s = CHR ''-'' # drop 8 s"
    using m len by (simp_all add: Cons_nth_drop_Suc [symmetric, of _ s])
  moreover have "drop 5 s = take 2 (drop 5 s) @ drop 7 s"
    using append_take_drop_id [of 2 "drop 5 s"] by simp
  ultimately show ?thesis
    by (metis append_Cons append_Nil append_take_drop_id)
qed

lemma date_isoformat_fromisoformat:
  assumes "date_fromisoformat s = Some d"
  shows "date_isoformat d = s"
proof -
  have sh: "iso_shape s"
    and d: "d = \<lparr>year = digits_val (take 4 s), month = digits_val (take 2 (drop 5 s)),
                 day = digits_val (drop 8 s)\<rparr>"
    using assms by (auto simp: date_fromisoformat_def Let_def split: if_splits)
  have "zero_pad 4 (nat_str (digits_val (take 4 s))) = take 4 s"
    and "zero_pad 2 (nat_str (digits_val (take 2 (drop 5 s)))) = take 2 (drop 5 s)"
    and "zero_pad 2 (nat_str (digits_val (drop 8 s))) = drop 8 s"
    by (rule zero_pad_digits_val; use sh in \<open>auto simp: iso_shape_def\<close>)+
  with iso_shape_split [OF sh] show ?thesis
    by (simp add: date_isoformat_def d)
qed

lemma days_in_month_le: "days_in_month y m \<le> 31"
  by (simp add: days_in_month_def)

lemma date_isoformat_fixed:
  assumes "valid_date d"
  shows "date_isoformat d = fixed_digits 4 (year d) @ ''-'' @ fixed_digits 2 (month d) @ ''-''
    @ fixed_digits 2 (day d)"
proof -
  have "year d < 10 ^ 4" "month d < 10 ^ 2" "day d < 10 ^ 2"
    using assms days_in_month_le [of "year d" "month d"] by (auto simp: valid_date_def)
  then show ?thesis by (simp add: date_isoformat_def zero_pad_fixed)
qed

lemma date_fromisoformat_isoformat:
  assumes "valid_date d"
  shows "date_fromisoformat (date_isoformat d) = Some d"
proof -
  have b: "year d < 10 ^ 4" "month d < 10 ^ 2" "day d < 10 ^ 2"
    using assms days_in_month_le [of "year d" "month d"] by (auto simp: valid_date_def)
  define Y M D where "Y = fixed_digits 4 (year d)" and "M = fixed_digits 2 (month d)"
    and "D = fixed_digits 2 (day d)"
  have len: "length Y = 4" "length M = 2" "length D = 2"
    and dig: "list_all is_digit Y" "list_all is_digit M" "list_all is_digit D"
    by (simp_all add: Y_def M_def D_def fixed_digits_are_digits)
  have s: "date_isoformat d = Y @ ''-'' @ M @ ''-'' @ D"
    using assms by (simp add: date_isoformat_fixed Y_def M_def D_def)
  have "iso_shape (Y @ ''-'' @ M @ ''-'' @ D)"
    using len dig by (simp add: iso_shape_def nth_append)
  moreover have "digits_val Y = year d" "digits_val M = month d" "digits_val D = day d"
    unfolding Y_def M_def D_def by (rule digits_val_fixed, rule b)+
  moreover have "\<lparr>year = year d, month = month d, day = day d\<rparr> = d" by simp
  ultimately show ?thesis
    using assms len unfolding s date_fromisoformat_def by (cases d) (simp add: Let_def)
qed

lemma date_fromisoformat_valid: "date_fromisoformat s = Some d \<Longrightarrow> valid_date d"
  by (auto simp: date_fromisoformat_def Let_def split: if_splits)

lemma length_date_isoformat: "valid_date d \<Longrightarrow> length (date_isoformat d) = 10"
  by (simp add: date_isoformat_fixed)

section \<open>Ordinals\<close>

definition days_before_year :: "nat \<Rightarrow> int" where
  "days_before_year y = (let p = int y - 1 in p * 365 + p div 4 - p div 100 + p div 400)"

definition days_before_month :: "nat \<Rightarrow> nat \<Rightarrow> int" where
  "days_before_month y m =
     [0, 31, 59, 90, 120, 151, 181, 212, 243, 273, 304, 334] ! (m - 1)
     + (if 2 < m \<and> leap_year y then 1 else 0)"

text \<open>\<open>date.toordinal()\<close>; \<open>(a - b).days\<close> is \<open>date_days a - date_days b\<close>.\<close>

definition date_days :: "pydate \<Rightarrow> int" where
  "date_days d = days_before_year (year d) + days_before_month (year d) (month d) + int (day d)"

lemma days_before_year_Suc:
  assumes "1 \<le> y"
  shows "days_before_year (Suc y) = days_before_year y + 365 + (if leap_year y then 1 else 0)"
proof -
  obtain q where y: "y = Suc q" using assms by (cases y) auto
  define A B C where "A = (y mod 4 = 0)" and "B = (y mod 100 = 0)" and "C = (y mod 400 = 0)"
  have p: "int (Suc y) - 1 = int y" "int y - 1 = int q" by (simp_all add: y)
  have step: "int y div n = int q div n + (if y mod nat n = 0 then 1 else 0)" if "0 < n" for n
  proof -
    have "y div nat n = q div nat n + (if y mod nat n = 0 then 1 else 0)"
      by (simp add: y div_Suc)
    then have "int (y div nat n) = int (q div nat n) + (if y mod nat n = 0 then 1 else 0)"
      by simp
    with that show ?thesis by (simp add: zdiv_int)
  qed
  have d: "int y div 4 = int q div 4 + (if A then 1 else 0)"
    "int y div 100 = int q div 100 + (if B then 1 else 0)"
    "int y div 400 = int q div 400 + (if C then 1 else 0)"
    using step [of 4, simplified nat_numeral zero_less_numeral]
      step [of 100, simplified nat_numeral zero_less_numeral]
      step [of 400, simplified nat_numeral zero_less_numeral]
    unfolding A_def B_def C_def by blast+
  have i: "B \<Longrightarrow> A" "C \<Longrightarrow> B"
    unfolding A_def B_def C_def mod_eq_0_iff_dvd
    by (erule dvd_trans [rotated], simp)+
  have l: "leap_year y \<longleftrightarrow> A \<and> (\<not> B \<or> C)"
    by (simp add: leap_year_def A_def B_def C_def)
  have q: "int y = int q + 1" by (simp add: y)
  have "(int q + 1) * 365 + (a + (if A then 1 else 0)) - (b + (if B then 1 else 0))
      + (c + (if C then 1 else 0))
    = int q * 365 + a - b + c + 365 + (if A \<and> (\<not> B \<or> C) then 1 else 0)" for a b c
    using i by (cases A; cases B; cases C) (simp_all add: algebra_simps)
  from this [of "int q div 4" "int q div 100" "int q div 400"] show ?thesis
    unfolding days_before_year_def Let_def p d l unfolding q .
qed

lemma days_before_year_mono: "1 \<le> y \<Longrightarrow> y \<le> z \<Longrightarrow> days_before_year y \<le> days_before_year z"
proof (induction z)
  case (Suc z)
  then show ?case
    by (cases "y = Suc z") (auto simp: days_before_year_Suc)
qed simp

lemma month_cases:
  "1 \<le> m \<Longrightarrow> m \<le> 12 \<Longrightarrow>
   m = 1 \<or> m = 2 \<or> m = 3 \<or> m = 4 \<or> m = 5 \<or> m = 6 \<or> m = 7 \<or> m = 8 \<or> m = 9 \<or> m = 10
     \<or> m = 11 \<or> m = (12::nat)"
  by arith

lemma days_before_month_Suc:
  "1 \<le> m \<Longrightarrow> m < 12 \<Longrightarrow> days_before_month y (Suc m) = days_before_month y m + int (days_in_month y m)"
  by (drule month_cases) (auto simp: days_before_month_def days_in_month_def)

lemma days_before_month_mono:
  "1 \<le> m \<Longrightarrow> m \<le> n \<Longrightarrow> n \<le> 12 \<Longrightarrow> days_before_month y m \<le> days_before_month y n"
proof (induction n)
  case (Suc n)
  then show ?case
    by (cases "m = Suc n") (auto simp: days_before_month_Suc)
qed simp

lemma days_before_month_bound:
  assumes "1 \<le> m" "m \<le> 12"
  shows "0 \<le> days_before_month y m
    \<and> days_before_month y m + int (days_in_month y m) \<le> 365 + (if leap_year y then 1 else 0)"
  using month_cases [OF assms]
  by (elim disjE) (auto simp: days_before_month_def days_in_month_def)

lemma date_less_days:
  assumes v: "valid_date a" "valid_date b" and l: "date_less a b"
  shows "date_days a < date_days b"
proof -
  note va = v(1) [unfolded valid_date_def] and vb = v(2) [unfolded valid_date_def]
  consider "year a < year b" | "year a = year b" "month a < month b"
    | "year a = year b" "month a = month b" "day a < day b"
    using l by (auto simp: date_less_def)
  then show ?thesis
  proof cases
    case 1
    then have "days_before_year (Suc (year a)) \<le> days_before_year (year b)"
      using va by (intro days_before_year_mono) auto
    moreover have "days_before_month (year a) (month a) + int (day a)
        \<le> 365 + (if leap_year (year a) then 1 else 0)"
      using va days_before_month_bound [of "month a" "year a"] by auto
    moreover have "0 \<le> days_before_month (year b) (month b)" "0 < int (day b)"
      using vb days_before_month_bound [of "month b" "year b"] by auto
    ultimately show ?thesis
      using days_before_year_Suc [of "year a"] va by (simp add: date_days_def)
  next
    case 2
    have "days_before_month (year a) (Suc (month a)) \<le> days_before_month (year a) (month b)"
      using 2 va vb by (intro days_before_month_mono) auto
    then show ?thesis
      using 2 va vb days_before_month_Suc [of "month a" "year a"] by (simp add: date_days_def)
  next
    case 3
    then show ?thesis by (simp add: date_days_def)
  qed
qed

lemma date_le_days:
  "valid_date a \<Longrightarrow> valid_date b \<Longrightarrow> date_le a b \<Longrightarrow> date_days a \<le> date_days b"
  by (auto simp: date_le_def dest: date_less_days)

lemma date_less_linear: "date_less a b \<or> a = b \<or> date_less b a"
  by (cases a; cases b) (auto simp: date_less_def)

lemma date_le_iff_days:
  "valid_date a \<Longrightarrow> valid_date b \<Longrightarrow> date_le a b \<longleftrightarrow> date_days a \<le> date_days b"
  using date_less_linear [of a b] date_less_days [of b a] date_le_days [of a b]
  by (auto simp: date_le_def)

end
