(* ===== verification/JsonRoundtrip.thy ===== *)
theory JsonRoundtrip
  imports PyJson "HOL-Library.Multiset"
begin

text \<open>
  Decoding inverts encoding: \<open>json.loads(json.dumps(v, sort_keys=True))\<close> is \<open>v\<close> with tuples
  read back as lists and every dictionary in key order, in each layout the code uses. The
  values are those with distinct keys (every Python dictionary) whose floats are finite and
  read back from their \<open>repr\<close>.
\<close>

section \<open>Normal form and well-formedness\<close>

fun json_norm :: "pyval \<Rightarrow> pyval" where
  "json_norm (PList xs) = PList (map json_norm xs)"
| "json_norm (PTuple xs) = PList (map json_norm xs)"
| "json_norm (PDict d) = PDict (sort_key fst (map (\<lambda>(k, v). (k, json_norm v)) d))"
| "json_norm v = v"

definition float_ok :: "pyfloat \<Rightarrow> bool" where
  "float_ok x \<longleftrightarrow> f_isfinite x \<and> p_number (float_repr x) = Some (PFloat x, [])
     \<and> list_all (\<lambda>c. is_digit c \<or> c \<in> set ''+-.e'') (float_repr x)"

fun json_ok :: "pyval \<Rightarrow> bool" where
  "json_ok (PFloat x) = float_ok x"
| "json_ok (PList xs) = list_all json_ok xs"
| "json_ok (PTuple xs) = list_all json_ok xs"
| "json_ok (PDict d) = (distinct (map fst d) \<and> list_all (\<lambda>(k, v). json_ok v) d)"
| "json_ok _ = True"

text \<open>The fuel the decoder needs for the encoding of a value.\<close>

fun json_need :: "pyval \<Rightarrow> nat" where
  "json_need (PList xs) = Suc (sum_list (map (\<lambda>x. Suc (json_need x)) xs))"
| "json_need (PTuple xs) = Suc (sum_list (map (\<lambda>x. Suc (json_need x)) xs))"
| "json_need (PDict d) = Suc (sum_list (map (\<lambda>(k, v). Suc (json_need v)) d))"
| "json_need v = 1"

section \<open>Sorting by key\<close>

lemma insort_key_map:
  "map (\<lambda>(k, v). (k, f v)) (insort_key fst x xs)
     = insort_key fst (fst x, f (snd x)) (map (\<lambda>(k, v). (k, f v)) xs)"
  by (induction xs) (auto simp: case_prod_beta)

lemma sort_key_map:
  "sort_key fst (map (\<lambda>(k, v). (k, f v)) xs) = map (\<lambda>(k, v). (k, f v)) (sort_key fst xs)"
proof (induction xs)
  case (Cons x xs)
  then show ?case by (cases x) (simp add: insort_key_map)
qed simp

lemma distinct_fst_sort_key [simp]: "distinct (map fst (sort_key fst xs)) = distinct (map fst xs)"
  by (rule mset_eq_imp_distinct_iff) (metis mset_map mset_sort)

lemma sort_key_sort_key:
  "sort_key fst (sort_key fst xs) = sort_key fst xs"
  by (rule sort_key_id_if_sorted) simp

section \<open>Strings\<close>

lemma hex_digit_facts:
  assumes "n < 16"
  shows "hex_val (hex_char n) = n" "is_hex_any (hex_char n)"
  using assms
  by (auto simp: hex_char_def hex_val_def is_digit_def is_hex_any_def is_hex_lower_def)

lemma ctrl_chars:
  "char_of (10::nat) = CHR 0x0A" "char_of (13::nat) = CHR 0x0D" "char_of (9::nat) = CHR 0x09"
  "char_of (12::nat) = CHR 0x0C" "char_of (8::nat) = CHR 0x08"
  by (simp_all add: ord_inject)

lemma p_string_json_char:
  "p_string (json_char asc c @ t) = map_option (\<lambda>(u, r). (c # u, r)) (p_string t)"
proof -
  define n where "n = ord c"
  have c: "c = char_of n" and n: "n < 256" by (simp_all add: n_def)
  consider (quote) "n = 34 \<or> n = 92" | (nl) "n = 10" | (cr) "n = 13" | (tab) "n = 9"
    | (ff) "n = 12" | (bs) "n = 8"
    | (esc) "(n < 32 \<or> (asc \<and> 127 \<le> n)) \<and> n \<notin> {8, 9, 10, 12, 13, 34, 92}"
    | (raw) "32 \<le> n \<and> \<not> (asc \<and> 127 \<le> n) \<and> n \<notin> {34, 92}" by fastforce
  then show ?thesis
  proof cases
    case esc
    have d: "n div 16 < 16" "n mod 16 < 16" using n by auto
    have "json_char asc c = [CHR 0x5C, CHR ''u'', CHR ''0'', CHR ''0''] @ hex2 n"
      using esc by (simp add: json_char_def n_def [symmetric] Let_def)
    moreover have "16 * (n div 16) + n mod 16 = n" by simp
    ultimately show ?thesis
      using hex_digit_facts [OF d(1)] hex_digit_facts [OF d(2)]
      by (simp add: p_string.simps(2) hex2_def c is_hex_any_def is_hex_lower_def is_digit_def hex_val_def
        del: mult_div_mod_eq)
  next
    case raw
    have "json_char asc c = [c]"
      using raw by (auto simp: json_char_def n_def [symmetric] Let_def)
    with raw show ?thesis by (simp add: p_string.simps(2) n_def)
  qed (auto simp: json_char_def n_def [symmetric] Let_def p_string.simps(2) c ctrl_chars
    split: if_splits)
qed

lemma p_string_json_str:
  "p_string (concat (map (json_char asc) s) @ CHR 0x22 # r) = Some (s, r)"
proof (induction s)
  case Nil
  show ?case by (simp add: p_string.simps(2))
next
  case (Cons c s)
  then show ?case by (simp add: p_string_json_char)
qed

section \<open>Numbers\<close>

text \<open>What can follow a value in an encoded text: the end, a comma, a closing bracket, a line
  break or a space.\<close>

definition stops :: "string \<Rightarrow> bool" where
  "stops r = (case r of [] \<Rightarrow> True | c # _ \<Rightarrow> ord c \<in> {44, 93, 125, 10, 32})"

lemma stops_not_digit: "stops r \<Longrightarrow> r = [] \<or> \<not> is_digit (hd r)"
  by (cases r) (auto simp: stops_def is_digit_def)

lemma span_digits_append:
  assumes "stops r"
  shows "span_digits (s @ r) = (fst (span_digits s), snd (span_digits s) @ r)"
proof -
  have "takeWhile is_digit r = []" and "dropWhile is_digit r = r"
    using stops_not_digit [OF assms] by (cases r; simp)+
  then show ?thesis
    by (induction s) (auto simp: span_digits_def)
qed

lemma lex_fraction_append:
  assumes "stops r"
  shows "lex_fraction (s @ r) = (fst (lex_fraction s), snd (lex_fraction s) @ r)"
proof (cases s)
  case Nil
  with assms show ?thesis
    by (cases r) (auto simp: lex_fraction_def stops_def)
next
  case (Cons c cs)
  then show ?thesis
    by (simp add: lex_fraction_def span_digits_append [OF assms])
qed

lemma p_fraction_append:
  "stops r \<Longrightarrow> p_fraction (s @ r) = (fst (p_fraction s), snd (p_fraction s) @ r)"
  by (auto simp: p_fraction_def lex_fraction_append split: prod.splits option.splits)

lemma lex_exponent_append:
  assumes "stops r"
  shows "lex_exponent (s @ r) = (fst (lex_exponent s), snd (lex_exponent s) @ r)"
proof (cases s)
  case Nil
  with assms show ?thesis
    by (cases r) (auto simp: lex_exponent_def stops_def)
next
  case (Cons c cs)
  have [simp]: "span_digits r = ([], r)"
    using span_digits_append [OF assms, of "[]"] by (simp add: span_digits_def)
  have [simp]: "span_digits [] = ([], [])" by (simp add: span_digits_def)
  show ?thesis
  proof (cases cs)
    case Nil
    have "(case r of [] \<Rightarrow> (False, []) | d # ds' \<Rightarrow> if d = CHR ''-'' then (True, ds')
        else if d = CHR ''+'' then (False, ds') else (False, r)) = (False, r)"
      using assms by (cases r) (auto simp: stops_def)
    with Cons Nil show ?thesis
      by (simp add: lex_exponent_def)
  next
    case (Cons d ds)
    with \<open>s = c # cs\<close> show ?thesis
      using span_digits_append [OF assms, of ds] span_digits_append [OF assms, of "d # ds"]
      by (auto simp: lex_exponent_def Let_def split: prod.splits)
  qed
qed

lemma p_intpart_append:
  assumes "stops r"
  shows "p_intpart (s @ r) = map_option (\<lambda>(i, t). (i, t @ r)) (p_intpart s)"
proof (cases s)
  case Nil
  with assms show ?thesis
    by (cases r) (auto simp: p_intpart_def stops_def is_digit_def)
next
  case (Cons c cs)
  then show ?thesis
    using span_digits_append [OF assms, of "c # cs"]
    by (auto simp: p_intpart_def split: prod.splits)
qed

lemma p_unsigned_append:
  "stops r \<Longrightarrow> p_unsigned neg (s @ r) = map_option (\<lambda>(v, t). (v, t @ r)) (p_unsigned neg s)"
  by (simp add: p_unsigned_def p_intpart_append p_fraction_append lex_exponent_append
      split: option.split prod.split)

lemma p_number_append:
  "stops r \<Longrightarrow> s \<noteq> [] \<Longrightarrow> p_number (s @ r) = map_option (\<lambda>(v, t). (v, t @ r)) (p_number s)"
  using p_unsigned_append [of r True "tl s"] p_unsigned_append [of r False s]
  by (cases s) (auto simp: p_number_def)

lemma nat_str_head: "0 < n \<Longrightarrow> hd (nat_str n) \<noteq> CHR ''0''"
proof (induction n rule: nat_str.induct)
  case (1 n)
  show ?case
  proof (cases "n < 10")
    case True
    with 1 show ?thesis by (simp add: nat_str.simps [of n] digit_char_def ord_inject)
  next
    case False
    with 1 have "hd (nat_str (n div 10)) \<noteq> CHR ''0''" by simp
    with False show ?thesis by (simp add: nat_str.simps [of n])
  qed
qed

lemma p_intpart_nat_str: "p_intpart (nat_str n) = Some (nat_str n, [])"
proof -
  obtain c cs where s: "nat_str n = c # cs" by (cases "nat_str n") auto
  have dig: "list_all is_digit (c # cs)"
    using nat_str_digits [of _ n] s by (auto simp: list_all_iff)
  then have span: "span_digits (c # cs) = (c # cs, [])"
    by (auto simp: span_digits_def list_all_iff)
  show ?thesis
  proof (cases "n = 0")
    case True
    then show ?thesis
      by (simp add: p_intpart_def nat_str.simps [of 0] digit_char_def ord_inject)
  next
    case False
    with nat_str_head [of n] s have "c \<noteq> CHR ''0''" by simp
    with s dig span show ?thesis by (simp add: p_intpart_def)
  qed
qed

lemma p_unsigned_nat_str:
  "p_unsigned neg (nat_str n) = Some (PInt (if neg then - int n else int n), [])"
  by (simp add: p_unsigned_def p_intpart_nat_str p_fraction_def lex_fraction_def lex_exponent_def)

lemma int_str_split:
  "int_str i = (if i < 0 then CHR ''-'' # nat_str (nat (- i)) else nat_str (nat i))"
  by (simp add: int_str_def digits10_nat)

lemma p_number_int_str: "p_number (int_str i) = Some (PInt i, [])"
proof (cases "i < 0")
  case True
  then show ?thesis by (simp add: int_str_split p_number_def p_unsigned_nat_str)
next
  case False
  obtain c cs where s: "nat_str (nat i) = c # cs" by (cases "nat_str (nat i)") auto
  moreover have "c \<noteq> CHR ''-''"
    using nat_str_digits [of c "nat i"] s by (auto simp: is_digit_def)
  ultimately show ?thesis
    using False p_unsigned_nat_str [of False "nat i"] by (simp add: int_str_split p_number_def)
qed

text \<open>A text that starts like a number is not taken for a literal.\<close>

definition number_like :: "string \<Rightarrow> bool" where
  "number_like s = (case s of [] \<Rightarrow> False
     | c # cs \<Rightarrow> is_digit c \<or> (c = CHR ''-'' \<and> cs \<noteq> [] \<and> is_digit (hd cs)))"

lemma p_literal_head: "c \<noteq> a \<Longrightarrow> p_literal (a # w) v (c # cs) = None"
  by (simp add: p_literal_def starts_with_def)

lemma p_literal_second: "d \<noteq> b \<Longrightarrow> p_literal (a # b # w) v (c # d # cs) = None"
  by (simp add: p_literal_def starts_with_def)

lemma p_scalar_number:
  assumes "number_like s"
  shows "p_scalar (s @ r) = p_number (s @ r)"
proof -
  obtain c cs where s: "s = c # cs" using assms by (cases s) (auto simp: number_like_def)
  consider "is_digit c" | d ds where "c = CHR ''-''" "cs = d # ds" "is_digit d"
    using assms s by (cases cs) (auto simp: number_like_def)
  then show ?thesis
  proof cases
    case 1
    then have "c \<notin> set ''ntfNI-''" by (auto simp: is_digit_def)
    then show ?thesis by (simp add: s p_scalar_def p_literal_head)
  next
    case 2
    then have "d \<noteq> CHR ''I''" by (auto simp: is_digit_def)
    with 2 show ?thesis by (simp add: s p_scalar_def p_literal_head p_literal_second)
  qed
qed

lemma p_intpart_head: "p_intpart s = Some x \<Longrightarrow> \<exists>c cs. s = c # cs \<and> is_digit c"
  by (auto simp: p_intpart_def is_digit_def split: list.splits if_splits)

lemma p_unsigned_head: "p_unsigned neg s = Some x \<Longrightarrow> \<exists>c cs. s = c # cs \<and> is_digit c"
  by (auto simp: p_unsigned_def dest!: p_intpart_head split: option.splits)

lemma p_number_number_like: "p_number s = Some x \<Longrightarrow> number_like s"
  by (auto simp: p_number_def number_like_def dest!: p_unsigned_head split: list.splits if_splits)

lemma p_scalar_append:
  assumes "p_number s = Some (v, [])" "stops r"
  shows "p_scalar (s @ r) = Some (v, r)"
proof -
  have "number_like s" by (rule p_number_number_like) (rule assms)
  then have "p_scalar (s @ r) = p_number (s @ r)" and "s \<noteq> []"
    by (simp_all add: p_scalar_number) (auto simp: number_like_def)
  with assms show ?thesis by (simp add: p_number_append)
qed

section \<open>Values\<close>

text \<open>The layouts: one-character separators, with or without a space after them.\<close>

definition style_ok :: "json_style \<Rightarrow> bool" where
  "style_ok st \<longleftrightarrow> js_item st \<in> {'','', '', ''} \<and> js_key st \<in> {'':'', '': ''}"

definition ws_only :: "string \<Rightarrow> bool" where
  "ws_only w \<longleftrightarrow> list_all is_json_ws w"

lemma skip_ws_append: "ws_only w \<Longrightarrow> skip_ws (w @ s) = skip_ws s"
  by (induction w) (auto simp: ws_only_def skip_ws_def)

lemma skip_ws_hd: "s \<noteq> [] \<Longrightarrow> \<not> is_json_ws (hd s) \<Longrightarrow> skip_ws s = s"
  by (cases s) (auto simp: skip_ws_def)

lemma ws_newline_indent [simp]: "ws_only (newline_indent st l)"
  by (auto simp: ws_only_def newline_indent_def is_json_ws_def list_all_iff split: option.splits)

lemma stops_newline_indent:
  "stops s \<Longrightarrow> stops (newline_indent st l @ s)"
  by (auto simp: stops_def newline_indent_def split: option.splits)

text \<open>The first character of an encoded value: no whitespace and no closing bracket.\<close>

lemma float_repr_nonempty: "float_ok x \<Longrightarrow> float_repr x \<noteq> []"
  by (auto simp: float_ok_def p_number_def)

lemma json_float_finite: "f_isfinite x \<Longrightarrow> json_float x = float_repr x"
  by (cases x) (auto simp: json_float_def)

lemma json_enc_head:
  assumes "json_ok v"
  shows "\<exists>c cs. json_enc st l v = c # cs \<and> \<not> is_json_ws c \<and> c \<noteq> CHR '']'' \<and> c \<noteq> CHR ''}''"
proof (cases v)
  case (PInt i)
  have "\<exists>c cs. int_str i = c # cs \<and> (is_digit c \<or> c = CHR ''-'')"
    using p_number_number_like [OF p_number_int_str, of i]
    by (cases "int_str i") (auto simp: number_like_def)
  with PInt show ?thesis by (auto simp: is_json_ws_def is_digit_def)
next
  case (PFloat x)
  with assms have "p_number (float_repr x) = Some (PFloat x, [])" and "f_isfinite x"
    by (simp_all add: float_ok_def)
  from p_number_number_like [OF this(1)]
  have "\<exists>c cs. float_repr x = c # cs \<and> (is_digit c \<or> c = CHR ''-'')"
    by (cases "float_repr x") (auto simp: number_like_def)
  with PFloat \<open>f_isfinite x\<close> show ?thesis
    by (auto simp: json_float_finite is_json_ws_def is_digit_def)
qed (auto simp: json_str_def json_wrap_def is_json_ws_def)

lemma skip_ws_enc: "json_ok v \<Longrightarrow> skip_ws (json_enc st l v @ r) = json_enc st l v @ r"
  using json_enc_head [of v st l] by (auto intro!: skip_ws_hd)

lemma style_item_shape:
  "style_ok st \<Longrightarrow> \<exists>w. js_item st = CHR '','' # w \<and> ws_only w"
  by (auto simp: style_ok_def ws_only_def is_json_ws_def)

lemma style_key_shape:
  "style_ok st \<Longrightarrow> \<exists>w. js_key st = CHR '':'' # w \<and> ws_only w"
  by (auto simp: style_ok_def ws_only_def is_json_ws_def)

lemma skip_ws_nonws [simp]: "\<not> is_json_ws c \<Longrightarrow> skip_ws (c # s) = c # s"
  by (simp add: skip_ws_def)

lemma nonws_chars [simp]:
  "\<not> is_json_ws (CHR '','')" "\<not> is_json_ws (CHR '']'')" "\<not> is_json_ws (CHR ''}'')"
  "\<not> is_json_ws (CHR '':'')" "\<not> is_json_ws (CHR 0x22)"
  by (simp_all add: is_json_ws_def)

lemma stops_chars [simp]:
  "stops (CHR '','' # s)" "stops (CHR '']'' # s)" "stops (CHR ''}'' # s)" "stops []"
  by (simp_all add: stops_def)

text \<open>The decoder reads back one element.\<close>

definition reads_back :: "json_style \<Rightarrow> nat \<Rightarrow> pyval \<Rightarrow> bool" where
  "reads_back st l v \<longleftrightarrow> (\<forall>n r. json_need v \<le> n \<longrightarrow> stops r \<longrightarrow>
     p_value n (json_enc st l v @ r) = Some (json_norm v, r))"

lemma reads_backD:
  "reads_back st l v \<Longrightarrow> json_need v \<le> n \<Longrightarrow> stops r \<Longrightarrow>
     p_value n (json_enc st l v @ r) = Some (json_norm v, r)"
  by (simp add: reads_back_def)

lemma p_items_enc:
  assumes st: "style_ok st"
    and el: "\<And>x. x \<in> set xs \<Longrightarrow> json_ok x \<and> reads_back st k x"
  shows "xs \<noteq> [] \<Longrightarrow> sum_list (map (\<lambda>x. Suc (json_need x)) xs) \<le> n \<Longrightarrow>
    p_items n (join (js_item st @ newline_indent st k) (map (json_enc st k) xs)
      @ newline_indent st l @ CHR '']'' # r) = Some (map json_norm xs, r)"
  using el
proof (induction xs arbitrary: n rule: induct_list012)
  case (2 x)
  then obtain m where n: "n = Suc m" "json_need x \<le> m" by (cases n) auto
  have "p_value m (json_enc st k x @ newline_indent st l @ CHR '']'' # r)
      = Some (json_norm x, newline_indent st l @ CHR '']'' # r)"
    by (rule reads_backD) (use 2 n in \<open>auto simp: stops_newline_indent\<close>)
  then show ?case by (simp add: n skip_ws_append)
next
  case (3 x y ys)
  obtain w where w: "js_item st = CHR '','' # w" "ws_only w"
    using style_item_shape [OF st] by blast
  obtain m where n: "n = Suc m" "json_need x \<le> m"
      "sum_list (map (\<lambda>x. Suc (json_need x)) (y # ys)) \<le> m"
    using "3.prems" by (cases n) auto
  define t where "t = join (js_item st @ newline_indent st k) (map (json_enc st k) (y # ys))
    @ newline_indent st l @ CHR '']'' # r"
  have t: "p_items m t = Some (map json_norm (y # ys), r)"
    unfolding t_def by (rule "3.IH"(2)) (use 3 n in auto)
  have t_hd: "\<exists>u. t = json_enc st k y @ u"
    unfolding t_def by (cases ys) auto
  then have "skip_ws t = t"
    using "3.prems"(3) [of y] skip_ws_enc [of y st k] by auto
  then have skip: "skip_ws (w @ newline_indent st k @ t) = t"
    using w by (simp add: skip_ws_append)
  have "p_value m (json_enc st k x @ CHR '','' # w @ newline_indent st k @ t)
      = Some (json_norm x, CHR '','' # w @ newline_indent st k @ t)"
    by (rule reads_backD) (use 3 n in auto)
  moreover have "join (js_item st @ newline_indent st k) (map (json_enc st k) (x # y # ys))
      @ newline_indent st l @ CHR '']'' # r
    = json_enc st k x @ CHR '','' # w @ newline_indent st k @ t"
    by (simp add: t_def w)
  ultimately show ?case using t skip by (simp add: n)
qed simp

lemma p_members_enc:
  assumes st: "style_ok st"
    and el: "\<And>k' v. (k', v) \<in> set kvs \<Longrightarrow> json_ok v \<and> reads_back st k v"
  shows "kvs \<noteq> [] \<Longrightarrow> sum_list (map (\<lambda>(k', v). Suc (json_need v)) kvs) \<le> n \<Longrightarrow>
    p_members n (join (js_item st @ newline_indent st k)
        (map (\<lambda>(k', v). json_str (js_ascii st) k' @ js_key st @ json_enc st k v) kvs)
      @ newline_indent st l @ CHR ''}'' # r) = Some (map (\<lambda>(k', v). (k', json_norm v)) kvs, r)"
  using el
proof (induction kvs arbitrary: n rule: induct_list012)
  case (2 kv)
  obtain k' v where kv: "kv = (k', v)" by force
  with 2 obtain m where n: "n = Suc m" "json_need v \<le> m" by (cases n) auto
  obtain w where w: "js_key st = CHR '':'' # w" "ws_only w"
    using style_key_shape [OF st] by blast
  define u where "u = newline_indent st l @ CHR ''}'' # r"
  have v: "p_value m (json_enc st k v @ u) = Some (json_norm v, u)"
    unfolding u_def by (rule reads_backD) (use 2 n kv in \<open>auto simp: stops_newline_indent\<close>)
  have s: "skip_ws (w @ json_enc st k v @ u) = json_enc st k v @ u"
    using w skip_ws_enc [of v st k u] "2.prems"(3) [of k' v] kv by (simp add: skip_ws_append)
  have "skip_ws u = CHR ''}'' # r" by (simp add: u_def skip_ws_append)
  then show ?case using v s
    by (simp add: n kv w json_str_def u_def [symmetric] p_string_json_str)
next
  case (3 kv kv2 kvs)
  obtain k' v where kv: "kv = (k', v)" by force
  obtain wi where wi: "js_item st = CHR '','' # wi" "ws_only wi"
    using style_item_shape [OF st] by blast
  obtain w where w: "js_key st = CHR '':'' # w" "ws_only w"
    using style_key_shape [OF st] by blast
  obtain m where n: "n = Suc m" "json_need v \<le> m"
      "sum_list (map (\<lambda>(k', v). Suc (json_need v)) (kv2 # kvs)) \<le> m"
    using "3.prems" kv by (cases n) auto
  define t where "t = join (js_item st @ newline_indent st k)
      (map (\<lambda>(k', v). json_str (js_ascii st) k' @ js_key st @ json_enc st k v) (kv2 # kvs))
    @ newline_indent st l @ CHR ''}'' # r"
  have t: "p_members m t = Some (map (\<lambda>(k', v). (k', json_norm v)) (kv2 # kvs), r)"
    unfolding t_def by (rule "3.IH"(2)) (use 3 n in auto)
  have "\<exists>u. t = CHR 0x22 # u"
    unfolding t_def by (cases kv2; cases kvs) (auto simp: json_str_def)
  then have "skip_ws t = t" by auto
  then have skip: "skip_ws (wi @ newline_indent st k @ t) = t"
    using wi by (simp add: skip_ws_append)
  define u where "u = CHR '','' # wi @ newline_indent st k @ t"
  have v: "p_value m (json_enc st k v @ u) = Some (json_norm v, u)"
    unfolding u_def by (rule reads_backD) (use 3 n kv in auto)
  have s: "skip_ws (w @ json_enc st k v @ u) = json_enc st k v @ u"
    using w skip_ws_enc [of v st k u] "3.prems"(3) [of k' v] kv by (simp add: skip_ws_append)
  have "join (js_item st @ newline_indent st k)
      (map (\<lambda>(k', v). json_str (js_ascii st) k' @ js_key st @ json_enc st k v) (kv # kv2 # kvs))
      @ newline_indent st l @ CHR ''}'' # r
    = CHR 0x22 # concat (map (json_char (js_ascii st)) k') @ CHR 0x22 # CHR '':'' # w
      @ json_enc st k v @ u"
    by (simp add: t_def w wi kv u_def json_str_def)
  then show ?case using v s t skip
    by (simp add: n p_string_json_str) (simp add: u_def kv)
qed simp

lemma json_enc_dict:
  "json_enc st l (PDict d) = json_wrap st l (CHR ''{'') (CHR ''}'')
     (map (\<lambda>(k, v). json_str (js_ascii st) k @ js_key st @ json_enc st (Suc l) v)
       (sort_key fst d))"
  unfolding json_enc.simps sort_key_map map_map comp_def
  by (simp only: split_def fst_conv snd_conv)

lemma json_norm_dict:
  "json_norm (PDict d) = PDict (map (\<lambda>(k, v). (k, json_norm v)) (sort_key fst d))"
  by (simp add: sort_key_map)

lemma sum_list_sort_key: "sum_list (map f (sort_key g xs)) = sum_list (map (f :: 'a \<Rightarrow> nat) xs)"
  by (metis mset_map mset_sort sum_mset_sum_list)

lemma reads_back_list:
  assumes "style_ok st" "\<And>x. x \<in> set xs \<Longrightarrow> json_ok x \<and> reads_back st (Suc l) x"
    and n: "Suc (sum_list (map (\<lambda>x. Suc (json_need x)) xs)) \<le> n" and "stops r"
  shows "p_value n (json_wrap st l (CHR ''['') (CHR '']'') (map (json_enc st (Suc l)) xs) @ r)
    = Some (PList (map json_norm xs), r)"
proof -
  obtain m where m: "n = Suc m" "sum_list (map (\<lambda>x. Suc (json_need x)) xs) \<le> m"
    using n by (cases n) auto
  show ?thesis
  proof (cases xs)
    case Nil
    then show ?thesis by (simp add: m json_wrap_def)
  next
    case (Cons x ys)
    define t where "t = join (js_item st @ newline_indent st (Suc l)) (map (json_enc st (Suc l)) xs)
      @ newline_indent st l @ CHR '']'' # r"
    have items: "p_items m t = Some (map json_norm xs, r)"
      unfolding t_def by (rule p_items_enc [OF assms(1,2)]) (use Cons m in auto)
    obtain u where u: "t = json_enc st (Suc l) x @ u"
      unfolding t_def Cons by (cases ys) auto
    obtain c cs where t: "t = c # cs" "\<not> is_json_ws c" "c \<noteq> CHR '']''"
      using json_enc_head [of x st "Suc l"] assms(2) [of x] Cons u by auto
    then have "skip_ws (newline_indent st (Suc l) @ t) = c # cs"
      by (simp add: skip_ws_append)
    with items t show ?thesis
      by (simp add: m json_wrap_def Cons t_def [symmetric, simplified Cons list.map])
  qed
qed

lemma reads_back_dict:
  assumes "style_ok st" "\<And>k v. (k, v) \<in> set kvs \<Longrightarrow> json_ok v \<and> reads_back st (Suc l) v"
    and n: "Suc (sum_list (map (\<lambda>(k, v). Suc (json_need v)) kvs)) \<le> n" and "stops r"
    and d: "distinct (map fst kvs)"
  shows "p_value n (json_wrap st l (CHR ''{'') (CHR ''}'')
      (map (\<lambda>(k, v). json_str (js_ascii st) k @ js_key st @ json_enc st (Suc l) v) kvs) @ r)
    = Some (PDict (map (\<lambda>(k, v). (k, json_norm v)) kvs), r)"
proof -
  obtain m where m: "n = Suc m" "sum_list (map (\<lambda>(k, v). Suc (json_need v)) kvs) \<le> m"
    using n by (cases n) auto
  show ?thesis
  proof (cases kvs)
    case Nil
    then show ?thesis by (simp add: m json_wrap_def)
  next
    case (Cons kv ys)
    define t where "t = join (js_item st @ newline_indent st (Suc l))
        (map (\<lambda>(k, v). json_str (js_ascii st) k @ js_key st @ json_enc st (Suc l) v) kvs)
      @ newline_indent st l @ CHR ''}'' # r"
    have items: "p_members m t = Some (map (\<lambda>(k, v). (k, json_norm v)) kvs, r)"
      unfolding t_def by (rule p_members_enc [OF assms(1,2)]) (use Cons m in auto)
    obtain cs where t: "t = CHR 0x22 # cs"
      unfolding t_def Cons by (cases kv; cases ys) (auto simp: json_str_def)
    then have s: "skip_ws (newline_indent st (Suc l) @ t) = CHR 0x22 # cs"
      by (simp add: skip_ws_append)
    have k: "dict_of (map (\<lambda>(k, v). (k, json_norm v)) kvs) = map (\<lambda>(k, v). (k, json_norm v)) kvs"
      by (rule dict_of_distinct) (use d in \<open>simp add: comp_def case_prod_beta\<close>)
    have "json_wrap st l (CHR ''{'') (CHR ''}'')
      (map (\<lambda>(k, v). json_str (js_ascii st) k @ js_key st @ json_enc st (Suc l) v) kvs) @ r
      = CHR ''{'' # newline_indent st (Suc l) @ t"
      by (simp add: json_wrap_def t_def Cons)
    with items t s k show ?thesis by (simp add: m)
  qed
qed

lemma reads_back_scalar:
  assumes "p_number s = Some (v, [])" "stops r" "0 < n"
  shows "p_value n (s @ r) = Some (v, r)"
proof -
  have "number_like s" by (rule p_number_number_like) (rule assms)
  then obtain c cs where s: "s = c # cs" "is_digit c \<or> c = CHR ''-''"
    by (cases s) (auto simp: number_like_def)
  then have "c \<noteq> CHR 0x22" "c \<noteq> CHR ''[''" "c \<noteq> CHR ''{''"
    by (auto simp: is_digit_def)
  moreover have "p_scalar (s @ r) = Some (v, r)" by (rule p_scalar_append) (fact assms)+
  ultimately show ?thesis using assms(3) by (cases n) (simp_all add: s)
qed

text \<open>Every well-formed value reads back from its encoding, in every layout and at every
  nesting level.\<close>

lemma reads_back_value: "json_ok v \<Longrightarrow> style_ok st \<Longrightarrow> reads_back st l v"
proof (induction v arbitrary: l)
  case (PDict d)
  have el: "json_ok v \<and> reads_back st (Suc l) v" if "(k, v) \<in> set (sort_key fst d)" for k v
    using PDict.IH [of "(k, v)" v "Suc l"] PDict.prems that by (auto simp: list_all_iff)
  have "p_value n (json_enc st l (PDict d) @ r) = Some (json_norm (PDict d), r)"
    if "json_need (PDict d) \<le> n" "stops r" for n r
    unfolding json_enc_dict json_norm_dict
    by (rule reads_back_dict) (use PDict.prems el that in \<open>auto simp: sum_list_sort_key\<close>)
  then show ?case by (simp add: reads_back_def)
next
  case (PList xs)
  then have "\<And>x. x \<in> set xs \<Longrightarrow> json_ok x \<and> reads_back st (Suc l) x"
    by (auto simp: list_all_iff)
  with PList.prems(2) show ?case
    by (simp add: reads_back_def reads_back_list)
next
  case (PTuple xs)
  then have "\<And>x. x \<in> set xs \<Longrightarrow> json_ok x \<and> reads_back st (Suc l) x"
    by (auto simp: list_all_iff)
  with PTuple.prems(2) show ?case
    by (simp add: reads_back_def reads_back_list)
next
  case (PStr s)
  have "p_value n (json_str (js_ascii st) s @ r) = Some (PStr s, r)" if "1 \<le> n" for n r
    using that by (cases n) (simp_all add: json_str_def p_string_json_str)
  then show ?case by (simp add: reads_back_def)
next
  case (PInt i)
  show ?case
    using reads_back_scalar [OF p_number_int_str] by (simp add: reads_back_def)
next
  case (PFloat x)
  then show ?case
    using reads_back_scalar [of "float_repr x" "PFloat x"]
    by (simp add: reads_back_def float_ok_def json_float_finite)
next
  case (PBool b)
  have "p_value n ((if b then ''true'' else ''false'') @ r) = Some (PBool b, r)" if "1 \<le> n" for n r
    using that by (cases n) (auto simp: p_scalar_def p_literal_def starts_with_def)
  then show ?case by (simp add: reads_back_def)
next
  case PNone
  have "p_value n (''null'' @ r) = Some (PNone, r)" if "1 \<le> n" for n r
    using that by (cases n) (auto simp: p_scalar_def p_literal_def starts_with_def)
  then show ?case by (simp add: reads_back_def)
qed

section \<open>Whole texts\<close>

lemma json_char_nonempty: "1 \<le> length (json_str asc s)"
  by (simp add: json_str_def)

lemma length_join_ge: "(\<Sum>p\<leftarrow>ps. Suc (length p)) \<le> length (join (c # sep) ps) + 1"
  by (induction ps rule: induct_list012) auto

lemma length_json_wrap:
  assumes "style_ok st"
  shows "(\<Sum>p\<leftarrow>ps. Suc (length p)) + 1 \<le> length (json_wrap st l op cl ps)"
proof -
  obtain w where "js_item st = CHR '','' # w" using style_item_shape [OF assms] by blast
  then show ?thesis
    using length_join_ge [of ps "CHR '',''" "w @ newline_indent st (Suc l)"]
    by (simp add: json_wrap_def)
qed

lemma json_enc_length: "json_ok v \<Longrightarrow> 1 \<le> length (json_enc st l v)"
  using json_enc_head [of v st l] by auto

lemma json_need_le: "json_ok v \<Longrightarrow> style_ok st \<Longrightarrow> json_need v \<le> length (json_enc st l v)"
proof (induction v arbitrary: l)
  case (PDict d)
  have el: "json_need v \<le> length (json_enc st (Suc l) v)" if "(k, v) \<in> set d" for k v
    using PDict.IH [of "(k, v)" v "Suc l"] PDict.prems that by (auto simp: list_all_iff)
  have el': "(case kv of (k, v) \<Rightarrow> Suc (json_need v))
      \<le> Suc (length (case kv of (k, v) \<Rightarrow> json_str (js_ascii st) k @ js_key st @ json_enc st (Suc l) v))"
    if "kv \<in> set d" for kv
    using el [of "fst kv" "snd kv"] that by (simp add: split_def trans_le_add2)
  have "(\<Sum>(k, v)\<leftarrow>sort_key fst d. Suc (json_need v))
    \<le> (\<Sum>p\<leftarrow>map (\<lambda>(k, v). json_str (js_ascii st) k @ js_key st @ json_enc st (Suc l) v)
          (sort_key fst d). Suc (length p))"
    unfolding map_map by (rule sum_list_mono) (use el' in simp)
  then show ?case
    using length_json_wrap [OF PDict.prems(2), of "map (\<lambda>(k, v). json_str (js_ascii st) k
        @ js_key st @ json_enc st (Suc l) v) (sort_key fst d)" l "CHR ''{''" "CHR ''}''"]
    unfolding json_enc_dict json_need.simps sum_list_sort_key by linarith
next
  case (PList xs)
  have "(\<Sum>x\<leftarrow>xs. Suc (json_need x)) \<le> (\<Sum>p\<leftarrow>map (json_enc st (Suc l)) xs. Suc (length p))"
    unfolding map_map by (rule sum_list_mono) (use PList in \<open>auto simp: list_all_iff\<close>)
  then show ?case
    using length_json_wrap [OF PList.prems(2), of "map (json_enc st (Suc l)) xs" l "CHR ''[''" "CHR '']''"]
    by simp
next
  case (PTuple xs)
  have "(\<Sum>x\<leftarrow>xs. Suc (json_need x)) \<le> (\<Sum>p\<leftarrow>map (json_enc st (Suc l)) xs. Suc (length p))"
    unfolding map_map by (rule sum_list_mono) (use PTuple in \<open>auto simp: list_all_iff\<close>)
  then show ?case
    using length_json_wrap [OF PTuple.prems(2), of "map (json_enc st (Suc l)) xs" l "CHR ''[''" "CHR '']''"]
    by simp
qed (metis json_enc_length json_need.simps One_nat_def)+

lemma json_loads_dumps:
  assumes "json_ok v" "style_ok st"
  shows "json_loads (json_dumps st v) = Some (json_norm v)"
proof -
  let ?t = "json_dumps st v"
  have "reads_back st 0 v" by (rule reads_back_value) (fact assms)+
  moreover have "json_need v \<le> Suc (2 * length ?t)"
    using json_need_le [OF assms, of 0] by (simp add: json_dumps_def)
  ultimately have "p_value (Suc (2 * length ?t)) ?t = Some (json_norm v, [])"
    using reads_backD [of st 0 v "Suc (2 * length ?t)" "[]"] by (simp add: json_dumps_def)
  moreover have "skip_ws ?t = ?t"
    using skip_ws_enc [OF assms(1), of st 0 "[]"] by (simp add: json_dumps_def)
  ultimately show ?thesis
    by (simp add: json_loads_def skip_ws_def [of "[]"])
qed

text \<open>The normal form encodes to the same text and is its own normal form.\<close>

lemma json_enc_norm: "json_enc st l (json_norm v) = json_enc st l v"
proof (induction v arbitrary: l)
  case (PDict d)
  have "map (\<lambda>(k, v). json_str (js_ascii st) k @ js_key st @ json_enc st (Suc l) v)
      (map (\<lambda>(k, v). (k, json_norm v)) (sort_key fst d))
    = map (\<lambda>(k, v). json_str (js_ascii st) k @ js_key st @ json_enc st (Suc l) v) (sort_key fst d)"
    using PDict by auto
  then show ?case
    unfolding json_norm_dict json_enc_dict
    by (simp only: sort_key_map [symmetric] sort_key_sort_key)
qed (simp_all add: comp_def cong: map_cong)

lemma json_dumps_norm [simp]: "json_dumps st (json_norm v) = json_dumps st v"
  by (simp add: json_dumps_def json_enc_norm)

lemma json_norm_idem [simp]: "json_norm (json_norm v) = json_norm v"
proof (induction v)
  case (PDict d)
  have "map (\<lambda>(k, v). (k, json_norm v)) (map (\<lambda>(k, v). (k, json_norm v)) (sort_key fst d))
    = map (\<lambda>(k, v). (k, json_norm v)) (sort_key fst d)"
    using PDict by auto
  then show ?case
    unfolding json_norm_dict by (simp only: sort_key_map [symmetric] sort_key_sort_key)
qed (simp_all add: comp_def cong: map_cong)

lemma json_ok_norm: "json_ok v \<Longrightarrow> json_ok (json_norm v)"
proof (induction v)
  case (PDict d)
  have "list_all (\<lambda>(k, v). json_ok v) (map (\<lambda>(k, v). (k, json_norm v)) (sort_key fst d))"
    using PDict by (fastforce simp: list_all_iff)
  moreover have "distinct (map fst (map (\<lambda>(k, v). (k, json_norm v)) (sort_key fst d)))"
    using PDict.prems by (simp add: comp_def case_prod_beta)
  ultimately show ?case by (simp only: json_norm_dict json_ok.simps)
qed (auto simp: list_all_iff)

lemma style_ok_styles [simp]:
  "style_ok (compact_style asc)" "style_ok indent_style" "style_ok default_style"
  by (simp_all add: style_ok_def compact_style_def indent_style_def default_style_def)

text \<open>Different values have different encodings, up to the normal form.\<close>

lemma json_dumps_inject:
  assumes "json_ok v" "json_ok w" "style_ok st"
  shows "json_dumps st v = json_dumps st w \<longleftrightarrow> json_norm v = json_norm w"
  by (metis assms json_loads_dumps json_dumps_norm option.inject)

section \<open>Reading a decoded dictionary\<close>

lemma map_of_norm_sorted:
  assumes "distinct (map fst d)"
  shows "map_of (map (\<lambda>(k, v). (k, json_norm v)) (sort_key fst d)) k
    = map_option json_norm (map_of d k)"
proof -
  have "map_of (sort_key fst d) = map_of d"
    using assms by (intro map_of_inject_set [THEN iffD2]) simp_all
  then show ?thesis by (simp add: map_of_map)
qed

lemma keys_norm_sorted:
  "set (keys (map (\<lambda>(k, v). (k, json_norm v)) (sort_key fst d))) = set (keys d)"
  by (force simp: keys_def)

lemma dget_norm_sorted:
  "distinct (map fst d) \<Longrightarrow>
     dget (map (\<lambda>(k, v). (k, json_norm v)) (sort_key fst d)) k = json_norm (dget d k)"
  by (simp add: dget_def map_of_norm_sorted split: option.splits)

text \<open>A dictionary written and read back: the same keys, each value in normal form.\<close>

lemma json_loads_dict:
  assumes "json_ok (PDict d)" "style_ok st"
  obtains d' where "json_loads (json_dumps st (PDict d)) = Some (PDict d')"
    "set (keys d') = set (keys d)" "\<And>k. dget d' k = json_norm (dget d k)"
proof
  show "json_loads (json_dumps st (PDict d))
      = Some (PDict (map (\<lambda>(k, v). (k, json_norm v)) (sort_key fst d)))"
    using json_loads_dumps [OF assms] by (simp only: json_norm_dict)
  show "set (keys (map (\<lambda>(k, v). (k, json_norm v)) (sort_key fst d))) = set (keys d)"
    by (rule keys_norm_sorted)
  show "dget (map (\<lambda>(k, v). (k, json_norm v)) (sort_key fst d)) k = json_norm (dget d k)" for k
    using assms by (simp add: dget_norm_sorted)
qed

end
