(* ===== verification/StrategyRelease.thy ===== *)
theory StrategyRelease
  imports Sha256 PyDate JsonRoundtrip
begin

text \<open>
  The strategy release contract, \<open>common/strategy_release.py\<close>: the immutable release manifest,
  the compact identity a runtime loads, the comparison of an identity with an expected one,
  and the runtime's self-attestation receipt. The raw attribute values that a dataclass
  constructor receives are a function from the field name to the value; the constructor's
  \<open>__post_init__\<close> turns them into a record or raises.
\<close>

named_theorems release_simps

section \<open>Field normalisation\<close>

definition required_text :: "pyval \<Rightarrow> string \<Rightarrow> string res" where
  "required_text v field_name = (let text = strip (str_or_empty v) in
     require (text \<noteq> []) (ValueError (field_name @ '' is required'')) (Inr text))"

definition optional_text :: "pyval \<Rightarrow> string option" where
  "optional_text v = (let text = strip (str_or_empty v) in if text = [] then None else Some text)"

definition sha256_any_case :: "string \<Rightarrow> bool" where
  "sha256_any_case s \<longleftrightarrow> length s = 64 \<and> list_all is_hex_any s"

definition normalize_sha256 :: "pyval \<Rightarrow> string \<Rightarrow> string res" where
  "normalize_sha256 v field_name =
     bind_res (required_text v field_name) (\<lambda>t0.
       let text = remove_prefix ''sha256:'' (lower t0) in
       require (sha256_any_case text) (ValueError (field_name @ '' must be a SHA-256 digest''))
         (Inr text))"

definition normalize_effective_session :: "pyval \<Rightarrow> string res" where
  "normalize_effective_session v =
     bind_res (required_text v ''effective_session'') (\<lambda>text.
       case date_fromisoformat text of
         Some d \<Rightarrow> Inr (date_isoformat d)
       | None \<Rightarrow> Inl (ValueError ''effective_session must be an ISO-8601 date''))"

definition normalize_targets :: "pyval \<Rightarrow> string list res" where
  "normalize_targets v =
     bind_res (case v of PStr s \<Rightarrow> Inr [PStr s] | PTuple xs \<Rightarrow> Inr xs | PList xs \<Rightarrow> Inr xs
         | _ \<Rightarrow> Inl (ValueError ''targets must be a list or tuple'')) (\<lambda>values.
     bind_res (mapM (\<lambda>x. required_text x ''targets[]'') values) (\<lambda>normalized.
       require (normalized \<noteq> []) (ValueError ''targets must not be empty'')
      (require (distinct normalized) (ValueError ''targets must not contain duplicates'')
        (Inr normalized))))"

text \<open>\<open>_RELEASE_ID_PATTERN\<close>.\<close>

definition release_id_pattern :: "string \<Rightarrow> bool" where
  "release_id_pattern = bounded_id is_alnum (\<lambda>c. is_alnum c \<or> c \<in> set ''._-'') 2 127"

section \<open>The manifest\<close>

definition quoted :: "string \<Rightarrow> string" where
  "quoted s = [CHR 0x27] @ s @ [CHR 0x27]"

record manifest =
  mf_release_id :: string
  mf_strategy_profile :: string
  mf_strategy_revision :: string
  mf_config_sha256 :: string
  mf_risk_policy_sha256 :: string
  mf_evidence_sha256 :: string
  mf_plugin_bundle_sha256 :: string
  mf_effective_session :: string
  mf_target_set_id :: string
  mf_targets :: "string list"
  mf_supersedes :: "string option"
  mf_rollback_to :: "string option"
  mf_data_assurance_sha256 :: "string option"

definition manifest_post_init :: "(string \<Rightarrow> pyval) \<Rightarrow> manifest res" where
  "manifest_post_init a =
     bind_res (required_text (a ''release_id'') ''release_id'') (\<lambda>release_id.
     require (release_id_pattern release_id)
       (ValueError (''release_id must contain only letters, numbers, '' @ quoted ''.'' @ '', '' @
         quoted ''_'' @ '' or '' @ quoted ''-''))
    (bind_res (required_text (a ''strategy_profile'') ''strategy_profile'') (\<lambda>profile.
     bind_res (required_text (a ''strategy_revision'') ''strategy_revision'') (\<lambda>revision.
     bind_res (normalize_sha256 (a ''config_sha256'') ''config_sha256'') (\<lambda>config.
     bind_res (normalize_sha256 (a ''risk_policy_sha256'') ''risk_policy_sha256'') (\<lambda>risk.
     bind_res (normalize_sha256 (a ''evidence_sha256'') ''evidence_sha256'') (\<lambda>evidence.
     bind_res (normalize_sha256 (a ''plugin_bundle_sha256'') ''plugin_bundle_sha256'') (\<lambda>plugin.
     bind_res (normalize_effective_session (a ''effective_session'')) (\<lambda>session.
     bind_res (required_text (a ''target_set_id'') ''target_set_id'') (\<lambda>target_set.
     bind_res (normalize_targets (a ''targets'')) (\<lambda>targets.
     bind_res (case optional_text (a ''data_assurance_sha256'') of None \<Rightarrow> Inr None
         | Some t \<Rightarrow> map_res Some (normalize_sha256 (PStr t) ''data_assurance_sha256'')) (\<lambda>assurance.
     Inr \<lparr>mf_release_id = release_id, mf_strategy_profile = profile,
          mf_strategy_revision = revision, mf_config_sha256 = config,
          mf_risk_policy_sha256 = risk, mf_evidence_sha256 = evidence,
          mf_plugin_bundle_sha256 = plugin, mf_effective_session = session,
          mf_target_set_id = target_set, mf_targets = targets,
          mf_supersedes = optional_text (a ''supersedes''),
          mf_rollback_to = optional_text (a ''rollback_to''),
          mf_data_assurance_sha256 = assurance\<rparr>))))))))))))"

definition opt_val :: "string option \<Rightarrow> pyval" where
  "opt_val x = (case x of None \<Rightarrow> PNone | Some s \<Rightarrow> PStr s)"

text \<open>\<open>to_dict\<close> drops the fields that are None.\<close>

definition manifest_to_dict :: "manifest \<Rightarrow> pydict" where
  "manifest_to_dict m = [(k, v) \<leftarrow>
     [(''release_id'', PStr (mf_release_id m)),
      (''strategy_profile'', PStr (mf_strategy_profile m)),
      (''strategy_revision'', PStr (mf_strategy_revision m)),
      (''config_sha256'', PStr (mf_config_sha256 m)),
      (''risk_policy_sha256'', PStr (mf_risk_policy_sha256 m)),
      (''evidence_sha256'', PStr (mf_evidence_sha256 m)),
      (''plugin_bundle_sha256'', PStr (mf_plugin_bundle_sha256 m)),
      (''effective_session'', PStr (mf_effective_session m)),
      (''target_set_id'', PStr (mf_target_set_id m)),
      (''targets'', PTuple (map PStr (mf_targets m))),
      (''supersedes'', opt_val (mf_supersedes m)),
      (''rollback_to'', opt_val (mf_rollback_to m)),
      (''data_assurance_sha256'', opt_val (mf_data_assurance_sha256 m))]. v \<noteq> PNone]"

definition manifest_sha256 :: "manifest \<Rightarrow> string" where
  "manifest_sha256 m = sha256_hex (json_dumps (compact_style True) (PDict (manifest_to_dict m)))"

section \<open>The identity\<close>

record identity =
  ri_release_id :: string
  ri_manifest_sha256 :: string
  ri_strategy_revision :: string
  ri_config_sha256 :: string
  ri_risk_policy_sha256 :: string
  ri_evidence_sha256 :: string
  ri_plugin_bundle_sha256 :: string
  ri_effective_session :: string

definition identity_post_init :: "(string \<Rightarrow> pyval) \<Rightarrow> identity res" where
  "identity_post_init a =
     bind_res (required_text (a ''release_id'') ''strategy_release.release_id'') (\<lambda>release_id.
     require (release_id_pattern release_id)
       (ValueError ''strategy_release.release_id has invalid characters'')
    (bind_res (normalize_sha256 (a ''manifest_sha256'') ''strategy_release.manifest_sha256'') (\<lambda>mani.
     bind_res (normalize_sha256 (a ''config_sha256'') ''strategy_release.config_sha256'') (\<lambda>config.
     bind_res (normalize_sha256 (a ''risk_policy_sha256'') ''strategy_release.risk_policy_sha256'') (\<lambda>risk.
     bind_res (normalize_sha256 (a ''evidence_sha256'') ''strategy_release.evidence_sha256'') (\<lambda>evidence.
     bind_res (normalize_sha256 (a ''plugin_bundle_sha256'') ''strategy_release.plugin_bundle_sha256'') (\<lambda>plugin.
     bind_res (required_text (a ''strategy_revision'') ''strategy_release.strategy_revision'') (\<lambda>revision.
     bind_res (normalize_effective_session (a ''effective_session'')) (\<lambda>session.
     Inr \<lparr>ri_release_id = release_id, ri_manifest_sha256 = mani,
          ri_strategy_revision = revision, ri_config_sha256 = config,
          ri_risk_policy_sha256 = risk, ri_evidence_sha256 = evidence,
          ri_plugin_bundle_sha256 = plugin, ri_effective_session = session\<rparr>)))))))))"

definition identity_to_dict :: "identity \<Rightarrow> pydict" where
  "identity_to_dict i =
     [(''release_id'', PStr (ri_release_id i)),
      (''manifest_sha256'', PStr (ri_manifest_sha256 i)),
      (''strategy_revision'', PStr (ri_strategy_revision i)),
      (''config_sha256'', PStr (ri_config_sha256 i)),
      (''risk_policy_sha256'', PStr (ri_risk_policy_sha256 i)),
      (''evidence_sha256'', PStr (ri_evidence_sha256 i)),
      (''plugin_bundle_sha256'', PStr (ri_plugin_bundle_sha256 i)),
      (''effective_session'', PStr (ri_effective_session i))]"

text \<open>\<open>runtime_identity\<close> calls the identity's constructor on the manifest's fields.\<close>

definition runtime_identity :: "manifest \<Rightarrow> identity res" where
  "runtime_identity m = identity_post_init (dget
     [(''release_id'', PStr (mf_release_id m)),
      (''manifest_sha256'', PStr (manifest_sha256 m)),
      (''strategy_revision'', PStr (mf_strategy_revision m)),
      (''config_sha256'', PStr (mf_config_sha256 m)),
      (''risk_policy_sha256'', PStr (mf_risk_policy_sha256 m)),
      (''evidence_sha256'', PStr (mf_evidence_sha256 m)),
      (''plugin_bundle_sha256'', PStr (mf_plugin_bundle_sha256 m)),
      (''effective_session'', PStr (mf_effective_session m))])"

text \<open>An argument that is an identity object or any other value (a mapping, None).\<close>

datatype release_arg = RelIdentity identity | RelValue pyval

definition identity_fields :: "string list" where
  "identity_fields = [''release_id'', ''manifest_sha256'', ''strategy_revision'',
     ''config_sha256'', ''risk_policy_sha256'', ''evidence_sha256'', ''plugin_bundle_sha256'',
     ''effective_session'']"

definition build_strategy_release_identity :: "release_arg \<Rightarrow> identity res" where
  "build_strategy_release_identity r = (case r of
     RelIdentity i \<Rightarrow> Inr i
   | RelValue v \<Rightarrow> (case v of
       PDict d \<Rightarrow>
         let missing = filter (\<lambda>f. f \<notin> set (keys d)) identity_fields in
         require (missing = [])
           (ValueError (''strategy_release is missing required fields: '' @ join '', '' missing))
           (identity_post_init (dget d))
     | _ \<Rightarrow> Inl (ValueError ''strategy_release must be an object'')))"

section \<open>Verification\<close>

record verification =
  sv_release_id :: "string option"
  sv_findings :: "string list"

definition sv_is_valid :: "verification \<Rightarrow> bool" where
  "sv_is_valid r \<longleftrightarrow> sv_findings r = []"

definition verification_of :: "string option \<Rightarrow> string list \<Rightarrow> verification" where
  "verification_of i fs = \<lparr>sv_release_id = i, sv_findings = fs\<rparr>"

text \<open>Building an identity raises nothing but ValueError (\<open>build_identity_value_error\<close> below),
  so the handlers \<open>except ValueError\<close> catch every exception here. A missing expectation
  (None) is an invalid one.\<close>

definition validate_strategy_release_binding :: "release_arg \<Rightarrow> release_arg \<Rightarrow> verification" where
  "validate_strategy_release_binding actual expected =
     (if expected = RelValue PNone then verification_of None [''release_identity_invalid''] else
      case build_strategy_release_identity expected of
        Inl _ \<Rightarrow> verification_of None [''release_identity_invalid'']
      | Inr e \<Rightarrow>
          if actual = RelValue PNone
          then verification_of (Some (ri_release_id e)) [''release_identity_mismatch'']
          else (case build_strategy_release_identity actual of
              Inl _ \<Rightarrow> verification_of (Some (ri_release_id e)) [''release_identity_invalid'']
            | Inr a \<Rightarrow>
                if a \<noteq> e
                then verification_of (Some (ri_release_id e)) [''release_identity_mismatch'']
                else verification_of (Some (ri_release_id a)) []))"

definition validate_runtime_loaded_receipt :: "pyval \<Rightarrow> release_arg \<Rightarrow> bool \<Rightarrow> verification" where
  "validate_runtime_loaded_receipt receipt expected required =
     (if \<not> required \<and> expected = RelValue PNone then verification_of None []
      else if expected = RelValue PNone then verification_of None [''release_identity_invalid'']
      else case build_strategy_release_identity expected of
        Inl _ \<Rightarrow> verification_of None [''release_identity_invalid'']
      | Inr e \<Rightarrow>
          let missing = verification_of (Some (ri_release_id e)) [''release_receipt_missing''] in
          (case receipt of
             PDict d \<Rightarrow>
               if str_or_empty (dget d ''attestation_state'') \<noteq> ''self_attested'' then missing
               else (case dget d ''strategy_release'' of
                   PDict raw \<Rightarrow>
                     let result = validate_strategy_release_binding (RelValue (PDict raw)) (RelIdentity e)
                     in if \<not> sv_is_valid result then result
                        else if Some (str_or_empty (dget d ''release_id'')) \<noteq> sv_release_id result
                        then verification_of (Some (ri_release_id e)) [''release_identity_invalid'']
                        else result
                 | _ \<Rightarrow> missing)
           | _ \<Rightarrow> missing))"

section \<open>The loaded receipt\<close>

text \<open>\<open>text.replace(old, new)\<close> for a non-empty \<open>old\<close>.\<close>

function replace_all :: "string \<Rightarrow> string \<Rightarrow> string \<Rightarrow> string" where
  "replace_all old new s =
     (if s = [] \<or> old = [] then s
      else if starts_with old s then new @ replace_all old new (drop (length old) s)
      else hd s # replace_all old new (tl s))"
  by pat_completeness auto
termination
  by (relation "measure (\<lambda>(old, new, s). length s)") auto

declare replace_all.simps [simp del]

text \<open>A timestamp argument: absent, a text, or an aware datetime, given by its ISO text in UTC
  (\<open>value.astimezone(timezone.utc).isoformat()\<close>).\<close>

datatype timestamp_arg = TsNone | TsText string | TsUtc string

definition normalize_timestamp :: "timestamp_arg \<Rightarrow> string option" where
  "normalize_timestamp t = (case t of TsNone \<Rightarrow> None
     | TsUtc utc \<Rightarrow> Some (replace_all ''+00:00'' ''Z'' utc)
     | TsText s \<Rightarrow> optional_text (PStr s))"

definition build_runtime_loaded_receipt ::
  "release_arg \<Rightarrow> timestamp_arg \<Rightarrow> pyval \<Rightarrow> pyval \<Rightarrow> pydict res" where
  "build_runtime_loaded_receipt release loaded_at revision image_digest =
     (let receipt = [(''schema_version'', PStr ''runtime_loaded_receipt.v1''),
                     (''loaded_at'', opt_val (normalize_timestamp loaded_at))] in
      if release = RelValue PNone then
        Inr (dict_update receipt
          [(''attestation_state'', PStr ''legacy_unattested''), (''release_id'', PNone),
           (''missing'', PList [PStr ''strategy_release''])])
      else bind_res (build_strategy_release_identity release) (\<lambda>i.
        let r1 = dict_update receipt
              [(''attestation_state'', PStr ''self_attested''),
               (''release_id'', PStr (ri_release_id i)),
               (''strategy_release'', PDict (identity_to_dict i))];
            r2 = (case optional_text revision of None \<Rightarrow> r1
                  | Some t \<Rightarrow> dict_set r1 ''runtime_revision'' (PStr t));
            r3 = (case optional_text image_digest of None \<Rightarrow> r2
                  | Some t \<Rightarrow> dict_set r2 ''runtime_image_digest'' (PStr t))
        in Inr r3))"

section \<open>Facts of the normalisation\<close>

lemma required_text_Inr:
  "required_text v f = Inr t \<longleftrightarrow> t = strip (str_or_empty v) \<and> t \<noteq> []"
  by (auto simp: required_text_def Let_def res_simps)

lemma required_text_fixed [release_simps]:
  "trimmed t \<Longrightarrow> t \<noteq> [] \<Longrightarrow> required_text (PStr t) f = Inr t"
  by (simp add: required_text_Inr str_or_empty_def)

lemma required_text_trimmed: "required_text v f = Inr t \<Longrightarrow> trimmed t \<and> t \<noteq> []"
  by (auto simp: required_text_Inr)


lemma hex_lower_of_any: "is_hex_any c \<Longrightarrow> lower_char c = c \<Longrightarrow> is_hex_lower c"
  by (subst (asm) ord_inject) (auto simp: is_hex_any_def ord_lower_char split: if_splits)

lemma sha256_any_lower:
  assumes "sha256_any_case s" "lower s = s"
  shows "is_sha256_hex s"
proof -
  have "lower_char c = c" if "c \<in> set s" for c
    using that assms(2) by (induction s) (auto simp: lower_def)
  then show ?thesis
    using assms(1) by (auto simp: sha256_any_case_def is_sha256_hex_def list_all_iff
        hex_lower_of_any)
qed

lemma lower_drop: "lower s = s \<Longrightarrow> lower (drop n s) = drop n s"
  by (metis drop_map lower_def)

lemma normalize_sha256_hex:
  assumes "normalize_sha256 v f = Inr t"
  shows "is_sha256_hex t"
proof -
  from assms obtain t0 where t: "t = remove_prefix ''sha256:'' (lower t0)" and "sha256_any_case t"
    by (auto simp: normalize_sha256_def res_simps Let_def)
  moreover have "lower t = t"
    unfolding t remove_prefix_def by (simp add: lower_drop)
  ultimately show ?thesis by (simp add: sha256_any_lower)
qed

lemma sha256_hex_any: "is_sha256_hex s \<Longrightarrow> sha256_any_case s"
  by (auto simp: is_sha256_hex_def sha256_any_case_def list_all_iff is_hex_any_def)

lemma sha256_hex_no_prefix: "is_sha256_hex s \<Longrightarrow> remove_prefix ''sha256:'' s = s"
proof -
  assume s: "is_sha256_hex s"
  have "\<not> starts_with ''sha256:'' s"
  proof
    assume "starts_with ''sha256:'' s"
    then have "take 7 s = ''sha256:''"
      by (simp add: starts_with_def eval_nat_numeral)
    then have "s ! 0 = CHR ''s''"
      using nth_take [of 0 7 s] by simp
    moreover have "s ! 0 \<in> set s"
      using s by (intro nth_mem) (auto simp: is_sha256_hex_def)
    ultimately show False
      using s by (auto simp: is_sha256_hex_def list_all_iff is_hex_lower_def is_digit_def)
  qed
  then show ?thesis by (simp add: remove_prefix_def)
qed

lemma normalize_sha256_fixed [release_simps]:
  "is_sha256_hex t \<Longrightarrow> normalize_sha256 (PStr t) f = Inr t"
  by (simp add: normalize_sha256_def release_simps sha256_hex_nonempty sha256_hex_no_prefix
      sha256_hex_any)

lemma normalize_sha256_error:
  "normalize_sha256 v f = Inl e \<Longrightarrow> is_value_error e"
  by (auto simp: normalize_sha256_def required_text_def Let_def require_def split: if_splits)

text \<open>The normal form of an effective session: the ISO text of a date.\<close>

definition session_text :: "string \<Rightarrow> bool" where
  "session_text s \<longleftrightarrow> date_fromisoformat s \<noteq> None"

lemma session_text_trimmed:
  assumes "session_text s"
  shows "trimmed s \<and> s \<noteq> []"
proof -
  have sh: "iso_shape s"
    using assms by (auto simp: session_text_def date_fromisoformat_def split: if_splits)
  then have len: "length s = 10" by (simp add: iso_shape_def)
  have "hd (take 4 s) \<in> set (take 4 s)" and "last (drop 8 s) \<in> set (drop 8 s)"
    using len by (intro hd_in_set last_in_set; force)+
  then have "is_digit (hd s)" and "is_digit (last s)"
    using sh len by (auto simp: iso_shape_def list_all_iff last_drop)
  then show ?thesis
    using len by (auto simp: trimmed_by_def is_digit_def is_space_def)
qed

lemma normalize_session_fixed [release_simps]:
  "session_text s \<Longrightarrow> normalize_effective_session (PStr s) = Inr s"
  using date_isoformat_fromisoformat [of s] session_text_trimmed [of s]
  by (auto simp: normalize_effective_session_def session_text_def release_simps)

lemma normalize_session_text:
  "normalize_effective_session v = Inr s \<Longrightarrow> session_text s"
  using date_isoformat_fromisoformat
  by (auto simp: normalize_effective_session_def session_text_def res_simps split: option.splits)

lemma release_id_pattern_trimmed: "release_id_pattern s \<Longrightarrow> trimmed s \<and> s \<noteq> []"
proof -
  assume s: "release_id_pattern s"
  have "\<not> is_space c" if "c \<in> set s" for c
    using s that by (cases s) (auto simp: release_id_pattern_def bounded_id_def list_all_iff
        is_alnum_def is_lower_def is_upper_def is_digit_def is_space_def)
  then show ?thesis
    using s by (auto simp: trimmed_all release_id_pattern_def bounded_id_def)
qed

text \<open>What every constructed identity satisfies, and what makes construction the identity.\<close>

definition normal_identity :: "identity \<Rightarrow> bool" where
  "normal_identity i \<longleftrightarrow> release_id_pattern (ri_release_id i)
     \<and> is_sha256_hex (ri_manifest_sha256 i) \<and> is_sha256_hex (ri_config_sha256 i)
     \<and> is_sha256_hex (ri_risk_policy_sha256 i) \<and> is_sha256_hex (ri_evidence_sha256 i)
     \<and> is_sha256_hex (ri_plugin_bundle_sha256 i) \<and> session_text (ri_effective_session i)
     \<and> trimmed (ri_strategy_revision i) \<and> ri_strategy_revision i \<noteq> []"

lemma identity_post_init_normal:
  "identity_post_init a = Inr i \<Longrightarrow> normal_identity i"
  by (auto simp: identity_post_init_def normal_identity_def res_simps
      dest: normalize_sha256_hex normalize_session_text required_text_trimmed)

lemma identity_post_init_fixed:
  assumes "normal_identity i"
  shows "identity_post_init (dget (identity_to_dict i)) = Inr i"
  using assms release_id_pattern_trimmed [of "ri_release_id i"]
  by (auto simp: identity_post_init_def normal_identity_def identity_to_dict_def release_simps
      dget_def)

lemma keys_identity_to_dict [simp]: "keys (identity_to_dict i) = identity_fields"
  by (simp add: identity_to_dict_def identity_fields_def keys_def)

lemma build_identity_to_dict:
  "normal_identity i \<Longrightarrow>
     build_strategy_release_identity (RelValue (PDict (identity_to_dict i))) = Inr i"
  by (simp add: build_strategy_release_identity_def identity_post_init_fixed Let_def)

lemma build_identity_normal:
  "build_strategy_release_identity (RelValue v) = Inr i \<Longrightarrow> normal_identity i"
  by (auto simp: build_strategy_release_identity_def Let_def res_simps
      dest: identity_post_init_normal split: pyval.splits)

lemma required_text_error: "required_text v f = Inl e \<Longrightarrow> is_value_error e"
  by (auto simp: required_text_def Let_def require_def split: if_splits)

lemma normalize_session_error:
  "normalize_effective_session v = Inl e \<Longrightarrow> is_value_error e"
  by (cases "required_text v ''effective_session''")
    (auto simp: normalize_effective_session_def dest: required_text_error split: option.splits)

lemma identity_post_init_error: "identity_post_init a = Inl e \<Longrightarrow> is_value_error e"
  by (auto simp: identity_post_init_def err_simps res_simps
      dest: required_text_error normalize_sha256_error normalize_session_error)

lemma build_identity_value_error:
  "build_strategy_release_identity r = Inl e \<Longrightarrow> is_value_error e"
  by (auto simp: build_strategy_release_identity_def Let_def err_simps
      dest: identity_post_init_error split: release_arg.splits pyval.splits)

lemma build_RelIdentity [simp]: "build_strategy_release_identity (RelIdentity i) = Inr i"
  by (simp add: build_strategy_release_identity_def)

lemma build_PNone [release_simps]:
  "build_strategy_release_identity (RelValue PNone) \<noteq> Inr i"
  by (simp add: build_strategy_release_identity_def)

lemma sv_is_valid_of [release_simps, simp]: "sv_is_valid (verification_of i fs) \<longleftrightarrow> fs = []"
  by (simp add: sv_is_valid_def verification_of_def)

text \<open>An actual release is accepted exactly when both sides build the same identity.\<close>

lemma binding_valid_iff:
  "sv_is_valid (validate_strategy_release_binding a e) \<longleftrightarrow>
     (\<exists>i. build_strategy_release_identity e = Inr i \<and> build_strategy_release_identity a = Inr i)"
  by (auto simp: validate_strategy_release_binding_def release_simps split: sum.splits if_splits)

lemma binding_valid_id:
  "build_strategy_release_identity a = Inr i \<Longrightarrow>
     validate_strategy_release_binding a (RelIdentity i) = verification_of (Some (ri_release_id i)) []"
  by (auto simp: validate_strategy_release_binding_def build_strategy_release_identity_def)

section \<open>Transport as JSON\<close>

text \<open>A dictionary that lists the identity's fields, in any order and among others, builds it.\<close>

lemma build_identity_any_dict:
  assumes "normal_identity i" "set identity_fields \<subseteq> set (keys d)"
    and "\<And>f. f \<in> set identity_fields \<Longrightarrow> dget d f = dget (identity_to_dict i) f"
  shows "build_strategy_release_identity (RelValue (PDict d)) = Inr i"
proof -
  have "identity_post_init (dget d) = identity_post_init (dget (identity_to_dict i))"
    by (simp add: identity_post_init_def assms(3) identity_fields_def)
  moreover have "filter (\<lambda>f. f \<notin> set (keys d)) identity_fields = []"
    using assms(2) by (auto simp: filter_empty_conv)
  ultimately show ?thesis
    using assms(1) by (simp add: build_strategy_release_identity_def identity_post_init_fixed)
qed

lemma json_ok_identity [simp]: "json_ok (PDict (identity_to_dict i))"
  by (simp add: identity_to_dict_def)

lemma json_norm_identity_dget [simp]:
  "json_norm (dget (identity_to_dict i) f) = dget (identity_to_dict i) f"
  by (simp add: dget_def identity_to_dict_def)

lemma build_identity_json_norm:
  assumes "normal_identity i"
  shows "build_strategy_release_identity (RelValue (json_norm (PDict (identity_to_dict i)))) = Inr i"
proof -
  have "distinct (map fst (identity_to_dict i))"
    using json_ok_identity [of i] by simp
  then show ?thesis
    unfolding json_norm_dict
    by (intro build_identity_any_dict [OF assms]) (simp_all add: keys_norm_sorted dget_norm_sorted)
qed

text \<open>The receipt a runtime builds, in the shape in which another process reads it back.\<close>

lemma receipt_fields:
  assumes "build_runtime_loaded_receipt r t rv img = Inr d"
    and "build_strategy_release_identity r = Inr i"
  shows "json_ok (PDict d)" "dget d ''attestation_state'' = PStr ''self_attested''"
    "dget d ''release_id'' = PStr (ri_release_id i)"
    "dget d ''strategy_release'' = PDict (identity_to_dict i)"
proof -
  have d: "r \<noteq> RelValue PNone" using assms(2) by (auto simp: release_simps)
  note eqs = assms(1) [unfolded build_runtime_loaded_receipt_def] and simps = d assms(2) Let_def
  show "json_ok (PDict d)"
    using eqs by (auto simp: simps dict_update_def opt_val_def identity_to_dict_def
        split: option.splits)
  show "dget d ''attestation_state'' = PStr ''self_attested''"
    "dget d ''release_id'' = PStr (ri_release_id i)"
    "dget d ''strategy_release'' = PDict (identity_to_dict i)"
    using eqs by (auto simp: simps dict_update_def dget_def split: option.splits)
qed

lemma receipt_legacy:
  assumes "build_runtime_loaded_receipt (RelValue PNone) t rv img = Inr d"
  shows "json_ok (PDict d)" "dget d ''attestation_state'' = PStr ''legacy_unattested''"
  using assms by (auto simp: build_runtime_loaded_receipt_def Let_def dict_update_def opt_val_def
      dget_def split: option.splits)

lemma receipt_valid_iff:
  assumes "dget d ''attestation_state'' = PStr ''self_attested''"
    and "dget d ''release_id'' = PStr (ri_release_id i)"
    and "dget d ''strategy_release'' = PDict raw"
    and "build_strategy_release_identity (RelValue (PDict raw)) = Inr i"
  shows "sv_is_valid (validate_runtime_loaded_receipt (PDict d) e True)
    \<longleftrightarrow> build_strategy_release_identity e = Inr i"
proof (cases "build_strategy_release_identity e")
  case (Inl x)
  then show ?thesis by (simp add: validate_runtime_loaded_receipt_def)
next
  case (Inr j)
  then have "e \<noteq> RelValue PNone" by (auto simp: release_simps)
  with Inr assms show ?thesis
    by (cases "i = j")
      (auto simp: validate_runtime_loaded_receipt_def Let_def binding_valid_iff binding_valid_id
        verification_of_def sv_is_valid_of [unfolded verification_of_def])
qed

text \<open>A concrete release, for the evaluations.\<close>

definition sample_manifest_args :: "string \<Rightarrow> pyval" where
  "sample_manifest_args = dget
     [(''release_id'', PStr '' rel-7 ''), (''strategy_profile'', PStr ''soxl''),
      (''strategy_revision'', PStr ''r1''), (''config_sha256'', PStr (replicate 64 (CHR ''A''))),
      (''risk_policy_sha256'', PStr (replicate 64 (CHR ''1''))),
      (''evidence_sha256'', PStr (replicate 64 (CHR ''2''))),
      (''plugin_bundle_sha256'', PStr (replicate 64 (CHR ''3''))),
      (''effective_session'', PStr ''2026-07-30''), (''target_set_id'', PStr ''live''),
      (''targets'', PList [PStr ''schwab'', PStr ''ibkr''])]"

definition sample_release :: identity where
  "sample_release = \<lparr>ri_release_id = ''rel-7'', ri_manifest_sha256 = replicate 64 (CHR ''0''),
     ri_strategy_revision = ''r1'', ri_config_sha256 = replicate 64 (CHR ''a''),
     ri_risk_policy_sha256 = replicate 64 (CHR ''1''), ri_evidence_sha256 = replicate 64 (CHR ''2''),
     ri_plugin_bundle_sha256 = replicate 64 (CHR ''3''), ri_effective_session = ''2026-07-30''\<rparr>"

lemma sample_texts [release_simps]:
  "required_text (PStr '' rel-7 '') f = Inr ''rel-7''"
  "required_text (PStr ''soxl'') f = Inr ''soxl''" "required_text (PStr ''r1'') f = Inr ''r1''"
  "required_text (PStr ''live'') f = Inr ''live''"
  "release_id_pattern ''rel-7''" "session_text ''2026-07-30''"
  "normalize_targets (PList [PStr ''schwab'', PStr ''ibkr'']) = Inr [''schwab'', ''ibkr'']"
  "optional_text PNone = None"
  by code_simp+

lemma sha256_hex_replicate [release_simps]:
  "is_sha256_hex (replicate 64 c) \<longleftrightarrow> is_hex_lower c"
  by (simp add: is_sha256_hex_def list_all_iff)

lemma sample_digests [release_simps]:
  "is_hex_lower (CHR ''0'')" "is_hex_lower (CHR ''1'')" "is_hex_lower (CHR ''2'')"
  "is_hex_lower (CHR ''3'')" "is_hex_lower (CHR ''a'')"
  by code_simp+

lemma sample_upper_digest [release_simps]:
  "normalize_sha256 (PStr (replicate 64 (CHR ''A''))) f = Inr (replicate 64 (CHR ''a''))"
proof -
  have "trimmed (replicate 64 (CHR ''A''))"
    by (rule trimmed_all) (simp add: is_space_def)
  moreover have "lower (replicate 64 (CHR ''A'')) = replicate 64 (CHR ''a'')"
    by (simp add: lower_def lower_char_def ord_inject)
  ultimately show ?thesis
    by (simp add: normalize_sha256_def required_text_fixed release_simps sha256_hex_no_prefix
        sha256_hex_any)
qed

lemma sample_release_normal: "normal_identity sample_release"
proof -
  have "trimmed ''r1''" by code_simp
  then show ?thesis
    by (simp add: normal_identity_def sample_release_def release_simps)
qed

section \<open>Properties\<close>

text \<open>C18: a receipt that a runtime builds from its release, written as JSON in any of the layouts
  and read back elsewhere, is accepted against an expected release exactly when both build the
  same identity; a legacy runtime (no release) is never accepted.\<close>

theorem runtime_receipt_accepted_iff:
  assumes "build_runtime_loaded_receipt (RelValue v) loaded_at revision digest = Inr d"
    and "style_ok st"
  shows "\<exists>w. json_loads (json_dumps st (PDict d)) = Some w
    \<and> (sv_is_valid (validate_runtime_loaded_receipt w expected True)
        \<longleftrightarrow> (\<exists>i. build_strategy_release_identity expected = Inr i
              \<and> build_strategy_release_identity (RelValue v) = Inr i))"
proof (cases "v = PNone")
  case True
  note l = receipt_legacy [OF assms(1) [unfolded True]]
  from json_loads_dict [OF l(1) assms(2)] obtain d' where
    "json_loads (json_dumps st (PDict d)) = Some (PDict d')"
    "dget d' ''attestation_state'' = PStr ''legacy_unattested''"
    using l(2) by (metis json_norm.simps(8))
  then show ?thesis
    using True by (auto simp: validate_runtime_loaded_receipt_def release_simps Let_def
        split: sum.splits)
next
  case False
  with assms(1) obtain i where i: "build_strategy_release_identity (RelValue v) = Inr i"
    by (auto simp: build_runtime_loaded_receipt_def Let_def res_simps split: if_splits)
  note f = receipt_fields [OF assms(1) i]
  from json_loads_dict [OF f(1) assms(2)] obtain d' where d':
    "json_loads (json_dumps st (PDict d)) = Some (PDict d')"
    "\<And>k. dget d' k = json_norm (dget d k)" by metis
  have "build_strategy_release_identity (RelValue (json_norm (PDict (identity_to_dict i)))) = Inr i"
    by (rule build_identity_json_norm) (rule build_identity_normal [OF i])
  then have "sv_is_valid (validate_runtime_loaded_receipt (PDict d') expected True)
      \<longleftrightarrow> build_strategy_release_identity expected = Inr i"
    using d'(2) f by (intro receipt_valid_iff) (auto simp: json_norm_dict simp del: json_norm.simps(3))
  with d'(1) i show ?thesis by auto
qed

theorem runtime_receipt_accepted_witness:
  "\<exists>d w. build_runtime_loaded_receipt (RelValue (PDict (identity_to_dict sample_release)))
        TsNone (PStr ''abc'') PNone = Inr d
     \<and> json_loads (json_dumps default_style (PDict d)) = Some w
     \<and> sv_is_valid (validate_runtime_loaded_receipt w
           (RelValue (PDict (identity_to_dict sample_release))) True)"
proof -
  note b = build_identity_to_dict [OF sample_release_normal]
  obtain d where "build_runtime_loaded_receipt (RelValue (PDict (identity_to_dict sample_release)))
      TsNone (PStr ''abc'') PNone = Inr d"
    using b by (simp add: build_runtime_loaded_receipt_def Let_def)
  from runtime_receipt_accepted_iff [OF this style_ok_styles(3)] this b show ?thesis by blast
qed

text \<open>Whatever manifest a constructor accepts, its runtime identity is built without an
  error, in normal form, and carries the digest of the manifest's own canonical text.\<close>

theorem manifest_runtime_identity:
  assumes "manifest_post_init a = Inr m"
  shows "\<exists>i. runtime_identity m = Inr i \<and> normal_identity i
    \<and> ri_manifest_sha256 i = manifest_sha256 m \<and> ri_release_id i = mf_release_id m
    \<and> ri_config_sha256 i = mf_config_sha256 m \<and> ri_effective_session i = mf_effective_session m"
proof -
  define i where "i = \<lparr>ri_release_id = mf_release_id m, ri_manifest_sha256 = manifest_sha256 m,
     ri_strategy_revision = mf_strategy_revision m, ri_config_sha256 = mf_config_sha256 m,
     ri_risk_policy_sha256 = mf_risk_policy_sha256 m, ri_evidence_sha256 = mf_evidence_sha256 m,
     ri_plugin_bundle_sha256 = mf_plugin_bundle_sha256 m,
     ri_effective_session = mf_effective_session m\<rparr>"
  have n: "normal_identity i"
    using assms by (auto simp: i_def manifest_post_init_def normal_identity_def res_simps
        manifest_sha256_def dest: normalize_sha256_hex normalize_session_text required_text_trimmed)
  have "runtime_identity m = identity_post_init (dget (identity_to_dict i))"
    by (simp add: runtime_identity_def identity_to_dict_def i_def)
  with n show ?thesis
    by (simp add: identity_post_init_fixed i_def)
qed

theorem manifest_runtime_identity_witness:
  "\<exists>m i. manifest_post_init sample_manifest_args = Inr m \<and> mf_release_id m = ''rel-7''
     \<and> runtime_identity m = Inr i \<and> normal_identity i"
proof -
  have "\<exists>m. manifest_post_init sample_manifest_args = Inr m \<and> mf_release_id m = ''rel-7''"
    by (simp add: manifest_post_init_def sample_manifest_args_def dget_def release_simps)
  with manifest_runtime_identity show ?thesis by blast
qed

end
