(* ===== verification/ExecutionCommands.thy ===== *)
theory ExecutionCommands
  imports StrategyRelease
begin

text \<open>
  Durable execution commands, the data of \<open>common/execution_commands.py\<close>: the states and the
  transition table, the immutable command whose id is a digest of its content, and the event
  records of a command's history. The store that keeps them is in \<open>CommandStore\<close>.
\<close>

named_theorems command_simps

section \<open>States and transitions\<close>

datatype command_state = QUEUED | CLAIMED | SUBMITTED | ACCEPTED | PARTIALLY_FILLED
  | FILLED | CANCELLED | REJECTED | RECONCILIATION_REQUIRED

fun state_value :: "command_state \<Rightarrow> string" where
  "state_value QUEUED = ''queued''"
| "state_value CLAIMED = ''claimed''"
| "state_value SUBMITTED = ''submitted''"
| "state_value ACCEPTED = ''accepted''"
| "state_value PARTIALLY_FILLED = ''partially_filled''"
| "state_value FILLED = ''filled''"
| "state_value CANCELLED = ''cancelled''"
| "state_value REJECTED = ''rejected''"
| "state_value RECONCILIATION_REQUIRED = ''reconciliation_required''"

definition all_states :: "command_state list" where
  "all_states = [QUEUED, CLAIMED, SUBMITTED, ACCEPTED, PARTIALLY_FILLED, FILLED, CANCELLED,
     REJECTED, RECONCILIATION_REQUIRED]"

definition terminal_states :: "command_state list" where
  "terminal_states = [FILLED, CANCELLED, REJECTED]"

fun allowed_transitions :: "command_state \<Rightarrow> command_state list" where
  "allowed_transitions QUEUED = [CLAIMED, CANCELLED]"
| "allowed_transitions CLAIMED = [SUBMITTED, RECONCILIATION_REQUIRED, CANCELLED, REJECTED]"
| "allowed_transitions SUBMITTED =
     [ACCEPTED, PARTIALLY_FILLED, FILLED, CANCELLED, REJECTED, RECONCILIATION_REQUIRED]"
| "allowed_transitions ACCEPTED =
     [PARTIALLY_FILLED, FILLED, CANCELLED, REJECTED, RECONCILIATION_REQUIRED]"
| "allowed_transitions PARTIALLY_FILLED =
     [PARTIALLY_FILLED, FILLED, CANCELLED, RECONCILIATION_REQUIRED]"
| "allowed_transitions RECONCILIATION_REQUIRED =
     [ACCEPTED, PARTIALLY_FILLED, FILLED, CANCELLED, REJECTED]"
| "allowed_transitions FILLED = []"
| "allowed_transitions CANCELLED = []"
| "allowed_transitions REJECTED = []"

text \<open>An argument that is a member of the enumeration or any other value.\<close>

datatype state_arg = Member command_state | Raw pyval

definition state_of_value :: "string \<Rightarrow> command_state option" where
  "state_of_value s = find (\<lambda>st. state_value st = s) all_states"

definition normalize_state :: "state_arg \<Rightarrow> command_state res" where
  "normalize_state a = (case a of Member s \<Rightarrow> Inr s
     | Raw v \<Rightarrow> (case state_of_value (lower (strip (py_str v))) of
           Some s \<Rightarrow> Inr s
         | None \<Rightarrow> Inl (ValueError (''unsupported execution command state: '' @ py_repr v))))"

definition validate_execution_command_transition :: "state_arg \<Rightarrow> state_arg \<Rightarrow> unit res" where
  "validate_execution_command_transition prev nxt =
     bind_res (normalize_state prev) (\<lambda>p.
     bind_res (normalize_state nxt) (\<lambda>n.
       require (n \<in> set (allowed_transitions p))
         (ValueError (''invalid execution command transition: '' @ state_value p @ '' -> ''
            @ state_value n))
         (Inr ())))"

section \<open>Field normalisation\<close>

definition iso_date :: "pyval \<Rightarrow> string \<Rightarrow> string res" where
  "iso_date v field_name = bind_res (required_text v field_name) (\<lambda>text.
     case date_fromisoformat (take 10 text) of
       Some d \<Rightarrow> Inr (date_isoformat d)
     | None \<Rightarrow> Inl (ValueError (field_name @ '' must start with an ISO date'')))"

text \<open>Every modelled value has a JSON encoding, so the handler of \<open>_canonical_json\<close> is not
  reached.\<close>

definition canonical_json :: "pydict \<Rightarrow> string" where
  "canonical_json d = json_dumps (compact_style False) (PDict d)"

definition path_char :: "char \<Rightarrow> bool" where
  "path_char c \<longleftrightarrow> is_lower c \<or> is_digit c \<or> c \<in> set ''._=-''"

definition dash_dot :: "char \<Rightarrow> bool" where
  "dash_dot c \<longleftrightarrow> c = CHR ''-'' \<or> c = CHR ''.''"

definition safe_path_part :: "pyval \<Rightarrow> string \<Rightarrow> string res" where
  "safe_path_part v field_name = bind_res (required_text v field_name) (\<lambda>t.
     let safe = strip_by dash_dot (sub_runs path_char (lower t)) in
     require (safe \<noteq> []) (ValueError (field_name @ '' has no safe path characters'')) (Inr safe))"

section \<open>Commands\<close>

record command =
  ec_command_id :: string
  ec_platform :: string
  ec_account_scope :: string
  ec_strategy_profile :: string
  ec_execution_mode :: string
  ec_signal_date :: string
  ec_effective_date :: string
  ec_execution_timing_contract :: string
  ec_decision_digest :: string
  ec_intent_json :: string
  ec_created_at :: string

text \<open>The dictionary whose canonical text identifies a command.\<close>

definition command_identity :: "command \<Rightarrow> pydict" where
  "command_identity c =
     [(''platform'', PStr (ec_platform c)),
      (''account_scope'', PStr (ec_account_scope c)),
      (''strategy_profile'', PStr (ec_strategy_profile c)),
      (''execution_mode'', PStr (ec_execution_mode c)),
      (''signal_date'', PStr (ec_signal_date c)),
      (''effective_date'', PStr (ec_effective_date c)),
      (''execution_timing_contract'', PStr (ec_execution_timing_contract c)),
      (''decision_digest'', PStr (ec_decision_digest c)),
      (''intent_json'', PStr (ec_intent_json c))]"

definition command_id_of :: "command \<Rightarrow> string" where
  "command_id_of c = ''cmd-'' @ take 32
     (sha256_hex (json_dumps (compact_style True) (PDict (command_identity c))))"

text \<open>\<open>from_decision\<close>: the keyword arguments are \<open>a\<close>, the intent a dictionary; \<open>now\<close> is the
  clock's ISO text.\<close>

definition from_decision ::
  "(string \<Rightarrow> pyval) \<Rightarrow> pydict \<Rightarrow> string option \<Rightarrow> string \<Rightarrow> command res" where
  "from_decision a intent created_at now =
     bind_res (safe_path_part (a ''platform'') ''platform'') (\<lambda>platform.
     bind_res (safe_path_part (a ''account_scope'') ''account_scope'') (\<lambda>scope.
     bind_res (safe_path_part (a ''strategy_profile'') ''strategy_profile'') (\<lambda>profile.
     bind_res (safe_path_part (a ''execution_mode'') ''execution_mode'') (\<lambda>mode.
     bind_res (iso_date (a ''signal_date'') ''signal_date'') (\<lambda>signal.
     bind_res (iso_date (a ''effective_date'') ''effective_date'') (\<lambda>effective.
     bind_res (required_text (a ''execution_timing_contract'') ''execution_timing_contract'') (\<lambda>contract.
     bind_res (required_text (a ''decision_digest'') ''decision_digest'') (\<lambda>digest.
     let c = \<lparr>ec_command_id = [], ec_platform = platform, ec_account_scope = scope,
           ec_strategy_profile = profile, ec_execution_mode = mode, ec_signal_date = signal,
           ec_effective_date = effective, ec_execution_timing_contract = contract,
           ec_decision_digest = digest, ec_intent_json = canonical_json intent,
           ec_created_at = (case created_at of None \<Rightarrow> now | Some t \<Rightarrow> if t = [] then now else t)\<rparr>
     in Inr (c\<lparr>ec_command_id := command_id_of c\<rparr>)))))))))"

text \<open>The properties \<open>intent\<close> and \<open>details\<close> decode a stored text.\<close>

definition json_dict :: "string \<Rightarrow> pydict res" where
  "json_dict text = (case json_loads text of
     None \<Rightarrow> Inl (ValueError ''the text is not valid JSON'') | Some v \<Rightarrow> dict_call v)"

definition command_intent :: "command \<Rightarrow> pydict res" where
  "command_intent c = json_dict (ec_intent_json c)"

definition is_due_on :: "command \<Rightarrow> pyval \<Rightarrow> bool res" where
  "is_due_on c as_of_date = map_res (\<lambda>d. d = ec_effective_date c) (iso_date as_of_date ''as_of_date'')"

definition command_to_dict :: "command \<Rightarrow> pydict res" where
  "command_to_dict c = map_res (\<lambda>intent.
     [(''schema_version'', PStr ''execution_command.v1''),
      (''command_id'', PStr (ec_command_id c)),
      (''platform'', PStr (ec_platform c)),
      (''account_scope'', PStr (ec_account_scope c)),
      (''strategy_profile'', PStr (ec_strategy_profile c)),
      (''execution_mode'', PStr (ec_execution_mode c)),
      (''signal_date'', PStr (ec_signal_date c)),
      (''effective_date'', PStr (ec_effective_date c)),
      (''execution_timing_contract'', PStr (ec_execution_timing_contract c)),
      (''decision_digest'', PStr (ec_decision_digest c)),
      (''intent'', PDict intent),
      (''created_at'', PStr (ec_created_at c))]) (command_intent c)"

definition command_from_dict :: "pydict \<Rightarrow> string \<Rightarrow> command res" where
  "command_from_dict payload now =
     require (str_or_empty (dget payload ''schema_version'') = ''execution_command.v1'')
       (ValueError ''unsupported execution command schema version'')
     (case dget payload ''intent'' of
        PDict intent \<Rightarrow>
          bind_res (from_decision (dget payload) intent
              (Some (str_or_empty (dget payload ''created_at''))) now) (\<lambda>c.
            require (ec_command_id c = str_or_empty (dget payload ''command_id''))
              (ValueError ''execution command identity does not match its immutable content'')
              (Inr c))
      | _ \<Rightarrow> Inl (ValueError ''execution command intent must be an object''))"

definition validate_execution_command_release_binding ::
  "command \<Rightarrow> release_arg \<Rightarrow> verification res" where
  "validate_execution_command_release_binding c expected = map_res (\<lambda>intent.
     validate_strategy_release_binding (RelValue (dget intent ''strategy_release'')) expected)
     (command_intent c)"

section \<open>Events\<close>

record event =
  ev_command_id :: string
  ev_sequence :: int
  ev_previous_state :: command_state
  ev_state :: command_state
  ev_recorded_at :: string
  ev_details_json :: string

definition event_details :: "event \<Rightarrow> pydict res" where
  "event_details e = json_dict (ev_details_json e)"

definition event_to_dict :: "event \<Rightarrow> pydict res" where
  "event_to_dict e = map_res (\<lambda>details.
     [(''schema_version'', PStr ''execution_command_event.v1''),
      (''command_id'', PStr (ev_command_id e)),
      (''sequence'', PInt (ev_sequence e)),
      (''previous_state'', PStr (state_value (ev_previous_state e))),
      (''state'', PStr (state_value (ev_state e))),
      (''recorded_at'', PStr (ev_recorded_at e)),
      (''details'', PDict details)]) (event_details e)"

definition event_from_dict :: "pydict \<Rightarrow> event res" where
  "event_from_dict payload =
     require (str_or_empty (dget payload ''schema_version'') = ''execution_command_event.v1'')
       (ValueError ''unsupported execution command event schema version'')
     (case dget payload ''details'' of
        PDict details \<Rightarrow>
          bind_res (py_int (py_or (dget payload ''sequence'') (PInt 0))) (\<lambda>sequence.
          require (1 \<le> sequence)
            (ValueError ''execution command event sequence must be positive'')
         (bind_res (normalize_state (Raw (PStr (str_or_empty (dget payload ''previous_state''))))) (\<lambda>prev.
          bind_res (normalize_state (Raw (PStr (str_or_empty (dget payload ''state''))))) (\<lambda>st.
          bind_res (validate_execution_command_transition (Member prev) (Member st)) (\<lambda>_.
          bind_res (safe_path_part (dget payload ''command_id'') ''command_id'') (\<lambda>cid.
          bind_res (required_text (dget payload ''recorded_at'') ''recorded_at'') (\<lambda>recorded.
          Inr \<lparr>ev_command_id = cid, ev_sequence = sequence, ev_previous_state = prev,
               ev_state = st, ev_recorded_at = recorded,
               ev_details_json = canonical_json details\<rparr>)))))))
      | _ \<Rightarrow> Inl (ValueError ''execution command event details must be an object''))"

section \<open>Facts of the tables\<close>

lemma state_cases_all: "s \<in> set all_states"
  by (cases s) (simp_all add: all_states_def)

lemma state_of_value [simp]: "state_of_value (state_value s) = Some s"
  by (cases s) (simp_all add: state_of_value_def all_states_def)

lemma state_value_trimmed: "trimmed (state_value s) \<and> lower (state_value s) = state_value s"
  by (cases s) (simp_all, code_simp+)

lemma normalize_state_simps [simp, command_simps]:
  "normalize_state (Member s) = Inr s"
  "normalize_state (Raw (PStr (state_value s))) = Inr s"
  using state_value_trimmed [of s] by (simp_all add: normalize_state_def py_str_def)

lemma transition_members:
  "validate_execution_command_transition (Member p) (Member n) = Inr () \<longleftrightarrow>
     n \<in> set (allowed_transitions p)"
  by (simp add: validate_execution_command_transition_def require_Inr_iff)

lemma terminal_absorbing: "s \<in> set terminal_states \<longleftrightarrow> allowed_transitions s = []"
  by (cases s) (simp_all add: terminal_states_def)

section \<open>Normal forms of the fields\<close>

definition safe_part :: "string \<Rightarrow> bool" where
  "safe_part s \<longleftrightarrow> s \<noteq> [] \<and> list_all path_char s \<and> trimmed_by dash_dot s"

lemma path_char_lower: "path_char c \<Longrightarrow> lower_char c = c"
  by (auto simp: path_char_def lower_char_fixed) (auto simp: lower_char_def)

lemma path_char_not_space: "path_char c \<Longrightarrow> \<not> is_space c \<and> c \<noteq> CHR ''/''"
  by (auto simp: path_char_def is_space_def is_lower_def is_digit_def)

lemma safe_path_part_safe: "safe_path_part v f = Inr s \<Longrightarrow> safe_part s"
proof -
  assume "safe_path_part v f = Inr s"
  then obtain t where s: "s = strip_by dash_dot (sub_runs path_char t)" "s \<noteq> []"
    by (auto simp: safe_path_part_def res_simps Let_def)
  have "path_char c" if "c \<in> set s" for c
  proof -
    have "c \<in> set (sub_runs path_char t)"
      using that set_strip_by [of dash_dot "sub_runs path_char t"] by (auto simp: s(1))
    from set_sub_runs [OF this] show ?thesis by (auto simp: path_char_def)
  qed
  then show ?thesis
    using s by (simp add: safe_part_def list_all_iff)
qed

lemma safe_part_trimmed: "safe_part s \<Longrightarrow> trimmed s"
  by (rule trimmed_all) (auto simp: safe_part_def list_all_iff path_char_not_space)

lemma safe_path_part_fixed [command_simps]:
  assumes "safe_part s"
  shows "safe_path_part (PStr s) f = Inr s"
proof -
  have "lower s = s"
    using assms by (intro lower_fixed) (auto simp: safe_part_def list_all_iff path_char_lower)
  moreover have "sub_runs path_char s = s"
    using assms by (intro sub_runs_safe) (auto simp: safe_part_def list_all_iff)
  ultimately show ?thesis
    using assms safe_part_trimmed [OF assms]
    by (simp add: safe_path_part_def required_text_fixed safe_part_def)
qed

lemma safe_part_no_slash: "safe_part s \<Longrightarrow> CHR ''/'' \<notin> set s"
  using path_char_not_space by (auto simp: safe_part_def list_all_iff)

lemma session_text_length: "session_text s \<Longrightarrow> length s = 10"
  by (auto simp: session_text_def date_fromisoformat_def iso_shape_def split: if_splits)

lemma iso_date_session: "iso_date v f = Inr s \<Longrightarrow> session_text s"
  by (auto simp: iso_date_def session_text_def res_simps date_fromisoformat_isoformat
      date_fromisoformat_valid split: option.splits)

lemma iso_date_fixed [command_simps]:
  "session_text s \<Longrightarrow> iso_date (PStr s) f = Inr s"
  using session_text_trimmed [of s] session_text_length [of s] date_isoformat_fromisoformat [of s]
  by (auto simp: iso_date_def required_text_fixed session_text_def)

lemma session_text_path_char:
  assumes "session_text s"
  shows "list_all path_char s"
proof -
  have sh: "iso_shape s"
    using assms by (auto simp: session_text_def date_fromisoformat_def split: if_splits)
  have "set s = set (take 4 s @ ''-'' @ take 2 (drop 5 s) @ ''-'' @ drop 8 s)"
    using arg_cong [OF iso_shape_split [OF sh], of set] .
  then have "set s \<subseteq> Collect is_digit \<union> {CHR ''-''}"
    using sh by (auto simp: iso_shape_def list_all_iff)
  then show ?thesis by (auto simp: list_all_iff path_char_def)
qed

section \<open>Well-formed commands\<close>

text \<open>A command that \<open>from_decision\<close> made from a JSON intent.\<close>

definition wf_command :: "command \<Rightarrow> bool" where
  "wf_command c \<longleftrightarrow> list_all safe_part [ec_platform c, ec_account_scope c, ec_strategy_profile c,
       ec_execution_mode c]
     \<and> session_text (ec_signal_date c) \<and> session_text (ec_effective_date c)
     \<and> trimmed (ec_execution_timing_contract c) \<and> ec_execution_timing_contract c \<noteq> []
     \<and> trimmed (ec_decision_digest c) \<and> ec_decision_digest c \<noteq> []
     \<and> ec_created_at c \<noteq> [] \<and> ec_command_id c = command_id_of c
     \<and> (\<exists>d. json_ok (PDict d) \<and> ec_intent_json c = canonical_json d)"

lemma command_id_of_update [simp]:
  "command_id_of (c\<lparr>ec_command_id := i\<rparr>) = command_id_of c"
  by (simp add: command_id_of_def command_identity_def)

lemma from_decision_wf:
  assumes "from_decision a intent created now = Inr c" "json_ok (PDict intent)" "now \<noteq> []"
  shows "wf_command c"
  using assms by (auto simp: from_decision_def wf_command_def res_simps Let_def
      command_id_of_def command_identity_def dest: safe_path_part_safe iso_date_session required_text_trimmed split: option.splits if_splits)

lemma json_dict_dumps:
  assumes "json_ok (PDict d)" "style_ok st"
  obtains d' where "json_dict (json_dumps st (PDict d)) = Inr d'"
    "json_norm (PDict d) = PDict d'" "canonical_json d' = canonical_json d"
proof -
  obtain d' where d': "json_norm (PDict d) = PDict d'" by (simp only: json_norm_dict)
  moreover have "canonical_json d' = canonical_json d"
    unfolding canonical_json_def d' [symmetric] by (rule json_dumps_norm)
  ultimately show ?thesis
    using that json_loads_dumps [OF assms] by (simp add: json_dict_def dict_call_def)
qed

lemma command_intent_wf:
  assumes "wf_command c"
  obtains d where "command_intent c = Inr d" "json_ok (PDict d)" "canonical_json d = ec_intent_json c"
proof -
  from assms obtain d where d: "json_ok (PDict d)" "ec_intent_json c = canonical_json d"
    by (auto simp: wf_command_def)
  from json_dict_dumps [OF d(1) style_ok_styles(1) [of False]] obtain d' where d':
    "json_dict (canonical_json d) = Inr d'" "json_norm (PDict d) = PDict d'"
    "canonical_json d' = canonical_json d"
    by (auto simp: canonical_json_def)
  moreover have "json_ok (PDict d')"
    using json_ok_norm [OF d(1)] by (simp only: d'(2))
  ultimately show ?thesis
    using that d by (simp add: command_intent_def)
qed

section \<open>Round trips\<close>

lemma command_from_dict_fields:
  assumes wf: "wf_command c"
    and "dget w ''schema_version'' = PStr ''execution_command.v1''"
    and "dget w ''command_id'' = PStr (ec_command_id c)"
    and "dget w ''platform'' = PStr (ec_platform c)"
    and "dget w ''account_scope'' = PStr (ec_account_scope c)"
    and "dget w ''strategy_profile'' = PStr (ec_strategy_profile c)"
    and "dget w ''execution_mode'' = PStr (ec_execution_mode c)"
    and "dget w ''signal_date'' = PStr (ec_signal_date c)"
    and "dget w ''effective_date'' = PStr (ec_effective_date c)"
    and "dget w ''execution_timing_contract'' = PStr (ec_execution_timing_contract c)"
    and "dget w ''decision_digest'' = PStr (ec_decision_digest c)"
    and "dget w ''created_at'' = PStr (ec_created_at c)"
    and intent: "dget w ''intent'' = PDict i" "canonical_json i = ec_intent_json c"
  shows "command_from_dict w now = Inr c"
proof -
  have "from_decision (dget w) i (Some (ec_created_at c)) now = Inr c"
    using assms by (cases c) (simp add: from_decision_def command_simps required_text_fixed
        wf_command_def Let_def command_id_of_def command_identity_def)
  with assms show ?thesis by (simp add: command_from_dict_def)
qed

lemma command_to_dict_json:
  assumes wf: "wf_command c" and st: "style_ok st"
  obtains d w where "command_to_dict c = Inr d" "json_loads (json_dumps st (PDict d)) = Some (PDict w)"
    "\<And>now. command_from_dict w now = Inr c"
proof -
  from command_intent_wf [OF wf] obtain i where i: "command_intent c = Inr i" "json_ok (PDict i)"
    "canonical_json i = ec_intent_json c" .
  obtain d where d: "command_to_dict c = Inr d" by (simp add: command_to_dict_def i)
  have ok: "json_ok (PDict d)"
    using d i(2) by (auto simp: command_to_dict_def i(1))
  obtain i' where i': "json_norm (PDict i) = PDict i'" by (simp only: json_norm_dict)
  have c: "canonical_json i' = ec_intent_json c"
    unfolding canonical_json_def i' [symmetric] json_dumps_norm
    by (simp add: i(3) flip: canonical_json_def)
  from json_loads_dict [OF ok st] obtain w where w:
    "json_loads (json_dumps st (PDict d)) = Some (PDict w)"
    "\<And>k. dget w k = json_norm (dget d k)" by metis
  have "dget d ''intent'' = PDict i"
    using d by (auto simp: command_to_dict_def i(1))
  then have "dget w ''intent'' = PDict i'"
    by (simp only: w(2) i')
  then have "command_from_dict w now = Inr c" for now
    using d by (intro command_from_dict_fields [OF wf _ _ _ _ _ _ _ _ _ _ _ _ c])
      (auto simp: w(2) command_to_dict_def i(1))
  with that d w(1) show ?thesis by blast
qed

text \<open>Events: a recorded event of a history.\<close>

definition wf_event :: "event \<Rightarrow> bool" where
  "wf_event e \<longleftrightarrow> safe_part (ev_command_id e) \<and> 1 \<le> ev_sequence e
     \<and> ev_state e \<in> set (allowed_transitions (ev_previous_state e))
     \<and> trimmed (ev_recorded_at e) \<and> ev_recorded_at e \<noteq> []
     \<and> (\<exists>d. json_ok (PDict d) \<and> ev_details_json e = canonical_json d)"

lemma event_from_dict_fields:
  assumes "wf_event e"
    and "dget w ''schema_version'' = PStr ''execution_command_event.v1''"
    and "dget w ''command_id'' = PStr (ev_command_id e)"
    and "dget w ''sequence'' = PInt (ev_sequence e)"
    and "dget w ''previous_state'' = PStr (state_value (ev_previous_state e))"
    and "dget w ''state'' = PStr (state_value (ev_state e))"
    and "dget w ''recorded_at'' = PStr (ev_recorded_at e)"
    and "dget w ''details'' = PDict i" "canonical_json i = ev_details_json e"
  shows "event_from_dict w = Inr e"
proof -
  have "validate_execution_command_transition (Member (ev_previous_state e)) (Member (ev_state e))
      = Inr ()"
    using assms(1) by (simp add: transition_members wf_event_def)
  with assms show ?thesis
    by (cases e) (auto simp: event_from_dict_def command_simps required_text_fixed wf_event_def
        py_int_def py_or_def)
qed

lemma event_to_dict_json:
  assumes wf: "wf_event e" and st: "style_ok st"
  obtains d w where "event_to_dict e = Inr d" "json_loads (json_dumps st (PDict d)) = Some (PDict w)"
    "event_from_dict w = Inr e"
proof -
  from wf obtain d0 where d0: "json_ok (PDict d0)" "ev_details_json e = canonical_json d0"
    by (auto simp: wf_event_def)
  from json_dict_dumps [OF d0(1) style_ok_styles(1) [of False]] obtain i where i0:
    "json_dict (canonical_json d0) = Inr i" "json_norm (PDict d0) = PDict i"
    "canonical_json i = canonical_json d0" by (auto simp: canonical_json_def)
  then have i: "event_details e = Inr i" "json_ok (PDict i)"
    using json_ok_norm [OF d0(1)] by (simp_all only: event_details_def d0(2) i0(2))
  obtain d where d: "event_to_dict e = Inr d" by (simp add: event_to_dict_def i)
  have ok: "json_ok (PDict d)"
    using d i(2) by (auto simp: event_to_dict_def i(1))
  obtain i' where i': "json_norm (PDict i) = PDict i'" by (simp only: json_norm_dict)
  have c: "canonical_json i' = ev_details_json e"
    unfolding canonical_json_def i' [symmetric] json_dumps_norm
    by (simp add: i0(3) d0(2) flip: canonical_json_def)
  from json_loads_dict [OF ok st] obtain w where w:
    "json_loads (json_dumps st (PDict d)) = Some (PDict w)"
    "\<And>k. dget w k = json_norm (dget d k)" by metis
  have "dget d ''details'' = PDict i"
    using d by (auto simp: event_to_dict_def i(1))
  then have "dget w ''details'' = PDict i'"
    by (simp only: w(2) i')
  then have "event_from_dict w = Inr e"
    using d by (intro event_from_dict_fields [OF wf _ _ _ _ _ _ _ c])
      (auto simp: w(2) event_to_dict_def i(1))
  with that d w(1) show ?thesis by blast
qed

lemma safe_literals [simp]: "safe_part ''events''" "safe_part ''command.json''"
  by code_simp+

lemma wf_command_date: "wf_command c \<Longrightarrow> session_text (ec_effective_date c)"
  by (simp add: wf_command_def)

lemma command_id_shape:
  assumes "wf_command c"
  shows "length (ec_command_id c) = 36" "safe_part (ec_command_id c)"
proof -
  define h where "h = take 32 (sha256_hex (json_dumps (compact_style True) (PDict (command_identity c))))"
  have id: "ec_command_id c = ''cmd-'' @ h"
    using assms by (simp add: wf_command_def command_id_of_def h_def)
  have len: "length h = 32" and hex: "list_all is_hex_lower h"
    using sha256_hex_digest by (auto simp: h_def is_sha256_hex_def list_all_iff dest: in_set_takeD)
  then have "is_hex_lower (last h)" by (simp add: list_all_iff last_in_set flip: length_greater_0_conv)
  then show "safe_part (ec_command_id c)"
    using len hex by (auto simp: id safe_part_def list_all_iff path_char_def is_hex_lower_def
        is_lower_def is_digit_def trimmed_by_def dash_dot_def)
  show "length (ec_command_id c) = 36" by (simp add: id len)
qed

section \<open>A concrete decision\<close>

definition sample_args :: "string \<Rightarrow> pyval" where
  "sample_args = dget
     [(''platform'', PStr ''schwab''), (''account_scope'', PStr ''paper-1''),
      (''strategy_profile'', PStr ''soxl''), (''execution_mode'', PStr ''paper''),
      (''signal_date'', PStr ''2026-07-29''), (''effective_date'', PStr ''2026-07-30''),
      (''execution_timing_contract'', PStr ''next_open''), (''decision_digest'', PStr (replicate 64 (CHR ''5'')))]"

definition sample_intent :: pydict where
  "sample_intent = [(''strategy_release'', PDict (identity_to_dict sample_release)),
     (''quantity'', PInt 3)]"

lemma sample_fields [command_simps]:
  "safe_part ''schwab''" "safe_part ''paper-1''" "safe_part ''soxl''" "safe_part ''paper''"
  "session_text ''2026-07-29''" "session_text ''2026-07-30''"
  "required_text (PStr ''next_open'') f = Inr ''next_open''"
  by code_simp+

lemma sample_digest [command_simps]:
  "is_sha256_hex (replicate 64 (CHR ''5''))"
  "required_text (PStr (replicate 64 (CHR ''5''))) f = Inr (replicate 64 (CHR ''5''))"
proof -
  show sha: "is_sha256_hex (replicate 64 (CHR ''5''))"
    by (simp add: sha256_hex_replicate is_hex_lower_def is_digit_def)
  then show "required_text (PStr (replicate 64 (CHR ''5''))) f = Inr (replicate 64 (CHR ''5''))"
    by (intro required_text_fixed sha256_hex_trimmed sha256_hex_nonempty)
qed

lemma sample_intent_ok [command_simps]: "json_ok (PDict sample_intent)"
  using json_ok_identity [of sample_release] by (simp add: sample_intent_def)

text \<open>The decision with any intent.\<close>

lemma sample_decision_any:
  obtains c where "from_decision sample_args intent created now = Inr c"
    "ec_created_at c = (case created of None \<Rightarrow> now | Some t \<Rightarrow> if t = [] then now else t)"
    "ec_effective_date c = ''2026-07-30''" "ec_intent_json c = canonical_json intent"
    "ec_execution_mode c = ''paper''" "ec_platform c = ''schwab''" "ec_account_scope c = ''paper-1''"
    "ec_strategy_profile c = ''soxl''" "ec_decision_digest c = replicate 64 (CHR ''5'')"
  by (simp add: from_decision_def sample_args_def command_simps Let_def)

lemma sample_decision:
  obtains c where "from_decision sample_args sample_intent created now = Inr c"
    "ec_created_at c = (case created of None \<Rightarrow> now | Some t \<Rightarrow> if t = [] then now else t)"
    "ec_effective_date c = ''2026-07-30''" "ec_intent_json c = canonical_json sample_intent"
  by (rule sample_decision_any [of sample_intent created now]) (rule that)

section \<open>Properties\<close>

text \<open>C16: a command made from a decision survives its storage: the stored JSON text decodes to a
  dictionary from which \<open>from_dict\<close> rebuilds the very same command, id and creation time
  included, whatever the clock says at that later time.\<close>

theorem command_storage_roundtrip:
  assumes "from_decision args intent created_at now = Inr c"
    and "json_ok (PDict intent)" and "now \<noteq> []"
  shows "\<exists>d w. command_to_dict c = Inr d
    \<and> json_loads (json_dumps indent_style (PDict d)) = Some (PDict w)
    \<and> (\<forall>later. command_from_dict w later = Inr c)"
  using command_to_dict_json [OF from_decision_wf [OF assms] style_ok_styles(2)] by metis

theorem command_storage_roundtrip_witness:
  "\<exists>c d w. from_decision sample_args sample_intent None ''2026-07-29T20:00:00+00:00'' = Inr c
     \<and> command_to_dict c = Inr d \<and> json_loads (json_dumps indent_style (PDict d)) = Some (PDict w)
     \<and> command_from_dict w ''2026-07-30T13:00:00+00:00'' = Inr c"
proof -
  obtain c where "from_decision sample_args sample_intent None ''2026-07-29T20:00:00+00:00'' = Inr c"
    by (rule sample_decision)
  with command_storage_roundtrip [OF this sample_intent_ok] show ?thesis by blast
qed

lemma identity_json_ok: "json_ok (PDict (command_identity c))"
  by (simp add: command_identity_def)

lemma from_dict_id:
  "command_from_dict p now = Inr c \<Longrightarrow> ec_command_id c = command_id_of c"
  by (auto simp: command_from_dict_def from_decision_def res_simps Let_def command_id_of_def
      command_identity_def split: pyval.splits)

lemma identity_norm_inject:
  "json_norm (PDict (command_identity c)) = json_norm (PDict (command_identity c')) \<longleftrightarrow>
     command_identity c = command_identity c'"
proof
  assume n: "json_norm (PDict (command_identity c)) = json_norm (PDict (command_identity c'))"
  have k: "distinct (map fst (command_identity x))" for x
    using identity_json_ok [of x] by simp
  have "json_norm (dget (command_identity c) f) = json_norm (dget (command_identity c') f)" for f
    using n unfolding json_norm_dict pyval.inject by (metis dget_norm_sorted k)
  from this [of "''platform''"] this [of "''account_scope''"] this [of "''strategy_profile''"]
    this [of "''execution_mode''"] this [of "''signal_date''"] this [of "''effective_date''"]
    this [of "''execution_timing_contract''"] this [of "''decision_digest''"]
    this [of "''intent_json''"]
  show "command_identity c = command_identity c'"
    by (simp add: command_identity_def)
qed (simp only:)

text \<open>C17: a command id is an address of the content: if two payloads are accepted under the same
  id, then, unless their two canonical texts are a collision of the truncated SHA-256 digest,
  they hold the same command in every field but the creation time. A payload altered after its
  id was computed is therefore refused.\<close>

theorem command_id_binds_content:
  assumes "command_from_dict p now = Inr c" "command_from_dict p' now' = Inr c'"
    and "str_or_empty (dget p ''command_id'') = str_or_empty (dget p' ''command_id'')"
    and no_collision: "take 32 (sha256_hex (json_dumps (compact_style True) (PDict (command_identity c))))
        = take 32 (sha256_hex (json_dumps (compact_style True) (PDict (command_identity c'))))
      \<Longrightarrow> json_dumps (compact_style True) (PDict (command_identity c))
        = json_dumps (compact_style True) (PDict (command_identity c'))"
  shows "c' = c\<lparr>ec_created_at := ec_created_at c'\<rparr>"
proof -
  have "ec_command_id c = ec_command_id c'"
    using assms(1-3) by (auto simp: command_from_dict_def res_simps split: pyval.splits)
  then have "command_id_of c = command_id_of c'" and "ec_command_id c' = ec_command_id c"
    using assms(1,2) by (simp_all add: from_dict_id)
  then have "json_dumps (compact_style True) (PDict (command_identity c))
        = json_dumps (compact_style True) (PDict (command_identity c'))"
    by (intro no_collision) (simp add: command_id_of_def)
  then have "command_identity c = command_identity c'"
    using json_dumps_inject [OF identity_json_ok identity_json_ok style_ok_styles(1)]
      identity_norm_inject by blast
  with \<open>ec_command_id c' = ec_command_id c\<close> show ?thesis
    by (cases c; cases c') (simp add: command_identity_def)
qed

theorem command_id_binds_content_witness:
  "\<exists>p p' c c'. command_from_dict p [] = Inr c \<and> command_from_dict p' [] = Inr c'
     \<and> ec_created_at c = ''monday'' \<and> ec_created_at c' = ''tuesday''
     \<and> c' = c\<lparr>ec_created_at := ''tuesday''\<rparr>"
proof -
  obtain c where c: "from_decision sample_args sample_intent None ''monday'' = Inr c"
    "ec_created_at c = ''monday''" by (rule sample_decision [of None "''monday''"]) simp
  define c' where "c' = c\<lparr>ec_created_at := ''tuesday''\<rparr>"
  have wf: "wf_command c"
    by (rule from_decision_wf [OF c(1) sample_intent_ok]) simp
  then have wf': "wf_command c'"
    by (simp add: c'_def wf_command_def command_id_of_def command_identity_def)
  from command_to_dict_json [OF wf style_ok_styles(2)] obtain p where p: "command_from_dict p [] = Inr c"
    by metis
  from command_to_dict_json [OF wf' style_ok_styles(2)] obtain p' where p': "command_from_dict p' [] = Inr c'"
    by metis
  have "str_or_empty (dget p ''command_id'') = ec_command_id c"
    and "str_or_empty (dget p' ''command_id'') = ec_command_id c'"
    using p p' by (auto simp: command_from_dict_def res_simps split: pyval.splits)
  then have "str_or_empty (dget p ''command_id'') = str_or_empty (dget p' ''command_id'')"
    by (simp add: c'_def)
  from command_id_binds_content [OF p p' this] c(2) p p' show ?thesis
    by (auto simp: c'_def command_identity_def)
qed

end
