(* ===== verification/RuntimeCommandGate.thy ===== *)
theory RuntimeCommandGate
  imports PyEnum ExecutionCommands
begin

text \<open>
  The fail-closed policy in front of every broker operation, \<open>common/runtime_command_gate.py\<close>:
  its enumerations, the normalisation of integrity findings, the policy and the evaluation of
  one operation. The gate keeps no state; its result is a decision that is also written as a
  receipt.
\<close>

named_theorems gate_simps

section \<open>Vocabulary\<close>

datatype gate_mode = ACTIVE | REDUCING | HALTED

datatype gate_enforcement = OBSERVE | ENFORCE

datatype gate_action = QUERY | CANCEL | SUBMIT | MODIFY

datatype exposure_effect = REDUCES | NEUTRAL | INCREASES | EFFECT_UNKNOWN

fun mode_value :: "gate_mode \<Rightarrow> string" where
  "mode_value ACTIVE = ''active''"
| "mode_value REDUCING = ''reducing''"
| "mode_value HALTED = ''halted''"

fun enforcement_value :: "gate_enforcement \<Rightarrow> string" where
  "enforcement_value OBSERVE = ''observe''"
| "enforcement_value ENFORCE = ''enforce''"

fun action_value :: "gate_action \<Rightarrow> string" where
  "action_value QUERY = ''query''"
| "action_value CANCEL = ''cancel''"
| "action_value SUBMIT = ''submit''"
| "action_value MODIFY = ''modify''"

fun effect_value :: "exposure_effect \<Rightarrow> string" where
  "effect_value REDUCES = ''reduces''"
| "effect_value NEUTRAL = ''neutral''"
| "effect_value INCREASES = ''increases''"
| "effect_value EFFECT_UNKNOWN = ''unknown''"

datatype integrity_finding =
    ACCOUNT_IDENTITY_CONFIGURATION_INVALID
  | ACCOUNT_IDENTITY_EVIDENCE_UNAVAILABLE
  | ACCOUNT_IDENTITY_ID_MISMATCH
  | ACCOUNT_IDENTITY_MODE_MISMATCH
  | ACCOUNT_IDENTITY_PLATFORM_MISMATCH
  | ACCOUNT_IDENTITY_TYPE_MISMATCH
  | BROKER_OUTCOME_UNKNOWN
  | COMMAND_ACCOUNT_SCOPE_MISMATCH
  | COMMAND_BINDING_INVALID
  | COMMAND_DIGEST_MISMATCH
  | COMMAND_PLATFORM_MISMATCH
  | COMMAND_STRATEGY_PROFILE_MISMATCH
  | DATA_ARTIFACT_INVALID
  | DATA_STALE
  | DATA_UNAVAILABLE
  | DURABLE_EVENT_HISTORY_INVALID
  | EXECUTION_REPLAY_DETECTED
  | INVALID_EFFECTIVE_SESSION
  | MANUAL_KILL_SWITCH
  | PLUGIN_INVALID
  | POSITION_RECONCILIATION_MISMATCH
  | PAPER_EXECUTION_MODE_INVALID
  | PAPER_RISK_ADMISSION_COMMAND_MISMATCH
  | PAPER_RISK_ADMISSION_HALTED
  | PAPER_RISK_ADMISSION_POLICY_MISMATCH
  | PAPER_RISK_ADMISSION_RECEIPT_INVALID
  | PAPER_RISK_ADMISSION_RECEIPT_MISSING
  | PAPER_RISK_ADMISSION_RELEASE_MISMATCH
  | PAPER_RISK_ADMISSION_REDUCING_ONLY
  | RELEASE_IDENTITY_INVALID
  | RELEASE_IDENTITY_MISMATCH
  | RELEASE_RECEIPT_MISSING
  | SIGNAL_TIMING_INVALID
  | UNKNOWN_INTEGRITY_FINDING

primrec finding_value :: "integrity_finding \<Rightarrow> string" where
  "finding_value ACCOUNT_IDENTITY_CONFIGURATION_INVALID = ''account_identity_configuration_invalid''"
| "finding_value ACCOUNT_IDENTITY_EVIDENCE_UNAVAILABLE = ''account_identity_evidence_unavailable''"
| "finding_value ACCOUNT_IDENTITY_ID_MISMATCH = ''account_identity_id_mismatch''"
| "finding_value ACCOUNT_IDENTITY_MODE_MISMATCH = ''account_identity_mode_mismatch''"
| "finding_value ACCOUNT_IDENTITY_PLATFORM_MISMATCH = ''account_identity_platform_mismatch''"
| "finding_value ACCOUNT_IDENTITY_TYPE_MISMATCH = ''account_identity_type_mismatch''"
| "finding_value BROKER_OUTCOME_UNKNOWN = ''broker_outcome_unknown''"
| "finding_value COMMAND_ACCOUNT_SCOPE_MISMATCH = ''command_account_scope_mismatch''"
| "finding_value COMMAND_BINDING_INVALID = ''command_binding_invalid''"
| "finding_value COMMAND_DIGEST_MISMATCH = ''command_digest_mismatch''"
| "finding_value COMMAND_PLATFORM_MISMATCH = ''command_platform_mismatch''"
| "finding_value COMMAND_STRATEGY_PROFILE_MISMATCH = ''command_strategy_profile_mismatch''"
| "finding_value DATA_ARTIFACT_INVALID = ''data_artifact_invalid''"
| "finding_value DATA_STALE = ''data_stale''"
| "finding_value DATA_UNAVAILABLE = ''data_unavailable''"
| "finding_value DURABLE_EVENT_HISTORY_INVALID = ''durable_event_history_invalid''"
| "finding_value EXECUTION_REPLAY_DETECTED = ''execution_replay_detected''"
| "finding_value INVALID_EFFECTIVE_SESSION = ''invalid_effective_session''"
| "finding_value MANUAL_KILL_SWITCH = ''manual_kill_switch''"
| "finding_value PLUGIN_INVALID = ''plugin_invalid''"
| "finding_value POSITION_RECONCILIATION_MISMATCH = ''position_reconciliation_mismatch''"
| "finding_value PAPER_EXECUTION_MODE_INVALID = ''paper_execution_mode_invalid''"
| "finding_value PAPER_RISK_ADMISSION_COMMAND_MISMATCH = ''paper_risk_admission_command_mismatch''"
| "finding_value PAPER_RISK_ADMISSION_HALTED = ''paper_risk_admission_halted''"
| "finding_value PAPER_RISK_ADMISSION_POLICY_MISMATCH = ''paper_risk_admission_policy_mismatch''"
| "finding_value PAPER_RISK_ADMISSION_RECEIPT_INVALID = ''paper_risk_admission_receipt_invalid''"
| "finding_value PAPER_RISK_ADMISSION_RECEIPT_MISSING = ''paper_risk_admission_receipt_missing''"
| "finding_value PAPER_RISK_ADMISSION_RELEASE_MISMATCH = ''paper_risk_admission_release_mismatch''"
| "finding_value PAPER_RISK_ADMISSION_REDUCING_ONLY = ''paper_risk_admission_reducing_only''"
| "finding_value RELEASE_IDENTITY_INVALID = ''release_identity_invalid''"
| "finding_value RELEASE_IDENTITY_MISMATCH = ''release_identity_mismatch''"
| "finding_value RELEASE_RECEIPT_MISSING = ''release_receipt_missing''"
| "finding_value SIGNAL_TIMING_INVALID = ''signal_timing_invalid''"
| "finding_value UNKNOWN_INTEGRITY_FINDING = ''unknown_integrity_finding''"

fun mode_priority :: "gate_mode \<Rightarrow> nat" where
  "mode_priority ACTIVE = 0"
| "mode_priority REDUCING = 1"
| "mode_priority HALTED = 2"

definition halting_findings :: "string list" where
  "halting_findings = map finding_value
     [ACCOUNT_IDENTITY_CONFIGURATION_INVALID, ACCOUNT_IDENTITY_EVIDENCE_UNAVAILABLE,
      ACCOUNT_IDENTITY_ID_MISMATCH, ACCOUNT_IDENTITY_MODE_MISMATCH,
      ACCOUNT_IDENTITY_PLATFORM_MISMATCH, ACCOUNT_IDENTITY_TYPE_MISMATCH,
      BROKER_OUTCOME_UNKNOWN, COMMAND_ACCOUNT_SCOPE_MISMATCH, COMMAND_BINDING_INVALID,
      COMMAND_DIGEST_MISMATCH, COMMAND_PLATFORM_MISMATCH, COMMAND_STRATEGY_PROFILE_MISMATCH,
      DURABLE_EVENT_HISTORY_INVALID, EXECUTION_REPLAY_DETECTED, INVALID_EFFECTIVE_SESSION,
      MANUAL_KILL_SWITCH, PAPER_EXECUTION_MODE_INVALID, PAPER_RISK_ADMISSION_COMMAND_MISMATCH,
      PAPER_RISK_ADMISSION_HALTED, PAPER_RISK_ADMISSION_POLICY_MISMATCH,
      PAPER_RISK_ADMISSION_RECEIPT_INVALID, PAPER_RISK_ADMISSION_RECEIPT_MISSING,
      PAPER_RISK_ADMISSION_RELEASE_MISMATCH, PLUGIN_INVALID, POSITION_RECONCILIATION_MISMATCH,
      RELEASE_IDENTITY_INVALID, RELEASE_IDENTITY_MISMATCH, RELEASE_RECEIPT_MISSING,
      SIGNAL_TIMING_INVALID]"

definition reducing_findings :: "string list" where
  "reducing_findings = map finding_value
     [DATA_ARTIFACT_INVALID, DATA_UNAVAILABLE, DATA_STALE, PAPER_RISK_ADMISSION_REDUCING_ONLY]"

definition known_findings :: "string list" where
  "known_findings = halting_findings @ reducing_findings"

text \<open>The modes are ordered by how much they forbid.\<close>

instantiation gate_mode :: linorder
begin

definition less_eq_gate_mode :: "gate_mode \<Rightarrow> gate_mode \<Rightarrow> bool" where
  "less_eq_gate_mode m n \<longleftrightarrow> mode_priority m \<le> mode_priority n"

definition less_gate_mode :: "gate_mode \<Rightarrow> gate_mode \<Rightarrow> bool" where
  "less_gate_mode m n \<longleftrightarrow> mode_priority m < mode_priority n"

lemma mode_priority_inject [simp]: "mode_priority m = mode_priority n \<longleftrightarrow> m = n"
  by (cases m; cases n) simp_all

instance
  by standard (auto simp: less_eq_gate_mode_def less_gate_mode_def)

end

section \<open>Normalisation\<close>

text \<open>\<open>str(value or "").strip()[:10]\<close> read as a date.\<close>

definition normalize_date :: "pyval \<Rightarrow> string \<Rightarrow> string res" where
  "normalize_date v field_name =
     (case date_fromisoformat (take 10 (strip (str_or_empty v))) of
        Some d \<Rightarrow> Inr (date_isoformat d)
      | None \<Rightarrow> Inl (ValueError (field_name @ '' must start with an ISO date'')))"

definition raise_mode :: "gate_mode \<Rightarrow> gate_mode \<Rightarrow> gate_mode" where
  "raise_mode m candidate = (if mode_priority m < mode_priority candidate then candidate else m)"

text \<open>A finding is an enumeration member, given by its value, or any other value.\<close>

datatype finding_arg = FindingEnum pyval | FindingValue pyval

definition finding_text :: "finding_arg \<Rightarrow> string" where
  "finding_text f = lower (strip (case f of FindingEnum v \<Rightarrow> py_str v | FindingValue v \<Rightarrow> str_or_empty v))"

definition normalize_runtime_command_integrity_findings :: "finding_arg list \<Rightarrow> string list" where
  "normalize_runtime_command_integrity_findings fs = fold (\<lambda>f acc.
     let normalized = finding_text f in
     if normalized = [] then acc
     else append_new acc (if normalized \<in> set known_findings then normalized
            else finding_value UNKNOWN_INTEGRITY_FINDING)) fs []"

section \<open>Policy and decision\<close>

record gate_policy =
  gp_mode :: gate_mode
  gp_enforcement :: gate_enforcement
  gp_require_durable_command :: bool
  gp_require_due_session :: bool
  gp_require_release_attestation :: bool

definition default_gate_policy :: gate_policy where
  "default_gate_policy = \<lparr>gp_mode = ACTIVE, gp_enforcement = ENFORCE,
     gp_require_durable_command = True, gp_require_due_session = True,
     gp_require_release_attestation = True\<rparr>"

definition gate_policy_post_init ::
  "gate_mode enum_arg \<Rightarrow> gate_enforcement enum_arg \<Rightarrow> bool \<Rightarrow> bool \<Rightarrow> bool \<Rightarrow> gate_policy res" where
  "gate_policy_post_init mode enforcement durable due attested =
     bind_res (normalize_enum mode_value [ACTIVE, REDUCING, HALTED] mode ''mode'') (\<lambda>m.
     bind_res (normalize_enum enforcement_value [OBSERVE, ENFORCE] enforcement ''enforcement'') (\<lambda>e.
     Inr \<lparr>gp_mode = m, gp_enforcement = e, gp_require_durable_command = durable,
          gp_require_due_session = due, gp_require_release_attestation = attested\<rparr>))"

record gate_decision =
  gt_command_id :: "string option"
  gt_action :: gate_action
  gt_exposure_effect :: exposure_effect
  gt_mode :: gate_mode
  gt_enforcement :: gate_enforcement
  gt_policy_allows :: bool
  gt_reasons :: "string list"
  gt_release_id :: "string option"
  gt_effective_session :: "string option"
  gt_as_of_session :: "string option"

definition broker_write_allowed :: "gate_decision \<Rightarrow> bool" where
  "broker_write_allowed d = gt_policy_allows d"

definition would_block :: "gate_decision \<Rightarrow> bool" where
  "would_block d = (\<not> gt_policy_allows d)"

definition gate_to_receipt :: "gate_decision \<Rightarrow> pydict" where
  "gate_to_receipt d =
     [(''command_id'', opt_val (gt_command_id d)),
      (''action'', PStr (action_value (gt_action d))),
      (''exposure_effect'', PStr (effect_value (gt_exposure_effect d))),
      (''mode'', PStr (mode_value (gt_mode d))),
      (''enforcement'', PStr (enforcement_value (gt_enforcement d))),
      (''policy_allows'', PBool (gt_policy_allows d)),
      (''reasons'', PList (map PStr (gt_reasons d))),
      (''release_id'', opt_val (gt_release_id d)),
      (''effective_session'', opt_val (gt_effective_session d)),
      (''as_of_session'', opt_val (gt_as_of_session d)),
      (''schema_version'', PStr ''runtime_command_gate_receipt.v1''),
      (''broker_write_allowed'', PBool (broker_write_allowed d)),
      (''would_block'', PBool (would_block d))]"

section \<open>Evaluation\<close>

text \<open>The pair of the mode so far and the reasons so far; \<open>note_reason\<close> raises and appends.\<close>

definition note_reason :: "gate_mode \<Rightarrow> string \<Rightarrow> gate_mode \<times> string list \<Rightarrow> gate_mode \<times> string list" where
  "note_reason m reason acc = (raise_mode (fst acc) m, append_new (snd acc) reason)"

definition finding_mode :: "string \<Rightarrow> gate_mode" where
  "finding_mode f = (if f \<in> set halting_findings then HALTED
     else if f \<in> set reducing_findings then REDUCING else HALTED)"

definition note_findings :: "string list \<Rightarrow> gate_mode \<times> string list \<Rightarrow> gate_mode \<times> string list" where
  "note_findings fs acc = fold (\<lambda>f. note_reason (finding_mode f) f) fs acc"

definition is_write :: "gate_action \<Rightarrow> bool" where
  "is_write a \<longleftrightarrow> a = SUBMIT \<or> a = MODIFY"

text \<open>What the final classification allows, and its closing reasons.\<close>

definition classify_write :: "gate_mode \<Rightarrow> exposure_effect \<Rightarrow> bool" where
  "classify_write m effect = (if m = HALTED then False
     else if effect = EFFECT_UNKNOWN then False
     else if m = REDUCING then effect = REDUCES else True)"

text \<open>The session's date, None when absent or unreadable (the handler of \<open>except ValueError\<close>).\<close>

definition session_date :: "pyval \<Rightarrow> string option" where
  "session_date as_of = (if truthy as_of
     then (case normalize_date as_of ''as_of_session'' of Inr d \<Rightarrow> Some d | Inl _ \<Rightarrow> None)
     else None)"

definition evaluate_runtime_command_gate ::
  "gate_action enum_arg \<Rightarrow> exposure_effect enum_arg \<Rightarrow> command option
    \<Rightarrow> command_state enum_arg option \<Rightarrow> pyval \<Rightarrow> pyval \<Rightarrow> release_arg \<Rightarrow> finding_arg list
    \<Rightarrow> gate_policy \<Rightarrow> gate_decision res" where
  "evaluate_runtime_command_gate action effect cmd state as_of receipt expected findings policy =
     bind_res (normalize_enum action_value [QUERY, CANCEL, SUBMIT, MODIFY] action ''action'') (\<lambda>act.
     bind_res (normalize_enum effect_value [REDUCES, NEUTRAL, INCREASES, EFFECT_UNKNOWN] effect
         ''exposure_effect'') (\<lambda>eff.
     let s1 = note_findings (normalize_runtime_command_integrity_findings findings)
                (gp_mode policy, []) in
     bind_res (case state of None \<Rightarrow> Inr s1
        | Some a \<Rightarrow> map_res (\<lambda>st. if st = RECONCILIATION_REQUIRED
              then note_reason HALTED ''broker_outcome_unknown'' s1 else s1)
            (normalize_enum state_value all_states a ''command_state'')) (\<lambda>s2.
     let as_of_date = session_date as_of;
         s3 = (if truthy as_of \<and> as_of_date = None
               then note_reason HALTED ''invalid_effective_session'' s2 else s2);
         s4 = (if is_write act \<and> gp_require_durable_command policy \<and> cmd = None
               then note_reason HALTED ''durable_command_missing'' s3 else s3)
     in
     bind_res (if is_write act \<and> gp_require_due_session policy
        then (case (cmd, as_of_date) of
            (Some c, Some d) \<Rightarrow> is_due_on c (PStr d)
          | _ \<Rightarrow> Inr False)
        else Inr True) (\<lambda>due.
     let s5 = (if due then s4 else note_reason HALTED ''signal_timing_invalid'' s4);
         release = validate_runtime_loaded_receipt receipt expected
            (gp_require_release_attestation policy \<and> is_write act);
         s6 = fold (note_reason HALTED) (sv_findings release) s5;
         mode = fst s6;
         allows = (if is_write act then classify_write mode eff else True);
         r7 = (if is_write act \<and> eff = EFFECT_UNKNOWN
               then append_new (snd s6) ''exposure_effect_unknown'' else snd s6);
         r8 = (if is_write act \<and> \<not> allows \<and> mode = REDUCING
               then append_new r7 ''reducing_mode_requires_exposure_reduction'' else r7)
     in Inr \<lparr>gt_command_id = map_option ec_command_id cmd, gt_action = act,
          gt_exposure_effect = eff, gt_mode = mode, gt_enforcement = gp_enforcement policy,
          gt_policy_allows = allows, gt_reasons = r8, gt_release_id = sv_release_id release,
          gt_effective_session = map_option ec_effective_date cmd,
          gt_as_of_session = as_of_date\<rparr>))))"

section \<open>Facts of the evaluation\<close>

lemma raise_mode_max [gate_simps]: "raise_mode m n = max m n"
  by (auto simp: raise_mode_def max_def less_eq_gate_mode_def)

lemma max_mode_iff [gate_simps]:
  "max m n = HALTED \<longleftrightarrow> m = HALTED \<or> n = HALTED"
  "max m n = ACTIVE \<longleftrightarrow> m = ACTIVE \<and> n = ACTIVE"
  by (cases m; cases n; simp add: max_def less_eq_gate_mode_def)+

lemma max_top: "max m HALTED = HALTED" "max HALTED m = HALTED"
  by (cases m; simp add: max_def less_eq_gate_mode_def)+

lemma note_reason_fst [gate_simps]: "fst (note_reason m r acc) = max (fst acc) m"
  by (simp add: note_reason_def raise_mode_max)

lemma note_if_fst [gate_simps]:
  "fst (if b then note_reason m r acc else acc) = (if b then max (fst acc) m else fst acc)"
  by (simp add: note_reason_fst)

lemma note_reason_snd [gate_simps]: "set (snd (note_reason m r acc)) = insert r (set (snd acc))"
  by (simp add: note_reason_def)

lemma note_findings_fst [gate_simps]:
  "fst (note_findings fs acc) = HALTED \<longleftrightarrow> fst acc = HALTED \<or> (\<exists>f \<in> set fs. finding_mode f = HALTED)"
  "fst (note_findings fs acc) = ACTIVE \<longleftrightarrow> fst acc = ACTIVE \<and> (\<forall>f \<in> set fs. finding_mode f = ACTIVE)"
  by (induction fs arbitrary: acc) (auto simp: note_findings_def gate_simps)

lemma fold_note_fst [gate_simps]:
  "fst (fold (note_reason m) rs acc) = (if rs = [] then fst acc else max (fst acc) m)"
  by (induction rs arbitrary: acc) (auto simp: gate_simps)

lemma finding_mode_cases [gate_simps]:
  "finding_mode f \<noteq> ACTIVE"
  "finding_mode f = HALTED \<longleftrightarrow> \<not> (f \<in> set reducing_findings \<and> f \<notin> set halting_findings)"
  by (auto simp: finding_mode_def)

lemma halting_not_reducing: "set halting_findings \<inter> set reducing_findings = {}"
  unfolding halting_findings_def reducing_findings_def by simp

lemma unknown_finding_not_known: "finding_value UNKNOWN_INTEGRITY_FINDING \<notin> set known_findings"
  unfolding known_findings_def halting_findings_def reducing_findings_def by simp

definition safe_finding :: "finding_arg \<Rightarrow> string" where
  "safe_finding f = (if finding_text f \<in> set known_findings then finding_text f
     else finding_value UNKNOWN_INTEGRITY_FINDING)"

lemma normalize_findings_fold:
  "fold (\<lambda>f acc. let normalized = finding_text f in
     if normalized = [] then acc
     else append_new acc (if normalized \<in> set known_findings then normalized
            else finding_value UNKNOWN_INTEGRITY_FINDING)) fs acc
   = fold (\<lambda>f acc. append_new acc (safe_finding f)) (filter (\<lambda>f. finding_text f \<noteq> []) fs) acc"
  by (induction fs arbitrary: acc) (auto simp: safe_finding_def Let_def)

lemma set_normalize_findings [gate_simps]:
  "set (normalize_runtime_command_integrity_findings fs)
     = safe_finding ` {f \<in> set fs. finding_text f \<noteq> []}"
  by (simp add: normalize_runtime_command_integrity_findings_def normalize_findings_fold
      fold_append_new_set)

lemma fold_append_new_distinct:
  "distinct acc \<Longrightarrow> distinct (fold (\<lambda>x acc. append_new acc (f x)) xs acc)"
  by (induction xs arbitrary: acc) simp_all

lemma fold_append_new_dedup:
  "fold (\<lambda>x acc. append_new acc (f x)) xs acc = acc @ dedup_from acc (map f xs)"
proof (induction xs arbitrary: acc)
  case (Cons x xs)
  have cong: "set s = set t \<Longrightarrow> dedup_from s ys = dedup_from t ys" for s t ys
  proof (induction ys arbitrary: s t)
    case (Cons y ys)
    have "dedup_from (y # s) ys = dedup_from (y # t) ys"
      by (rule Cons.IH) (simp add: Cons.prems)
    with Cons.IH [OF Cons.prems] Cons.prems show ?case by simp
  qed simp
  show ?case
  proof (cases "f x \<in> set acc")
    case False
    have "dedup_from (acc @ [f x]) (map f xs) = dedup_from (f x # acc) (map f xs)"
      by (rule cong) simp
    with False Cons.IH [of "acc @ [f x]"] show ?thesis by (simp add: append_new_def)
  qed (use Cons.IH [of acc] in \<open>simp add: append_new_def\<close>)
qed simp

lemma sv_findings_iff: "sv_findings v = [] \<longleftrightarrow> sv_is_valid v"
  by (simp add: sv_is_valid_def)

text \<open>The writes the mode and the effect permit.\<close>

lemma classify_write_iff [gate_simps]:
  "classify_write m eff \<longleftrightarrow> m \<noteq> HALTED \<and> eff \<noteq> EFFECT_UNKNOWN \<and> (m = ACTIVE \<or> eff = REDUCES)"
  by (cases m) (auto simp: classify_write_def)

text \<open>The mode a write is judged under.\<close>

lemma gate_mode_eq:
  assumes "evaluate_runtime_command_gate (EnumMember act) (EnumMember eff) cmd state as_of receipt
      expected findings policy = Inr d"
  shows "gt_policy_allows d = (is_write act \<longrightarrow> classify_write (gt_mode d) eff)"
    "gt_mode d = HALTED \<longleftrightarrow> gp_mode policy = HALTED
       \<or> (\<exists>f \<in> set (normalize_runtime_command_integrity_findings findings). finding_mode f = HALTED)
       \<or> (\<exists>a. state = Some a \<and> normalize_enum state_value all_states a ''command_state''
            = Inr RECONCILIATION_REQUIRED)
       \<or> (truthy as_of \<and> session_date as_of = None)
       \<or> (is_write act \<and> gp_require_durable_command policy \<and> cmd = None)
       \<or> (is_write act \<and> gp_require_due_session policy \<and> \<not> (\<exists>c day. cmd = Some c
            \<and> session_date as_of = Some day \<and> is_due_on c (PStr day) = Inr True))
       \<or> \<not> sv_is_valid (validate_runtime_loaded_receipt receipt expected
            (gp_require_release_attestation policy \<and> is_write act))"
    "gt_mode d = ACTIVE \<Longrightarrow> gp_mode policy = ACTIVE
       \<and> normalize_runtime_command_integrity_findings findings = []"
    "gp_mode policy = ACTIVE \<Longrightarrow> normalize_runtime_command_integrity_findings findings = []
       \<Longrightarrow> gt_mode d \<noteq> REDUCING"
proof -
  let ?s1 = "note_findings (normalize_runtime_command_integrity_findings findings) (gp_mode policy, [])"
  from assms obtain s2 due where
    s2: "(case state of None \<Rightarrow> Inr ?s1
        | Some a \<Rightarrow> map_res (\<lambda>st. if st = RECONCILIATION_REQUIRED
              then note_reason HALTED ''broker_outcome_unknown'' ?s1 else ?s1)
            (normalize_enum state_value all_states a ''command_state'')) = Inr s2"
    and due: "(if is_write act \<and> gp_require_due_session policy
        then (case (cmd, session_date as_of) of
            (Some c, Some d) \<Rightarrow> is_due_on c (PStr d)
          | _ \<Rightarrow> Inr False)
        else Inr True) = Inr due"
    and d: "Inr d = (let s3 = (if truthy as_of \<and> session_date as_of = None
               then note_reason HALTED ''invalid_effective_session'' s2 else s2);
         s4 = (if is_write act \<and> gp_require_durable_command policy \<and> cmd = None
               then note_reason HALTED ''durable_command_missing'' s3 else s3);
         s5 = (if due then s4 else note_reason HALTED ''signal_timing_invalid'' s4);
         release = validate_runtime_loaded_receipt receipt expected
            (gp_require_release_attestation policy \<and> is_write act);
         s6 = fold (note_reason HALTED) (sv_findings release) s5;
         mode = fst s6;
         allows = (if is_write act then classify_write mode eff else True);
         r7 = (if is_write act \<and> eff = EFFECT_UNKNOWN
               then append_new (snd s6) ''exposure_effect_unknown'' else snd s6);
         r8 = (if is_write act \<and> \<not> allows \<and> mode = REDUCING
               then append_new r7 ''reducing_mode_requires_exposure_reduction'' else r7)
     in Inr \<lparr>gt_command_id = map_option ec_command_id cmd, gt_action = act,
          gt_exposure_effect = eff, gt_mode = mode, gt_enforcement = gp_enforcement policy,
          gt_policy_allows = allows, gt_reasons = r8, gt_release_id = sv_release_id release,
          gt_effective_session = map_option ec_effective_date cmd,
          gt_as_of_session = session_date as_of\<rparr> :: gate_decision res)"
    unfolding evaluate_runtime_command_gate_def Let_def normalize_enum_member bind_res_simps
      bind_res_Inr_iff by metis
  show "gt_policy_allows d = (is_write act \<longrightarrow> classify_write (gt_mode d) eff)"
    using d by (simp add: Let_def)
  define v where "v = validate_runtime_loaded_receipt receipt expected
            (gp_require_release_attestation policy \<and> is_write act)"
  have mode: "gt_mode d = HALTED \<longleftrightarrow> fst s2 = HALTED \<or> (truthy as_of \<and> session_date as_of = None)
       \<or> (is_write act \<and> gp_require_durable_command policy \<and> cmd = None) \<or> \<not> due \<or> \<not> sv_is_valid v"
    "gt_mode d = ACTIVE \<Longrightarrow> fst s2 = ACTIVE"
    "gt_mode d = REDUCING \<Longrightarrow> fst s2 = REDUCING"
  proof -
    have "gt_mode d = fst (fold (note_reason HALTED) (sv_findings v)
        (let s3 = (if truthy as_of \<and> session_date as_of = None
               then note_reason HALTED ''invalid_effective_session'' s2 else s2);
         s4 = (if is_write act \<and> gp_require_durable_command policy \<and> cmd = None
               then note_reason HALTED ''durable_command_missing'' s3 else s3)
         in if due then s4 else note_reason HALTED ''signal_timing_invalid'' s4))"
      using d by (simp add: Let_def v_def)
    then have "gt_mode d = (if fst s2 = HALTED \<or> (truthy as_of \<and> session_date as_of = None)
       \<or> (is_write act \<and> gp_require_durable_command policy \<and> cmd = None) \<or> \<not> due \<or> \<not> sv_is_valid v
       then HALTED else fst s2)"
      by (auto simp: note_if_fst note_reason_fst fold_note_fst sv_findings_iff Let_def max_top)
    then show "gt_mode d = HALTED \<longleftrightarrow> fst s2 = HALTED \<or> (truthy as_of \<and> session_date as_of = None)
       \<or> (is_write act \<and> gp_require_durable_command policy \<and> cmd = None) \<or> \<not> due \<or> \<not> sv_is_valid v"
      "gt_mode d = ACTIVE \<Longrightarrow> fst s2 = ACTIVE" "gt_mode d = REDUCING \<Longrightarrow> fst s2 = REDUCING"
      by (auto split: if_splits)
  qed
  have s2_mode: "fst s2 = HALTED \<longleftrightarrow> fst ?s1 = HALTED \<or> (\<exists>a. state = Some a
      \<and> normalize_enum state_value all_states a ''command_state'' = Inr RECONCILIATION_REQUIRED)"
    "fst s2 = ACTIVE \<Longrightarrow> fst ?s1 = ACTIVE" "fst s2 = REDUCING \<Longrightarrow> fst ?s1 = REDUCING"
  proof -
    have "fst s2 = (if \<exists>a. state = Some a
        \<and> normalize_enum state_value all_states a ''command_state'' = Inr RECONCILIATION_REQUIRED
        then HALTED else fst ?s1)"
    proof (cases state)
      case (Some a)
      with s2 obtain x where "normalize_enum state_value all_states a ''command_state'' = Inr x"
        "s2 = (if x = RECONCILIATION_REQUIRED
           then note_reason HALTED ''broker_outcome_unknown'' ?s1 else ?s1)"
        by (auto simp: map_res_Inr_iff)
      with Some show ?thesis by (simp add: note_reason_fst max_top)
    qed (use s2 in simp)
    then show "fst s2 = HALTED \<longleftrightarrow> fst ?s1 = HALTED \<or> (\<exists>a. state = Some a
      \<and> normalize_enum state_value all_states a ''command_state'' = Inr RECONCILIATION_REQUIRED)"
      "fst s2 = ACTIVE \<Longrightarrow> fst ?s1 = ACTIVE" "fst s2 = REDUCING \<Longrightarrow> fst ?s1 = REDUCING"
      by (auto split: if_splits)
  qed
  have due_eq: "\<not> due \<longleftrightarrow> is_write act \<and> gp_require_due_session policy \<and> \<not> (\<exists>c day. cmd = Some c
            \<and> session_date as_of = Some day \<and> is_due_on c (PStr day) = Inr True)"
    using due by (auto split: option.splits if_splits)
  show "gt_mode d = HALTED \<longleftrightarrow> gp_mode policy = HALTED
       \<or> (\<exists>f \<in> set (normalize_runtime_command_integrity_findings findings). finding_mode f = HALTED)
       \<or> (\<exists>a. state = Some a \<and> normalize_enum state_value all_states a ''command_state''
            = Inr RECONCILIATION_REQUIRED)
       \<or> (truthy as_of \<and> session_date as_of = None)
       \<or> (is_write act \<and> gp_require_durable_command policy \<and> cmd = None)
       \<or> (is_write act \<and> gp_require_due_session policy \<and> \<not> (\<exists>c day. cmd = Some c
            \<and> session_date as_of = Some day \<and> is_due_on c (PStr day) = Inr True))
       \<or> \<not> sv_is_valid (validate_runtime_loaded_receipt receipt expected
            (gp_require_release_attestation policy \<and> is_write act))"
    unfolding mode(1) s2_mode(1) due_eq v_def note_findings_fst(1) fst_conv by blast
  show "gp_mode policy = ACTIVE \<and> normalize_runtime_command_integrity_findings findings = []"
    if "gt_mode d = ACTIVE"
    using s2_mode(2) [OF mode(2) [OF that]] finding_mode_cases(1)
    by (simp add: note_findings_fst(2))
  show "gt_mode d \<noteq> REDUCING"
    if "gp_mode policy = ACTIVE" "normalize_runtime_command_integrity_findings findings = []"
    using s2_mode(3) [OF mode(3)] that by (auto simp: note_findings_def)
qed

lemma json_ok_receipt [simp]: "json_ok (PDict (gate_to_receipt d))"
  by (simp add: gate_to_receipt_def opt_val_def list_all_iff split: option.split)

lemma dget_receipt_allows [simp]: "dget (gate_to_receipt d) ''policy_allows'' = PBool (gt_policy_allows d)"
  by (simp add: gate_to_receipt_def)

text \<open>With arguments that are members and a receipt, nothing in the evaluation can raise.\<close>

lemma is_due_on_day:
  "session_date as_of = Some dt \<Longrightarrow> \<exists>b. is_due_on c (PStr dt) = Inr b"
proof -
  assume "session_date as_of = Some dt"
  then have "session_text dt"
    by (auto simp: session_date_def normalize_date_def session_text_def date_fromisoformat_isoformat
        date_fromisoformat_valid split: if_splits sum.splits option.splits)
  then show ?thesis by (simp add: is_due_on_def iso_date_fixed)
qed

lemma gate_total:
  assumes "\<And>a. state = Some a \<Longrightarrow> \<exists>s. normalize_enum state_value all_states a ''command_state'' = Inr s"
  obtains d where "evaluate_runtime_command_gate (EnumMember act) (EnumMember eff) cmd state as_of
      receipt expected findings policy = Inr d"
proof -
  let ?due = "if is_write act \<and> gp_require_due_session policy
        then (case (cmd, session_date as_of) of (Some c, Some d) \<Rightarrow> is_due_on c (PStr d)
          | _ \<Rightarrow> Inr False) else Inr True"
  have "\<exists>b. ?due = Inr b"
    using is_due_on_day [of as_of] by (auto split: option.splits)
  then obtain b where b: "?due = Inr b" ..
  let ?s1 = "note_findings (normalize_runtime_command_integrity_findings findings) (gp_mode policy, [])"
  have "\<exists>s2. (case state of None \<Rightarrow> Inr ?s1
        | Some a \<Rightarrow> map_res (\<lambda>st. if st = RECONCILIATION_REQUIRED
              then note_reason HALTED ''broker_outcome_unknown'' ?s1 else ?s1)
            (normalize_enum state_value all_states a ''command_state'')) = Inr s2"
  proof (cases state)
    case (Some a)
    with assms obtain s where "normalize_enum state_value all_states a ''command_state'' = Inr s" by blast
    then show ?thesis
      unfolding Some option.case by (simp only: map_res_simps) (rule exI, rule refl)
  qed simp
  then obtain s2 where "(case state of None \<Rightarrow> Inr ?s1
        | Some a \<Rightarrow> map_res (\<lambda>st. if st = RECONCILIATION_REQUIRED
              then note_reason HALTED ''broker_outcome_unknown'' ?s1 else ?s1)
            (normalize_enum state_value all_states a ''command_state'')) = Inr s2" ..
  with b that show ?thesis
    unfolding evaluate_runtime_command_gate_def Let_def normalize_enum_member bind_res_simps by simp
qed

lemma normalize_date_fixed:
  "session_text s \<Longrightarrow> normalize_date (PStr s) f = Inr s"
  using session_text_trimmed [of s] session_text_length [of s] date_isoformat_fromisoformat [of s]
  by (auto simp: normalize_date_def session_text_def)

text \<open>The receipt of a runtime that loaded the sample release.\<close>

definition sample_receipt :: pydict where
  "sample_receipt = [(''attestation_state'', PStr ''self_attested''),
     (''release_id'', PStr (ri_release_id sample_release)),
     (''strategy_release'', PDict (identity_to_dict sample_release))]"

text \<open>When a write passes under the default policy.\<close>

lemma gate_allows_iff:
  assumes "evaluate_runtime_command_gate (EnumMember act) (EnumMember eff) cmd state as_of receipt
      expected findings default_gate_policy = Inr d"
    and "is_write act"
  shows "gt_policy_allows d \<longleftrightarrow>
      (\<forall>f \<in> set (normalize_runtime_command_integrity_findings findings). f \<in> set reducing_findings)
    \<and> (\<forall>a. state = Some a \<longrightarrow> normalize_enum state_value all_states a ''command_state''
          \<noteq> Inr RECONCILIATION_REQUIRED)
    \<and> (\<exists>c day. cmd = Some c \<and> truthy as_of \<and> normalize_date as_of ''as_of_session'' = Inr day
          \<and> is_due_on c (PStr day) = Inr True)
    \<and> sv_is_valid (validate_runtime_loaded_receipt receipt expected True)
    \<and> eff \<noteq> EFFECT_UNKNOWN
    \<and> (normalize_runtime_command_integrity_findings findings = [] \<or> eff = REDUCES)"
proof -
  note m = gate_mode_eq [OF assms(1)]
  let ?fs = "normalize_runtime_command_integrity_findings findings"
  have all: "(\<exists>f \<in> set ?fs. finding_mode f = HALTED) \<longleftrightarrow> \<not> (\<forall>f \<in> set ?fs. f \<in> set reducing_findings)"
    using halting_not_reducing by (auto simp: finding_mode_cases(2))
  have day: "session_date as_of = Some day \<longleftrightarrow>
      truthy as_of \<and> normalize_date as_of ''as_of_session'' = Inr day" for day
    by (auto simp: session_date_def split: sum.splits)
  have pol: "gp_mode default_gate_policy = ACTIVE" "gp_require_due_session default_gate_policy"
    "gp_require_durable_command default_gate_policy"
    "gp_require_release_attestation default_gate_policy"
    by (simp_all add: default_gate_policy_def)
  have act: "gt_mode d \<noteq> HALTED \<Longrightarrow> gt_mode d = ACTIVE \<longleftrightarrow> ?fs = []"
    using m(3,4) pol(1) by (cases "gt_mode d") auto
  have halted: "gt_mode d = HALTED \<longleftrightarrow> \<not> ((\<forall>f \<in> set ?fs. f \<in> set reducing_findings)
    \<and> (\<forall>a. state = Some a \<longrightarrow> normalize_enum state_value all_states a ''command_state''
          \<noteq> Inr RECONCILIATION_REQUIRED)
    \<and> (\<exists>c day. cmd = Some c \<and> truthy as_of \<and> normalize_date as_of ''as_of_session'' = Inr day
          \<and> is_due_on c (PStr day) = Inr True)
    \<and> sv_is_valid (validate_runtime_loaded_receipt receipt expected True))"
    unfolding m(2) all using assms(2) pol by (auto simp: day dest: day [THEN iffD2, OF conjI])
  show ?thesis
    using m(1) assms(2) halted act by (auto simp: classify_write_iff)
qed

text \<open>The gate of the sample command on its day.\<close>

lemma sample_gate:
  assumes "evaluate_runtime_command_gate (EnumMember SUBMIT) (EnumMember eff) (Some c)
        (Some (EnumMember CLAIMED)) (PStr ''2026-07-30'') (PDict sample_receipt)
        (RelIdentity sample_release) findings default_gate_policy = Inr d"
    and "ec_effective_date c = ''2026-07-30''"
  shows "gt_policy_allows d \<longleftrightarrow> eff \<noteq> EFFECT_UNKNOWN
    \<and> (\<forall>f \<in> set (normalize_runtime_command_integrity_findings findings). f \<in> set reducing_findings)
    \<and> (normalize_runtime_command_integrity_findings findings = [] \<or> eff = REDUCES)"
proof -
  have "sv_is_valid (validate_runtime_loaded_receipt (PDict sample_receipt) (RelIdentity sample_release) True)"
    by (subst receipt_valid_iff [OF _ _ _ build_identity_to_dict [OF sample_release_normal]])
      (simp_all add: sample_receipt_def)
  moreover have "normalize_date (PStr ''2026-07-30'') ''as_of_session'' = Inr ''2026-07-30''"
    "is_due_on c (PStr ''2026-07-30'') = Inr True"
    by (simp_all add: normalize_date_fixed is_due_on_def command_simps assms(2))
  ultimately show ?thesis
    using gate_allows_iff [OF assms(1)] by (auto simp: is_write_def)
qed

section \<open>Properties\<close>

text \<open>C19: under the default policy the gate allows a broker write exactly when every integrity
  finding is a reducing one, the command is not awaiting reconciliation, a durable command is
  present and due on the session, the runtime's receipt attests the expected release, and the
  reconciled exposure effect is known, and reduces exposure if any finding was reported.\<close>

theorem gate_allows_write_iff:
  assumes "evaluate_runtime_command_gate (EnumMember act) (EnumMember eff) cmd state as_of receipt
      expected findings default_gate_policy = Inr d"
    and "is_write act"
  shows "gt_policy_allows d \<longleftrightarrow>
      (\<forall>f \<in> set (normalize_runtime_command_integrity_findings findings). f \<in> set reducing_findings)
    \<and> (\<forall>a. state = Some a \<longrightarrow> normalize_enum state_value all_states a ''command_state''
          \<noteq> Inr RECONCILIATION_REQUIRED)
    \<and> (\<exists>c day. cmd = Some c \<and> truthy as_of \<and> normalize_date as_of ''as_of_session'' = Inr day
          \<and> is_due_on c (PStr day) = Inr True)
    \<and> sv_is_valid (validate_runtime_loaded_receipt receipt expected True)
    \<and> eff \<noteq> EFFECT_UNKNOWN
    \<and> (normalize_runtime_command_integrity_findings findings = [] \<or> eff = REDUCES)"
  using assms by (rule gate_allows_iff)

theorem gate_allows_write_witness:
  "\<exists>c d. from_decision sample_args sample_intent None ''t'' = Inr c
     \<and> evaluate_runtime_command_gate (EnumMember SUBMIT) (EnumMember INCREASES) (Some c)
        (Some (EnumMember CLAIMED)) (PStr ''2026-07-30'') (PDict sample_receipt)
        (RelIdentity sample_release) [] default_gate_policy = Inr d
     \<and> gt_policy_allows d"
proof -
  obtain c where c: "from_decision sample_args sample_intent None ''t'' = Inr c"
    "ec_effective_date c = ''2026-07-30''" by (rule sample_decision)
  obtain d where d: "evaluate_runtime_command_gate (EnumMember SUBMIT) (EnumMember INCREASES) (Some c)
        (Some (EnumMember CLAIMED)) (PStr ''2026-07-30'') (PDict sample_receipt)
        (RelIdentity sample_release) [] default_gate_policy = Inr d"
    by (rule gate_total [of "Some (EnumMember CLAIMED)"]) auto
  have "sv_is_valid (validate_runtime_loaded_receipt (PDict sample_receipt) (RelIdentity sample_release) True)"
    by (subst receipt_valid_iff [OF _ _ _ build_identity_to_dict [OF sample_release_normal]])
      (simp_all add: sample_receipt_def)
  moreover have "normalize_date (PStr ''2026-07-30'') ''as_of_session'' = Inr ''2026-07-30''"
    "is_due_on c (PStr ''2026-07-30'') = Inr True"
    by (simp_all add: normalize_date_fixed is_due_on_def command_simps c)
  moreover have "normalize_runtime_command_integrity_findings [] = []"
    by (simp add: normalize_runtime_command_integrity_findings_def)
  ultimately have "gt_policy_allows d"
    using gate_allows_write_iff [OF d] by (simp add: is_write_def)
  with c d show ?thesis by blast
qed

text \<open>Reporting more integrity findings never opens the gate: an operation that is allowed with
  a list of findings is allowed with every part of it, under every policy and with all other
  facts equal.\<close>

theorem gate_more_findings_never_allow:
  assumes "evaluate_runtime_command_gate (EnumMember act) (EnumMember eff) cmd state as_of receipt
      expected others policy = Inr d'"
    and "evaluate_runtime_command_gate (EnumMember act) (EnumMember eff) cmd state as_of receipt
      expected findings policy = Inr d"
    and "set findings \<subseteq> set others" "gt_policy_allows d'"
  shows "gt_policy_allows d"
proof (cases "is_write act")
  case True
  note m' = gate_mode_eq [OF assms(1)] and m = gate_mode_eq [OF assms(2)]
  have sub: "set (normalize_runtime_command_integrity_findings findings)
      \<subseteq> set (normalize_runtime_command_integrity_findings others)"
    unfolding set_normalize_findings using assms(3) by auto
  have c: "classify_write (gt_mode d') eff" using m'(1) True assms(4) by simp
  then have "gt_mode d' \<noteq> HALTED" by (simp add: classify_write_iff)
  then have h: "gt_mode d \<noteq> HALTED" unfolding m(2) m'(2) using sub by blast
  have "gt_mode d = ACTIVE" if "gt_mode d' = ACTIVE"
    using m'(3) [OF that] sub m(4) h by (cases "gt_mode d") auto
  with c h m(1) True show ?thesis by (auto simp: classify_write_iff)
qed (use gate_mode_eq(1) [OF assms(2)] in simp)

theorem gate_more_findings_never_allow_witness:
  "\<exists>d d'. evaluate_runtime_command_gate (EnumMember SUBMIT) (EnumMember REDUCES) None None PNone PNone
        (RelValue PNone) [FindingValue (PStr ''data_stale''), FindingValue (PStr ''DATA_STALE '')]
        \<lparr>gp_mode = ACTIVE, gp_enforcement = ENFORCE, gp_require_durable_command = False,
         gp_require_due_session = False, gp_require_release_attestation = False\<rparr> = Inr d'
     \<and> gt_policy_allows d' \<and> gt_mode d' = REDUCING
     \<and> evaluate_runtime_command_gate (EnumMember SUBMIT) (EnumMember REDUCES) None None PNone PNone
        (RelValue PNone) []
        \<lparr>gp_mode = ACTIVE, gp_enforcement = ENFORCE, gp_require_durable_command = False,
         gp_require_due_session = False, gp_require_release_attestation = False\<rparr> = Inr d
     \<and> gt_policy_allows d"
proof -
  let ?p = "\<lparr>gp_mode = ACTIVE, gp_enforcement = ENFORCE, gp_require_durable_command = False,
         gp_require_due_session = False, gp_require_release_attestation = False\<rparr>"
  let ?fs = "[FindingValue (PStr ''data_stale''), FindingValue (PStr ''DATA_STALE '')]"
  obtain d' where d': "evaluate_runtime_command_gate (EnumMember SUBMIT) (EnumMember REDUCES) None None
      PNone PNone (RelValue PNone) ?fs ?p = Inr d'" by (rule gate_total) auto
  obtain d where d: "evaluate_runtime_command_gate (EnumMember SUBMIT) (EnumMember REDUCES) None None
      PNone PNone (RelValue PNone) [] ?p = Inr d" by (rule gate_total) auto
  have t: "finding_text (FindingValue (PStr ''data_stale'')) = ''data_stale''"
    "finding_text (FindingValue (PStr ''DATA_STALE '')) = ''data_stale''" by code_simp+
  have r: "''data_stale'' \<in> set reducing_findings" by (simp add: reducing_findings_def)
  then have n: "normalize_runtime_command_integrity_findings ?fs = [''data_stale'']"
    by (simp add: normalize_runtime_command_integrity_findings_def t append_new_def known_findings_def)
  have "gt_mode d' = REDUCING"
  proof (cases "gt_mode d'")
    case HALTED
    have "finding_mode ''data_stale'' \<noteq> HALTED"
      using r halting_not_reducing by (auto simp: finding_mode_cases(2))
    then show ?thesis
      using HALTED gate_mode_eq(2) [OF d']
      by (simp add: n session_date_def validate_runtime_loaded_receipt_def)
  qed (use gate_mode_eq(3) [OF d'] n in auto)
  then have "gt_policy_allows d'" using gate_mode_eq(1) [OF d'] by (simp add: classify_write_iff)
  with gate_more_findings_never_allow [OF d' d] d d' \<open>gt_mode d' = REDUCING\<close> show ?thesis by simp
qed

text \<open>The normalisation of integrity findings is the reference: drop the empty ones, replace
  every text that is not a known code by the one opaque code, keep first occurrences. So a
  result never repeats and never contains a text that is not a stable code, whatever the
  reporter wrote.\<close>

theorem normalize_findings_reference:
  "normalize_runtime_command_integrity_findings fs
     = dedup (map safe_finding (filter (\<lambda>f. finding_text f \<noteq> []) fs))
   \<and> distinct (normalize_runtime_command_integrity_findings fs)
   \<and> set (normalize_runtime_command_integrity_findings fs)
       \<subseteq> insert ''unknown_integrity_finding'' (set known_findings)"
proof (intro conjI)
  show e: "normalize_runtime_command_integrity_findings fs
     = dedup (map safe_finding (filter (\<lambda>f. finding_text f \<noteq> []) fs))"
    by (simp add: normalize_runtime_command_integrity_findings_def normalize_findings_fold
        fold_append_new_dedup dedup_def)
  show "distinct (normalize_runtime_command_integrity_findings fs)"
    by (simp add: e)
  show "set (normalize_runtime_command_integrity_findings fs)
       \<subseteq> insert ''unknown_integrity_finding'' (set known_findings)"
    by (auto simp: e safe_finding_def)
qed

end
