(* ===== verification/PaperAdmission.thy ===== *)
theory PaperAdmission
  imports RuntimeCommandGate
begin

text \<open>
  Admission of paper commands, \<open>common/paper_execution_admission.py\<close>: the content-addressed risk
  receipt that a command's intent carries and the fail-closed evaluation that binds it to the
  command and to the promoted release. The findings it returns are inputs of the gate.
\<close>

named_theorems admission_simps

section \<open>Vocabulary\<close>

datatype disposition = ALLOW_NEW_RISK | REDUCING_ONLY | RISK_HALTED

fun disposition_value :: "disposition \<Rightarrow> string" where
  "disposition_value ALLOW_NEW_RISK = ''allow_new_risk''"
| "disposition_value REDUCING_ONLY = ''reducing_only''"
| "disposition_value RISK_HALTED = ''halted''"

definition all_dispositions :: "disposition list" where
  "all_dispositions = [ALLOW_NEW_RISK, REDUCING_ONLY, RISK_HALTED]"

datatype admission_finding = COMMAND_MODE_INVALID | COMMAND_IMMUTABILITY_INVALID | RECEIPT_MISSING
  | RECEIPT_INVALID | COMMAND_BINDING_MISMATCH | RELEASE_BINDING_MISMATCH | RISK_POLICY_MISMATCH
  | FINDING_REDUCING_ONLY | FINDING_HALTED

primrec admission_value :: "admission_finding \<Rightarrow> string" where
  "admission_value COMMAND_MODE_INVALID = ''paper_execution_mode_invalid''"
| "admission_value COMMAND_IMMUTABILITY_INVALID = ''command_digest_mismatch''"
| "admission_value RECEIPT_MISSING = ''paper_risk_admission_receipt_missing''"
| "admission_value RECEIPT_INVALID = ''paper_risk_admission_receipt_invalid''"
| "admission_value COMMAND_BINDING_MISMATCH = ''paper_risk_admission_command_mismatch''"
| "admission_value RELEASE_BINDING_MISMATCH = ''paper_risk_admission_release_mismatch''"
| "admission_value RISK_POLICY_MISMATCH = ''paper_risk_admission_policy_mismatch''"
| "admission_value FINDING_REDUCING_ONLY = ''paper_risk_admission_reducing_only''"
| "admission_value FINDING_HALTED = ''paper_risk_admission_halted''"

definition receipt_fields :: "string list" where
  "receipt_fields = [''schema_version'', ''strategy_profile'', ''release_id'',
     ''risk_policy_sha256'', ''decision_digest'', ''effective_session'', ''disposition'',
     ''reason_codes'', ''receipt_sha256'']"

definition receipt_schema :: string where
  "receipt_schema = ''paper_risk_admission_receipt.v1''"

definition profile_pattern :: "string \<Rightarrow> bool" where
  "profile_pattern = scoped_id is_lower (\<lambda>c. is_lower c \<or> is_digit c) (\<lambda>c. c \<in> set ''._-'')"

definition reason_code_pattern :: "string \<Rightarrow> bool" where
  "reason_code_pattern = scoped_id is_upper (\<lambda>c. is_upper c \<or> is_digit c) (\<lambda>c. c = CHR ''_'')"

section \<open>Field normalisation\<close>

definition bounded_text :: "pyval \<Rightarrow> string \<Rightarrow> nat \<Rightarrow> string res" where
  "bounded_text v field_name maximum = (case v of
     PStr s \<Rightarrow>
       require (s = strip s \<and> s \<noteq> [])
         (ValueError (field_name @ '' must be a non-empty, trimmed string''))
      (require (length s \<le> maximum \<and> list_all (\<lambda>c. 32 \<le> ord c) s)
         (ValueError (field_name @ '' is not a safe bounded string'')) (Inr s))
   | _ \<Rightarrow> Inl (ValueError (field_name @ '' must be a string'')))"

definition receipt_profile :: "pyval \<Rightarrow> string res" where
  "receipt_profile v = bind_res (bounded_text v ''strategy_profile'' 128) (\<lambda>p.
     require (profile_pattern p)
       (ValueError ''strategy_profile must be a lowercase scoped identifier'') (Inr p))"

definition receipt_release_id :: "pyval \<Rightarrow> string res" where
  "receipt_release_id v = bind_res (bounded_text v ''release_id'' 128) (\<lambda>r.
     require (release_id_pattern r) (ValueError ''release_id has invalid characters'') (Inr r))"

definition receipt_digest :: "pyval \<Rightarrow> string \<Rightarrow> string res" where
  "receipt_digest v field_name = bind_res (bounded_text v field_name 64) (\<lambda>d.
     require (is_sha256_hex d) (ValueError (field_name @ '' must be a lowercase SHA-256 digest''))
       (Inr d))"

definition receipt_session :: "pyval \<Rightarrow> string res" where
  "receipt_session v = bind_res (bounded_text v ''effective_session'' 10) (\<lambda>s.
     case date_fromisoformat s of Some d \<Rightarrow> Inr (date_isoformat d)
     | None \<Rightarrow> Inl (ValueError ''effective_session must be an ISO-8601 date''))"

definition receipt_reason_codes :: "pyval \<Rightarrow> string list res" where
  "receipt_reason_codes v =
     bind_res (case v of PList xs \<Rightarrow> Inr xs | PTuple xs \<Rightarrow> Inr xs
        | _ \<Rightarrow> Inl (ValueError ''reason_codes must be a list or tuple'')) (\<lambda>values.
     bind_res (mapM (\<lambda>x. bounded_text x ''reason_codes[]'' 128) values) (\<lambda>normalized.
       require (list_all reason_code_pattern normalized)
         (ValueError ''reason_codes must contain stable UPPER_SNAKE_CASE values'')
      (require (distinct normalized) (ValueError ''reason_codes must not contain duplicates'')
         (Inr normalized))))"

text \<open>Both the text check and the enumeration raise ValueError, which is turned into one message.\<close>

definition receipt_disposition :: "pyval \<Rightarrow> disposition res" where
  "receipt_disposition v =
     (case bind_res (bounded_text v ''disposition'' 32) (\<lambda>s.
        case enum_find disposition_value all_dispositions s of
          Some d \<Rightarrow> Inr d | None \<Rightarrow> Inl (ValueError s)) of
        Inr d \<Rightarrow> Inr d
      | Inl _ \<Rightarrow> Inl (ValueError (''disposition must be one of: ''
          @ join '', '' (map disposition_value all_dispositions))))"

definition validate_disposition_semantics :: "disposition \<Rightarrow> string list \<Rightarrow> unit res" where
  "validate_disposition_semantics d reasons =
     require (\<not> (d = ALLOW_NEW_RISK \<and> reasons \<noteq> []))
       (ValueError ''allow_new_risk receipt must not contain reason_codes'')
    (require (\<not> (d \<noteq> ALLOW_NEW_RISK \<and> reasons = []))
       (ValueError ''non-allow receipt must contain reason_codes'') (Inr ()))"

section \<open>The canonical receipt\<close>

definition field_detail :: "string \<Rightarrow> string list \<Rightarrow> string list" where
  "field_detail label fs = (if fs = [] then [] else [label @ '': '' @ join '', '' fs])"

definition canonical_receipt_payload :: "pydict \<Rightarrow> pydict res" where
  "canonical_receipt_payload d =
     (let missing = sort (filter (\<lambda>f. f \<notin> set (keys d)) receipt_fields);
          unexpected = sort (filter (\<lambda>k. k \<notin> set receipt_fields) (keys d)) in
      require (set (keys d) = set receipt_fields)
        (ValueError (''paper risk admission receipt has invalid fields (''
           @ join ''; '' (field_detail ''missing'' missing @ field_detail ''unexpected'' unexpected)
           @ '')''))
     (require (dget d ''schema_version'' = PStr receipt_schema)
        (ValueError ''unsupported paper risk admission receipt schema version'')
     (bind_res (receipt_disposition (dget d ''disposition'')) (\<lambda>disp.
      bind_res (receipt_reason_codes (dget d ''reason_codes'')) (\<lambda>reasons.
      bind_res (validate_disposition_semantics disp reasons) (\<lambda>_.
      bind_res (receipt_profile (dget d ''strategy_profile'')) (\<lambda>profile.
      bind_res (receipt_release_id (dget d ''release_id'')) (\<lambda>release.
      bind_res (receipt_digest (dget d ''risk_policy_sha256'') ''risk_policy_sha256'') (\<lambda>policy.
      bind_res (receipt_digest (dget d ''decision_digest'') ''decision_digest'') (\<lambda>decision.
      bind_res (receipt_session (dget d ''effective_session'')) (\<lambda>session.
      Inr [(''schema_version'', PStr receipt_schema), (''strategy_profile'', PStr profile),
           (''release_id'', PStr release), (''risk_policy_sha256'', PStr policy),
           (''decision_digest'', PStr decision), (''effective_session'', PStr session),
           (''disposition'', PStr (disposition_value disp)),
           (''reason_codes'', PList (map PStr reasons))])))))))))))"

text \<open>The payload holds only texts, so its encoding cannot fail.\<close>

definition canonical_paper_risk_admission_receipt_json :: "pydict \<Rightarrow> string res" where
  "canonical_paper_risk_admission_receipt_json d =
     bind_res (canonical_receipt_payload d) (\<lambda>p. json_dumps_strict (compact_style True) (PDict p))"

definition calculate_paper_risk_admission_receipt_sha256 :: "pydict \<Rightarrow> string res" where
  "calculate_paper_risk_admission_receipt_sha256 d =
     map_res sha256_hex (canonical_paper_risk_admission_receipt_json d)"

record risk_receipt =
  pr_strategy_profile :: string
  pr_release_id :: string
  pr_risk_policy_sha256 :: string
  pr_decision_digest :: string
  pr_effective_session :: string
  pr_disposition :: disposition
  pr_reason_codes :: "string list"
  pr_receipt_sha256 :: string

text \<open>The \<open>schema_version\<close> of an instance is always the constant the constructor requires.\<close>

definition risk_receipt_to_dict :: "risk_receipt \<Rightarrow> pydict" where
  "risk_receipt_to_dict r =
     [(''schema_version'', PStr receipt_schema),
      (''strategy_profile'', PStr (pr_strategy_profile r)),
      (''release_id'', PStr (pr_release_id r)),
      (''risk_policy_sha256'', PStr (pr_risk_policy_sha256 r)),
      (''decision_digest'', PStr (pr_decision_digest r)),
      (''effective_session'', PStr (pr_effective_session r)),
      (''disposition'', PStr (disposition_value (pr_disposition r))),
      (''reason_codes'', PList (map PStr (pr_reason_codes r))),
      (''receipt_sha256'', PStr (pr_receipt_sha256 r))]"

definition risk_receipt_post_init :: "(string \<Rightarrow> pyval) \<Rightarrow> risk_receipt res" where
  "risk_receipt_post_init a =
     bind_res (receipt_profile (a ''strategy_profile'')) (\<lambda>profile.
     bind_res (receipt_release_id (a ''release_id'')) (\<lambda>release.
     bind_res (receipt_digest (a ''risk_policy_sha256'') ''risk_policy_sha256'') (\<lambda>policy.
     bind_res (receipt_digest (a ''decision_digest'') ''decision_digest'') (\<lambda>decision.
     bind_res (receipt_session (a ''effective_session'')) (\<lambda>session.
     bind_res (receipt_disposition (a ''disposition'')) (\<lambda>disp.
     bind_res (receipt_reason_codes (a ''reason_codes'')) (\<lambda>reasons.
     bind_res (validate_disposition_semantics disp reasons) (\<lambda>_.
     require (a ''schema_version'' = PStr receipt_schema)
       (ValueError ''unsupported paper risk admission receipt schema version'')
    (bind_res (receipt_digest (a ''receipt_sha256'') ''receipt_sha256'') (\<lambda>digest.
     let r = \<lparr>pr_strategy_profile = profile, pr_release_id = release,
           pr_risk_policy_sha256 = policy, pr_decision_digest = decision,
           pr_effective_session = session, pr_disposition = disp, pr_reason_codes = reasons,
           pr_receipt_sha256 = digest\<rparr> in
     bind_res (calculate_paper_risk_admission_receipt_sha256 (risk_receipt_to_dict r)) (\<lambda>h.
       require (digest = h) (ValueError ''paper risk admission receipt_sha256 mismatch'')
         (Inr r))))))))))))"

definition risk_receipt_from_dict :: "pydict \<Rightarrow> risk_receipt res" where
  "risk_receipt_from_dict d =
     bind_res (canonical_receipt_payload d) (\<lambda>_. risk_receipt_post_init (dget d))"

definition build_paper_risk_admission_receipt ::
  "(string \<Rightarrow> pyval) \<Rightarrow> disposition enum_arg \<Rightarrow> pyval list \<Rightarrow> risk_receipt res" where
  "build_paper_risk_admission_receipt a disp reasons =
     (let draft = [(''schema_version'', PStr receipt_schema),
          (''strategy_profile'', a ''strategy_profile''), (''release_id'', a ''release_id''),
          (''risk_policy_sha256'', a ''risk_policy_sha256''),
          (''decision_digest'', a ''decision_digest''),
          (''effective_session'', a ''effective_session''),
          (''disposition'', case disp of EnumMember e \<Rightarrow> PStr (disposition_value e) | EnumValue v \<Rightarrow> v),
          (''reason_codes'', PList reasons), (''receipt_sha256'', PStr (replicate 64 (CHR ''0'')))] in
      bind_res (calculate_paper_risk_admission_receipt_sha256 draft) (\<lambda>h.
        risk_receipt_from_dict (dict_set draft ''receipt_sha256'' (PStr h))))"

section \<open>Admission\<close>

record admission_decision =
  pa_command_id :: "string option"
  pa_disposition :: disposition
  pa_integrity_findings :: "string list"
  pa_receipt_sha256 :: "string option"

definition allows_new_risk :: "admission_decision \<Rightarrow> bool" where
  "allows_new_risk d \<longleftrightarrow> pa_disposition d = ALLOW_NEW_RISK"

definition requires_exposure_reduction :: "admission_decision \<Rightarrow> bool" where
  "requires_exposure_reduction d \<longleftrightarrow> pa_disposition d = REDUCING_ONLY"

text \<open>\<open>except (TypeError, ValueError)\<close>: other exceptions pass.\<close>

definition catch_type_value :: "'a res \<Rightarrow> 'a \<Rightarrow> 'a res" where
  "catch_type_value r fallback = (case r of
     Inl e \<Rightarrow> if is_type_error e \<or> is_value_error e then Inr fallback else Inl e | Inr a \<Rightarrow> Inr a)"

definition validate_command_immutability :: "command \<Rightarrow> string \<Rightarrow> bool res" where
  "validate_command_immutability c now = catch_type_value
     (bind_res (command_to_dict c) (\<lambda>d. map_res (\<lambda>c'. c' = c) (command_from_dict d now))) False"

definition halted_admission ::
  "command option \<Rightarrow> string list \<Rightarrow> string option \<Rightarrow> admission_decision" where
  "halted_admission c findings digest = \<lparr>pa_command_id = map_option ec_command_id c,
     pa_disposition = RISK_HALTED, pa_integrity_findings = findings, pa_receipt_sha256 = digest\<rparr>"

text \<open>The comparisons of a readable receipt with the command and the expected release.\<close>

definition binding_findings :: "command \<Rightarrow> identity \<Rightarrow> risk_receipt \<Rightarrow> string list" where
  "binding_findings c i r = fold (\<lambda>(bad, f) acc. if bad then append_new acc (admission_value f) else acc)
     [(pr_decision_digest r \<noteq> ec_decision_digest c, COMMAND_BINDING_MISMATCH),
      (pr_strategy_profile r \<noteq> ec_strategy_profile c, COMMAND_BINDING_MISMATCH),
      (pr_effective_session r \<noteq> ec_effective_date c, COMMAND_BINDING_MISMATCH),
      (pr_release_id r \<noteq> ri_release_id i, RELEASE_BINDING_MISMATCH),
      (pr_risk_policy_sha256 r \<noteq> ri_risk_policy_sha256 i, RISK_POLICY_MISMATCH)] []"

definition admit_receipt :: "command \<Rightarrow> identity \<Rightarrow> risk_receipt \<Rightarrow> admission_decision" where
  "admit_receipt c i r =
     (if binding_findings c i r \<noteq> []
      then halted_admission (Some c) (binding_findings c i r) (Some (pr_receipt_sha256 r))
      else case pr_disposition r of
        ALLOW_NEW_RISK \<Rightarrow> \<lparr>pa_command_id = Some (ec_command_id c), pa_disposition = ALLOW_NEW_RISK,
          pa_integrity_findings = [], pa_receipt_sha256 = Some (pr_receipt_sha256 r)\<rparr>
      | REDUCING_ONLY \<Rightarrow> \<lparr>pa_command_id = Some (ec_command_id c), pa_disposition = REDUCING_ONLY,
          pa_integrity_findings = [admission_value FINDING_REDUCING_ONLY],
          pa_receipt_sha256 = Some (pr_receipt_sha256 r)\<rparr>
      | RISK_HALTED \<Rightarrow> halted_admission (Some c) [admission_value FINDING_HALTED]
          (Some (pr_receipt_sha256 r)))"

definition evaluate_paper_execution_admission ::
  "command option \<Rightarrow> release_arg \<Rightarrow> string \<Rightarrow> admission_decision res" where
  "evaluate_paper_execution_admission cmd expected now = (case cmd of
     None \<Rightarrow> Inr (halted_admission None [admission_value COMMAND_IMMUTABILITY_INVALID] None)
   | Some c \<Rightarrow>
     bind_res (validate_command_immutability c now) (\<lambda>intact.
     if \<not> intact
     then Inr (halted_admission cmd [admission_value COMMAND_IMMUTABILITY_INVALID] None)
     else if ec_execution_mode c \<noteq> ''paper''
     then Inr (halted_admission cmd [admission_value COMMAND_MODE_INVALID] None)
     else case build_strategy_release_identity expected of
       Inl _ \<Rightarrow> Inr (halted_admission cmd [''release_identity_invalid''] None)
     | Inr i \<Rightarrow>
       bind_res (validate_execution_command_release_binding c (RelIdentity i)) (\<lambda>v.
       if sv_findings v \<noteq> [] then Inr (halted_admission cmd (dedup (sv_findings v)) None)
       else bind_res (command_intent c) (\<lambda>intent.
         case dget intent ''paper_risk_admission_receipt'' of
           PNone \<Rightarrow> Inr (halted_admission cmd [admission_value RECEIPT_MISSING] None)
         | PDict raw \<Rightarrow> (case risk_receipt_from_dict raw of
               Inl e \<Rightarrow> if is_type_error e \<or> is_value_error e
                 then Inr (halted_admission cmd [admission_value RECEIPT_INVALID] None) else Inl e
             | Inr r \<Rightarrow> Inr (admit_receipt c i r))
         | _ \<Rightarrow> Inr (halted_admission cmd [admission_value RECEIPT_INVALID] None)))))"

section \<open>Facts of the receipt\<close>

text \<open>A normalised field is the given text itself.\<close>

lemma bounded_text_Inr: "bounded_text v f n = Inr s \<Longrightarrow> v = PStr s"
  by (auto simp: bounded_text_def res_simps split: pyval.splits)

lemma receipt_field_Inr [admission_simps]:
  "receipt_profile v = Inr s \<Longrightarrow> v = PStr s"
  "receipt_release_id v = Inr s \<Longrightarrow> v = PStr s"
  "receipt_digest v f = Inr s \<Longrightarrow> v = PStr s"
  by (auto simp: receipt_profile_def receipt_release_id_def receipt_digest_def res_simps
      dest: bounded_text_Inr)

lemma receipt_session_Inr: "receipt_session v = Inr s \<Longrightarrow> v = PStr s"
proof -
  assume "receipt_session v = Inr s"
  then obtain t d where "bounded_text v ''effective_session'' 10 = Inr t" "date_fromisoformat t = Some d"
    "s = date_isoformat d"
    by (auto simp: receipt_session_def bind_res_Inr_iff split: option.splits)
  then show ?thesis
    using bounded_text_Inr date_isoformat_fromisoformat by metis
qed

lemma disposition_value_inject [simp]: "disposition_value d = disposition_value e \<longleftrightarrow> d = e"
  by (cases d; cases e) simp_all

lemma receipt_disposition_Inr: "receipt_disposition v = Inr d \<Longrightarrow> v = PStr (disposition_value d)"
proof -
  assume "receipt_disposition v = Inr d"
  then have "bind_res (bounded_text v ''disposition'' 32) (\<lambda>s.
        case enum_find disposition_value all_dispositions s of
          Some d \<Rightarrow> Inr d | None \<Rightarrow> Inl (ValueError s)) = Inr d"
    by (simp add: receipt_disposition_def split: sum.splits)
  then obtain s where "bounded_text v ''disposition'' 32 = Inr s"
    "enum_find disposition_value all_dispositions s = Some d"
    by (auto simp: bind_res_Inr_iff split: option.splits)
  then show ?thesis
    using bounded_text_Inr enum_find_value by metis
qed

lemma mapM_bounded:
  "mapM (\<lambda>x. bounded_text x f n) vs = Inr ss \<Longrightarrow> vs = map PStr ss"
  unfolding mapM_Inr_iff by (induction vs ss rule: list_all2_induct) (auto dest: bounded_text_Inr)

lemma receipt_reason_codes_Inr:
  assumes "receipt_reason_codes v = Inr rs"
  shows "v = PList (map PStr rs) \<or> v = PTuple (map PStr rs)"
    "receipt_reason_codes (PList (map PStr rs)) = Inr rs"
  using assms by (cases v; auto simp: receipt_reason_codes_def res_simps dest: mapM_bounded)+

text \<open>The digest a receipt must carry.\<close>

lemma canonical_payload_to_dict:
  assumes "risk_receipt_post_init a = Inr r"
  shows "\<exists>p. canonical_receipt_payload (risk_receipt_to_dict r) = Inr p"
    "risk_receipt_post_init (dget (risk_receipt_to_dict r)) = Inr r"
    "calculate_paper_risk_admission_receipt_sha256 (risk_receipt_to_dict r) = Inr (pr_receipt_sha256 r)"
proof -
  from assms obtain profile release policy decision session disp reasons digest h where
    f: "receipt_profile (a ''strategy_profile'') = Inr profile"
    "receipt_release_id (a ''release_id'') = Inr release"
    "receipt_digest (a ''risk_policy_sha256'') ''risk_policy_sha256'' = Inr policy"
    "receipt_digest (a ''decision_digest'') ''decision_digest'' = Inr decision"
    "receipt_session (a ''effective_session'') = Inr session"
    "receipt_disposition (a ''disposition'') = Inr disp"
    "receipt_reason_codes (a ''reason_codes'') = Inr reasons"
    "receipt_digest (a ''receipt_sha256'') ''receipt_sha256'' = Inr digest"
    and sem: "validate_disposition_semantics disp reasons = Inr ()"
    and r: "r = \<lparr>pr_strategy_profile = profile, pr_release_id = release,
           pr_risk_policy_sha256 = policy, pr_decision_digest = decision,
           pr_effective_session = session, pr_disposition = disp, pr_reason_codes = reasons,
           pr_receipt_sha256 = digest\<rparr>"
    and h: "calculate_paper_risk_admission_receipt_sha256 (risk_receipt_to_dict r) = Inr h" "digest = h"
    unfolding risk_receipt_post_init_def Let_def bind_res_Inr_iff require_Inr_iff by auto
  note e = f(1) [unfolded receipt_field_Inr(1) [OF f(1)]] f(2) [unfolded receipt_field_Inr(2) [OF f(2)]]
    f(3) [unfolded receipt_field_Inr(3) [OF f(3)]] f(4) [unfolded receipt_field_Inr(3) [OF f(4)]]
    f(5) [unfolded receipt_session_Inr [OF f(5)]] f(6) [unfolded receipt_disposition_Inr [OF f(6)]]
    receipt_reason_codes_Inr(2) [OF f(7)] f(8) [unfolded receipt_field_Inr(3) [OF f(8)]]
  have d: "dget (risk_receipt_to_dict r) ''strategy_profile'' = PStr profile"
    "dget (risk_receipt_to_dict r) ''release_id'' = PStr release"
    "dget (risk_receipt_to_dict r) ''risk_policy_sha256'' = PStr policy"
    "dget (risk_receipt_to_dict r) ''decision_digest'' = PStr decision"
    "dget (risk_receipt_to_dict r) ''effective_session'' = PStr session"
    "dget (risk_receipt_to_dict r) ''disposition'' = PStr (disposition_value disp)"
    "dget (risk_receipt_to_dict r) ''reason_codes'' = PList (map PStr reasons)"
    "dget (risk_receipt_to_dict r) ''receipt_sha256'' = PStr digest"
    "dget (risk_receipt_to_dict r) ''schema_version'' = PStr receipt_schema"
    "set (keys (risk_receipt_to_dict r)) = set receipt_fields"
    by (simp_all add: risk_receipt_to_dict_def r keys_def receipt_fields_def)
  show "\<exists>p. canonical_receipt_payload (risk_receipt_to_dict r) = Inr p"
    by (simp add: canonical_receipt_payload_def d e sem)
  show "risk_receipt_post_init (dget (risk_receipt_to_dict r)) = Inr r"
    using h(1) by (simp add: risk_receipt_post_init_def d e sem h(2) [symmetric] flip: r)
  show "calculate_paper_risk_admission_receipt_sha256 (risk_receipt_to_dict r) = Inr (pr_receipt_sha256 r)"
    using h by (simp add: r)
qed

text \<open>Reading depends on the fields only, not on their order.\<close>

lemma canonical_payload_cong:
  assumes "canonical_receipt_payload d = Inr p" "set (keys d') = set (keys d)"
    and "\<And>k. dget d' k = dget d k"
  shows "canonical_receipt_payload d' = Inr p"
  using assms(1) by (simp add: canonical_receipt_payload_def assms(2,3) Let_def require_Inr_iff)

lemma risk_receipt_json:
  assumes "risk_receipt_post_init a = Inr r" "style_ok st"
  shows "\<exists>w. json_loads (json_dumps st (PDict (risk_receipt_to_dict r))) = Some (PDict w)
    \<and> risk_receipt_from_dict w = Inr r"
proof -
  let ?d = "risk_receipt_to_dict r"
  note c = canonical_payload_to_dict [OF assms(1)]
  have ok: "json_ok (PDict ?d)"
    by (simp add: risk_receipt_to_dict_def list_all_iff)
  have "json_norm (dget ?d k) = dget ?d k" for k
    by (simp add: risk_receipt_to_dict_def)
  with json_loads_dict [OF ok assms(2)] obtain w where w:
    "json_loads (json_dumps st (PDict ?d)) = Some (PDict w)" "set (keys w) = set (keys ?d)"
    "\<And>k. dget w k = dget ?d k" by metis
  from w(3) have "dget w = dget ?d" by blast
  with c(1) canonical_payload_cong [OF _ w(2,3)] c(2) have "risk_receipt_from_dict w = Inr r"
    by (auto simp: risk_receipt_from_dict_def)
  with w(1) show ?thesis by blast
qed

lemma risk_receipt_built:
  "risk_receipt_from_dict d = Inr r \<Longrightarrow> \<exists>a. risk_receipt_post_init a = Inr r"
  "build_paper_risk_admission_receipt args disp reasons = Inr r \<Longrightarrow> \<exists>a. risk_receipt_post_init a = Inr r"
  by (auto simp: risk_receipt_from_dict_def build_paper_risk_admission_receipt_def res_simps Let_def)

section \<open>Facts of the admission\<close>

lemma catch_type_value_Inr:
  "catch_type_value r False = Inr True \<longleftrightarrow> r = Inr True"
  by (auto simp: catch_type_value_def split: sum.splits if_splits)

lemma immutable_command:
  assumes "validate_command_immutability c now = Inr True"
  shows "ec_command_id c = command_id_of c" "\<exists>d. command_to_dict c = Inr d \<and> command_from_dict d now = Inr c"
  using assms by (auto simp: validate_command_immutability_def catch_type_value_Inr res_simps
      intro: from_dict_id)

lemma binding_findings_Nil [admission_simps]:
  "binding_findings c i r = [] \<longleftrightarrow> pr_decision_digest r = ec_decision_digest c
     \<and> pr_strategy_profile r = ec_strategy_profile c \<and> pr_effective_session r = ec_effective_date c
     \<and> pr_release_id r = ri_release_id i \<and> pr_risk_policy_sha256 r = ri_risk_policy_sha256 i"
  by (auto simp: binding_findings_def append_new_def)

lemma admit_receipt_disposition [admission_simps]:
  "pa_disposition (admit_receipt c i r) =
     (if binding_findings c i r = [] then pr_disposition r else RISK_HALTED)"
  by (simp add: admit_receipt_def halted_admission_def split: disposition.split)

lemma halted_disposition [simp]: "pa_disposition (halted_admission c fs h) = RISK_HALTED"
  "pa_integrity_findings (halted_admission c fs h) = fs"
  by (simp_all add: halted_admission_def)

text \<open>A decision other than halted comes from a receipt that passed every check.\<close>

lemma admission_not_halted:
  assumes "evaluate_paper_execution_admission (Some c) expected now = Inr d"
  shows "pa_disposition d \<noteq> RISK_HALTED \<longleftrightarrow>
     validate_command_immutability c now = Inr True \<and> ec_execution_mode c = ''paper''
     \<and> (\<exists>i intent raw r. build_strategy_release_identity expected = Inr i
         \<and> command_intent c = Inr intent
         \<and> build_strategy_release_identity (RelValue (dget intent ''strategy_release'')) = Inr i
         \<and> dget intent ''paper_risk_admission_receipt'' = PDict raw
         \<and> risk_receipt_from_dict raw = Inr r \<and> binding_findings c i r = []
         \<and> pr_disposition r \<noteq> RISK_HALTED \<and> d = admit_receipt c i r)" (is "?l \<longleftrightarrow> ?r")
proof
  assume ?l
  with assms obtain i where im: "validate_command_immutability c now = Inr True"
    "ec_execution_mode c = ''paper''" and i: "build_strategy_release_identity expected = Inr i"
    and rest: "bind_res (validate_execution_command_release_binding c (RelIdentity i)) (\<lambda>v.
       if sv_findings v \<noteq> [] then Inr (halted_admission (Some c) (dedup (sv_findings v)) None)
       else bind_res (command_intent c) (\<lambda>intent.
         case dget intent ''paper_risk_admission_receipt'' of
           PNone \<Rightarrow> Inr (halted_admission (Some c) [admission_value RECEIPT_MISSING] None)
         | PDict raw \<Rightarrow> (case risk_receipt_from_dict raw of
               Inl e \<Rightarrow> if is_type_error e \<or> is_value_error e
                 then Inr (halted_admission (Some c) [admission_value RECEIPT_INVALID] None) else Inl e
             | Inr r \<Rightarrow> Inr (admit_receipt c i r))
         | _ \<Rightarrow> Inr (halted_admission (Some c) [admission_value RECEIPT_INVALID] None))) = Inr d"
    by (auto simp: evaluate_paper_execution_admission_def bind_res_Inr_iff
        split: if_splits sum.splits)
  then obtain v where v: "validate_execution_command_release_binding c (RelIdentity i) = Inr v"
    by (auto simp: bind_res_Inr_iff)
  with rest \<open>?l\<close> have "sv_findings v = []" by (auto split: if_splits)
  with v obtain intent where intent: "command_intent c = Inr intent"
    "build_strategy_release_identity (RelValue (dget intent ''strategy_release'')) = Inr i"
    by (auto simp: validate_execution_command_release_binding_def map_res_Inr_iff binding_valid_iff
        sv_findings_iff)
  with rest v \<open>sv_findings v = []\<close> have "(case dget intent ''paper_risk_admission_receipt'' of
           PNone \<Rightarrow> Inr (halted_admission (Some c) [admission_value RECEIPT_MISSING] None)
         | PDict raw \<Rightarrow> (case risk_receipt_from_dict raw of
               Inl e \<Rightarrow> if is_type_error e \<or> is_value_error e
                 then Inr (halted_admission (Some c) [admission_value RECEIPT_INVALID] None) else Inl e
             | Inr r \<Rightarrow> Inr (admit_receipt c i r))
         | _ \<Rightarrow> Inr (halted_admission (Some c) [admission_value RECEIPT_INVALID] None)) = Inr d"
    by simp
  with \<open>?l\<close> obtain raw r where "dget intent ''paper_risk_admission_receipt'' = PDict raw"
    "risk_receipt_from_dict raw = Inr r" "d = admit_receipt c i r"
    by (auto split: pyval.splits sum.splits if_splits)
  with \<open>?l\<close> im i intent show ?r
    by (auto simp: admit_receipt_disposition split: if_splits)
next
  assume ?r
  then show ?l by (auto simp: admit_receipt_disposition)
qed

section \<open>A concrete admitted command\<close>

definition sample_risk_args :: "string \<Rightarrow> pyval" where
  "sample_risk_args = dget
     [(''strategy_profile'', PStr ''soxl''), (''release_id'', PStr ''rel-7''),
      (''risk_policy_sha256'', PStr (replicate 64 (CHR ''1''))),
      (''decision_digest'', PStr (replicate 64 (CHR ''5''))),
      (''effective_session'', PStr ''2026-07-30'')]"

lemma receipt_digest_fixed [admission_simps]:
  assumes "is_sha256_hex s"
  shows "receipt_digest (PStr s) f = Inr s"
proof -
  have "list_all (\<lambda>c. 32 \<le> ord c) s"
    using assms by (auto simp: is_sha256_hex_def list_all_iff is_hex_lower_def is_digit_def)
  then show ?thesis
    using assms sha256_hex_trimmed [OF assms] sha256_hex_nonempty [OF assms]
    by (simp add: receipt_digest_def bounded_text_def trimmed_strip is_sha256_hex_def require_def)
qed

lemma sample_risk_texts [admission_simps]:
  "receipt_profile (PStr ''soxl'') = Inr ''soxl''"
  "receipt_release_id (PStr ''rel-7'') = Inr ''rel-7''"
  "bounded_text (PStr ''2026-07-30'') ''effective_session'' 10 = Inr ''2026-07-30''"
  "receipt_disposition (PStr ''allow_new_risk'') = Inr ALLOW_NEW_RISK"
  "receipt_disposition (PStr ''reducing_only'') = Inr REDUCING_ONLY"
  "receipt_reason_codes (PList []) = Inr []"
  "receipt_reason_codes (PList [PStr ''DRAWDOWN_LIMIT'']) = Inr [''DRAWDOWN_LIMIT'']"
  by code_simp+

lemma receipt_session_fixed:
  assumes "session_text s" "bounded_text (PStr s) ''effective_session'' 10 = Inr s"
  shows "receipt_session (PStr s) = Inr s"
  using assms date_isoformat_fromisoformat [of s] by (auto simp: receipt_session_def session_text_def)

lemma receipt_disposition_value [admission_simps]:
  "receipt_disposition (PStr (disposition_value d)) = Inr d"
  by (cases d) (simp_all add: admission_simps, code_simp)

text \<open>Normal fields build a receipt that carries them.\<close>

lemma receipt_build:
  assumes "receipt_profile (PStr profile) = Inr profile"
    "receipt_release_id (PStr release) = Inr release"
    "is_sha256_hex policy" "is_sha256_hex decision" "receipt_session (PStr session) = Inr session"
    "receipt_reason_codes (PList (map PStr reasons)) = Inr reasons"
    "validate_disposition_semantics disp reasons = Inr ()"
    and a: "a = dget [(''strategy_profile'', PStr profile), (''release_id'', PStr release),
      (''risk_policy_sha256'', PStr policy), (''decision_digest'', PStr decision),
      (''effective_session'', PStr session)]"
  obtains r where "build_paper_risk_admission_receipt a (EnumMember disp) (map PStr reasons) = Inr r"
    "pr_strategy_profile r = profile" "pr_release_id r = release" "pr_risk_policy_sha256 r = policy"
    "pr_decision_digest r = decision" "pr_effective_session r = session" "pr_disposition r = disp"
proof -
  let ?p = "[(''schema_version'', PStr receipt_schema), (''strategy_profile'', PStr profile),
           (''release_id'', PStr release), (''risk_policy_sha256'', PStr policy),
           (''decision_digest'', PStr decision), (''effective_session'', PStr session),
           (''disposition'', PStr (disposition_value disp)),
           (''reason_codes'', PList (map PStr reasons))]"
  let ?d = "\<lambda>h. ?p @ [(''receipt_sha256'', PStr h)]"
  define h where "h = sha256_hex (json_dumps (compact_style True) (PDict ?p))"
  have c: "canonical_receipt_payload (?d x) = Inr ?p" for x
    using assms(1-7) by (simp add: canonical_receipt_payload_def admission_simps Let_def keys_def
        receipt_fields_def)
  have hash: "calculate_paper_risk_admission_receipt_sha256 (?d x) = Inr h" for x
    by (simp add: calculate_paper_risk_admission_receipt_sha256_def c [simplified] h_def
        canonical_paper_risk_admission_receipt_json_def json_dumps_strict_def list_all_iff)
  define r where "r = \<lparr>pr_strategy_profile = profile, pr_release_id = release,
           pr_risk_policy_sha256 = policy, pr_decision_digest = decision,
           pr_effective_session = session, pr_disposition = disp, pr_reason_codes = reasons,
           pr_receipt_sha256 = h\<rparr>"
  have "risk_receipt_to_dict r = ?d h" by (simp add: risk_receipt_to_dict_def r_def)
  moreover have "is_sha256_hex h" by (simp add: h_def)
  ultimately have "risk_receipt_post_init (dget (?d h)) = Inr r"
    using assms(1-7) hash [of h, simplified]
    by (simp add: risk_receipt_post_init_def admission_simps Let_def flip: r_def)
  then have "build_paper_risk_admission_receipt a (EnumMember disp) (map PStr reasons) = Inr r"
    using c [of h, simplified] hash [of "replicate 64 (CHR ''0'')", simplified]
    by (simp add: build_paper_risk_admission_receipt_def risk_receipt_from_dict_def a Let_def)
  with that show thesis by (simp add: r_def)
qed

text \<open>A well-formed command with a readable receipt is judged by that receipt.\<close>

lemma wf_command_immutable:
  assumes "wf_command c"
  shows "validate_command_immutability c now = Inr True"
proof -
  from command_intent_wf [OF assms] obtain i where i: "command_intent c = Inr i"
    "canonical_json i = ec_intent_json c" by metis
  from i show ?thesis
    by (simp add: validate_command_immutability_def command_to_dict_def catch_type_value_Inr
        command_from_dict_fields [OF assms])
qed

lemma admission_of_receipt:
  assumes "wf_command c" "ec_execution_mode c = ''paper''" "command_intent c = Inr intent"
    and "build_strategy_release_identity (RelValue (dget intent ''strategy_release'')) = Inr i"
    and "dget intent ''paper_risk_admission_receipt'' = PDict raw" "risk_receipt_from_dict raw = Inr r"
  shows "evaluate_paper_execution_admission (Some c) (RelIdentity i) now = Inr (admit_receipt c i r)"
  using assms by (simp add: evaluate_paper_execution_admission_def wf_command_immutable
      validate_execution_command_release_binding_def binding_valid_id verification_of_def)

lemma risk_receipt_any_dict:
  assumes "risk_receipt_post_init a = Inr r" "set (keys w) = set (keys (risk_receipt_to_dict r))"
    and "\<And>k. dget w k = dget (risk_receipt_to_dict r) k"
  shows "risk_receipt_from_dict w = Inr r"
proof -
  from assms(3) have "dget w = dget (risk_receipt_to_dict r)" by blast
  with canonical_payload_to_dict [OF assms(1)] canonical_payload_cong [OF _ assms(2,3)] show ?thesis
    by (auto simp: risk_receipt_from_dict_def)
qed

lemma json_ok_risk_receipt [simp]: "json_ok (PDict (risk_receipt_to_dict r))"
  by (simp add: risk_receipt_to_dict_def list_all_iff)

lemma json_norm_risk_dget [simp]:
  "json_norm (dget (risk_receipt_to_dict r) k) = dget (risk_receipt_to_dict r) k"
  by (simp add: risk_receipt_to_dict_def)

lemma json_norm_risk_receipt:
  assumes "risk_receipt_post_init a = Inr r"
  obtains w where "json_norm (PDict (risk_receipt_to_dict r)) = PDict w" "risk_receipt_from_dict w = Inr r"
proof
  show "json_norm (PDict (risk_receipt_to_dict r))
      = PDict (map (\<lambda>(k, v). (k, json_norm v)) (sort_key fst (risk_receipt_to_dict r)))"
    by (rule json_norm_dict)
  have "distinct (map fst (risk_receipt_to_dict r))"
    using json_ok_risk_receipt [of r] by simp
  then show "risk_receipt_from_dict
      (map (\<lambda>(k, v). (k, json_norm v)) (sort_key fst (risk_receipt_to_dict r))) = Inr r"
    by (intro risk_receipt_any_dict [OF assms]) (simp_all add: keys_norm_sorted dget_norm_sorted)
qed

definition sample_reconciled :: "risk_receipt \<Rightarrow> pydict" where
  "sample_reconciled r = sample_intent
     @ [(''paper_risk_admission_receipt'', PDict (risk_receipt_to_dict r))]"

lemma sample_admitted:
  assumes "disp = ALLOW_NEW_RISK \<and> rs = [] \<or> disp = REDUCING_ONLY \<and> rs = [''DRAWDOWN_LIMIT'']"
  obtains r c where "from_decision sample_args (sample_reconciled r) None ''t'' = Inr c" "wf_command c"
    "ec_effective_date c = ''2026-07-30''" "pr_disposition r = disp"
    "\<And>now. evaluate_paper_execution_admission (Some c) (RelIdentity sample_release) now
        = Inr (admit_receipt c sample_release r)"
    "binding_findings c sample_release r = []"
    "ec_platform c = ''schwab''" "ec_account_scope c = ''paper-1''" "ec_strategy_profile c = ''soxl''"
proof -
  have codes: "receipt_reason_codes (PList (map PStr rs)) = Inr rs" "validate_disposition_semantics disp rs = Inr ()"
    using assms by (auto simp: admission_simps validate_disposition_semantics_def)
  obtain r where r: "build_paper_risk_admission_receipt sample_risk_args (EnumMember disp) (map PStr rs) = Inr r"
    "pr_strategy_profile r = ''soxl''" "pr_release_id r = ''rel-7''"
    "pr_risk_policy_sha256 r = replicate 64 (CHR ''1'')" "pr_decision_digest r = replicate 64 (CHR ''5'')"
    "pr_effective_session r = ''2026-07-30''" "pr_disposition r = disp"
    by (rule receipt_build [OF sample_risk_texts(1,2) _ _ receipt_session_fixed [OF _ sample_risk_texts(3)]
          codes sample_risk_args_def])
      (simp_all add: release_simps is_hex_lower_def is_digit_def)
  from risk_receipt_built(2) [OF r(1)] obtain a where "risk_receipt_post_init a = Inr r" ..
  then obtain raw where raw: "json_norm (PDict (risk_receipt_to_dict r)) = PDict raw"
    "risk_receipt_from_dict raw = Inr r" by (rule json_norm_risk_receipt)
  have ok: "json_ok (PDict (sample_reconciled r))"
    using json_ok_risk_receipt [of r] json_ok_identity [of sample_release]
    by (simp add: sample_reconciled_def sample_intent_def)
  obtain c where c: "from_decision sample_args (sample_reconciled r) None ''t'' = Inr c"
    "ec_effective_date c = ''2026-07-30''" "ec_intent_json c = canonical_json (sample_reconciled r)"
    "ec_execution_mode c = ''paper''" "ec_strategy_profile c = ''soxl''"
    "ec_decision_digest c = replicate 64 (CHR ''5'')" "ec_platform c = ''schwab''"
    "ec_account_scope c = ''paper-1''" by (rule sample_decision_any)
  have wf: "wf_command c" by (rule from_decision_wf [OF c(1) ok]) simp
  from json_loads_dict [OF ok style_ok_styles(1) [of False]] obtain d where d:
    "json_loads (canonical_json (sample_reconciled r)) = Some (PDict d)"
    "\<And>k. dget d k = json_norm (dget (sample_reconciled r) k)"
    unfolding canonical_json_def by metis
  have i: "command_intent c = Inr d"
    by (simp add: command_intent_def json_dict_def c(3) d(1) dict_call_def)
  have f: "dget (sample_reconciled r) ''strategy_release'' = PDict (identity_to_dict sample_release)"
    "dget (sample_reconciled r) ''paper_risk_admission_receipt'' = PDict (risk_receipt_to_dict r)"
    by (simp_all add: sample_reconciled_def sample_intent_def)
  have "evaluate_paper_execution_admission (Some c) (RelIdentity sample_release) now
        = Inr (admit_receipt c sample_release r)" for now
    by (rule admission_of_receipt [OF wf c(4) i _ _ raw(2)])
      (simp_all only: d(2) f raw(1) build_identity_json_norm [OF sample_release_normal])
  moreover have "binding_findings c sample_release r = []"
    by (simp add: binding_findings_Nil r c sample_release_def)
  ultimately show thesis using that c(1,2,5,7,8) wf r(7) by blast
qed

text \<open>Every finding of a halted admission is one that halts the gate.\<close>

lemma sv_findings_halting:
  "validate_strategy_release_binding a e = v \<Longrightarrow> set (sv_findings v) \<subseteq> set halting_findings"
  by (auto simp: validate_strategy_release_binding_def verification_of_def halting_findings_def
      split: sum.splits if_splits)

lemma binding_findings_halting: "set (binding_findings c i r) \<subseteq> set halting_findings"
  by (auto simp: binding_findings_def append_new_def halting_findings_def)

lemma admit_receipt_halting:
  "pa_disposition (admit_receipt c i r) = RISK_HALTED \<Longrightarrow>
     pa_integrity_findings (admit_receipt c i r) \<noteq> []
     \<and> set (pa_integrity_findings (admit_receipt c i r)) \<subseteq> set halting_findings"
  using binding_findings_halting [of c i r]
  by (auto simp: admit_receipt_def halting_findings_def split: if_splits disposition.splits)

lemma halted_findings:
  assumes "evaluate_paper_execution_admission (Some c) expected now = Inr d" "pa_disposition d = RISK_HALTED"
  shows "pa_integrity_findings d \<noteq> [] \<and> set (pa_integrity_findings d) \<subseteq> set halting_findings"
proof -
  have known: "admission_value COMMAND_IMMUTABILITY_INVALID \<in> set halting_findings"
    "admission_value COMMAND_MODE_INVALID \<in> set halting_findings"
    "admission_value RECEIPT_MISSING \<in> set halting_findings"
    "admission_value RECEIPT_INVALID \<in> set halting_findings"
    "''release_identity_invalid'' \<in> set halting_findings"
    by (simp_all add: halting_findings_def)
  have dedup_ne: "dedup xs \<noteq> [] \<longleftrightarrow> xs \<noteq> []" for xs :: "string list"
    by (metis set_dedup set_empty)
  let ?P = "\<lambda>d. pa_disposition d = RISK_HALTED \<longrightarrow> pa_integrity_findings d \<noteq> []
    \<and> set (pa_integrity_findings d) \<subseteq> set halting_findings"
  have receipt: "?P d" if "(case dget intent ''paper_risk_admission_receipt'' of
           PNone \<Rightarrow> Inr (halted_admission (Some c) [admission_value RECEIPT_MISSING] None)
         | PDict raw \<Rightarrow> (case risk_receipt_from_dict raw of
               Inl e \<Rightarrow> if is_type_error e \<or> is_value_error e
                 then Inr (halted_admission (Some c) [admission_value RECEIPT_INVALID] None) else Inl e
             | Inr r \<Rightarrow> Inr (admit_receipt c i r))
         | _ \<Rightarrow> Inr (halted_admission (Some c) [admission_value RECEIPT_INVALID] None)) = Inr d"
    for intent i
    using that known(3,4) admit_receipt_halting [of c i]
    by (cases "dget intent ''paper_risk_admission_receipt''")
      (auto simp del: admission_value.simps split: sum.splits if_splits)
  have binding: "?P d" if "sv_findings v \<noteq> []" "set (sv_findings v) \<subseteq> set halting_findings"
    "d = halted_admission (Some c) (dedup (sv_findings v)) None" for v
    using that by (simp add: dedup_ne)
  have early: "?P (halted_admission (Some c) [f] None)" if "f \<in> set halting_findings" for f
    using that by simp
  from assms(1) obtain intact where "validate_command_immutability c now = Inr intact"
    by (auto simp: evaluate_paper_execution_admission_def bind_res_Inr_iff)
  note e = assms(1) [unfolded evaluate_paper_execution_admission_def option.case this bind_res_simps]
  show ?thesis
  proof (cases "intact \<and> ec_execution_mode c = ''paper''")
    case False
    then have "d = halted_admission (Some c) [admission_value COMMAND_IMMUTABILITY_INVALID] None
      \<or> d = halted_admission (Some c) [admission_value COMMAND_MODE_INVALID] None"
      using e by (auto split: if_splits)
    with early known(1,2) assms(2) show ?thesis by blast
  next
    case intact: True
    show ?thesis
    proof (cases "build_strategy_release_identity expected")
      case (Inl x)
      with e intact have "d = halted_admission (Some c) [''release_identity_invalid''] None" by simp
      with early known(5) assms(2) show ?thesis by blast
    next
      case (Inr i)
      with e intact obtain v where v: "validate_execution_command_release_binding c (RelIdentity i) = Inr v"
        and rest: "(if sv_findings v \<noteq> [] then Inr (halted_admission (Some c) (dedup (sv_findings v)) None)
          else bind_res (command_intent c) (\<lambda>intent.
         case dget intent ''paper_risk_admission_receipt'' of
           PNone \<Rightarrow> Inr (halted_admission (Some c) [admission_value RECEIPT_MISSING] None)
         | PDict raw \<Rightarrow> (case risk_receipt_from_dict raw of
               Inl e \<Rightarrow> if is_type_error e \<or> is_value_error e
                 then Inr (halted_admission (Some c) [admission_value RECEIPT_INVALID] None) else Inl e
             | Inr r \<Rightarrow> Inr (admit_receipt c i r))
         | _ \<Rightarrow> Inr (halted_admission (Some c) [admission_value RECEIPT_INVALID] None))) = Inr d"
        by (auto simp: bind_res_Inr_iff simp del: admission_value.simps)
      have "set (sv_findings v) \<subseteq> set halting_findings"
        using v sv_findings_halting
        by (auto simp: validate_execution_command_release_binding_def map_res_Inr_iff)
      with rest binding [of v] receipt assms(2) show ?thesis
        by (auto simp: bind_res_Inr_iff simp del: admission_value.simps split: if_splits)
    qed
  qed
qed

lemma known_finding_text:
  "f \<in> set known_findings \<Longrightarrow> finding_text (FindingValue (PStr f)) = f"
proof -
  have "list_all (\<lambda>f. finding_text (FindingValue (PStr f)) = f) known_findings" by code_simp
  then show "f \<in> set known_findings \<Longrightarrow> finding_text (FindingValue (PStr f)) = f"
    by (simp add: list_all_iff)
qed

lemma known_findings_nonempty: "[] \<notin> set known_findings"
  by code_simp

lemma known_finding_reported:
  assumes "f \<in> set known_findings" "FindingValue (PStr f) \<in> set findings"
  shows "f \<in> set (normalize_runtime_command_integrity_findings findings)"
proof -
  have "f = safe_finding (FindingValue (PStr f))" "finding_text (FindingValue (PStr f)) \<noteq> []"
    using assms(1) known_finding_text [OF assms(1)] known_findings_nonempty
    by (auto simp: safe_finding_def)
  with assms(2) show ?thesis unfolding set_normalize_findings by fast
qed

text \<open>The gate is bound by the admission whose findings reach it.\<close>

lemma gate_with_admission:
  assumes "evaluate_paper_execution_admission (Some c) release now = Inr adm"
    and "evaluate_runtime_command_gate (EnumMember act) (EnumMember eff) (Some c) state as_of receipt
      expected findings default_gate_policy = Inr d"
    and "is_write act"
    and reported: "\<And>f. f \<in> set (pa_integrity_findings adm) \<Longrightarrow> f \<in> set known_findings
      \<Longrightarrow> f \<in> set (normalize_runtime_command_integrity_findings findings)"
    and "gt_policy_allows d"
  shows "pa_disposition adm \<noteq> RISK_HALTED \<and> (pa_disposition adm = REDUCING_ONLY \<longrightarrow> eff = REDUCES)"
proof -
  let ?fs = "normalize_runtime_command_integrity_findings findings"
  note allowed = gate_allows_iff [OF assms(2,3), THEN iffD1, OF assms(5)]
  have "pa_disposition adm \<noteq> RISK_HALTED"
  proof
    assume "pa_disposition adm = RISK_HALTED"
    with halted_findings [OF assms(1)] obtain f where "f \<in> set (pa_integrity_findings adm)"
      "f \<in> set halting_findings" by (metis list.set_intros(1) neq_Nil_conv subset_iff)
    with reported have "f \<in> set ?fs" "f \<notin> set reducing_findings"
      using halting_not_reducing by (auto simp: known_findings_def)
    with allowed show False by blast
  qed
  moreover have "eff = REDUCES" if "pa_disposition adm = REDUCING_ONLY"
  proof -
    have "\<exists>i r. adm = admit_receipt c i r"
      using admission_not_halted [OF assms(1)] that by auto
    then have "pa_integrity_findings adm = [admission_value FINDING_REDUCING_ONLY]"
      using that by (auto simp: admit_receipt_def halted_admission_def split: if_splits disposition.splits)
    moreover have "admission_value FINDING_REDUCING_ONLY \<in> set known_findings"
      by (simp add: known_findings_def reducing_findings_def)
    ultimately have "?fs \<noteq> []" using reported by force
    with allowed show ?thesis by blast
  qed
  ultimately show ?thesis by blast
qed

section \<open>Properties\<close>

text \<open>C20: admission grants new risk exactly when the command is intact (it rebuilds to itself, so
  its id is the digest of its content), is a paper command, carries the expected release and
  carries a readable receipt that allows new risk and names the command's decision, profile and
  session and the release's id and risk policy.\<close>

theorem admission_allows_iff:
  assumes "evaluate_paper_execution_admission (Some c) expected now = Inr d"
  shows "allows_new_risk d \<longleftrightarrow>
     (\<exists>doc i intent raw r. command_to_dict c = Inr doc \<and> command_from_dict doc now = Inr c
         \<and> ec_execution_mode c = ''paper''
         \<and> build_strategy_release_identity expected = Inr i \<and> command_intent c = Inr intent
         \<and> build_strategy_release_identity (RelValue (dget intent ''strategy_release'')) = Inr i
         \<and> dget intent ''paper_risk_admission_receipt'' = PDict raw
         \<and> risk_receipt_from_dict raw = Inr r \<and> pr_disposition r = ALLOW_NEW_RISK
         \<and> pr_decision_digest r = ec_decision_digest c \<and> pr_strategy_profile r = ec_strategy_profile c
         \<and> pr_effective_session r = ec_effective_date c \<and> pr_release_id r = ri_release_id i
         \<and> pr_risk_policy_sha256 r = ri_risk_policy_sha256 i)" (is "_ \<longleftrightarrow> ?r")
proof
  assume a: "allows_new_risk d"
  then have "pa_disposition d \<noteq> RISK_HALTED" by (simp add: allows_new_risk_def)
  with a immutable_command(2) [of c now] show ?r
    unfolding admission_not_halted [OF assms]
    by (fastforce simp: allows_new_risk_def admit_receipt_disposition binding_findings_Nil)
next
  assume ?r
  then have "validate_command_immutability c now = Inr True"
    by (auto simp: validate_command_immutability_def catch_type_value_def)
  with \<open>?r\<close> assms show "allows_new_risk d"
    by (auto simp: evaluate_paper_execution_admission_def
        validate_execution_command_release_binding_def binding_valid_id verification_of_def
        allows_new_risk_def admit_receipt_disposition binding_findings_Nil)
qed

theorem admission_allows_witness:
  "\<exists>r c d. from_decision sample_args (sample_reconciled r) None ''t'' = Inr c
     \<and> evaluate_paper_execution_admission (Some c) (RelIdentity sample_release) ''now'' = Inr d
     \<and> allows_new_risk d \<and> (\<exists>doc. command_to_dict c = Inr doc \<and> command_from_dict doc ''now'' = Inr c)"
proof -
  obtain r c where s: "from_decision sample_args (sample_reconciled r) None ''t'' = Inr c"
    "pr_disposition r = ALLOW_NEW_RISK" "binding_findings c sample_release r = []"
    and e: "evaluate_paper_execution_admission (Some c) (RelIdentity sample_release) ''now''
        = Inr (admit_receipt c sample_release r)"
    by (rule sample_admitted [of ALLOW_NEW_RISK "[]"]) auto
  have a: "allows_new_risk (admit_receipt c sample_release r)"
    by (simp add: allows_new_risk_def admit_receipt_disposition s)
  with admission_allows_iff [OF e] obtain doc where
    "command_to_dict c = Inr doc" "command_from_dict doc ''now'' = Inr c" by blast
  with s(1) e a show ?thesis by blast
qed

text \<open>A risk receipt that the builder accepts survives its storage: its JSON text, in every
  layout, decodes to a dictionary from which \<open>from_dict\<close>, which recomputes the digest,
  rebuilds the very same receipt.\<close>

theorem risk_receipt_storage_roundtrip:
  assumes "build_paper_risk_admission_receipt args disp reasons = Inr r" "style_ok st"
  shows "\<exists>w. json_loads (json_dumps st (PDict (risk_receipt_to_dict r))) = Some (PDict w)
    \<and> risk_receipt_from_dict w = Inr r
    \<and> calculate_paper_risk_admission_receipt_sha256 w = Inr (pr_receipt_sha256 r)"
proof -
  from risk_receipt_built(2) [OF assms(1)] obtain a where a: "risk_receipt_post_init a = Inr r" ..
  from json_loads_dict [OF json_ok_risk_receipt assms(2)] obtain w where w:
    "json_loads (json_dumps st (PDict (risk_receipt_to_dict r))) = Some (PDict w)"
    "set (keys w) = set (keys (risk_receipt_to_dict r))" "\<And>k. dget w k = dget (risk_receipt_to_dict r) k"
    by (metis json_norm_risk_dget)
  note c = canonical_payload_to_dict [OF a]
  from c(1) obtain p where "canonical_receipt_payload (risk_receipt_to_dict r) = Inr p" ..
  with canonical_payload_cong [OF this w(2,3)] c(3)
  have "calculate_paper_risk_admission_receipt_sha256 w = Inr (pr_receipt_sha256 r)"
    by (simp add: calculate_paper_risk_admission_receipt_sha256_def
        canonical_paper_risk_admission_receipt_json_def)
  with w(1) risk_receipt_any_dict [OF a w(2,3)] show ?thesis by blast
qed

theorem risk_receipt_storage_witness:
  "\<exists>r w. build_paper_risk_admission_receipt sample_risk_args (EnumMember REDUCING_ONLY)
        [PStr ''DRAWDOWN_LIMIT''] = Inr r
     \<and> json_loads (json_dumps default_style (PDict (risk_receipt_to_dict r))) = Some (PDict w)
     \<and> risk_receipt_from_dict w = Inr r"
proof -
  have "is_sha256_hex (replicate 64 (CHR ''1''))" "is_sha256_hex (replicate 64 (CHR ''5''))"
    "session_text ''2026-07-30''"
    "validate_disposition_semantics REDUCING_ONLY [''DRAWDOWN_LIMIT''] = Inr ()"
    "receipt_reason_codes (PList (map PStr [''DRAWDOWN_LIMIT''])) = Inr [''DRAWDOWN_LIMIT'']"
    by (simp_all add: release_simps is_hex_lower_def is_digit_def validate_disposition_semantics_def
        admission_simps)
  then obtain r where "build_paper_risk_admission_receipt sample_risk_args (EnumMember REDUCING_ONLY)
        (map PStr [''DRAWDOWN_LIMIT'']) = Inr r"
    by (metis receipt_build [OF sample_risk_texts(1,2) _ _ receipt_session_fixed [OF _ sample_risk_texts(3)]
          _ _ sample_risk_args_def])
  then have r: "build_paper_risk_admission_receipt sample_risk_args (EnumMember REDUCING_ONLY)
        [PStr ''DRAWDOWN_LIMIT''] = Inr r" by simp
  with risk_receipt_storage_roundtrip [OF r style_ok_styles(3)] show ?thesis by blast
qed

text \<open>Admission and the gate compose fail-closed: when the findings of a command's admission
  are among those reported to the gate, the default policy allows no broker write for a command
  whose admission is halted, and for one admitted to reduce only it allows a write only if that
  write reduces exposure.\<close>

theorem gate_respects_admission:
  assumes "evaluate_paper_execution_admission (Some c) release now = Inr adm"
    and "evaluate_runtime_command_gate (EnumMember act) (EnumMember eff) (Some c) state as_of receipt
      expected findings default_gate_policy = Inr d"
    and "is_write act" "(\<lambda>f. FindingValue (PStr f)) ` set (pa_integrity_findings adm) \<subseteq> set findings"
    and "gt_policy_allows d"
  shows "pa_disposition adm \<noteq> RISK_HALTED \<and> (pa_disposition adm = REDUCING_ONLY \<longrightarrow> eff = REDUCES)"
proof (rule gate_with_admission [OF assms(1-3) _ assms(5)])
  fix f assume "f \<in> set (pa_integrity_findings adm)" "f \<in> set known_findings"
  then show "f \<in> set (normalize_runtime_command_integrity_findings findings)"
    using assms(4) by (auto intro: known_finding_reported)
qed

theorem gate_respects_admission_witness:
  "\<exists>r c adm d. from_decision sample_args (sample_reconciled r) None ''t'' = Inr c
     \<and> evaluate_paper_execution_admission (Some c) (RelIdentity sample_release) ''now'' = Inr adm
     \<and> pa_disposition adm = REDUCING_ONLY
     \<and> evaluate_runtime_command_gate (EnumMember SUBMIT) (EnumMember REDUCES) (Some c)
        (Some (EnumMember CLAIMED)) (PStr ''2026-07-30'') (PDict sample_receipt)
        (RelIdentity sample_release)
        (map (\<lambda>f. FindingValue (PStr f)) (pa_integrity_findings adm)) default_gate_policy = Inr d
     \<and> gt_policy_allows d \<and> pa_disposition adm \<noteq> RISK_HALTED"
proof -
  obtain r c where s: "from_decision sample_args (sample_reconciled r) None ''t'' = Inr c"
    "ec_effective_date c = ''2026-07-30''"
    "pr_disposition r = REDUCING_ONLY" "binding_findings c sample_release r = []"
    and e: "evaluate_paper_execution_admission (Some c) (RelIdentity sample_release) ''now''
        = Inr (admit_receipt c sample_release r)"
    by (rule sample_admitted [of REDUCING_ONLY "[''DRAWDOWN_LIMIT'']"]) auto
  let ?adm = "admit_receipt c sample_release r"
  have known_reducing: "finding_text (FindingValue (PStr ''paper_risk_admission_reducing_only''))
      = ''paper_risk_admission_reducing_only''"
    "''paper_risk_admission_reducing_only'' \<in> set known_findings"
    "''paper_risk_admission_reducing_only'' \<in> set reducing_findings"
    by (auto simp: known_findings_def reducing_findings_def known_finding_text)
  have adm: "pa_disposition ?adm = REDUCING_ONLY"
    "pa_integrity_findings ?adm = [''paper_risk_admission_reducing_only'']"
    by (simp_all add: admit_receipt_def s)
  let ?fs = "map (\<lambda>f. FindingValue (PStr f)) (pa_integrity_findings ?adm)"
  obtain d where d: "evaluate_runtime_command_gate (EnumMember SUBMIT) (EnumMember REDUCES) (Some c)
        (Some (EnumMember CLAIMED)) (PStr ''2026-07-30'') (PDict sample_receipt)
        (RelIdentity sample_release) ?fs default_gate_policy = Inr d"
    by (rule gate_total [of "Some (EnumMember CLAIMED)"]) auto
  have allowed: "gt_policy_allows d"
    using sample_gate [OF d s(2)]
    by (simp add: adm normalize_runtime_command_integrity_findings_def known_reducing append_new_def)
  have "pa_disposition ?adm \<noteq> RISK_HALTED"
    using gate_respects_admission [OF e d _ _ allowed] by (simp add: is_write_def)
  then show ?thesis
    using s(1) e adm(1) d allowed by (intro exI conjI)
qed

end
