(* ===== verification/ObjectStore.thy ===== *)
theory ObjectStore
  imports PyJson
begin

text \<open>
  Create-only storage. The interface is the part of \<open>cloud/ports.py\<close>'s \<open>ObjectStore\<close> the
  durable journals use (\<open>create_text\<close>, \<open>read_text\<close>, \<open>list\<close>); it is stated as locales. The
  providers are the local one (\<open>cloud/local_provider.py\<close>, on a file system) and the Google
  Cloud Storage one (\<open>cloud/gcp_provider.py\<close>, on a client library that is a parameter). A
  file system is an association list from path texts to contents; directories are implied by
  the paths, so \<open>mkdir(parents=True, exist_ok=True)\<close> has no effect in the model.
\<close>

type_synonym files = "(string \<times> string) list"

section \<open>Interfaces\<close>

record 'w object_store =
  os_create_text :: "string \<Rightarrow> string \<Rightarrow> 'w \<Rightarrow> bool res \<times> 'w"
  os_read_text :: "string \<Rightarrow> 'w \<Rightarrow> string res"
  os_list :: "string \<Rightarrow> 'w \<Rightarrow> string list res"

text \<open>
  What a journal needs of its storage. \<open>objs w\<close> is the content of a storage state; \<open>good\<close> are
  the names that denote an object in one way only.
\<close>

locale create_only =
  fixes create :: "string \<Rightarrow> string \<Rightarrow> 'w \<Rightarrow> bool res \<times> 'w"
    and read_at :: "string \<Rightarrow> 'w \<Rightarrow> string res"
    and objs :: "'w \<Rightarrow> string \<Rightarrow> string option"
    and good :: "string \<Rightarrow> bool"
  assumes create_result: "good u \<Longrightarrow> fst (create u d w) = Inr (objs w u = None)"
    and create_objs: "good u \<Longrightarrow> good v \<Longrightarrow>
      objs (snd (create u d w)) v = (if v = u \<and> objs w u = None then Some d else objs w v)"
    and read_present: "good u \<Longrightarrow> objs w u = Some d \<Longrightarrow> read_at u w = Inr d"
begin

text \<open>A run of create requests by any number of writers, and the answers they got.\<close>

fun run :: "(string \<times> string) list \<Rightarrow> 'w \<Rightarrow> bool res list \<times> 'w" where
  "run [] w = ([], w)"
| "run ((u, d) # rs) w = (let (b, w1) = create u d w; (bs, w2) = run rs w1 in (b # bs, w2))"

lemma create_keeps: "good u \<Longrightarrow> good v \<Longrightarrow> objs w v = Some e \<Longrightarrow> objs (snd (create u d w)) v = Some e"
  by (auto simp: create_objs)

lemma run_keeps:
  "list_all (\<lambda>(u, d). good u) rs \<Longrightarrow> good v \<Longrightarrow> objs w v = Some e
    \<Longrightarrow> objs (snd (run rs w)) v = Some e"
proof (induction rs arbitrary: w)
  case (Cons r rs)
  then show ?case
    by (cases r) (auto simp: Let_def split_beta create_keeps)
qed simp

text \<open>Once an object exists, every later request for its name is refused.\<close>

lemma run_refuses:
  "list_all (\<lambda>(u, d). good u) rs \<Longrightarrow> good v \<Longrightarrow> objs w v = Some e
    \<Longrightarrow> (r, b) \<in> set (zip rs (fst (run rs w))) \<Longrightarrow> fst r = v \<Longrightarrow> b = Inr False"
proof (induction rs arbitrary: w)
  case (Cons x rs)
  obtain u d where x: "x = (u, d)" by force
  have "fst (create u d w) = Inr (objs w u = None)"
    using Cons.prems(1) by (simp add: x create_result)
  moreover have "objs (snd (create u d w)) v = Some e"
    using Cons.prems by (simp add: x create_keeps)
  ultimately show ?case
    using Cons.prems Cons.IH [of "snd (create u d w)"] by (auto simp: x Let_def split_beta)
qed simp

text \<open>Of all requests for one name, exactly the first is granted when the name is free; its
  data is what every reader sees from then on.\<close>

lemma run_first_wins:
  "list_all (\<lambda>(u, d). good u) rs \<Longrightarrow> good v \<Longrightarrow> objs w v = None
    \<Longrightarrow> length (filter (\<lambda>rb. fst (fst rb) = v \<and> snd rb = Inr True) (zip rs (fst (run rs w))))
        = (if v \<in> fst ` set rs then 1 else 0)
      \<and> objs (snd (run rs w)) v = map_of rs v"
proof (induction rs arbitrary: w)
  case (Cons x rs)
  obtain u d where x: "x = (u, d)" by force
  have g: "good u" "list_all (\<lambda>(u, d). good u) rs"
    using Cons.prems(1) by (simp_all add: x)
  show ?case
  proof (cases "u = v")
    case True
    have e: "objs (snd (create u d w)) v = Some d"
      using g Cons.prems True by (simp add: create_objs)
    have "filter (\<lambda>rb. fst (fst rb) = v \<and> snd rb = Inr True)
        (zip rs (fst (run rs (snd (create u d w))))) = []"
      using run_refuses [OF g(2) Cons.prems(2) e] by (fastforce simp: filter_empty_conv)
    then show ?thesis
      using True g Cons.prems run_keeps [OF g(2) Cons.prems(2) e]
      by (simp add: x Let_def split_beta create_result)
  next
    case False
    then have "objs (snd (create u d w)) v = None"
      using g Cons.prems by (simp add: create_objs)
    from Cons.IH [OF g(2) Cons.prems(2) this] False show ?thesis
      by (auto simp: x Let_def split_beta)
  qed
qed simp

end

text \<open>Storage that also lists the objects under a prefix.\<close>

locale listing_store = create_only +
  fixes list_under :: "string \<Rightarrow> 'a \<Rightarrow> string list res"
  assumes list_under: "good p \<Longrightarrow> \<exists>us. list_under p w = Inr us \<and> distinct us
      \<and> set us = {u. good u \<and> starts_with p u \<and> objs w u \<noteq> None}"

section \<open>Paths\<close>

text \<open>\<open>str(Path(s))\<close>: empty and \<open>.\<close> components disappear; a leading slash (or exactly two) is
  the root.\<close>

definition path_root :: "string \<Rightarrow> string" where
  "path_root s = (if starts_with ''//'' s \<and> \<not> starts_with ''///'' s then ''//''
     else if starts_with ''/'' s then ''/'' else [])"

definition path_parts :: "string \<Rightarrow> string list" where
  "path_parts s = filter (\<lambda>c. c \<noteq> [] \<and> c \<noteq> ''.'') (split_on (CHR ''/'') s)"

definition path_text :: "string \<Rightarrow> string list \<Rightarrow> string" where
  "path_text anchor parts =
     (if anchor = [] \<and> parts = [] then ''.'' else anchor @ join ''/'' parts)"

definition norm_path :: "string \<Rightarrow> string" where
  "norm_path s = path_text (path_root s) (path_parts s)"

text \<open>\<open>Path(a) / b\<close>: an absolute \<open>b\<close> replaces \<open>a\<close>.\<close>

definition path_join :: "string \<Rightarrow> string \<Rightarrow> string" where
  "path_join a b = (if starts_with ''/'' b then norm_path b
     else path_text (path_root a) (path_parts a @ path_parts b))"

text \<open>The components of \<open>u\<close> below the directory \<open>prefix\<close>.\<close>

definition path_below :: "string \<Rightarrow> string \<Rightarrow> string list option" where
  "path_below prefix u =
     (if starts_with (prefix @ ''/'') u
      then Some (split_on (CHR ''/'') (drop (Suc (length prefix)) u)) else None)"

definition path_name :: "string \<Rightarrow> string" where
  "path_name p = last (split_on (CHR ''/'') p)"

section \<open>File systems\<close>

definition file_names :: "files \<Rightarrow> string list" where
  "file_names fs = dedup (map fst fs)"

text \<open>\<open>os.open(path, O_CREAT | O_EXCL)\<close> followed by the write of the content; the answer is
  False where the call raises FileExistsError.\<close>

definition fs_create :: "string \<Rightarrow> string \<Rightarrow> files \<Rightarrow> bool \<times> files" where
  "fs_create p d fs = (if map_of fs p = None then (True, dict_set fs p d) else (False, fs))"

definition fs_read :: "string \<Rightarrow> files \<Rightarrow> string res" where
  "fs_read p fs = (case map_of fs p of None \<Rightarrow> Inl FileNotFoundError | Some d \<Rightarrow> Inr d)"

definition fs_unlink :: "string \<Rightarrow> files \<Rightarrow> files" where
  "fs_unlink p fs = filter (\<lambda>(q, d). q \<noteq> p) fs"

text \<open>\<open>os.link(src, dst)\<close>: False where it raises FileExistsError.\<close>

definition fs_link :: "string \<Rightarrow> string \<Rightarrow> files \<Rightarrow> bool \<times> files" where
  "fs_link src dst fs = (if map_of fs dst \<noteq> None then (False, fs)
     else (True, dict_set fs dst (case map_of fs src of None \<Rightarrow> [] | Some d \<Rightarrow> d)))"

lemma map_of_fs_unlink: "map_of (fs_unlink p fs) q = (if q = p then None else map_of fs q)"
  by (induction fs) (auto simp: fs_unlink_def)

section \<open>The local provider\<close>

text \<open>\<open>STORAGE_DIR\<close> is a parameter: it depends on the home directory.\<close>

definition to_local_path :: "string \<Rightarrow> string \<Rightarrow> string res" where
  "to_local_path storage_dir uri =
     (if starts_with ''file://'' uri then Inr (norm_path (drop 7 uri))
      else if starts_with ''gs://'' uri \<or> starts_with ''s3://'' uri \<or> starts_with ''az://'' uri
      then (let scheme = hd (split_on (CHR '':'') uri);
                path_part = drop (length scheme + 3) uri
            in Inr (path_join (path_join storage_dir scheme) path_part))
      else if starts_with ''/'' uri then Inr (norm_path uri)
      else Inl (ValueError (''Cannot resolve local path for URI: '' @ uri)))"

definition local_create_text :: "string \<Rightarrow> string \<Rightarrow> string \<Rightarrow> files \<Rightarrow> bool res \<times> files" where
  "local_create_text storage_dir uri data fs = (case to_local_path storage_dir uri of
     Inl e \<Rightarrow> (Inl e, fs)
   | Inr p \<Rightarrow> (let (ok, fs') = fs_create p data fs in (Inr ok, fs')))"

definition local_read_text :: "string \<Rightarrow> string \<Rightarrow> files \<Rightarrow> string res" where
  "local_read_text storage_dir uri fs =
     bind_res (to_local_path storage_dir uri) (\<lambda>p. fs_read p fs)"

definition local_exists :: "string \<Rightarrow> string \<Rightarrow> files \<Rightarrow> bool res" where
  "local_exists storage_dir uri fs =
     map_res (\<lambda>p. map_of fs p \<noteq> None \<or> (\<exists>u \<in> set (file_names fs). path_below p u \<noteq> None))
       (to_local_path storage_dir uri)"

definition local_write_text :: "string \<Rightarrow> string \<Rightarrow> string \<Rightarrow> files \<Rightarrow> string res \<times> files" where
  "local_write_text storage_dir uri data fs = (case to_local_path storage_dir uri of
     Inl e \<Rightarrow> (Inl e, fs) | Inr p \<Rightarrow> (Inr uri, dict_set fs p data))"

text \<open>\<open>[str(p) for p in path.iterdir() if p.is_file()]\<close>: the files directly in the directory,
  as local paths.\<close>

definition local_list :: "string \<Rightarrow> string \<Rightarrow> files \<Rightarrow> string list res" where
  "local_list storage_dir uri fs = map_res (\<lambda>p.
     filter (\<lambda>u. case path_below p u of Some [n] \<Rightarrow> True | _ \<Rightarrow> False) (file_names fs))
     (to_local_path storage_dir uri)"

definition local_object_store :: "string \<Rightarrow> files object_store" where
  "local_object_store storage_dir = \<lparr>os_create_text = local_create_text storage_dir,
     os_read_text = local_read_text storage_dir, os_list = local_list storage_dir\<rparr>"

section \<open>The Google Cloud Storage provider\<close>

text \<open>
  The client library: an upload with \<open>if_generation_match=0\<close> (False stands for the
  \<open>Conflict\<close> or \<open>PreconditionFailed\<close> it raises), a download, and the names under a prefix.
\<close>

record 'w blob_client =
  bc_upload_new :: "string \<Rightarrow> string \<Rightarrow> string \<Rightarrow> 'w \<Rightarrow> bool res \<times> 'w"
  bc_download :: "string \<Rightarrow> string \<Rightarrow> 'w \<Rightarrow> string res"
  bc_list_blobs :: "string \<Rightarrow> string \<Rightarrow> 'w \<Rightarrow> string list"

text \<open>\<open>_parse_uri\<close>: the bucket and the blob.\<close>

definition parse_gs_uri :: "string \<Rightarrow> string \<times> string" where
  "parse_gs_uri uri =
     (let path = remove_prefix ''gs://'' uri
      in (takeWhile (\<lambda>c. c \<noteq> CHR ''/'') path, drop 1 (dropWhile (\<lambda>c. c \<noteq> CHR ''/'') path)))"

definition gcp_create_text :: "'w blob_client \<Rightarrow> string \<Rightarrow> string \<Rightarrow> 'w \<Rightarrow> bool res \<times> 'w" where
  "gcp_create_text cl uri data w =
     (let (bucket, blob) = parse_gs_uri uri in bc_upload_new cl bucket blob data w)"

definition gcp_read_text :: "'w blob_client \<Rightarrow> string \<Rightarrow> 'w \<Rightarrow> string res" where
  "gcp_read_text cl uri w = (let (bucket, blob) = parse_gs_uri uri in bc_download cl bucket blob w)"

definition gcp_list :: "'w blob_client \<Rightarrow> string \<Rightarrow> 'w \<Rightarrow> string list res" where
  "gcp_list cl prefix w = (let (bucket, path) = parse_gs_uri prefix
     in Inr (map (\<lambda>n. ''gs://'' @ bucket @ ''/'' @ n) (bc_list_blobs cl bucket path w)))"

definition gcp_object_store :: "'w blob_client \<Rightarrow> 'w object_store" where
  "gcp_object_store cl = \<lparr>os_create_text = gcp_create_text cl, os_read_text = gcp_read_text cl,
     os_list = gcp_list cl\<rparr>"

section \<open>The providers keep the contract\<close>

interpretation fs: create_only "\<lambda>p d fs. map_prod Inr id (fs_create p d fs)" fs_read map_of "\<lambda>_. True"
  by unfold_locales
    (auto simp: fs_create_def fs_read_def map_of_dict_set)

text \<open>For the local provider the names are absolute paths in normal form: other texts may denote
  the same file.\<close>

interpretation local_provider: create_only "local_create_text storage_dir"
  "local_read_text storage_dir" map_of "\<lambda>u. to_local_path storage_dir u = Inr u"
  for storage_dir
  by unfold_locales
    (auto simp: local_create_text_def local_read_text_def fs_create_def fs_read_def map_of_dict_set
      split: if_splits)

text \<open>The documented behaviour of the storage service: a conditional upload succeeds exactly when
  the blob does not exist, a download returns what was uploaded, a listing returns the names of
  the bucket's blobs that start with the prefix.\<close>

locale blob_service =
  fixes client :: "'w blob_client"
    and contents :: "'w \<Rightarrow> string \<Rightarrow> string \<Rightarrow> string option"
  assumes upload_result: "fst (bc_upload_new client b n d w) = Inr (contents w b n = None)"
    and upload_contents: "contents (snd (bc_upload_new client b n d w)) b' n' =
      (if b' = b \<and> n' = n \<and> contents w b n = None then Some d else contents w b' n')"
    and download: "contents w b n = Some d \<Longrightarrow> bc_download client b n w = Inr d"
    and listing: "set (bc_list_blobs client b p w) = {n. starts_with p n \<and> contents w b n \<noteq> None}"
    and listing_distinct: "distinct (bc_list_blobs client b p w)"

definition gs_uri :: "string \<Rightarrow> string \<Rightarrow> string" where
  "gs_uri b n = ''gs://'' @ b @ ''/'' @ n"

definition good_gs_uri :: "string \<Rightarrow> bool" where
  "good_gs_uri u \<longleftrightarrow> (\<exists>b n. u = gs_uri b n \<and> CHR ''/'' \<notin> set b)"

lemma starts_with_Nil [simp]: "starts_with [] s"
  by (simp add: starts_with_def)

lemma starts_with_append [simp]: "starts_with p (p @ s)"
  by (simp add: starts_with_def)

lemma starts_with_same [simp]: "starts_with (p @ q) (p @ s) \<longleftrightarrow> starts_with q s"
  by (simp add: starts_with_def)

lemma starts_with_Cons [simp]: "starts_with (c # p) (d # s) \<longleftrightarrow> c = d \<and> starts_with p s"
  by (auto simp: starts_with_def)

lemma parse_gs_uri:
  assumes "CHR ''/'' \<notin> set b"
  shows "parse_gs_uri (gs_uri b n) = (b, n)"
proof -
  have "takeWhile (\<lambda>c. c \<noteq> CHR ''/'') (b @ ''/'' @ n) = b"
    and "dropWhile (\<lambda>c. c \<noteq> CHR ''/'') (b @ ''/'' @ n) = ''/'' @ n"
    using assms by (induction b) auto
  then show ?thesis
    by (simp add: parse_gs_uri_def gs_uri_def remove_prefix_def starts_with_def)
qed

lemma starts_with_gs_uri:
  assumes "CHR ''/'' \<notin> set b" "CHR ''/'' \<notin> set b'"
  shows "starts_with (gs_uri b p) (gs_uri b' n) \<longleftrightarrow> b = b' \<and> starts_with p n"
proof
  assume "starts_with (gs_uri b p) (gs_uri b' n)"
  then have "gs_uri b' n = gs_uri b p @ drop (length (gs_uri b p)) (gs_uri b' n)"
    unfolding starts_with_def by (metis append_take_drop_id)
  then obtain r where "gs_uri b' n = gs_uri b (p @ r)"
    by (simp add: gs_uri_def)
  then have "(b', n) = (b, p @ r)"
    using parse_gs_uri [OF assms(1)] parse_gs_uri [OF assms(2)] by metis
  then show "b = b' \<and> starts_with p n" by simp
qed (simp add: gs_uri_def)

definition gs_objs :: "('w \<Rightarrow> string \<Rightarrow> string \<Rightarrow> string option) \<Rightarrow> 'w \<Rightarrow> string \<Rightarrow> string option" where
  "gs_objs contents w u = (let (b, n) = parse_gs_uri u in contents w b n)"

sublocale blob_service \<subseteq> gcs: listing_store "gcp_create_text client" "gcp_read_text client"
  "gs_objs contents" good_gs_uri "gcp_list client"
proof
  fix u v d w
  assume u: "good_gs_uri u"
  then obtain b n where bn: "u = gs_uri b n" "CHR ''/'' \<notin> set b" by (auto simp: good_gs_uri_def)
  show "fst (gcp_create_text client u d w) = Inr (gs_objs contents w u = None)"
    by (simp add: bn parse_gs_uri gcp_create_text_def gs_objs_def upload_result)
  show "gs_objs contents w u = Some d \<Longrightarrow> gcp_read_text client u w = Inr d"
    by (simp add: bn parse_gs_uri gcp_read_text_def gs_objs_def download)
  show "\<exists>us. gcp_list client u w = Inr us \<and> distinct us
      \<and> set us = {v. good_gs_uri v \<and> starts_with u v \<and> gs_objs contents w v \<noteq> None}"
  proof (intro exI conjI)
    show "gcp_list client u w = Inr (map (gs_uri b) (bc_list_blobs client b n w))"
      by (simp add: bn parse_gs_uri gcp_list_def) (simp add: gs_uri_def)
    show "distinct (map (gs_uri b) (bc_list_blobs client b n w))"
      by (simp add: distinct_map listing_distinct inj_on_def gs_uri_def)
    show "set (map (gs_uri b) (bc_list_blobs client b n w))
        = {v. good_gs_uri v \<and> starts_with u v \<and> gs_objs contents w v \<noteq> None}"
      using bn(2) by (auto simp: bn listing gs_objs_def parse_gs_uri good_gs_uri_def
          starts_with_gs_uri)
  qed
  assume "good_gs_uri v"
  then obtain b' n' where bn': "v = gs_uri b' n'" "CHR ''/'' \<notin> set b'" by (auto simp: good_gs_uri_def)
  have "gs_uri b' n' = gs_uri b n \<longleftrightarrow> b' = b \<and> n' = n"
    using parse_gs_uri [OF bn(2), of n] parse_gs_uri [OF bn'(2), of n'] by auto
  then show "gs_objs contents (snd (gcp_create_text client u d w)) v
      = (if v = u \<and> gs_objs contents w u = None then Some d else gs_objs contents w v)"
    using bn bn' by (simp add: parse_gs_uri gcp_create_text_def gs_objs_def upload_contents)
qed

context blob_service begin

lemma gcs_contract:
  "listing_store (gcp_create_text client) (gcp_read_text client) (gs_objs contents) good_gs_uri
     (gcp_list client)"
  by (rule gcs.listing_store_axioms)

end

text \<open>A service kept in memory shows that the documented behaviour is consistent.\<close>

definition memory_client :: "((string \<times> string) \<times> string) list blob_client" where
  "memory_client =
     \<lparr>bc_upload_new = (\<lambda>b n d w. if map_of w (b, n) = None then (Inr True, dict_set w (b, n) d)
        else (Inr False, w)),
      bc_download = (\<lambda>b n w. case map_of w (b, n) of None \<Rightarrow> Inl FileNotFoundError | Some d \<Rightarrow> Inr d),
      bc_list_blobs = (\<lambda>b p w. dedup [n. ((b', n), d) \<leftarrow> w, b' = b \<and> starts_with p n])\<rparr>"

interpretation memory: blob_service memory_client "\<lambda>w b n. map_of w (b, n)"
  by unfold_locales
    (auto simp: memory_client_def map_of_dict_set map_of_eq_None_iff dom_def image_iff
      dest: map_of_SomeD, force+)

end
