(* ===== verification/CommandStore.thy ===== *)
theory CommandStore
  imports ExecutionCommands ObjectStore "HOL-Library.Product_Lexorder"
begin

text \<open>
  The durable store of execution commands, \<open>ExecutionCommandStore\<close> of
  \<open>common/execution_commands.py\<close>: where a command and its events live, on an object store or in
  a local directory, and the operations \<open>enqueue\<close>, \<open>events\<close>, \<open>append_event\<close>, \<open>claim_due\<close>,
  \<open>list_due\<close>, \<open>list_unresolved\<close> with the recovery report. A storage state is a pair of the
  object store's state and the file system. An operation that writes returns its outcome and
  the state it leaves.
\<close>

section \<open>Backends\<close>

record store_config =
  sc_local_dir :: "string option"
  sc_cloud_prefix_uri :: "string option"
  sc_namespace :: string

definition is_set :: "string option \<Rightarrow> bool" where
  "is_set x \<longleftrightarrow> (case x of None \<Rightarrow> False | Some s \<Rightarrow> s \<noteq> [])"

definition command_version_root :: "store_config \<Rightarrow> string res" where
  "command_version_root cfg =
     (if is_set (sc_cloud_prefix_uri cfg)
      then Inr (join ''/'' [rstrip_by (\<lambda>c. c = CHR ''/'') (the (sc_cloud_prefix_uri cfg)),
             sc_namespace cfg, ''execution_command.v1''])
      else if is_set (sc_local_dir cfg)
      then Inr (path_join (path_join (norm_path (the (sc_local_dir cfg))) (sc_namespace cfg))
             ''execution_command.v1'')
      else Inl (RuntimeError ''execution command store has no durable backend''))"

text \<open>The private temporary name beside \<open>p\<close>: \<open>p.parent / f".{p.name}.{uuid}.tmp"\<close>.\<close>

definition temporary_path :: "string \<Rightarrow> string \<Rightarrow> string" where
  "temporary_path p uuid = take (length p - length (path_name p)) p
     @ ''.'' @ path_name p @ ''.'' @ uuid @ ''.tmp''"

text \<open>Write a temporary file, link it to its final name, remove the temporary file; the link
  fails when the name exists. \<open>uuid\<close> is the source of fresh names.\<close>

definition link_new :: "(files \<Rightarrow> string) \<Rightarrow> string \<Rightarrow> string \<Rightarrow> files \<Rightarrow> bool res \<times> files" where
  "link_new uuid p data fs =
     (let tmp = temporary_path p (uuid fs); (opened, fs1) = fs_create tmp data fs in
      if \<not> opened then (Inl FileExistsError, fs_unlink tmp fs1)
      else (let (linked, fs2) = fs_link tmp p fs1 in (Inr linked, fs_unlink tmp fs2)))"

definition store_create_text :: "store_config \<Rightarrow> 'w object_store \<Rightarrow> (files \<Rightarrow> string) \<Rightarrow>
    string \<Rightarrow> string \<Rightarrow> 'w \<times> files \<Rightarrow> bool res \<times> ('w \<times> files)" where
  "store_create_text cfg os uuid loc data w = (case w of (cw, fs) \<Rightarrow>
     if is_set (sc_cloud_prefix_uri cfg)
     then (let (r, cw') = os_create_text os loc data cw in (r, (cw', fs)))
     else (let (r, fs') = link_new uuid loc data fs in (r, (cw, fs'))))"

definition store_read_text ::
  "store_config \<Rightarrow> 'w object_store \<Rightarrow> string \<Rightarrow> 'w \<times> files \<Rightarrow> string res" where
  "store_read_text cfg os loc w = (case w of (cw, fs) \<Rightarrow>
     if is_set (sc_cloud_prefix_uri cfg) then os_read_text os loc cw else fs_read loc fs)"

text \<open>\<open>path.glob("*/command.json")\<close>, or \<open>path.glob("*.json")\<close> for a directory named events.\<close>

definition store_list_locations ::
  "store_config \<Rightarrow> 'w object_store \<Rightarrow> string \<Rightarrow> 'w \<times> files \<Rightarrow> string list res" where
  "store_list_locations cfg os prefix w = (case w of (cw, fs) \<Rightarrow>
     if is_set (sc_cloud_prefix_uri cfg) then os_list os prefix cw
     else Inr (filter (\<lambda>u. if path_name prefix \<noteq> ''events''
         then (case path_below prefix u of Some [_, n] \<Rightarrow> n = ''command.json'' | _ \<Rightarrow> False)
         else (case path_below prefix u of Some [n] \<Rightarrow> ends_with ''.json'' n | _ \<Rightarrow> False))
         (file_names fs)))"

definition store_list_all ::
  "store_config \<Rightarrow> 'w object_store \<Rightarrow> 'w \<times> files \<Rightarrow> string list res" where
  "store_list_all cfg os w = (case w of (cw, fs) \<Rightarrow>
     bind_res (command_version_root cfg) (\<lambda>r.
       if is_set (sc_cloud_prefix_uri cfg) then os_list os (r @ ''/'') cw
       else Inr (filter (\<lambda>u. case path_below r u of
           Some [_, _, n] \<Rightarrow> n = ''command.json'' | _ \<Rightarrow> False) (file_names fs))))"

text \<open>What the operations below use of a store.\<close>

record 'w command_store =
  cs_root :: "string res"
  cs_create :: "string \<Rightarrow> string \<Rightarrow> 'w \<Rightarrow> bool res \<times> 'w"
  cs_read :: "string \<Rightarrow> 'w \<Rightarrow> string res"
  cs_list :: "string \<Rightarrow> 'w \<Rightarrow> string list res"
  cs_list_all :: "'w \<Rightarrow> string list res"

definition durable_store ::
  "store_config \<Rightarrow> 'w object_store \<Rightarrow> (files \<Rightarrow> string) \<Rightarrow> ('w \<times> files) command_store" where
  "durable_store cfg os uuid = \<lparr>cs_root = command_version_root cfg,
     cs_create = store_create_text cfg os uuid, cs_read = store_read_text cfg os,
     cs_list = store_list_locations cfg os, cs_list_all = store_list_all cfg os\<rparr>"

section \<open>Locations\<close>

definition location :: "'w command_store \<Rightarrow> string \<Rightarrow> string list \<Rightarrow> string res" where
  "location st effective_date parts =
     bind_res (iso_date (PStr effective_date) ''effective_date'') (\<lambda>safe_date.
     bind_res (mapM (\<lambda>p. safe_path_part (PStr p) ''execution command path part'') parts) (\<lambda>safe_parts.
     map_res (\<lambda>r. join ''/'' (r # safe_date # safe_parts)) (cs_root st)))"

definition command_location :: "'w command_store \<Rightarrow> command \<Rightarrow> string res" where
  "command_location st c = location st (ec_effective_date c) [ec_command_id c, ''command.json'']"

definition event_prefix :: "'w command_store \<Rightarrow> command \<Rightarrow> string res" where
  "event_prefix st c = location st (ec_effective_date c) [ec_command_id c, ''events'']"

definition event_file :: "int \<Rightarrow> string" where
  "event_file sequence = zero_pad 8 (nat_str (nat sequence)) @ ''.json''"

definition event_location :: "'w command_store \<Rightarrow> command \<Rightarrow> int \<Rightarrow> string res" where
  "event_location st c sequence =
     location st (ec_effective_date c) [ec_command_id c, ''events'', event_file sequence]"

section \<open>Reading\<close>

text \<open>\<open>f(json.loads(text))\<close> where \<open>f\<close> begins with \<open>payload.get\<close>.\<close>

definition decode_with :: "(pydict \<Rightarrow> 'a res) \<Rightarrow> string \<Rightarrow> 'a res" where
  "decode_with f text = (case json_loads text of
     None \<Rightarrow> Inl (ValueError ''the text is not valid JSON'')
   | Some (PDict d) \<Rightarrow> f d
   | Some _ \<Rightarrow> Inl (AttributeError ''get''))"

fun check_history :: "string \<Rightarrow> int \<Rightarrow> command_state \<Rightarrow> event list \<Rightarrow> unit res" where
  "check_history cid n prev [] = Inr ()"
| "check_history cid n prev (e # es) =
     require (ev_command_id e = cid \<and> ev_sequence e = n)
       (RuntimeError ''execution command events are incomplete or belong to another command'')
    (require (ev_previous_state e = prev)
       (RuntimeError ''execution command event history has an invalid previous state'')
       (check_history cid (n + 1) (ev_state e) es))"

definition read_events :: "'w command_store \<Rightarrow> string list \<Rightarrow> 'w \<Rightarrow> event list res" where
  "read_events st locations w =
     mapM (\<lambda>l. bind_res (cs_read st l w) (decode_with event_from_dict))
       (filter (ends_with ''.json'') locations)"

definition events :: "'w command_store \<Rightarrow> command \<Rightarrow> 'w \<Rightarrow> event list res" where
  "events st c w =
     bind_res (event_prefix st c) (\<lambda>prefix.
     bind_res (cs_list st prefix w) (\<lambda>locations.
     bind_res (read_events st locations w) (\<lambda>es.
       let sorted_es = sort_key ev_sequence es
       in map_res (\<lambda>_. sorted_es) (check_history (ec_command_id c) 1 QUEUED sorted_es))))"

definition last_state :: "event list \<Rightarrow> command_state" where
  "last_state es = (if es = [] then QUEUED else ev_state (last es))"

definition current_state :: "'w command_store \<Rightarrow> command \<Rightarrow> 'w \<Rightarrow> command_state res" where
  "current_state st c w = map_res last_state (events st c w)"

definition list_due :: "'w command_store \<Rightarrow> pyval \<Rightarrow> string \<Rightarrow> 'w \<Rightarrow> command list res" where
  "list_due st effective_date now w =
     bind_res (iso_date effective_date ''effective_date'') (\<lambda>due.
     bind_res (location st due []) (\<lambda>prefix.
     bind_res (cs_list st prefix w) (\<lambda>locations.
     map_res (sort_key ec_command_id)
       (mapM (\<lambda>l. bind_res (cs_read st l w) (decode_with (\<lambda>d. command_from_dict d now)))
         (filter (\<lambda>l. ends_with ''/command.json'' l \<or> path_name (norm_path l) = ''command.json'')
           locations)))))"

definition list_unresolved :: "'w command_store \<Rightarrow> string \<Rightarrow> 'w \<Rightarrow> command list res" where
  "list_unresolved st now w =
     bind_res (cs_list_all st w) (\<lambda>locations.
     bind_res (mapM (\<lambda>l.
         bind_res (cs_read st l w) (\<lambda>text.
         bind_res (decode_with (\<lambda>d. command_from_dict d now) text) (\<lambda>c.
         map_res (\<lambda>s. if s \<notin> set terminal_states then [c] else []) (current_state st c w))))
       (filter (ends_with ''/command.json'') locations)) (\<lambda>found.
     Inr (sort_key (\<lambda>c. (ec_effective_date c, ec_command_id c)) (concat found))))"

section \<open>Writing\<close>

definition enqueue :: "'w command_store \<Rightarrow> command \<Rightarrow> 'w \<Rightarrow> bool res \<times> 'w" where
  "enqueue st c w = (case bind_res (command_location st c) (\<lambda>l.
       map_res (\<lambda>d. (l, json_dumps indent_style (PDict d))) (command_to_dict c)) of
     Inl e \<Rightarrow> (Inl e, w) | Inr (l, text) \<Rightarrow> cs_create st l text w)"

text \<open>
  \<open>append_event\<close> up to its only write: the history is read and the next event is built. None
  is the early return on an unexpected previous state.
\<close>

definition plan_event :: "'w command_store \<Rightarrow> command \<Rightarrow> state_arg \<Rightarrow> pydict \<Rightarrow>
    state_arg option \<Rightarrow> string \<Rightarrow> 'w \<Rightarrow> event option res" where
  "plan_event st c next_state details expected now w =
     bind_res (events st c w) (\<lambda>prior.
     bind_res (case expected of None \<Rightarrow> Inr True
        | Some a \<Rightarrow> map_res (\<lambda>s. last_state prior = s) (normalize_state a)) (\<lambda>as_expected.
       if \<not> as_expected then Inr None else
       bind_res (normalize_state next_state) (\<lambda>nxt.
       bind_res (validate_execution_command_transition (Member (last_state prior)) (Member nxt)) (\<lambda>_.
       Inr (Some \<lparr>ev_command_id = ec_command_id c, ev_sequence = int (length prior) + 1,
              ev_previous_state = last_state prior, ev_state = nxt, ev_recorded_at = now,
              ev_details_json = canonical_json details\<rparr>)))))"

definition commit_event :: "'w command_store \<Rightarrow> command \<Rightarrow> event \<Rightarrow> 'w \<Rightarrow> event option res \<times> 'w" where
  "commit_event st c e w = (case bind_res (event_location st c (ev_sequence e)) (\<lambda>l.
       map_res (\<lambda>d. (l, json_dumps indent_style (PDict d))) (event_to_dict e)) of
     Inl x \<Rightarrow> (Inl x, w)
   | Inr (l, text) \<Rightarrow> (let (created, w') = cs_create st l text w
       in (map_res (\<lambda>b. if b then Some e else None) created, w')))"

definition append_event :: "'w command_store \<Rightarrow> command \<Rightarrow> state_arg \<Rightarrow> pydict \<Rightarrow>
    state_arg option \<Rightarrow> string \<Rightarrow> 'w \<Rightarrow> event option res \<times> 'w" where
  "append_event st c next_state details expected now w =
     (case plan_event st c next_state details expected now w of
        Inl x \<Rightarrow> (Inl x, w) | Inr None \<Rightarrow> (Inr None, w) | Inr (Some e) \<Rightarrow> commit_event st c e w)"

definition claim_due :: "'w command_store \<Rightarrow> command \<Rightarrow> pyval \<Rightarrow> pyval \<Rightarrow> string \<Rightarrow> 'w
    \<Rightarrow> event option res \<times> 'w" where
  "claim_due st c as_of_date claimant now w = (case is_due_on c as_of_date of
     Inl x \<Rightarrow> (Inl x, w)
   | Inr False \<Rightarrow> (Inr None, w)
   | Inr True \<Rightarrow> (case safe_path_part claimant ''claimant'' of
         Inl x \<Rightarrow> (Inl x, w)
       | Inr who \<Rightarrow> append_event st c (Member CLAIMED) [(''claimant'', PStr who)]
           (Some (Member QUEUED)) now w))"

section \<open>Recovery\<close>

record recovery_entry =
  re_command_id :: string
  re_effective_date :: string
  re_state :: string
  re_age_days :: int

definition parse_date :: "string \<Rightarrow> pydate res" where
  "parse_date s = (case date_fromisoformat s of Some d \<Rightarrow> Inr d
     | None \<Rightarrow> Inl (ValueError ''Invalid isoformat string''))"

definition build_recovery_report ::
  "'w command_store \<Rightarrow> pyval \<Rightarrow> string \<Rightarrow> 'w \<Rightarrow> recovery_entry list res" where
  "build_recovery_report st as_of_date now w =
     bind_res (bind_res (iso_date as_of_date ''as_of_date'') parse_date) (\<lambda>as_of.
     bind_res (list_unresolved st now w) (\<lambda>cs.
     bind_res (mapM (\<lambda>c.
         bind_res (parse_date (ec_effective_date c)) (\<lambda>effective.
           if date_le effective as_of
           then map_res (\<lambda>s. [\<lparr>re_command_id = ec_command_id c,
               re_effective_date = ec_effective_date c, re_state = state_value s,
               re_age_days = date_days as_of - date_days effective\<rparr>]) (current_state st c w)
           else Inr [])) cs) (\<lambda>entries.
     Inr (sort_key (\<lambda>e. (re_effective_date e, re_command_id e)) (concat entries)))))"

definition build_execution_command_store_from_env ::
  "pyval \<Rightarrow> (string \<Rightarrow> string option) \<Rightarrow> store_config res" where
  "build_execution_command_store_from_env platform_env_prefix env_reader =
     bind_res (safe_path_part platform_env_prefix ''platform_env_prefix'') (\<lambda>p.
       let prefix = upper p in
       Inr \<lparr>sc_local_dir = env_reader (prefix @ ''_EXECUTION_COMMAND_DIR''),
            sc_cloud_prefix_uri = env_reader (prefix @ ''_EXECUTION_COMMAND_CLOUD_URI''),
            sc_namespace = ''execution_commands''\<rparr>)"

section \<open>Recovery reports\<close>

lemma list_unresolved_open:
  assumes "list_unresolved st now w = Inr cs" "c \<in> set cs"
  shows "\<exists>s. current_state st c w = Inr s \<and> s \<notin> set terminal_states"
proof -
  from assms obtain ls found where
    m: "mapM (\<lambda>l. bind_res (cs_read st l w) (\<lambda>text.
         bind_res (decode_with (\<lambda>d. command_from_dict d now) text) (\<lambda>c.
         map_res (\<lambda>s. if s \<notin> set terminal_states then [c] else []) (current_state st c w)))) ls
       = Inr found" and "c \<in> \<Union> (set ` set found)"
    by (auto simp: list_unresolved_def res_simps)
  then obtain cs' where "cs' \<in> set found" "c \<in> set cs'" by blast
  then obtain i where i: "i < length found" "c \<in> set (found ! i)" by (metis in_set_conv_nth)
  from m [unfolded mapM_Inr_iff] i(1) have "bind_res (cs_read st (ls ! i) w) (\<lambda>text.
         bind_res (decode_with (\<lambda>d. command_from_dict d now) text) (\<lambda>c.
         map_res (\<lambda>s. if s \<notin> set terminal_states then [c] else []) (current_state st c w)))
       = Inr (found ! i)"
    by (simp add: list_all2_conv_all_nth)
  then obtain c' s where "current_state st c' w = Inr s"
    "(if s \<notin> set terminal_states then [c'] else []) = found ! i"
    by (auto simp: bind_res_Inr_iff map_res_Inr_iff)
  with i(2) show ?thesis by (metis empty_iff insert_iff list.set(1,2))
qed

text \<open>A recovery report names only commands whose history is readable and has not reached a
  terminal state, with their present state, none of them due after the given date (so no age
  is negative), ordered by date and id.\<close>

theorem recovery_report_sound:
  assumes "build_recovery_report st as_of now w = Inr report"
  shows "(\<forall>e \<in> set report. 0 \<le> re_age_days e
      \<and> (\<exists>c s. ec_command_id c = re_command_id e \<and> ec_effective_date c = re_effective_date e
          \<and> current_state st c w = Inr s \<and> s \<notin> set terminal_states \<and> re_state e = state_value s))
    \<and> sorted (map (\<lambda>e. (re_effective_date e, re_command_id e)) report)"
proof (intro conjI ballI)
  from assms obtain d day cs entries where day: "iso_date as_of ''as_of_date'' = Inr d" "parse_date d = Inr day"
    and cs: "list_unresolved st now w = Inr cs"
    and m: "mapM (\<lambda>c. bind_res (parse_date (ec_effective_date c)) (\<lambda>effective.
           if date_le effective day
           then map_res (\<lambda>s. [\<lparr>re_command_id = ec_command_id c,
               re_effective_date = ec_effective_date c, re_state = state_value s,
               re_age_days = date_days day - date_days effective\<rparr>]) (current_state st c w)
           else Inr [])) cs = Inr entries"
    and report: "report = sort_key (\<lambda>e. (re_effective_date e, re_command_id e)) (concat entries)"
    by (auto simp: build_recovery_report_def res_simps)
  show "sorted (map (\<lambda>e. (re_effective_date e, re_command_id e)) report)"
    by (simp add: report)
  fix e assume "e \<in> set report"
  then obtain xs where "xs \<in> set entries" "e \<in> set xs" by (auto simp: report)
  then obtain i where i: "i < length entries" "e \<in> set (entries ! i)"
    by (metis in_set_conv_nth)
  from m [unfolded mapM_Inr_iff] i(1) have "cs ! i \<in> set cs"
    and "bind_res (parse_date (ec_effective_date (cs ! i))) (\<lambda>effective.
           if date_le effective day
           then map_res (\<lambda>s. [\<lparr>re_command_id = ec_command_id (cs ! i),
               re_effective_date = ec_effective_date (cs ! i), re_state = state_value s,
               re_age_days = date_days day - date_days effective\<rparr>]) (current_state st (cs ! i) w)
           else Inr []) = Inr (entries ! i)"
    by (simp_all add: list_all2_conv_all_nth)
  then obtain effective s where e: "parse_date (ec_effective_date (cs ! i)) = Inr effective"
    "date_le effective day" "current_state st (cs ! i) w = Inr s"
    "e = \<lparr>re_command_id = ec_command_id (cs ! i),
               re_effective_date = ec_effective_date (cs ! i), re_state = state_value s,
               re_age_days = date_days day - date_days effective\<rparr>"
    using i(2) by (auto simp: res_simps eq_commute [of _ "entries ! i"] split: if_splits)
  have "valid_date effective" "valid_date day"
    using e(1) day(2) date_fromisoformat_valid by (auto simp: parse_date_def split: option.splits)
  from date_le_days [OF this e(2)] show "0 \<le> re_age_days e" by (simp add: e(4))
  show "\<exists>c s. ec_command_id c = re_command_id e \<and> ec_effective_date c = re_effective_date e
      \<and> current_state st c w = Inr s \<and> s \<notin> set terminal_states \<and> re_state e = state_value s"
    using list_unresolved_open [OF cs \<open>cs ! i \<in> set cs\<close>] e(3,4) by auto
qed

text \<open>A store that holds one command and no events.\<close>

definition one_command_store :: "string \<Rightarrow> unit command_store" where
  "one_command_store text = \<lparr>cs_root = Inr ''r'', cs_create = (\<lambda>u d w. (Inr False, w)),
     cs_read = (\<lambda>u w. Inr text), cs_list = (\<lambda>p w. Inr []),
     cs_list_all = (\<lambda>w. Inr [''r/2026-07-30/x/command.json''])\<rparr>"

lemma one_command_current:
  assumes "ec_effective_date c = ''2026-07-30''" "safe_part (ec_command_id c)"
  shows "current_state (one_command_store text) c () = Inr QUEUED"
proof -
  show ?thesis
    using assms by (simp add: current_state_def events_def event_prefix_def location_def one_command_store_def
        command_simps read_events_def last_state_def)
qed

lemma sample_dates:
  "date_fromisoformat ''2026-08-02'' = Some \<lparr>year = 2026, month = 8, day = 2\<rparr>"
  "date_fromisoformat ''2026-07-30'' = Some \<lparr>year = 2026, month = 7, day = 30\<rparr>"
  by (simp_all add: date_fromisoformat_def iso_shape_def is_digit_def digits_val_def digit_val_def
      valid_date_def days_in_month_def eval_nat_numeral)

theorem recovery_report_sound_witness:
  "\<exists>body e. build_recovery_report (one_command_store body) (PStr ''2026-08-02'') [] () = Inr [e]
     \<and> re_age_days e = 3 \<and> re_state e = ''queued'' \<and> 0 \<le> re_age_days e"
proof -
  obtain c where c: "from_decision sample_args sample_intent None ''t'' = Inr c"
    "ec_effective_date c = ''2026-07-30''" by (rule sample_decision)
  have wf: "wf_command c"
    by (rule from_decision_wf [OF c(1) sample_intent_ok]) simp
  from command_to_dict_json [OF wf style_ok_styles(2)] obtain d w where
    dw: "json_loads (json_dumps indent_style (PDict d)) = Some (PDict w)"
    "command_from_dict w [] = Inr c" by metis
  define body where "body = json_dumps indent_style (PDict d)"
  have read: "decode_with (\<lambda>d. command_from_dict d []) body = Inr c"
    using dw by (simp add: decode_with_def body_def)
  have cur: "current_state (one_command_store body) c () = Inr QUEUED"
    using c(2) wf by (intro one_command_current) (simp_all add: command_id_shape)
  have "list_unresolved (one_command_store body) [] () = Inr [c]"
    using read cur by (simp add: list_unresolved_def one_command_store_def ends_with_def
        terminal_states_def)
  moreover have "iso_date (PStr ''2026-08-02'') ''as_of_date'' = Inr ''2026-08-02''"
    by (rule iso_date_fixed) (simp add: session_text_def sample_dates)
  moreover have "parse_date ''2026-08-02'' = Inr \<lparr>year = 2026, month = 8, day = 2\<rparr>"
    "parse_date ''2026-07-30'' = Inr \<lparr>year = 2026, month = 7, day = 30\<rparr>"
    "date_le \<lparr>year = 2026, month = 7, day = 30\<rparr> \<lparr>year = 2026, month = 8, day = 2\<rparr>"
    by (simp_all add: parse_date_def sample_dates date_le_def date_less_def)
  moreover have
    "date_days \<lparr>year = 2026, month = 8, day = 2\<rparr> - date_days \<lparr>year = 2026, month = 7, day = 30\<rparr> = 3"
    by (simp add: date_days_def days_before_year_def days_before_month_def leap_year_def)
  ultimately have "build_recovery_report (one_command_store body) (PStr ''2026-08-02'') [] ()
      = Inr [\<lparr>re_command_id = ec_command_id c, re_effective_date = ''2026-07-30'',
          re_state = ''queued'', re_age_days = 3\<rparr>]"
    using c(2) cur by (simp add: build_recovery_report_def)
  with recovery_report_sound [OF this] show ?thesis by (intro exI) auto
qed

end
