(* ===== verification/CommandLog.thy ===== *)
theory CommandLog
  imports CommandStore
begin

text \<open>
  The command store under concurrency. Processes enqueue commands and append events to the
  same storage; an append reads the history and later creates one file, and other processes
  may act in between or a process may die before its write. The locale \<open>event_backend\<close> is
  what the store needs of its storage; the invariant of the step relation is that the files of
  every command are exactly its committed events, in order.
\<close>

section \<open>Steps\<close>

record 'w sys =
  sys_store :: 'w
  sys_pending :: "nat \<Rightarrow> (command \<times> event) option"
  sys_log :: "(nat \<times> command \<times> event) list"

definition clock_text :: "string \<Rightarrow> bool" where
  "clock_text s \<longleftrightarrow> trimmed s \<and> s \<noteq> []"

text \<open>A process plans an event, then commits it: the creation of the event's file succeeds (won)
  or finds the file present (lost). A crash between the two forgets the plan.\<close>

inductive sys_step :: "'w command_store \<Rightarrow> 'w sys \<Rightarrow> 'w sys \<Rightarrow> bool" for st where
  enqueue_step: "wf_command c \<Longrightarrow> enqueue st c (sys_store s) = (r, w)
    \<Longrightarrow> sys_step st s (s\<lparr>sys_store := w\<rparr>)"
| plan_step: "wf_command c \<Longrightarrow> json_ok (PDict details) \<Longrightarrow> clock_text now
    \<Longrightarrow> sys_pending s p = None
    \<Longrightarrow> plan_event st c next_state details expected now (sys_store s) = Inr (Some e)
    \<Longrightarrow> sys_step st s (s\<lparr>sys_pending := (sys_pending s)(p := Some (c, e))\<rparr>)"
| won_step: "sys_pending s p = Some (c, e) \<Longrightarrow> commit_event st c e (sys_store s) = (Inr (Some e'), w)
    \<Longrightarrow> sys_step st s (s\<lparr>sys_store := w, sys_pending := (sys_pending s)(p := None),
          sys_log := sys_log s @ [(p, c, e')]\<rparr>)"
| lost_step: "sys_pending s p = Some (c, e) \<Longrightarrow> commit_event st c e (sys_store s) = (Inr None, w)
    \<Longrightarrow> sys_step st s (s\<lparr>sys_store := w, sys_pending := (sys_pending s)(p := None)\<rparr>)"
| crash_step: "sys_step st s (s\<lparr>sys_pending := (sys_pending s)(p := None)\<rparr>)"

inductive_cases sys_stepE: "sys_step st s s'"

definition initial_sys :: "'w \<Rightarrow> 'w sys" where
  "initial_sys w = \<lparr>sys_store = w, sys_pending = (\<lambda>p. None), sys_log = []\<rparr>"

abbreviation sys_steps :: "'w command_store \<Rightarrow> 'w sys \<Rightarrow> 'w sys \<Rightarrow> bool" where
  "sys_steps st \<equiv> (sys_step st)\<^sup>*\<^sup>*"

text \<open>The events committed for a command, in the order of the commits. Two records of one
  command (they may differ in their creation time) share date, id and history.\<close>

definition same_log :: "command \<Rightarrow> command \<Rightarrow> bool" where
  "same_log c c' \<longleftrightarrow> ec_effective_date c = ec_effective_date c' \<and> ec_command_id c = ec_command_id c'"

definition committed :: "command \<Rightarrow> (nat \<times> command \<times> event) list \<Rightarrow> event list" where
  "committed c lg = [e. (p, c', e) \<leftarrow> lg, same_log c c']"

lemma committed_append [simp]:
  "committed c (l @ [(p, c', e)]) = committed c l @ (if same_log c c' then [e] else [])"
  by (simp add: committed_def)

lemma committed_Cons [simp]:
  "committed c ((p, c', e) # l) = (if same_log c c' then e # committed c l else committed c l)"
  by (simp add: committed_def)

lemma committed_Nil [simp]: "committed c [] = []"
  by (simp add: committed_def)

lemma committed_cong: "same_log c c' \<Longrightarrow> committed c l = committed c' l"
  by (auto simp: committed_def same_log_def)

section \<open>Histories\<close>

lemma check_history_snoc:
  "check_history cid n p (es @ [e]) = Inr () \<longleftrightarrow> check_history cid n p es = Inr ()
     \<and> ev_command_id e = cid \<and> ev_sequence e = n + int (length es)
     \<and> ev_previous_state e = (if es = [] then p else ev_state (last es))"
  by (induction es arbitrary: n p) (auto simp: require_Inr_iff)

lemma check_history_sequences:
  "check_history cid n p es = Inr () \<Longrightarrow> i < length es \<Longrightarrow> ev_sequence (es ! i) = n + int i"
proof (induction es arbitrary: n p i)
  case (Cons e es)
  then show ?case by (cases i) (auto simp: require_Inr_iff)
qed simp

definition valid_history :: "command \<Rightarrow> event list \<Rightarrow> bool" where
  "valid_history c es \<longleftrightarrow> check_history (ec_command_id c) 1 QUEUED es = Inr () \<and> list_all wf_event es"

lemma valid_history_Nil [simp]: "valid_history c []"
  by (simp add: valid_history_def)

lemma valid_history_snoc:
  "valid_history c (es @ [e]) \<longleftrightarrow> valid_history c es \<and> wf_event e
     \<and> ev_command_id e = ec_command_id c \<and> ev_sequence e = int (length es) + 1
     \<and> ev_previous_state e = last_state es"
  by (auto simp: valid_history_def check_history_snoc last_state_def)

lemma valid_history_step:
  "valid_history c (es @ [e]) \<Longrightarrow> ev_state e \<in> set (allowed_transitions (last_state es))"
  by (metis valid_history_snoc wf_event_def)

text \<open>In a valid history only the first event can claim, and nothing follows a terminal state.\<close>

lemma to_queued_never: "QUEUED \<notin> set (allowed_transitions s)"
  by (cases s) simp_all

lemma claimed_from_queued: "CLAIMED \<in> set (allowed_transitions s) \<longleftrightarrow> s = QUEUED"
  by (cases s) simp_all

lemma history_never_queued: "valid_history c es \<Longrightarrow> e \<in> set es \<Longrightarrow> ev_state e \<noteq> QUEUED"
  using to_queued_never by (fastforce simp: valid_history_def list_all_iff wf_event_def)

lemma history_claims:
  "valid_history c es \<Longrightarrow> length (filter (\<lambda>e. ev_state e = CLAIMED) es) \<le> 1"
proof (induction es rule: rev_induct)
  case (snoc e es)
  show ?case
  proof (cases "ev_state e = CLAIMED")
    case True
    with valid_history_step [OF snoc.prems] have "CLAIMED \<in> set (allowed_transitions (last_state es))"
      by simp
    then have "last_state es = QUEUED" by (simp only: claimed_from_queued)
    have "es = []"
    proof (rule ccontr)
      assume ne: "es \<noteq> []"
      have "valid_history c es" using snoc.prems by (simp add: valid_history_snoc)
      from history_never_queued [OF this last_in_set [OF ne]] show False
        using ne \<open>last_state es = QUEUED\<close> by (simp add: last_state_def)
    qed
    then show ?thesis by simp
  qed (use snoc in \<open>simp add: valid_history_snoc\<close>)
qed simp

lemma history_after_terminal:
  "valid_history c (es @ e # rest) \<Longrightarrow> ev_state e \<in> set terminal_states \<Longrightarrow> rest = []"
proof (induction rest rule: rev_induct)
  case (snoc x rest)
  then have v: "valid_history c ((es @ e # rest) @ [x])" by simp
  then have "valid_history c (es @ e # rest)"
    by (simp only: valid_history_snoc)
  with snoc have "rest = []" by simp
  with v have "valid_history c ((es @ [e]) @ [x])" by simp
  from valid_history_step [OF this] have "ev_state x \<in> set (allowed_transitions (ev_state e))"
    by (simp add: last_state_def)
  with snoc.prems(2) show ?case by (simp add: terminal_absorbing)
qed simp

section \<open>Names\<close>

lemma starts_with_eq_len:
  "length a = length b \<Longrightarrow> starts_with (a @ x) (b @ y) \<longleftrightarrow> a = b \<and> starts_with x y"
  by (auto simp: starts_with_def)

lemma path_below_child:
  "CHR ''/'' \<notin> set n \<Longrightarrow> path_below p (p @ ''/'' @ n) = Some [n]"
  by (simp add: path_below_def split_on_single starts_with_def)

lemma event_file_facts [simp]:
  "CHR ''/'' \<notin> set (event_file n)" "ends_with ''.json'' (event_file n)" "safe_part (event_file n)"
proof -
  have d: "is_digit c" if "c \<in> set (zero_pad 8 (nat_str (nat n)))" for c
    using that by (rule zero_pad_digits)
  then show "CHR ''/'' \<notin> set (event_file n)"
    by (auto simp: event_file_def is_digit_def dest!: d)
  show "ends_with ''.json'' (event_file n)"
    by (simp add: event_file_def ends_with_def)
  have "zero_pad 8 (nat_str (nat n)) \<noteq> []" by (simp add: zero_pad_def)
  then have "hd (event_file n) = hd (zero_pad 8 (nat_str (nat n)))"
    and "is_digit (hd (zero_pad 8 (nat_str (nat n))))"
    by (auto simp: event_file_def intro!: d)
  then show "safe_part (event_file n)"
    using d by (auto simp: safe_part_def trimmed_by_def list_all_iff event_file_def path_char_def
        is_lower_def dash_dot_def is_digit_def)
qed

lemma event_file_inject: "0 \<le> m \<Longrightarrow> 0 \<le> n \<Longrightarrow> event_file m = event_file n \<longleftrightarrow> m = n"
  by (auto simp: event_file_def)

section \<open>The backend a store needs\<close>

definition event_dir :: "string \<Rightarrow> command \<Rightarrow> string" where
  "event_dir base c = join ''/'' [base, ec_effective_date c, ec_command_id c, ''events'']"

definition event_path :: "string \<Rightarrow> command \<Rightarrow> int \<Rightarrow> string" where
  "event_path base c n = event_dir base c @ ''/'' @ event_file n"

definition command_path :: "string \<Rightarrow> command \<Rightarrow> string" where
  "command_path base c = join ''/'' [base, ec_effective_date c, ec_command_id c, ''command.json'']"

definition event_text :: "event \<Rightarrow> string" where
  "event_text e = (case event_to_dict e of Inl _ \<Rightarrow> [] | Inr d \<Rightarrow> json_dumps indent_style (PDict d))"

lemma event_text_decode:
  assumes "wf_event e"
  shows "decode_with event_from_dict (event_text e) = Inr e"
    "event_to_dict e = Inr d \<Longrightarrow> json_dumps indent_style (PDict d) = event_text e"
proof -
  from event_to_dict_json [OF assms style_ok_styles(2)] obtain d w where
    "event_to_dict e = Inr d" "json_loads (json_dumps indent_style (PDict d)) = Some (PDict w)"
    "event_from_dict w = Inr e" .
  then show "decode_with event_from_dict (event_text e) = Inr e"
    by (simp add: event_text_def decode_with_def)
qed (simp add: event_text_def)

lemma dirs_of_commands:
  assumes "wf_command c" "wf_command c'"
  shows "starts_with (event_dir base c) (event_path base c' n) \<longleftrightarrow> same_log c c'"
    "\<not> starts_with (event_dir base c) (command_path base c')"
proof -
  have l: "length (ec_effective_date c) = length (ec_effective_date c')"
    "length (ec_command_id c) = length (ec_command_id c')"
    using assms by (simp_all add: wf_command_date session_text_length command_id_shape)
  show "starts_with (event_dir base c) (event_path base c' n) \<longleftrightarrow> same_log c c'"
    "\<not> starts_with (event_dir base c) (command_path base c')"
    using l by (auto simp: event_dir_def event_path_def command_path_def starts_with_eq_len
        same_log_def)
qed

lemma event_path_inject:
  assumes "wf_command c" "wf_command c'" "0 \<le> m" "0 \<le> n"
  shows "event_path base c m = event_path base c' n \<longleftrightarrow> same_log c c' \<and> m = n"
proof
  assume eq: "event_path base c m = event_path base c' n"
  have "starts_with (event_dir base c) (event_path base c m)"
    by (simp add: event_path_def)
  then have "same_log c c'"
    using dirs_of_commands(1) [OF assms(1,2)] by (simp add: eq)
  with eq assms(3,4) show "same_log c c' \<and> m = n"
    by (simp add: event_path_def event_dir_def same_log_def event_file_inject)
qed (auto simp: event_path_def event_dir_def same_log_def)

locale event_backend = create_only "cs_create st" "cs_read st" objs good
  for st :: "'w command_store" and objs good +
  fixes base :: string
  assumes root: "cs_root st = Inr base"
    and good_paths: "\<And>n. wf_command c \<Longrightarrow> good (event_path base c n)"
      "wf_command c \<Longrightarrow> good (command_path base c)"
    and list_events: "wf_command c \<Longrightarrow> \<exists>us. cs_list st (event_dir base c) w = Inr us \<and> distinct us
      \<and> (\<forall>u \<in> set us. good u \<and> starts_with (event_dir base c) u \<and> objs w u \<noteq> None)
      \<and> (\<forall>n. objs w (event_path base c n) \<noteq> None \<longrightarrow> event_path base c n \<in> set us)"
begin

lemma event_prefix_eq: "wf_command c \<Longrightarrow> event_prefix st c = Inr (event_dir base c)"
  by (simp add: event_prefix_def location_def event_dir_def root command_simps command_id_shape(2)
      wf_command_date)

lemma event_location_eq: "wf_command c \<Longrightarrow> event_location st c n = Inr (event_path base c n)"
  by (simp add: event_location_def location_def event_path_def event_dir_def root command_simps
      command_id_shape(2) wf_command_date)

lemma command_location_eq: "wf_command c \<Longrightarrow> command_location st c = Inr (command_path base c)"
  by (simp add: command_location_def location_def command_path_def root command_simps
      command_id_shape(2) wf_command_date)

text \<open>The event files of a command are exactly the events \<open>es\<close>.\<close>

definition holds :: "'w \<Rightarrow> command \<Rightarrow> event list \<Rightarrow> bool" where
  "holds w c es \<longleftrightarrow> valid_history c es
     \<and> (\<forall>i < length es. objs w (event_path base c (int i + 1)) = Some (event_text (es ! i)))
     \<and> (\<forall>u. good u \<longrightarrow> starts_with (event_dir base c) u \<longrightarrow> objs w u \<noteq> None
          \<longrightarrow> (\<exists>i < length es. u = event_path base c (int i + 1)))"

lemma holds_events:
  assumes wf: "wf_command c" and h: "holds w c es"
  shows "events st c w = Inr es"
proof -
  let ?p = "\<lambda>i. event_path base c (int i + 1)"
  from list_events [OF wf] obtain us where us: "cs_list st (event_dir base c) w = Inr us" "distinct us"
    "\<forall>u \<in> set us. good u \<and> starts_with (event_dir base c) u \<and> objs w u \<noteq> None"
    "\<forall>n. objs w (event_path base c n) \<noteq> None \<longrightarrow> event_path base c n \<in> set us" by blast
  have set_us: "set us = ?p ` {..<length es}"
  proof
    show "set us \<subseteq> ?p ` {..<length es}"
    proof
      fix u assume "u \<in> set us"
      with us(3) have "good u" "starts_with (event_dir base c) u" "objs w u \<noteq> None" by blast+
      with h obtain i where "i < length es" "u = ?p i" unfolding holds_def by blast
      then show "u \<in> ?p ` {..<length es}" by blast
    qed
    show "?p ` {..<length es} \<subseteq> set us"
    proof
      fix u assume "u \<in> ?p ` {..<length es}"
      then obtain i where "i < length es" "u = ?p i" by auto
      then have "objs w u \<noteq> None" using h by (simp add: holds_def)
      with us(4) \<open>u = ?p i\<close> show "u \<in> set us" by simp
    qed
  qed
  define num where "num u = the_inv_into {..<length es} ?p u" for u
  have inj: "inj_on ?p {..<length es}"
    using event_path_inject [OF wf wf] by (auto simp: inj_on_def)
  have num: "num (?p i) = i" if "i < length es" for i
    unfolding num_def by (rule the_inv_into_f_f [OF inj]) (simp add: that)
  have "filter (ends_with ''.json'') us = us"
    by (rule filter_True) (auto simp: set_us event_path_def ends_with_def event_file_def)
  moreover have "mapM (\<lambda>l. bind_res (cs_read st l w) (decode_with event_from_dict)) us
      = Inr (map (\<lambda>u. es ! num u) us)"
  proof (rule mapM_Inr_map)
    fix u assume "u \<in> set us"
    then obtain i where i: "i < length es" "u = ?p i" by (auto simp: set_us)
    then have "cs_read st u w = Inr (event_text (es ! i))" and "wf_event (es ! i)"
      using h good_paths(1) [OF wf]
      by (auto simp: holds_def valid_history_def list_all_length intro: read_present)
    then show "bind_res (cs_read st u w) (decode_with event_from_dict) = Inr (es ! num u)"
      by (simp add: event_text_decode i num)
  qed
  ultimately have "read_events st us w = Inr (map (\<lambda>u. es ! num u) us)"
    by (simp add: read_events_def)
  moreover have "sort_key ev_sequence (map (\<lambda>u. es ! num u) us) = es"
  proof (rule sort_key_inj_key_eq)
    have seq: "ev_sequence (es ! i) = 1 + int i" if "i < length es" for i
      using h that by (auto simp: holds_def valid_history_def intro: check_history_sequences)
    have "mset us = mset (map ?p [0..<length es])"
      using us(2) inj by (intro set_eq_iff_mset_eq_distinct [THEN iffD1])
        (auto simp: set_us distinct_map atLeast0LessThan)
    then have "mset (map (\<lambda>u. es ! num u) us) = mset (map (\<lambda>u. es ! num u) (map ?p [0..<length es]))"
      by (metis mset_map)
    also have "map (\<lambda>u. es ! num u) (map ?p [0..<length es]) = es"
      by (rule nth_equalityI) (simp_all add: num)
    finally show m: "mset (map (\<lambda>u. es ! num u) us) = mset es" .
    show "inj_on ev_sequence (set (map (\<lambda>u. es ! num u) us))"
      unfolding mset_eq_setD [OF m] by (auto simp: inj_on_def in_set_conv_nth seq)
    show "sorted (map ev_sequence es)"
      by (simp add: sorted_iff_nth_mono seq)
  qed
  ultimately show ?thesis
    using us(1) h by (simp add: events_def event_prefix_eq [OF wf] holds_def valid_history_def)
qed

lemma commit_event_eq:
  assumes "wf_command c" "wf_event e"
  shows "commit_event st c e w =
    (Inr (if objs w (event_path base c (ev_sequence e)) = None then Some e else None),
     snd (cs_create st (event_path base c (ev_sequence e)) (event_text e) w))"
proof -
  let ?p = "event_path base c (ev_sequence e)"
  from event_to_dict_json [OF assms(2) style_ok_styles(2)] obtain d where d: "event_to_dict e = Inr d"
    by metis
  have "fst (cs_create st ?p (event_text e) w) = Inr (objs w ?p = None)"
    using good_paths(1) [OF assms(1)] by (rule create_result)
  then show ?thesis
    by (simp add: commit_event_def event_location_eq [OF assms(1)] d
        event_text_decode(2) [OF assms(2) d] Let_def split_beta)
qed

lemma enqueue_eq:
  assumes "wf_command c"
  shows "\<exists>text. enqueue st c w = (Inr (objs w (command_path base c) = None),
    snd (cs_create st (command_path base c) text w))"
proof -
  from command_to_dict_json [OF assms style_ok_styles(2)] obtain d where d: "command_to_dict c = Inr d"
    by metis
  have "fst (cs_create st (command_path base c) (json_dumps indent_style (PDict d)) w)
      = Inr (objs w (command_path base c) = None)"
    using good_paths(2) [OF assms] by (rule create_result)
  then show ?thesis
    by (auto simp: enqueue_def command_location_eq [OF assms] d prod_eq_iff)
qed

lemma holds_cong: "(\<And>u. good u \<Longrightarrow> objs w' u = objs w u) \<Longrightarrow> wf_command c
    \<Longrightarrow> holds w' c es = holds w c es"
  using good_paths(1) by (auto simp: holds_def)

lemma holds_create_other:
  assumes "wf_command c" "holds w c es" "good u" "\<not> starts_with (event_dir base c) u"
  shows "holds (snd (cs_create st u d w)) c es"
proof -
  have ne: "u \<noteq> event_path base c n" for n
    using assms(4) by (auto simp: event_path_def)
  show ?thesis
    unfolding holds_def
  proof (intro conjI allI impI)
    show "valid_history c es" using assms(2) by (simp add: holds_def)
    show "objs (snd (cs_create st u d w)) (event_path base c (int i + 1)) = Some (event_text (es ! i))"
      if "i < length es" for i
      using assms(2) that ne [symmetric]
      by (simp add: holds_def create_objs [OF assms(3) good_paths(1) [OF assms(1)]])
    show "\<exists>i < length es. v = event_path base c (int i + 1)"
      if "good v" "starts_with (event_dir base c) v" "objs (snd (cs_create st u d w)) v \<noteq> None" for v
    proof -
      have "v \<noteq> u" using that(2) assms(4) by auto
      with that assms(2) show ?thesis by (simp add: create_objs [OF assms(3)] holds_def)
    qed
  qed
qed

lemma holds_create_present:
  assumes "wf_command c" "holds w c es" "good u" "objs w u \<noteq> None"
  shows "holds (snd (cs_create st u d w)) c es"
  using assms(2) by (subst holds_cong [OF _ assms(1)]) (auto simp: create_objs assms)

lemma holds_extend:
  assumes wf: "wf_command c" and h: "holds w c es" and v: "valid_history c (es @ [e])"
    and u: "u = event_path base c (ev_sequence e)"
  shows "objs w u = None" "holds (snd (cs_create st u (event_text e) w)) c (es @ [e])"
proof -
  have seq: "ev_sequence e = int (length es) + 1"
    using v by (simp only: valid_history_snoc)
  have good: "good u" using good_paths(1) [OF wf] by (simp add: u)
  have new: "u \<noteq> event_path base c (int i + 1)" if "i < length es" for i
    using that event_path_inject [OF wf wf] by (simp add: u seq)
  have "starts_with (event_dir base c) u" by (simp add: u event_path_def)
  with good new h show none: "objs w u = None"
    unfolding holds_def by blast
  note create = create_objs [OF good]
  show "holds (snd (cs_create st u (event_text e) w)) c (es @ [e])"
    unfolding holds_def
  proof (intro conjI allI impI)
    show "valid_history c (es @ [e])" by (rule v)
    show "objs (snd (cs_create st u (event_text e) w)) (event_path base c (int i + 1))
        = Some (event_text ((es @ [e]) ! i))" if "i < length (es @ [e])" for i
    proof (cases "i = length es")
      case True
      then have "event_path base c (int i + 1) = u" by (simp add: u seq)
      with True show ?thesis by (simp add: create good none)
    next
      case False
      with that have i: "i < length es" by simp
      from new [OF i] i h show ?thesis
        by (auto simp: create good_paths(1) [OF wf] holds_def nth_append)
    qed
    show "\<exists>i < length (es @ [e]). x = event_path base c (int i + 1)"
      if "good x" "starts_with (event_dir base c) x"
        "objs (snd (cs_create st u (event_text e) w)) x \<noteq> None" for x
    proof (cases "x = u")
      case True
      then show ?thesis by (intro exI [of _ "length es"]) (simp add: u seq)
    next
      case False
      with that have "objs w x \<noteq> None" by (simp add: create)
      with that h obtain i where "i < length es" "x = event_path base c (int i + 1)"
        unfolding holds_def by blast
      then show ?thesis by (intro exI [of _ i]) simp
    qed
  qed
qed

text \<open>What a planned event says of the history it was planned on.\<close>

lemma plan_event_sound:
  assumes "plan_event st c nxt details expected now w = Inr (Some e)" "events st c w = Inr es"
    and "wf_command c" "valid_history c es" "json_ok (PDict details)" "clock_text now"
  shows "valid_history c (es @ [e])"
proof -
  from assms(1,2) obtain s where e: "e = \<lparr>ev_command_id = ec_command_id c,
      ev_sequence = int (length es) + 1, ev_previous_state = last_state es, ev_state = s,
      ev_recorded_at = now, ev_details_json = canonical_json details\<rparr>"
    and t: "validate_execution_command_transition (Member (last_state es)) (Member s) = Inr ()"
    by (auto simp: plan_event_def res_simps split: if_splits)
  have "wf_event e"
    using t assms(5,6) command_id_shape(2) [OF assms(3)]
    unfolding transition_members wf_event_def clock_text_def by (auto simp: e)
  then show ?thesis
    using assms(4) by (simp add: valid_history_snoc e)
qed

text \<open>
  The invariant: the files of every command are its committed events, and every plan is the
  next event of an earlier state of its command's history.
\<close>

definition sys_inv :: "'w sys \<Rightarrow> bool" where
  "sys_inv s \<longleftrightarrow> (\<forall>c. wf_command c \<longrightarrow> holds (sys_store s) c (committed c (sys_log s)))
     \<and> (\<forall>p c e. sys_pending s p = Some (c, e) \<longrightarrow> wf_command c
          \<and> (\<exists>k \<le> length (committed c (sys_log s)).
               valid_history c (take k (committed c (sys_log s)) @ [e])))
     \<and> (\<forall>(p, c, e) \<in> set (sys_log s). wf_command c)"

lemma sys_inv_pending:
  assumes "sys_inv s" "sys_pending s p = Some (c, e)"
  obtains k where "wf_command c" "k \<le> length (committed c (sys_log s))"
    "valid_history c (take k (committed c (sys_log s)) @ [e])"
  using assms unfolding sys_inv_def by blast

lemma sys_inv_enqueue:
  assumes "sys_inv s" "wf_command c" "enqueue st c (sys_store s) = (r, w)"
  shows "sys_inv (s\<lparr>sys_store := w\<rparr>)"
proof -
  from enqueue_eq [OF assms(2), of "sys_store s"] assms(3) obtain body where
    w: "w = snd (cs_create st (command_path base c) body (sys_store s))" by auto
  have "holds w c' (committed c' (sys_log s))" if "wf_command c'" for c'
    unfolding w using that assms(1) dirs_of_commands(2) [OF that assms(2)] good_paths(2) [OF assms(2)]
    by (intro holds_create_other) (auto simp: sys_inv_def)
  with assms(1) show ?thesis by (auto simp: sys_inv_def)
qed

lemma sys_inv_plan:
  assumes "sys_inv s" "wf_command c" "json_ok (PDict details)" "clock_text now"
    and "plan_event st c nxt details expected now (sys_store s) = Inr (Some e)"
  shows "sys_inv (s\<lparr>sys_pending := (sys_pending s)(p := Some (c, e))\<rparr>)"
proof -
  have h: "holds (sys_store s) c (committed c (sys_log s))"
    using assms(1,2) by (auto simp: sys_inv_def)
  then have "valid_history c (committed c (sys_log s) @ [e])"
    using plan_event_sound [OF assms(5) holds_events [OF assms(2) h] assms(2) _ assms(3,4)]
    by (simp add: holds_def)
  then show ?thesis
    using assms(1,2) by (auto simp: sys_inv_def intro!: exI [of _ "length (committed c (sys_log s))"])
qed

text \<open>A commit wins exactly when the plan is still the next event; then the history grows by it.\<close>

lemma commit_cases:
  assumes inv: "sys_inv s" and pend: "sys_pending s p = Some (c, e)"
    and commit: "commit_event st c e (sys_store s) = (Inr r, w)"
  shows "(r = Some e \<and> valid_history c (committed c (sys_log s) @ [e])
            \<and> holds w c (committed c (sys_log s) @ [e]))
       \<or> (r = None \<and> holds w c (committed c (sys_log s)))"
    "wf_command c' \<Longrightarrow> \<not> same_log c' c \<Longrightarrow> holds w c' (committed c' (sys_log s))"
proof -
  let ?es = "committed c (sys_log s)" and ?u = "event_path base c (ev_sequence e)"
  from sys_inv_pending [OF inv pend] obtain k where wf: "wf_command c" and k: "k \<le> length ?es"
    and v: "valid_history c (take k ?es @ [e])" .
  have h: "holds (sys_store s) c ?es" using inv wf by (auto simp: sys_inv_def)
  have e: "wf_event e" "ev_sequence e = int k + 1"
    using v k by (simp_all add: valid_history_snoc)
  have good: "good ?u" using good_paths(1) [OF wf] .
  have r: "r = (if objs (sys_store s) ?u = None then Some e else None)"
    and w: "w = snd (cs_create st ?u (event_text e) (sys_store s))"
    using commit by (simp_all add: commit_event_eq [OF wf e(1)])
  show "(r = Some e \<and> valid_history c (?es @ [e]) \<and> holds w c (?es @ [e]))
      \<or> (r = None \<and> holds w c ?es)"
  proof (cases "k = length ?es")
    case True
    with v have "valid_history c (?es @ [e])" by simp
    from holds_extend [OF wf h this refl] this show ?thesis by (simp add: r w)
  next
    case False
    with k have "objs (sys_store s) ?u \<noteq> None" using h by (simp add: holds_def e(2))
    with holds_create_present [OF wf h good this] show ?thesis by (auto simp: r w)
  qed
  show "holds w c' (committed c' (sys_log s))" if "wf_command c'" "\<not> same_log c' c"
    unfolding w using that inv dirs_of_commands(1) [OF that(1) wf] good
    by (intro holds_create_other) (auto simp: sys_inv_def)
qed

lemma holds_same_log: "same_log c c' \<Longrightarrow> holds w c es = holds w c' es"
  by (simp add: holds_def same_log_def event_path_def event_dir_def valid_history_def)

lemma sys_inv_won:
  assumes inv: "sys_inv s" and pend: "sys_pending s p = Some (c, e)"
    and commit: "commit_event st c e (sys_store s) = (Inr (Some e'), w)"
  shows "sys_inv (s\<lparr>sys_store := w, sys_pending := (sys_pending s)(p := None),
      sys_log := sys_log s @ [(p, c, e')]\<rparr>)"
proof -
  note cases = commit_cases [OF inv pend commit]
  have wf: "wf_command c" using inv pend by (auto simp: sys_inv_def)
  have e': "e' = e" and h: "holds w c (committed c (sys_log s) @ [e])"
    using cases(1) by auto
  have "holds w c' (committed c' (sys_log s @ [(p, c, e)]))" if wf': "wf_command c'" for c'
  proof (cases "same_log c' c")
    case True
    with h show ?thesis
      by (simp add: holds_same_log [OF True] committed_cong [OF True])
  qed (use cases(2) [OF wf'] in simp)
  moreover have "\<exists>k \<le> length (committed c' (sys_log s @ [(p, c, e)])).
      valid_history c' (take k (committed c' (sys_log s @ [(p, c, e)])) @ [e''])"
    if "sys_pending s q = Some (c', e'')" for q c' e''
  proof -
    from sys_inv_pending [OF inv that] obtain k where "k \<le> length (committed c' (sys_log s))"
      "valid_history c' (take k (committed c' (sys_log s)) @ [e''])" .
    then show ?thesis by (intro exI [of _ k]) simp
  qed
  ultimately show ?thesis
    using inv wf by (auto simp: sys_inv_def e')
qed

lemma sys_inv_lost:
  assumes inv: "sys_inv s" and pend: "sys_pending s p = Some (c, e)"
    and commit: "commit_event st c e (sys_store s) = (Inr None, w)"
  shows "sys_inv (s\<lparr>sys_store := w, sys_pending := (sys_pending s)(p := None)\<rparr>)"
proof -
  note cases = commit_cases [OF inv pend commit]
  have "holds w c' (committed c' (sys_log s))" if wf': "wf_command c'" for c'
  proof (cases "same_log c' c")
    case True
    with cases(1) show ?thesis
      by (simp add: holds_same_log [OF True] committed_cong [OF True])
  qed (use cases(2) [OF wf'] in simp)
  with inv show ?thesis by (auto simp: sys_inv_def)
qed

lemma sys_inv_step: "sys_step st s s' \<Longrightarrow> sys_inv s \<Longrightarrow> sys_inv s'"
  by (induction rule: sys_step.induct)
    (auto intro: sys_inv_enqueue sys_inv_plan sys_inv_won sys_inv_lost, auto simp: sys_inv_def)

lemma sys_inv_initial: "(\<And>u. good u \<Longrightarrow> objs w u = None) \<Longrightarrow> sys_inv (initial_sys w)"
  by (auto simp: sys_inv_def initial_sys_def holds_def committed_def)

lemma sys_inv_reachable:
  assumes "sys_steps st (initial_sys w) s" "\<And>u. good u \<Longrightarrow> objs w u = None"
  shows "sys_inv s"
  using assms(1) by induction (auto intro: sys_inv_initial assms(2) sys_inv_step)

text \<open>The two facts the properties rest on.\<close>

lemma reachable_events:
  assumes "sys_steps st (initial_sys w) s" "\<And>u. good u \<Longrightarrow> objs w u = None" "wf_command c"
  shows "events st c (sys_store s) = Inr (committed c (sys_log s))"
    "valid_history c (committed c (sys_log s))"
proof -
  have h: "holds (sys_store s) c (committed c (sys_log s))"
    using sys_inv_reachable [OF assms(1,2)] assms(3) by (auto simp: sys_inv_def)
  then show "events st c (sys_store s) = Inr (committed c (sys_log s))"
    by (rule holds_events [OF assms(3)])
  show "valid_history c (committed c (sys_log s))" using h by (simp add: holds_def)
qed

lemma reachable_one_claim:
  assumes "sys_steps st (initial_sys w) s" "\<And>u. good u \<Longrightarrow> objs w u = None" "wf_command c"
  shows "length (filter (\<lambda>(p, c', e). same_log c c' \<and> ev_state e = CLAIMED) (sys_log s)) \<le> 1"
proof -
  have "length (filter (\<lambda>(p, c', e). same_log c c' \<and> ev_state e = CLAIMED) lg)
      = length (filter (\<lambda>e. ev_state e = CLAIMED) (committed c lg))" for lg
    by (induction lg) (auto split: if_splits)
  with history_claims [OF reachable_events(2) [OF assms]] show ?thesis by simp
qed

text \<open>A sequential append, read as an operation on the abstract history.\<close>

lemma plan_event_eq:
  assumes "events st c w = Inr es"
    and "nxt \<in> set (allowed_transitions (last_state es))"
    and "expected = None \<or> expected = Some (Member (last_state es))"
  shows "plan_event st c (Member nxt) details expected now w = Inr (Some
    \<lparr>ev_command_id = ec_command_id c, ev_sequence = int (length es) + 1,
     ev_previous_state = last_state es, ev_state = nxt, ev_recorded_at = now,
     ev_details_json = canonical_json details\<rparr>)"
proof -
  have "validate_execution_command_transition (Member (last_state es)) (Member nxt) = Inr ()"
    using assms(2) by (simp only: transition_members)
  then show ?thesis
    using assms(1,3) by (auto simp: plan_event_def)
qed

lemma append_event_appends:
  assumes wf: "wf_command c" and h: "holds w c es"
    and details: "json_ok (PDict details)" "clock_text now"
    and nxt: "nxt \<in> set (allowed_transitions (last_state es))"
    and expected: "expected = None \<or> expected = Some (Member (last_state es))"
  obtains e w' where "append_event st c (Member nxt) details expected now w = (Inr (Some e), w')"
    "holds w' c (es @ [e])" "ev_state e = nxt" "ev_details_json e = canonical_json details"
    "plan_event st c (Member nxt) details expected now w = Inr (Some e)"
    "commit_event st c e w = (Inr (Some e), w')"
proof -
  note ev = holds_events [OF wf h]
  note plan = plan_event_eq [OF ev nxt expected, of details now]
  define e where "e = \<lparr>ev_command_id = ec_command_id c, ev_sequence = int (length es) + 1,
     ev_previous_state = last_state es, ev_state = nxt, ev_recorded_at = now,
     ev_details_json = canonical_json details\<rparr>"
  have v: "valid_history c (es @ [e])"
    using plan_event_sound [OF plan ev wf _ details] h by (simp add: holds_def e_def)
  then have "wf_event e" by (simp only: valid_history_snoc)
  note commit = commit_event_eq [OF wf this] and ext = holds_extend [OF wf h v refl]
  have "commit_event st c e w = (Inr (Some e),
      snd (cs_create st (event_path base c (ev_sequence e)) (event_text e) w))"
    by (simp add: commit ext(1))
  moreover from this have "append_event st c (Member nxt) details expected now w = (Inr (Some e),
      snd (cs_create st (event_path base c (ev_sequence e)) (event_text e) w))"
    by (simp add: append_event_def plan flip: e_def)
  ultimately show ?thesis
    using that ext(2) plan by (simp add: e_def)
qed

lemma append_event_refused:
  assumes "wf_command c" "holds w c es"
  shows "nxt \<notin> set (allowed_transitions (last_state es)) \<Longrightarrow>
      expected = None \<or> expected = Some (Member (last_state es)) \<Longrightarrow>
      \<exists>m. append_event st c (Member nxt) details expected now w = (Inl (ValueError m), w)"
    "expected = Some (Member x) \<Longrightarrow> x \<noteq> last_state es \<Longrightarrow>
      append_event st c (Member nxt) details expected now w = (Inr None, w)"
  using holds_events [OF assms]
  by (auto simp: append_event_def plan_event_def validate_execution_command_transition_def)

text \<open>A run in which process 0 claims a command.\<close>

lemma claiming_run:
  assumes "\<And>u. good u \<Longrightarrow> objs w u = None" "wf_command c"
  obtains s e where "sys_steps st (initial_sys w) s" "sys_log s = [(0, c, e)]" "ev_state e = CLAIMED"
proof -
  have h: "holds w c []"
    using sys_inv_initial [OF assms(1)] assms(2) by (auto simp: sys_inv_def initial_sys_def)
  have now: "clock_text ''t''" by (simp add: clock_text_def trimmed_by_def is_space_def)
  have ok: "json_ok (PDict [])" "CLAIMED \<in> set (allowed_transitions (last_state []))"
    by (simp_all add: last_state_def)
  from append_event_appends [OF assms(2) h ok(1) now ok(2) disjI1 [OF refl]]
  obtain e w' where e: "ev_state e = CLAIMED"
    "plan_event st c (Member CLAIMED) [] None ''t'' w = Inr (Some e)"
    "commit_event st c e w = (Inr (Some e), w')" by metis
  let ?s0 = "initial_sys w"
  let ?s1 = "?s0\<lparr>sys_pending := (sys_pending ?s0)(0 := Some (c, e))\<rparr>"
  have "sys_step st ?s0 ?s1"
    using e(2) assms(2) by (intro plan_step [of c "[]" "''t''"])
      (auto simp: initial_sys_def clock_text_def trimmed_by_def is_space_def)
  moreover have "sys_step st ?s1 (?s1\<lparr>sys_store := w', sys_pending := (sys_pending ?s1)(0 := None),
      sys_log := sys_log ?s1 @ [(0, c, e)]\<rparr>)"
    using e(3) by (intro won_step) (auto simp: initial_sys_def)
  ultimately have "sys_steps st ?s0 (?s1\<lparr>sys_store := w', sys_pending := (sys_pending ?s1)(0 := None),
      sys_log := sys_log ?s1 @ [(0, c, e)]\<rparr>)"
    by (meson converse_rtranclp_into_rtranclp r_into_rtranclp)
  from that [OF this _ e(1)] show ?thesis by (simp add: initial_sys_def)
qed

end

end
