(* ===== verification/CommandBackends.thy ===== *)
theory CommandBackends
  imports CommandLog
begin

text \<open>
  The two backends of the command store satisfy \<open>event_backend\<close>: a local directory (files made
  by a temporary file and a link) and an object store behind the Google Cloud Storage provider.
  The concurrency properties of the store follow for both.
\<close>

section \<open>A local directory\<close>

text \<open>\<open>uuid4\<close> gives a name that no file beside the target has.\<close>

definition fresh_names :: "(files \<Rightarrow> string) \<Rightarrow> bool" where
  "fresh_names uuid \<longleftrightarrow> (\<forall>fs p. map_of fs (temporary_path p (uuid fs)) = None)"

text \<open>A concrete source of fresh names: longer than every name in use.\<close>

definition longer_name :: "files \<Rightarrow> string" where
  "longer_name fs = replicate (Suc (sum_list (map (length \<circ> fst) fs))) (CHR ''a'')"

lemma fresh_longer_name: "fresh_names longer_name"
  unfolding fresh_names_def
proof (intro allI)
  fix fs :: files and p
  have "length u \<le> sum_list (map (length \<circ> fst) fs)" if "u \<in> fst ` set fs" for u
    using that by (force intro: member_le_sum_list)
  moreover have "sum_list (map (length \<circ> fst) fs) < length (temporary_path p (longer_name fs))"
    by (simp add: temporary_path_def longer_name_def)
  ultimately have "temporary_path p (longer_name fs) \<notin> fst ` set fs" by fastforce
  then show "map_of fs (temporary_path p (longer_name fs)) = None"
    by (simp add: map_of_eq_None_iff)
qed

lemma link_new_create:
  assumes "fresh_names uuid"
  shows "fst (link_new uuid p d fs) = Inr (map_of fs p = None)"
    "map_of (snd (link_new uuid p d fs)) v = (if v = p \<and> map_of fs p = None then Some d else map_of fs v)"
proof -
  let ?t = "temporary_path p (uuid fs)"
  have new: "map_of fs ?t = None" using assms by (simp add: fresh_names_def)
  have "length ?t \<noteq> length p"
    by (simp add: temporary_path_def)
  then have "?t \<noteq> p" by metis
  with new show "fst (link_new uuid p d fs) = Inr (map_of fs p = None)"
    "map_of (snd (link_new uuid p d fs)) v = (if v = p \<and> map_of fs p = None then Some d else map_of fs v)"
    by (auto simp: link_new_def Let_def fs_create_def fs_link_def map_of_fs_unlink map_of_dict_set)
qed

lemma file_names_iff: "u \<in> set (file_names fs) \<longleftrightarrow> map_of fs u \<noteq> None"
  by (simp add: file_names_def map_of_eq_None_iff)

lemma path_name_child: "CHR ''/'' \<notin> set n \<Longrightarrow> path_name (p @ ''/'' @ n) = n"
proof -
  assume n: "CHR ''/'' \<notin> set n"
  have "\<exists>q qs. split_on (CHR ''/'') (p @ ''/'' @ n) = q # qs @ [n]"
  proof (induction p)
    case (Cons c p)
    then show ?case by auto
  qed (simp add: split_on_single [OF n])
  then have "last (split_on (CHR ''/'') (p @ ''/'' @ n)) = n" by auto
  then show ?thesis by (simp add: path_name_def)
qed

lemma path_below_starts: "path_below p u = Some x \<Longrightarrow> starts_with p u"
  by (auto simp: path_below_def starts_with_def split: if_splits)
    (metis append_eq_conv_conj append_take_drop_id length_append_singleton same_append_eq take_take
      append_assoc)

lemma local_backend:
  assumes dir: "is_set (sc_local_dir cfg)" "\<not> is_set (sc_cloud_prefix_uri cfg)"
    and fresh: "fresh_names uuid" and base: "command_version_root cfg = Inr base"
  shows "event_backend (durable_store cfg os uuid) (\<lambda>w. map_of (snd w)) (\<lambda>_. True) base"
proof
  fix u v d and w :: "'a \<times> files"
  show "fst (cs_create (durable_store cfg os uuid) u d w) = Inr (map_of (snd w) u = None)"
    using link_new_create(1) [OF fresh, of u d "snd w"] dir
    by (auto simp: durable_store_def store_create_text_def Let_def split_beta)
  show "map_of (snd (snd (cs_create (durable_store cfg os uuid) u d w))) v =
      (if v = u \<and> map_of (snd w) u = None then Some d else map_of (snd w) v)"
    using link_new_create(2) [OF fresh, of u d "snd w" v] dir
    by (auto simp: durable_store_def store_create_text_def Let_def split_beta)
  show "map_of (snd w) u = Some d \<Longrightarrow> cs_read (durable_store cfg os uuid) u w = Inr d"
    using dir by (simp add: durable_store_def store_read_text_def fs_read_def split_beta)
next
  show "cs_root (durable_store cfg os uuid) = Inr base"
    using base by (simp add: durable_store_def)
next
  fix c and w :: "'a \<times> files"
  assume "wf_command c"
  let ?p = "event_dir base c"
  have name: "path_name ?p = ''events''"
    using path_name_child [of "''events''" "join ''/'' [base, ec_effective_date c, ec_command_id c]"]
    by (simp add: event_dir_def)
  let ?us = "filter (\<lambda>u. case path_below ?p u of Some [n] \<Rightarrow> ends_with ''.json'' n | _ \<Rightarrow> False)
      (file_names (snd w))"
  have "cs_list (durable_store cfg os uuid) ?p w = Inr ?us"
    using dir name by (simp add: durable_store_def store_list_locations_def split_beta)
  moreover have "distinct ?us" by (simp add: file_names_def)
  moreover have "starts_with ?p u" if "u \<in> set ?us" for u
    using that path_below_starts by (auto split: option.splits)
  moreover have "event_path base c n \<in> set ?us" if "map_of (snd w) (event_path base c n) \<noteq> None" for n
    using that path_below_child [of "event_file n" ?p] by (simp add: event_path_def file_names_iff)
  ultimately show "\<exists>us. cs_list (durable_store cfg os uuid) ?p w = Inr us \<and> distinct us
      \<and> (\<forall>u \<in> set us. True \<and> starts_with ?p u \<and> map_of (snd w) u \<noteq> None)
      \<and> (\<forall>n. map_of (snd w) (event_path base c n) \<noteq> None \<longrightarrow> event_path base c n \<in> set us)"
    by (intro exI [of _ ?us]) (auto simp: file_names_iff)
qed auto

section \<open>Google Cloud Storage\<close>

lemma rstrip_by_append:
  "rstrip_by P (s @ t) = (if rstrip_by P t = [] then rstrip_by P s else s @ rstrip_by P t)"
  by (auto simp: rstrip_by_def dropWhile_append)

lemma rstrip_by_last: "s \<noteq> [] \<Longrightarrow> \<not> P (last s) \<Longrightarrow> rstrip_by P s = s"
  by (simp add: rstrip_by_def last_dropWhile_rev)

lemma rstrip_slash:
  assumes "b \<noteq> []" "CHR ''/'' \<notin> set b"
  shows "\<exists>t. rstrip_by (\<lambda>c. c = CHR ''/'') (gs_uri b n) @ ''/'' @ x = gs_uri b (t @ x)"
proof -
  let ?P = "\<lambda>c. c = CHR ''/''"
  have last: "last b \<noteq> CHR ''/''" using assms by (metis last_in_set)
  have split: "gs_uri b n = (''gs://'' @ b) @ (''/'' @ n)" by (simp add: gs_uri_def)
  show ?thesis
  proof (cases "rstrip_by ?P (''/'' @ n) = []")
    case True
    have "rstrip_by ?P (''gs://'' @ b) = ''gs://'' @ b"
      using last assms(1) by (intro rstrip_by_last) auto
    with True have "rstrip_by ?P (gs_uri b n) = ''gs://'' @ b"
      unfolding split rstrip_by_append [of ?P "''gs://'' @ b"] by simp
    then show ?thesis by (intro exI [of _ "[]"]) (simp add: gs_uri_def)
  next
    case False
    then have "rstrip_by ?P n \<noteq> []"
      using rstrip_by_append [of ?P "''/''" n] by (auto simp: rstrip_by_def)
    then have "rstrip_by ?P (''/'' @ n) = ''/'' @ rstrip_by ?P n"
      by (simp only: rstrip_by_append if_False)
    with False have "rstrip_by ?P (gs_uri b n) = ''gs://'' @ b @ ''/'' @ rstrip_by ?P n"
      unfolding split rstrip_by_append [of ?P "''gs://'' @ b"] by simp
    then show ?thesis
      by (intro exI [of _ "rstrip_by ?P n @ ''/''"]) (simp add: gs_uri_def)
  qed
qed

lemma cloud_backend:
  assumes svc: "blob_service client contents"
    and uri: "sc_cloud_prefix_uri cfg = Some (gs_uri b n)" "b \<noteq> []" "CHR ''/'' \<notin> set b"
    and base: "command_version_root cfg = Inr base"
  shows "event_backend (durable_store cfg (gcp_object_store client) uuid)
    (\<lambda>w. gs_objs contents (fst w)) good_gs_uri base"
proof -
  note store = blob_service.gcs_contract [OF svc]
  note writes = listing_store.axioms(1) [OF store]
  have cloud: "is_set (sc_cloud_prefix_uri cfg)"
    by (simp add: uri is_set_def gs_uri_def)
  have base_uri: "\<exists>m. base @ ''/'' @ x = gs_uri b m" for x
  proof -
    from rstrip_slash [OF uri(2,3), of n "sc_namespace cfg @ ''/execution_command.v1/'' @ x"]
    show ?thesis
      using base cloud by (auto simp: command_version_root_def uri(1))
  qed
  have good: "good_gs_uri (base @ ''/'' @ x)" for x
    using base_uri [of x] uri(3) by (auto simp: good_gs_uri_def)
  show ?thesis
  proof
    fix u v d and w :: "'a \<times> files"
    assume u: "good_gs_uri u"
    show "fst (cs_create (durable_store cfg (gcp_object_store client) uuid) u d w)
        = Inr (gs_objs contents (fst w) u = None)"
      using create_only.create_result [OF writes u, of d "fst w"] cloud
      by (simp add: durable_store_def store_create_text_def gcp_object_store_def Let_def split_beta)
    show "gs_objs contents (fst w) u = Some d
        \<Longrightarrow> cs_read (durable_store cfg (gcp_object_store client) uuid) u w = Inr d"
      using create_only.read_present [OF writes u, of "fst w" d] cloud
      by (simp add: durable_store_def store_read_text_def gcp_object_store_def split_beta)
    assume v: "good_gs_uri v"
    show "gs_objs contents (fst (snd (cs_create (durable_store cfg (gcp_object_store client) uuid) u d w))) v
        = (if v = u \<and> gs_objs contents (fst w) u = None then Some d else gs_objs contents (fst w) v)"
      using create_only.create_objs [OF writes u v, of d "fst w"] cloud
      by (simp add: durable_store_def store_create_text_def gcp_object_store_def Let_def split_beta)
  next
    show "cs_root (durable_store cfg (gcp_object_store client) uuid) = Inr base"
      using base by (simp add: durable_store_def)
  next
    fix c n
    show "good_gs_uri (event_path base c n)" and "good_gs_uri (command_path base c)"
      using good by (simp_all add: event_path_def event_dir_def command_path_def)
  next
    fix c and w :: "'a \<times> files"
    have g: "good_gs_uri (event_dir base c)" "good_gs_uri (event_path base c n)" for n
      using good by (simp_all add: event_path_def event_dir_def)
    from listing_store.list_under [OF store g(1), of "fst w"] obtain us where
      "gcp_list client (event_dir base c) (fst w) = Inr us" "distinct us"
      "set us = {u. good_gs_uri u \<and> starts_with (event_dir base c) u
        \<and> gs_objs contents (fst w) u \<noteq> None}" by blast
    then show "\<exists>us. cs_list (durable_store cfg (gcp_object_store client) uuid) (event_dir base c) w = Inr us
      \<and> distinct us
      \<and> (\<forall>u \<in> set us. good_gs_uri u \<and> starts_with (event_dir base c) u
            \<and> gs_objs contents (fst w) u \<noteq> None)
      \<and> (\<forall>n. gs_objs contents (fst w) (event_path base c n) \<noteq> None \<longrightarrow> event_path base c n \<in> set us)"
      using cloud g by (intro exI [of _ us])
        (auto simp: durable_store_def store_list_locations_def gcp_object_store_def split_beta
          event_path_def)
  qed
qed

section \<open>The interface on the model's backends\<close>

definition local_config :: "string \<Rightarrow> store_config" where
  "local_config dir = \<lparr>sc_local_dir = Some dir, sc_cloud_prefix_uri = None,
     sc_namespace = ''execution_commands''\<rparr>"

definition gs_config :: "string \<Rightarrow> string \<Rightarrow> store_config" where
  "gs_config bucket path = \<lparr>sc_local_dir = None, sc_cloud_prefix_uri = Some (gs_uri bucket path),
     sc_namespace = ''execution_commands''\<rparr>"

definition root_of :: "store_config \<Rightarrow> string" where
  "root_of cfg = (case command_version_root cfg of Inr r \<Rightarrow> r | Inl _ \<Rightarrow> [])"

lemma config_flags [simp]:
  "is_set (sc_local_dir (local_config (c # dir)))" "\<not> is_set (sc_cloud_prefix_uri (local_config dir))"
  "is_set (sc_cloud_prefix_uri (gs_config b n))"
  by (simp_all add: local_config_def gs_config_def is_set_def gs_uri_def)

lemma root_of_eq:
  "is_set (sc_local_dir cfg) \<or> is_set (sc_cloud_prefix_uri cfg) \<Longrightarrow>
     command_version_root cfg = Inr (root_of cfg)"
  by (auto simp: root_of_def command_version_root_def)

text \<open>An absolute local directory, and a prefix in the bucket named orders.\<close>

interpretation local_log: event_backend
  "durable_store (local_config (CHR ''/'' # dir)) os longer_name" "\<lambda>w. map_of (snd w)" "\<lambda>_. True"
  "root_of (local_config (CHR ''/'' # dir))" for dir os
  by (rule local_backend) (auto simp: fresh_longer_name intro!: root_of_eq)

interpretation gs_log: event_backend
  "durable_store (gs_config ''orders'' n) (gcp_object_store memory_client) uuid"
  "\<lambda>w. gs_objs (\<lambda>w b n. map_of w (b, n)) (fst w)" good_gs_uri "root_of (gs_config ''orders'' n)"
  for n uuid
proof (rule cloud_backend [of _ _ _ "''orders''" n])
  show "blob_service memory_client (\<lambda>w b n. map_of w (b, n))" by (rule memory.blob_service_axioms)
qed (auto simp: gs_config_def is_set_def gs_uri_def intro!: root_of_eq)

section \<open>Properties\<close>

text \<open>C6: however any number of processes interleave their enqueues, reads, writes and crashes on a
  local command store that starts empty, at most one claim of a command ever succeeds.\<close>

theorem local_claim_exclusive:
  assumes "is_set (sc_local_dir cfg)" "\<not> is_set (sc_cloud_prefix_uri cfg)" "fresh_names uuid"
    and "sys_steps (durable_store cfg os uuid) (initial_sys (cw, [])) s" "wf_command c"
  shows "length (filter (\<lambda>(p, c', e). same_log c c' \<and> ev_state e = CLAIMED) (sys_log s)) \<le> 1"
  using event_backend.reachable_one_claim [OF local_backend [OF assms(1-3) root_of_eq] assms(4) _
      assms(5)] assms(1) by simp

theorem local_claim_exclusive_witness:
  "\<exists>s c e. wf_command c
     \<and> sys_steps (durable_store (local_config ''/data'') (local_object_store []) longer_name)
         (initial_sys ([], [])) s
     \<and> sys_log s = [(0, c, e)] \<and> ev_state e = CLAIMED
     \<and> length (filter (\<lambda>(p, c', e). same_log c c' \<and> ev_state e = CLAIMED) (sys_log s)) \<le> 1"
proof -
  obtain c where "from_decision sample_args sample_intent None ''t'' = Inr c"
    by (rule sample_decision)
  then have wf: "wf_command c" by (rule from_decision_wf [OF _ sample_intent_ok]) simp
  from local_log.claiming_run [OF _ this, of "([], [])"] obtain s e where run:
    "sys_steps (durable_store (local_config ''/data'') (local_object_store []) longer_name)
         (initial_sys ([], [])) s" "sys_log s = [(0, c, e)]" "ev_state e = CLAIMED"
    by (metis map_of.simps(1) snd_conv)
  have "length (filter (\<lambda>(p, c', e). same_log c c' \<and> ev_state e = CLAIMED) (sys_log s)) \<le> 1"
    by (rule local_claim_exclusive [OF _ _ fresh_longer_name run(1) wf]) simp_all
  with run wf show ?thesis by blast
qed

text \<open>C7: with Google Cloud Storage as documented, in every reachable state of the same concurrent
  system reading a command's events succeeds and returns exactly the events whose commit
  succeeded, in the order of the commits; they form a valid history (numbered from one, each
  starting in the state the previous one reached, by an allowed transition), so nothing follows
  a terminal state.\<close>

theorem cloud_events_are_the_commits:
  assumes "blob_service client contents"
    and "sc_cloud_prefix_uri cfg = Some (gs_uri bucket path)" "bucket \<noteq> []" "CHR ''/'' \<notin> set bucket"
    and "sys_steps (durable_store cfg (gcp_object_store client) uuid) (initial_sys (cw, fs)) s"
    and "\<And>b n. contents cw b n = None" "wf_command c"
  shows "events (durable_store cfg (gcp_object_store client) uuid) c (sys_store s)
      = Inr (committed c (sys_log s))
    \<and> check_history (ec_command_id c) 1 QUEUED (committed c (sys_log s)) = Inr ()
    \<and> list_all (\<lambda>e. ev_state e \<in> set (allowed_transitions (ev_previous_state e)))
        (committed c (sys_log s))
    \<and> (\<forall>i < length (committed c (sys_log s)).
         ev_state (committed c (sys_log s) ! i) \<in> set terminal_states
           \<longrightarrow> Suc i = length (committed c (sys_log s)))"
proof -
  let ?es = "committed c (sys_log s)"
  have set: "is_set (sc_cloud_prefix_uri cfg)"
    by (simp add: assms(2) is_set_def gs_uri_def)
  note log = event_backend.reachable_events [OF cloud_backend [OF assms(1-4) root_of_eq] assms(5) _
      assms(7)]
  have ev: "events (durable_store cfg (gcp_object_store client) uuid) c (sys_store s) = Inr ?es"
    and v: "valid_history c ?es"
    using log set assms(6) by (simp_all add: gs_objs_def split_beta)
  have "Suc i = length ?es" if "i < length ?es" "ev_state (?es ! i) \<in> set terminal_states" for i
    using history_after_terminal [of c "take i ?es" "?es ! i" "drop (Suc i) ?es"] v that
    by (simp add: id_take_nth_drop [symmetric])
  then show ?thesis
    using ev v by (auto simp: valid_history_def list_all_iff wf_event_def)
qed

theorem cloud_events_are_the_commits_witness:
  "\<exists>s c e. sys_steps (durable_store (gs_config ''orders'' ''live'')
         (gcp_object_store memory_client) longer_name) (initial_sys ([], [])) s
     \<and> committed c (sys_log s) = [e] \<and> ev_state e = CLAIMED
     \<and> events (durable_store (gs_config ''orders'' ''live'') (gcp_object_store memory_client)
         longer_name) c (sys_store s) = Inr [e]"
proof -
  obtain c where "from_decision sample_args sample_intent None ''t'' = Inr c"
    by (rule sample_decision)
  then have wf: "wf_command c" by (rule from_decision_wf [OF _ sample_intent_ok]) simp
  have "gs_objs (\<lambda>w b n. map_of w (b, n)) (fst ([], [])) u = None" for u
    by (simp add: gs_objs_def split_beta)
  from gs_log.claiming_run [OF this wf] obtain s e where run:
    "sys_steps (durable_store (gs_config ''orders'' ''live'') (gcp_object_store memory_client)
        longer_name) (initial_sys ([], [])) s" "sys_log s = [(0, c, e)]" "ev_state e = CLAIMED"
    by metis
  from cloud_events_are_the_commits [OF memory.blob_service_axioms _ _ _ run(1) _ wf] run
  have "events (durable_store (gs_config ''orders'' ''live'') (gcp_object_store memory_client)
         longer_name) c (sys_store s) = Inr (committed c (sys_log s))"
    by (auto simp: gs_config_def)
  moreover have "committed c (sys_log s) = [e]" using run(2) by (simp add: same_log_def)
  ultimately show ?thesis using run by metis
qed

text \<open>C15: a sequential \<open>append_event\<close> on the local store refines the abstract operation that
  extends a command's history: in every reachable state an allowed transition (with no, or the
  right, expected state) appends exactly one event and reading gives the extended history;
  a transition the table forbids raises ValueError and a wrong expectation returns None, and
  both leave the storage as it was.\<close>

theorem append_event_refines_history:
  assumes "is_set (sc_local_dir cfg)" "\<not> is_set (sc_cloud_prefix_uri cfg)" "fresh_names uuid"
    and steps: "sys_steps (durable_store cfg os uuid) (initial_sys (cw, [])) s" and wf: "wf_command c"
    and details: "json_ok (PDict details)" "clock_text now"
  shows "let st = durable_store cfg os uuid; w = sys_store s; es = committed c (sys_log s);
      r = append_event st c (Member nxt) details expected now w
    in (nxt \<in> set (allowed_transitions (last_state es))
          \<and> (expected = None \<or> expected = Some (Member (last_state es)))
        \<longrightarrow> (\<exists>e w'. r = (Inr (Some e), w') \<and> events st c w' = Inr (es @ [e]) \<and> ev_state e = nxt))
     \<and> (nxt \<notin> set (allowed_transitions (last_state es))
          \<and> (expected = None \<or> expected = Some (Member (last_state es)))
        \<longrightarrow> (\<exists>m. r = (Inl (ValueError m), w)))
     \<and> (\<forall>x. expected = Some (Member x) \<and> x \<noteq> last_state es \<longrightarrow> r = (Inr None, w))"
proof -
  let ?st = "durable_store cfg os uuid" and ?es = "committed c (sys_log s)"
  note bk = local_backend [OF assms(1-3) root_of_eq [OF disjI1 [OF assms(1)]], of os]
  from event_backend.sys_inv_reachable [OF bk steps] wf
  have h: "event_backend.holds (\<lambda>w. map_of (snd w)) (\<lambda>_. True) (root_of cfg) (sys_store s) c ?es"
    by (simp add: event_backend.sys_inv_def [OF bk])
  have "\<exists>e w'. append_event ?st c (Member nxt) details expected now (sys_store s) = (Inr (Some e), w')
      \<and> events ?st c w' = Inr (?es @ [e]) \<and> ev_state e = nxt"
    if "nxt \<in> set (allowed_transitions (last_state ?es))"
      "expected = None \<or> expected = Some (Member (last_state ?es))"
    by (rule event_backend.append_event_appends [OF bk wf h details that])
      (auto dest: event_backend.holds_events [OF bk wf])
  with event_backend.append_event_refused(1) [OF bk wf h, where nxt = nxt and expected = expected
      and details = details and now = now]
    event_backend.append_event_refused(2) [OF bk wf h, where nxt = nxt and expected = expected
      and details = details and now = now]
  show ?thesis unfolding Let_def by blast
qed

theorem append_event_refines_history_witness:
  "\<exists>c e w. append_event (durable_store (local_config ''/data'') (local_object_store []) longer_name) c
        (Member CANCELLED) [] None ''t'' ([], []) = (Inr (Some e), w)
     \<and> events (durable_store (local_config ''/data'') (local_object_store []) longer_name) c w = Inr [e]
     \<and> ev_state e = CANCELLED"
proof -
  let ?st = "durable_store (local_config ''/data'') (local_object_store []) longer_name"
  obtain c where "from_decision sample_args sample_intent None ''t'' = Inr c"
    by (rule sample_decision)
  then have wf: "wf_command c" by (rule from_decision_wf [OF _ sample_intent_ok]) simp
  have "clock_text ''t''" by code_simp
  from append_event_refines_history [of "local_config ''/data''" longer_name "local_object_store []"
      "[]" "initial_sys ([], [])" c "[]" "''t''" CANCELLED None, OF _ _ fresh_longer_name _ wf _ this]
  show ?thesis
    by (fastforce simp: initial_sys_def last_state_def Let_def)
qed

section \<open>An object store on the local provider\<close>

lemma split_on_append: "split_on d (x @ d # y) = split_on d x @ split_on d y"
proof (induction x)
  case (Cons c x)
  then show ?case by (cases "split_on d x") auto
qed simp

lemma path_parts_append: "path_parts (x @ ''/'' @ y) = path_parts x @ path_parts y"
  by (simp add: path_parts_def split_on_append)

lemma path_parts_single:
  "CHR ''/'' \<notin> set p \<Longrightarrow> path_parts p = (if p = [] \<or> p = ''.'' then [] else [p])"
  by (auto simp: path_parts_def split_on_single)

lemma join_append: "xs \<noteq> [] \<Longrightarrow> ys \<noteq> [] \<Longrightarrow> join sep (xs @ ys) = join sep xs @ sep @ join sep ys"
  by (induction xs rule: induct_list012) (auto simp: join_Cons)

lemma path_parts_safe: "safe_part p \<Longrightarrow> path_parts p = [p]"
  using safe_part_no_slash [of p]
  by (auto simp: path_parts_single safe_part_def trimmed_by_def dash_dot_def)

text \<open>The file that stands for an object of a bucket.\<close>

definition bucket_path :: "string \<Rightarrow> string \<Rightarrow> string" where
  "bucket_path storage_dir rest = path_join (path_join storage_dir ''gs'') rest"

lemma to_local_path_gs: "to_local_path sd (''gs://'' @ rest) = Inr (bucket_path sd rest)"
  by (simp add: to_local_path_def bucket_path_def starts_with_def)

lemma bucket_path_below:
  assumes "\<not> starts_with ''/'' rest" "path_parts rest \<noteq> []" "safe_part p" "safe_part q"
  shows "bucket_path sd (rest @ ''/'' @ p @ ''/'' @ q) = bucket_path sd rest @ ''/'' @ p @ ''/'' @ q"
proof -
  have "\<not> starts_with ''/'' (rest @ ''/'' @ p @ ''/'' @ q)"
    using assms(1,2) by (cases rest) (auto simp: path_parts_def starts_with_def)
  moreover have "path_parts (rest @ ''/'' @ p @ ''/'' @ q) = path_parts rest @ [p, q]"
    using path_parts_append [of rest "p @ ''/'' @ q"] path_parts_append [of p q] assms(3,4)
    by (simp add: path_parts_safe)
  ultimately show ?thesis
    using assms(1,2) join_append [of "path_parts (path_join sd ''gs'') @ path_parts rest" "[p, q]" "''/''"]
    by (simp add: bucket_path_def path_join_def path_text_def)
qed

text \<open>C28: a gap between \<open>LocalObjectStore\<close> and the store built on it. With the object store of the
  local provider behind a cloud prefix, a command that was just enqueued is not found by
  \<open>list_due\<close> for its own date: the provider lists only the files directly in a directory,
  while commands lie one directory deeper. Runtimes on this backend never see a due command.\<close>

theorem local_provider_hides_due_commands:
  assumes "wf_command c" "bucket \<noteq> []" "CHR ''/'' \<notin> set bucket" "bucket \<noteq> ''.''"
  shows "let st = durable_store (gs_config bucket path) (local_object_store storage_dir) uuid;
      (created, w) = enqueue st c ([], [])
    in created = Inr True \<and> list_due st (PStr (ec_effective_date c)) now w = Inr []"
proof -
  let ?st = "durable_store (gs_config bucket path) (local_object_store storage_dir) uuid"
  let ?r = "root_of (gs_config bucket path)"
  note date = wf_command_date [OF assms(1)] and id = command_id_shape(2) [OF assms(1)]
  have root: "cs_root ?st = Inr ?r"
    by (simp add: durable_store_def root_of_eq)
  let ?x = "''execution_commands/execution_command.v1/'' @ ec_effective_date c"
  have r: "?r = rstrip_by (\<lambda>c. c = CHR ''/'') (gs_uri bucket path)
      @ ''/execution_commands/execution_command.v1''"
    using config_flags(3) [of bucket path]
    by (simp add: root_of_def command_version_root_def) (simp add: gs_config_def)
  obtain t where "rstrip_by (\<lambda>c. c = CHR ''/'') (gs_uri bucket path) @ ''/'' @ ?x = gs_uri bucket t"
    using rstrip_slash [OF assms(2,3), of path ?x] by blast
  then have t: "?r @ ''/'' @ ec_effective_date c = ''gs://'' @ bucket @ ''/'' @ t"
    unfolding r by (simp add: gs_uri_def [of bucket t])
  define rest where "rest = bucket @ ''/'' @ t"
  have "path_parts bucket = [bucket]"
    using assms by (simp add: path_parts_single)
  then have "path_parts rest = bucket # path_parts t"
    by (simp only: rest_def path_parts_append) simp
  then have parts: "path_parts rest \<noteq> []" by simp
  have plain: "\<not> starts_with ''/'' rest"
    using assms(2,3) by (cases bucket) (auto simp: rest_def starts_with_def)
  let ?p = "bucket_path storage_dir rest" and ?id = "ec_command_id c"
  have loc: "command_location ?st c = Inr (''gs://'' @ rest @ ''/'' @ ?id @ ''/command.json'')"
    using t by (simp add: command_location_def location_def root command_simps date id rest_def
        starts_with_def)
  have due: "location ?st (ec_effective_date c) [] = Inr (''gs://'' @ rest)"
    using t by (simp add: location_def root command_simps date rest_def)
  have at: "to_local_path storage_dir (''gs://'' @ rest @ ''/'' @ ?id @ ''/command.json'')
      = Inr (?p @ ''/'' @ ?id @ ''/command.json'')"
    using bucket_path_below [OF plain parts id safe_literals(2)] to_local_path_gs by simp
  obtain d where d: "command_to_dict c = Inr d"
    using command_to_dict_json [OF assms(1) style_ok_styles(2)] by metis
  define body where "body = json_dumps indent_style (PDict d)"
  have "cs_create ?st (''gs://'' @ rest @ ''/'' @ ?id @ ''/command.json'') body ([], [])
      = (Inr True, ([(?p @ ''/'' @ ?id @ ''/command.json'', body)], []))"
    using at by (simp add: durable_store_def store_create_text_def local_object_store_def
        local_create_text_def fs_create_def)
  then have enq: "enqueue ?st c ([], []) = (Inr True, ([(?p @ ''/'' @ ?id @ ''/command.json'', body)], []))"
    using loc d by (simp add: enqueue_def body_def)
  have "path_below ?p (?p @ ''/'' @ ?id @ ''/command.json'') = Some [?id, ''command.json'']"
    using safe_part_no_slash [OF id]
    by (simp add: path_below_def starts_with_def split_on_append_sep split_on_single)
  then have "cs_list ?st (''gs://'' @ rest) ([(?p @ ''/'' @ ?id @ ''/command.json'', body)], []) = Inr []"
    using to_local_path_gs [of storage_dir rest]
    by (simp add: durable_store_def store_list_locations_def local_object_store_def local_list_def
        file_names_def)
  with due have "list_due ?st (PStr (ec_effective_date c)) now
      ([(?p @ ''/'' @ ?id @ ''/command.json'', body)], []) = Inr []"
    by (simp add: list_due_def iso_date_fixed [OF date])
  with enq show ?thesis by simp
qed

theorem local_provider_hides_due_commands_witness:
  "\<exists>c w. enqueue (durable_store (gs_config ''orders'' ''live'') (local_object_store ''/home'') longer_name) c
        ([], []) = (Inr True, w)
     \<and> list_due (durable_store (gs_config ''orders'' ''live'') (local_object_store ''/home'') longer_name)
        (PStr (ec_effective_date c)) ''t'' w = Inr []"
proof -
  obtain c where "from_decision sample_args sample_intent None ''t'' = Inr c"
    by (rule sample_decision)
  then have "wf_command c" by (rule from_decision_wf [OF _ sample_intent_ok]) simp
  from local_provider_hides_due_commands [OF this, of "''orders''" "''live''" "''/home''"
      longer_name "''t''"]
  show ?thesis by (auto simp: Let_def split_beta prod_eq_iff)
qed

end
