(* ===== verification/PaperConsumer.thy ===== *)
theory PaperConsumer
  imports PaperAdmission CommandBackends
begin

text \<open>
  The broker-free consumer of due paper commands,
  \<open>common/paper_execution_command_consumer.py\<close>: it claims each due command on the durable store,
  evaluates its admission and the gate, and closes its lifecycle with events. The platform's
  \<open>reconcile_command\<close> is a parameter: an operation that may read and change the storage,
  may raise, and may return something that is not a reconciliation (None).
\<close>

section \<open>Proposals and binding\<close>

definition symbol_pattern :: "string \<Rightarrow> bool" where
  "symbol_pattern s = (case s of [] \<Rightarrow> False
     | c # cs \<Rightarrow> is_alnum c \<and> length cs \<le> 63
         \<and> list_all (\<lambda>c. is_alnum c \<or> c \<in> set ''._-'') cs)"

definition safe_symbol :: "pyval \<Rightarrow> string res" where
  "safe_symbol v = (let symbol = upper (strip (str_or_empty v)) in
     require (symbol_pattern symbol)
       (ValueError ''proposal symbol must be a bounded broker-neutral identifier'') (Inr symbol))"

definition binding_field_pattern :: "string \<Rightarrow> bool" where
  "binding_field_pattern =
     scoped_id is_lower (\<lambda>c. is_lower c \<or> is_digit c) (\<lambda>c. c \<in> set ''._=-'')"

definition command_binding_field :: "pyval \<Rightarrow> string \<Rightarrow> string res" where
  "command_binding_field v field_name = (let f = lower (strip (str_or_empty v)) in
     require (binding_field_pattern f)
       (ValueError (field_name @ '' must be a lowercase scoped identifier'')) (Inr f))"

text \<open>\<open>json.loads(json.dumps(dict(value), allow_nan=False, sort_keys=True))\<close>.\<close>

definition json_audit_mapping :: "pyval \<Rightarrow> pydict res" where
  "json_audit_mapping v = (case v of
     PDict d \<Rightarrow> require (all_finite v) (ValueError ''proposal details must be JSON serializable'')
       (case json_loads (json_dumps default_style v) of
          Some (PDict decoded) \<Rightarrow> Inr decoded
        | Some _ \<Rightarrow> Inl (ValueError ''proposal details must be a JSON object'')
        | None \<Rightarrow> Inl (ValueError ''proposal details must be JSON serializable''))
   | _ \<Rightarrow> Inl (ValueError ''proposal details must be a mapping''))"

record proposal =
  pp_symbol :: string
  pp_exposure_effect :: exposure_effect
  pp_details :: pydict

definition all_effects :: "exposure_effect list" where
  "all_effects = [REDUCES, NEUTRAL, INCREASES, EFFECT_UNKNOWN]"

definition proposal_post_init ::
  "pyval \<Rightarrow> exposure_effect enum_arg \<Rightarrow> pyval \<Rightarrow> proposal res" where
  "proposal_post_init symbol effect details =
     bind_res (safe_symbol symbol) (\<lambda>s.
     bind_res (case effect of EnumMember e \<Rightarrow> Inr e
        | EnumValue v \<Rightarrow> (case enum_find effect_value all_effects (lower (strip (str_or_empty v))) of
             Some e \<Rightarrow> Inr e | None \<Rightarrow> Inl (ValueError ''proposal exposure_effect is invalid''))) (\<lambda>e.
     map_res (\<lambda>d. \<lparr>pp_symbol = s, pp_exposure_effect = e, pp_details = d\<rparr>)
       (json_audit_mapping details)))"

definition proposal_to_dict :: "proposal \<Rightarrow> pydict" where
  "proposal_to_dict p = [(''symbol'', PStr (pp_symbol p)),
     (''exposure_effect'', PStr (effect_value (pp_exposure_effect p))),
     (''details'', PDict (pp_details p))]"

record command_binding =
  cb_platform :: string
  cb_account_scope :: string
  cb_strategy_profile :: string

definition command_binding_post_init :: "pyval \<Rightarrow> pyval \<Rightarrow> pyval \<Rightarrow> command_binding res" where
  "command_binding_post_init platform account_scope strategy_profile =
     bind_res (command_binding_field platform ''platform'') (\<lambda>p.
     bind_res (command_binding_field account_scope ''account_scope'') (\<lambda>a.
     bind_res (command_binding_field strategy_profile ''strategy_profile'') (\<lambda>s.
       Inr \<lparr>cb_platform = p, cb_account_scope = a, cb_strategy_profile = s\<rparr>)))"

definition command_binding_to_dict :: "command_binding \<Rightarrow> pydict" where
  "command_binding_to_dict b = [(''platform'', PStr (cb_platform b)),
     (''account_scope'', PStr (cb_account_scope b)),
     (''strategy_profile'', PStr (cb_strategy_profile b))]"

datatype binding_arg = BindingValue command_binding | BindingOther pyval

definition build_paper_execution_command_binding :: "binding_arg \<Rightarrow> command_binding res" where
  "build_paper_execution_command_binding a = (case a of
     BindingValue b \<Rightarrow> Inr b
   | BindingOther (PDict d) \<Rightarrow>
       require (set (keys d) = {''platform'', ''account_scope'', ''strategy_profile''})
         (ValueError ''paper execution command binding requires platform, account_scope, strategy_profile'')
         (command_binding_post_init (PStr (py_str (dget d ''platform'')))
            (PStr (py_str (dget d ''account_scope''))) (PStr (py_str (dget d ''strategy_profile''))))
   | BindingOther _ \<Rightarrow> Inl (ValueError
       ''paper execution command binding requires platform, account_scope, strategy_profile''))"

definition command_binding_findings :: "command \<Rightarrow> command_binding \<Rightarrow> string list" where
  "command_binding_findings c b =
     (if ec_platform c \<noteq> cb_platform b then [''command_platform_mismatch''] else [])
     @ (if ec_account_scope c \<noteq> cb_account_scope b then [''command_account_scope_mismatch''] else [])
     @ (if ec_strategy_profile c \<noteq> cb_strategy_profile b
        then [''command_strategy_profile_mismatch''] else [])"

text \<open>The constructor has normalised the findings.\<close>

record reconciliation =
  rc_proposals :: "proposal list"
  rc_integrity_findings :: "string list"

text \<open>A proposal given to the constructor, or a value of another type (None).\<close>

definition reconciliation_post_init ::
  "proposal option list \<Rightarrow> finding_arg list \<Rightarrow> reconciliation res" where
  "reconciliation_post_init proposals findings =
     require (None \<notin> set proposals)
       (ValueError ''reconciliation proposals must be PaperExecutionProposal values'')
       (Inr \<lparr>rc_proposals = map the proposals,
          rc_integrity_findings = normalize_runtime_command_integrity_findings findings\<rparr>)"

section \<open>Events of one command\<close>

text \<open>\<open>clock\<close> is the time at which an event is recorded, a function of the storage state.\<close>

definition append_or_raise :: "'w command_store \<Rightarrow> ('w \<Rightarrow> string) \<Rightarrow> command \<Rightarrow> command_state
    \<Rightarrow> command_state \<Rightarrow> pydict \<Rightarrow> ('w, unit) act" where
  "append_or_raise st clock c nxt expected details w =
     (case append_event st c (Member nxt) details (Some (Member expected)) (clock w) w of
        (Inl e, w') \<Rightarrow> (Inl e, w')
      | (Inr None, w') \<Rightarrow> (Inl (RuntimeError (''failed to persist paper command event ''
            @ state_value nxt)), w')
      | (Inr (Some _), w') \<Rightarrow> (Inr (), w'))"

text \<open>Whatever the attempt raises is dropped; the writes it made remain.\<close>

definition attempt_reconciliation_required ::
  "'w command_store \<Rightarrow> ('w \<Rightarrow> string) \<Rightarrow> command \<Rightarrow> py_exc \<Rightarrow> 'w \<Rightarrow> 'w" where
  "attempt_reconciliation_required st clock c err w = (case current_state st c w of
     Inl _ \<Rightarrow> w
   | Inr s \<Rightarrow>
       if s \<notin> {CLAIMED, SUBMITTED, ACCEPTED, PARTIALLY_FILLED} then w
       else snd (append_event st c (Member RECONCILIATION_REQUIRED)
         [(''paper_simulation'', PBool True),
          (''reason'', PStr ''consumer_exception_requires_manual_reconciliation''),
          (''error_type'', PStr (exc_class err))] (Some (Member s)) (clock w) w))"

definition command_details ::
  "string \<Rightarrow> string \<Rightarrow> string option \<Rightarrow> string list \<Rightarrow> proposal list \<Rightarrow> pydict list \<Rightarrow> pydict" where
  "command_details claimant disp receipt_sha256 findings proposals receipts =
     [(''paper_simulation'', PBool True), (''claimant'', PStr claimant),
      (''paper_execution_admission'',
         PDict [(''disposition'', PStr disp), (''receipt_sha256'', opt_val receipt_sha256)]),
      (''integrity_findings'', PList (map PStr findings)),
      (''proposals'', PList (map (\<lambda>p. PDict (proposal_to_dict p)) proposals)),
      (''runtime_command_gate_receipts'', PList (map PDict receipts))]"

section \<open>Consuming one command\<close>

type_synonym 'w reconciler = "command \<Rightarrow> ('w, reconciliation option) act"

definition finding_strings :: "string list \<Rightarrow> finding_arg list" where
  "finding_strings fs = map (\<lambda>f. FindingValue (PStr f)) fs"

text \<open>The facts gathered before anything is written: the admission, the findings of the release
  binding and, when the command is this runtime's, the platform's reconciliation.\<close>

definition reconcile_claimed ::
  "'w reconciler \<Rightarrow> ('w \<Rightarrow> string) \<Rightarrow> identity \<Rightarrow> command_binding \<Rightarrow> command
    \<Rightarrow> ('w, admission_decision \<times> string list \<times> proposal list) act" where
  "reconcile_claimed reconcile clock release binding c w =
     bind_act (lift_res
       (bind_res (evaluate_paper_execution_admission (Some c) (RelIdentity release) (clock w)) (\<lambda>adm.
        map_res (\<lambda>v. (adm, v)) (validate_execution_command_release_binding c (RelIdentity release)))))
     (\<lambda>(adm, v).
       bind_act (case command_binding_findings c binding of
           [] \<Rightarrow> bind_act (reconcile c) (\<lambda>answer. lift_res (case answer of
               Some r \<Rightarrow> Inr r
             | None \<Rightarrow> Inl (ValueError ''reconcile_command must return PaperExecutionReconciliation'')))
         | fs \<Rightarrow> lift_res (reconciliation_post_init [] (finding_strings fs)))
       (\<lambda>r. ret (adm, dedup (normalize_runtime_command_integrity_findings (finding_strings
             (pa_integrity_findings adm @ sv_findings v @ rc_integrity_findings r))),
             rc_proposals r))) w"

text \<open>A no-op is gated as a neutral order.\<close>

definition gated_effects :: "proposal list \<Rightarrow> exposure_effect list" where
  "gated_effects proposals = (if proposals = [] then [NEUTRAL] else map pp_exposure_effect proposals)"

definition gate_receipts :: "command \<Rightarrow> string \<Rightarrow> pyval \<Rightarrow> identity \<Rightarrow> string list
    \<Rightarrow> exposure_effect list \<Rightarrow> pydict list res" where
  "gate_receipts c as_of_date receipt release findings effects = mapM (\<lambda>effect.
     map_res gate_to_receipt (evaluate_runtime_command_gate (EnumMember SUBMIT) (EnumMember effect)
       (Some c) (Some (EnumMember CLAIMED)) (PStr as_of_date) receipt (RelIdentity release)
       (finding_strings findings) default_gate_policy)) effects"

definition claimed_by :: "event \<Rightarrow> string res" where
  "claimed_by claim = bind_res (event_details claim) (\<lambda>d.
     require (''claimant'' \<in> set (keys d)) (KeyError ''claimant'') (Inr (py_str (dget d ''claimant''))))"

definition consume_claimed ::
  "'w command_store \<Rightarrow> 'w reconciler \<Rightarrow> ('w \<Rightarrow> string) \<Rightarrow> string \<Rightarrow> pyval \<Rightarrow> identity
    \<Rightarrow> command_binding \<Rightarrow> command \<Rightarrow> event \<Rightarrow> ('w, pydict) act" where
  "consume_claimed st reconcile clock as_of_date receipt release binding c claim =
     bind_act (reconcile_claimed reconcile clock release binding c) (\<lambda>(adm, findings, proposals).
     bind_act (lift_res
       (bind_res (gate_receipts c as_of_date receipt release findings (gated_effects proposals)) (\<lambda>rs.
        map_res (\<lambda>claimant. (rs, command_details claimant (disposition_value (pa_disposition adm))
            (pa_receipt_sha256 adm) findings proposals rs)) (claimed_by claim)))) (\<lambda>(rs, details).
     let count = int (length proposals) in
     if list_ex (\<lambda>r. \<not> truthy (dget r ''policy_allows'')) rs
     then bind_act (append_or_raise st clock c REJECTED CLAIMED
            (details @ [(''reason'', PStr ''paper_command_gate_would_block'')])) (\<lambda>_.
          ret [(''command_id'', PStr (ec_command_id c)), (''status'', PStr (state_value REJECTED)),
               (''proposals_count'', PInt count), (''would_block'', PBool True)])
     else bind_act (append_or_raise st clock c SUBMITTED CLAIMED details) (\<lambda>_.
          bind_act (append_or_raise st clock c ACCEPTED SUBMITTED
            [(''paper_simulation'', PBool True), (''proposals_count'', PInt count)]) (\<lambda>_.
          bind_act (append_or_raise st clock c FILLED ACCEPTED
            [(''paper_simulation'', PBool True), (''simulated_fill_count'', PInt count)]) (\<lambda>_.
          ret [(''command_id'', PStr (ec_command_id c)), (''status'', PStr (state_value FILLED)),
               (''proposals_count'', PInt count), (''would_block'', PBool False)])))))"

text \<open>The body of the loop over the due commands: its entries of the report, none for a command
  that is not queued any more or was claimed by someone else.\<close>

definition consume_command ::
  "'w command_store \<Rightarrow> 'w reconciler \<Rightarrow> ('w \<Rightarrow> string) \<Rightarrow> string \<Rightarrow> pyval \<Rightarrow> pyval \<Rightarrow> identity
    \<Rightarrow> command_binding \<Rightarrow> command \<Rightarrow> ('w, pydict list) act" where
  "consume_command st reconcile clock as_of_date claimant receipt release binding c w =
     (case current_state st c w of
        Inl e \<Rightarrow> (Inl e, w)
      | Inr s \<Rightarrow>
        if s \<noteq> QUEUED then (Inr [], w)
        else (case claim_due st c (PStr as_of_date) claimant (clock w) w of
            (Inl e, w') \<Rightarrow> (Inl e, w')
          | (Inr None, w') \<Rightarrow> (Inr [], w')
          | (Inr (Some claim), w') \<Rightarrow>
            (case consume_claimed st reconcile clock as_of_date receipt release binding c claim w' of
               (Inr entry, w'') \<Rightarrow> (Inr [entry], w'')
             | (Inl e, w'') \<Rightarrow>
                 (Inr [[(''command_id'', PStr (ec_command_id c)),
                        (''status'', PStr (state_value RECONCILIATION_REQUIRED)),
                        (''error_type'', PStr (exc_class e))]],
                  attempt_reconciliation_required st clock c e w''))))"

fun consume_commands ::
  "(command \<Rightarrow> ('w, pydict list) act) \<Rightarrow> command list \<Rightarrow> ('w, pydict list) act" where
  "consume_commands one [] = ret []"
| "consume_commands one (c # cs) = bind_act (one c) (\<lambda>xs.
     bind_act (consume_commands one cs) (\<lambda>ys. ret (xs @ ys)))"

section \<open>The consumer\<close>

definition blocked_report :: "string \<Rightarrow> pydict" where
  "blocked_report reason =
     [(''schema_version'', PStr ''paper_execution_command_consumer.v1''), (''status'', PStr ''blocked''),
      (''reason'', PStr reason), (''commands'', PList [])]"

definition has_backend :: "'w command_store \<Rightarrow> bool" where
  "has_backend st = (case cs_root st of Inl _ \<Rightarrow> False | Inr _ \<Rightarrow> True)"

definition consume_due_paper_execution_commands ::
  "'w command_store option \<Rightarrow> pyval \<Rightarrow> pyval \<Rightarrow> 'w reconciler option \<Rightarrow> pyval \<Rightarrow> release_arg
    \<Rightarrow> binding_arg \<Rightarrow> ('w \<Rightarrow> string) \<Rightarrow> ('w, pydict) act" where
  "consume_due_paper_execution_commands store as_of_session claimant reconcile_command receipt
      expected_release expected_binding clock w = (case store of
     None \<Rightarrow> (Inl (RuntimeError ''paper durable execution command store is required''), w)
   | Some st \<Rightarrow>
     if \<not> has_backend st
     then (Inl (RuntimeError ''paper durable execution command store is required''), w)
     else (case reconcile_command of
       None \<Rightarrow> (Inl (ValueError ''reconcile_command must be callable''), w)
     | Some reconcile \<Rightarrow> (case build_paper_execution_command_binding expected_binding of
         Inl _ \<Rightarrow> (Inr (blocked_report ''command_binding_invalid''), w)
       | Inr binding \<Rightarrow> (case build_strategy_release_identity expected_release of
           Inl _ \<Rightarrow> (Inr (blocked_report ''release_identity_invalid''), w)
         | Inr release \<Rightarrow>
             let preflight = validate_runtime_loaded_receipt receipt (RelIdentity release) True in
             if \<not> sv_is_valid preflight then (Inr (blocked_report (hd (sv_findings preflight))), w)
             else let as_of_date = take 10 (py_str as_of_session) in
               bind_act (\<lambda>w. (list_due st (PStr as_of_date) (clock w) w, w)) (\<lambda>due.
               bind_act (consume_commands
                   (consume_command st reconcile clock as_of_date claimant receipt release binding) due)
                 (\<lambda>entries. ret
                   [(''schema_version'', PStr ''paper_execution_command_consumer.v1''),
                    (''status'', PStr ''ok''), (''as_of_session'', PStr as_of_date),
                    (''commands'', PList (map PDict entries))])) w))))"

section \<open>Facts of the gate in the consumer\<close>

lemma gate_receipts_Inr:
  assumes "gate_receipts c session receipt release findings effects = Inr rs"
    and "\<not> list_ex (\<lambda>r. \<not> truthy (dget r ''policy_allows'')) rs" "eff \<in> set effects"
  obtains d where "evaluate_runtime_command_gate (EnumMember SUBMIT) (EnumMember eff)
       (Some c) (Some (EnumMember CLAIMED)) (PStr session) receipt (RelIdentity release)
       (finding_strings findings) default_gate_policy = Inr d" "gt_policy_allows d"
proof -
  from assms(3) obtain i where i: "i < length effects" "eff = effects ! i" by (metis in_set_conv_nth)
  from assms(1) have l: "list_all2 (\<lambda>effect r. map_res gate_to_receipt (evaluate_runtime_command_gate
      (EnumMember SUBMIT) (EnumMember effect) (Some c) (Some (EnumMember CLAIMED)) (PStr session) receipt
      (RelIdentity release) (finding_strings findings) default_gate_policy) = Inr r) effects rs"
    by (simp add: gate_receipts_def mapM_Inr_iff)
  with i obtain d where d: "evaluate_runtime_command_gate (EnumMember SUBMIT) (EnumMember eff)
       (Some c) (Some (EnumMember CLAIMED)) (PStr session) receipt (RelIdentity release)
       (finding_strings findings) default_gate_policy = Inr d" "rs ! i = gate_to_receipt d"
    by (auto simp: list_all2_conv_all_nth map_res_Inr_iff)
  have "rs ! i \<in> set rs" using l i(1) by (auto dest: list_all2_lengthD)
  with assms(2) d(2) have "gt_policy_allows d" by (auto simp: list_ex_iff)
  with that d(1) show thesis .
qed

lemma gate_receipts_total: "\<exists>rs. gate_receipts c session receipt release findings effects = Inr rs
    \<and> (\<forall>r \<in> set rs. json_ok (PDict r))"
proof (induction effects)
  case (Cons e es)
  obtain d where "evaluate_runtime_command_gate (EnumMember SUBMIT) (EnumMember e)
       (Some c) (Some (EnumMember CLAIMED)) (PStr session) receipt (RelIdentity release)
       (finding_strings findings) default_gate_policy = Inr d"
    by (rule gate_total [of "Some (EnumMember CLAIMED)"]) auto
  with Cons show ?case by (auto simp: gate_receipts_def simp del: json_ok.simps)
qed (simp add: gate_receipts_def)

lemma binding_matches:
  "command_binding_findings c b = [] \<longleftrightarrow> ec_platform c = cb_platform b
     \<and> ec_account_scope c = cb_account_scope b \<and> ec_strategy_profile c = cb_strategy_profile b"
  by (simp add: command_binding_findings_def)

text \<open>What a successful gathering of facts says.\<close>

lemma reconcile_claimed_Inr:
  assumes "reconcile_claimed reconcile clock release binding c w = (Inr (adm, findings, proposals), w')"
  shows "evaluate_paper_execution_admission (Some c) (RelIdentity release) (clock w) = Inr adm"
    "f \<in> set (pa_integrity_findings adm) \<Longrightarrow> f \<in> set known_findings \<Longrightarrow> f \<in> set findings"
    "command_binding_findings c binding = [] \<Longrightarrow>
       \<exists>r. reconcile c w = (Inr (Some r), w') \<and> proposals = rc_proposals r"
    "f \<in> set (command_binding_findings c binding) \<Longrightarrow> proposals = [] \<and> f \<in> set findings"
proof -
  from assms obtain v r where adm: "evaluate_paper_execution_admission (Some c) (RelIdentity release) (clock w) = Inr adm"
    and v: "validate_execution_command_release_binding c (RelIdentity release) = Inr v"
    and r: "(case command_binding_findings c binding of
           [] \<Rightarrow> bind_act (reconcile c) (\<lambda>answer. lift_res (case answer of
               Some r \<Rightarrow> Inr r
             | None \<Rightarrow> Inl (ValueError ''reconcile_command must return PaperExecutionReconciliation'')))
         | fs \<Rightarrow> lift_res (reconciliation_post_init [] (finding_strings fs))) w = (Inr r, w')"
    and fp: "findings = dedup (normalize_runtime_command_integrity_findings (finding_strings
             (pa_integrity_findings adm @ sv_findings v @ rc_integrity_findings r)))"
      "proposals = rc_proposals r"
    using assms by (auto simp: reconcile_claimed_def bind_act_Inr_iff bind_res_Inr_iff map_res_Inr_iff)
  have kept: "f \<in> set findings" if "f \<in> set known_findings"
    "f \<in> set (pa_integrity_findings adm @ sv_findings v @ rc_integrity_findings r)" for f
    unfolding fp(1) set_dedup using that by (intro known_finding_reported) (auto simp: finding_strings_def)
  show "evaluate_paper_execution_admission (Some c) (RelIdentity release) (clock w) = Inr adm"
    by (rule adm)
  show "f \<in> set (pa_integrity_findings adm) \<Longrightarrow> f \<in> set known_findings \<Longrightarrow> f \<in> set findings"
    by (rule kept) simp_all
  show "\<exists>r. reconcile c w = (Inr (Some r), w') \<and> proposals = rc_proposals r"
    if "command_binding_findings c binding = []"
    using r that by (auto simp: bind_act_Inr_iff fp(2) split: option.splits)
  assume f: "f \<in> set (command_binding_findings c binding)"
  then obtain x xs where xs: "command_binding_findings c binding = x # xs"
    by (cases "command_binding_findings c binding") auto
  have known: "f \<in> set known_findings"
    using f by (auto simp: command_binding_findings_def known_findings_def halting_findings_def
        split: if_splits)
  from r xs have rc: "rc_proposals r = []"
    "rc_integrity_findings r = normalize_runtime_command_integrity_findings
       (finding_strings (command_binding_findings c binding))"
    by (auto simp: reconciliation_post_init_def)
  have "f \<in> set (rc_integrity_findings r)"
    unfolding rc(2) using f known by (intro known_finding_reported) (auto simp: finding_strings_def)
  with kept known rc(1) show "proposals = [] \<and> f \<in> set findings" by (simp add: fp(2))
qed

lemma finding_reaches_gate:
  "f \<in> set findings \<Longrightarrow> f \<in> set known_findings \<Longrightarrow>
     f \<in> set (normalize_runtime_command_integrity_findings (finding_strings findings))"
  by (rule known_finding_reported) (auto simp: finding_strings_def)

text \<open>A simulated fill rests on an admission, on this runtime's binding, on its attested release
  and on effects that the admission permits.\<close>

lemma consume_claimed_filled:
  assumes "consume_claimed st reconcile clock session receipt release binding c claim w = (Inr entry, w')"
    and "dget entry ''status'' = PStr ''filled''"
  shows "\<exists>adm r w1. evaluate_paper_execution_admission (Some c) (RelIdentity release) (clock w) = Inr adm
    \<and> reconcile c w = (Inr (Some r), w1) \<and> pa_disposition adm \<noteq> RISK_HALTED
    \<and> command_binding_findings c binding = []
    \<and> sv_is_valid (validate_runtime_loaded_receipt receipt (RelIdentity release) True)
    \<and> (\<forall>p \<in> set (rc_proposals r). pp_exposure_effect p \<noteq> EFFECT_UNKNOWN)
    \<and> (pa_disposition adm = REDUCING_ONLY \<longrightarrow> rc_proposals r \<noteq> []
         \<and> (\<forall>p \<in> set (rc_proposals r). pp_exposure_effect p = REDUCES))"
proof -
  from assms(1) obtain adm findings proposals rs w1 details where
    rc: "reconcile_claimed reconcile clock release binding c w = (Inr (adm, findings, proposals), w1)"
    and rs: "gate_receipts c session receipt release findings (gated_effects proposals) = Inr rs"
    and rest: "(let count = int (length proposals) in
     if list_ex (\<lambda>r. \<not> truthy (dget r ''policy_allows'')) rs
     then bind_act (append_or_raise st clock c REJECTED CLAIMED
            (details @ [(''reason'', PStr ''paper_command_gate_would_block'')])) (\<lambda>_.
          ret [(''command_id'', PStr (ec_command_id c)), (''status'', PStr (state_value REJECTED)),
               (''proposals_count'', PInt count), (''would_block'', PBool True)])
     else bind_act (append_or_raise st clock c SUBMITTED CLAIMED details) (\<lambda>_.
          bind_act (append_or_raise st clock c ACCEPTED SUBMITTED
            [(''paper_simulation'', PBool True), (''proposals_count'', PInt count)]) (\<lambda>_.
          bind_act (append_or_raise st clock c FILLED ACCEPTED
            [(''paper_simulation'', PBool True), (''simulated_fill_count'', PInt count)]) (\<lambda>_.
          ret [(''command_id'', PStr (ec_command_id c)), (''status'', PStr (state_value FILLED)),
               (''proposals_count'', PInt count), (''would_block'', PBool False)])))) w1 = (Inr entry, w')"
    unfolding consume_claimed_def bind_act_Inr_iff [of "reconcile_claimed _ _ _ _ _"]
      bind_act_Inr_iff [of "lift_res _"] case_prod_conv split_paired_Ex lift_res_Inr_iff
      bind_res_Inr_iff map_res_Inr_iff
    by blast
  have pass: "\<not> list_ex (\<lambda>r. \<not> truthy (dget r ''policy_allows'')) rs"
    using rest assms(2) by (auto simp: Let_def bind_act_Inr_iff split: if_splits)
  note f = reconcile_claimed_Inr [OF rc]
  have ok: "pa_disposition adm \<noteq> RISK_HALTED \<and> (pa_disposition adm = REDUCING_ONLY \<longrightarrow> eff = REDUCES)
      \<and> eff \<noteq> EFFECT_UNKNOWN \<and> command_binding_findings c binding = []
      \<and> sv_is_valid (validate_runtime_loaded_receipt receipt (RelIdentity release) True)"
    if "eff \<in> set (gated_effects proposals)" for eff
  proof -
    from gate_receipts_Inr [OF rs pass that] obtain d where d:
      "evaluate_runtime_command_gate (EnumMember SUBMIT) (EnumMember eff)
       (Some c) (Some (EnumMember CLAIMED)) (PStr session) receipt (RelIdentity release)
       (finding_strings findings) default_gate_policy = Inr d" "gt_policy_allows d" .
    have w: "is_write SUBMIT" by (simp add: is_write_def)
    note allowed = gate_allows_iff [OF d(1) w, THEN iffD1, OF d(2)]
    have "pa_disposition adm \<noteq> RISK_HALTED \<and> (pa_disposition adm = REDUCING_ONLY \<longrightarrow> eff = REDUCES)"
      by (rule gate_with_admission [OF f(1) d(1) w _ d(2)]) (rule finding_reaches_gate [OF f(2)])
    moreover have "command_binding_findings c binding = []"
    proof (rule ccontr)
      assume "command_binding_findings c binding \<noteq> []"
      then have g: "hd (command_binding_findings c binding) \<in> set (command_binding_findings c binding)"
        by (rule hd_in_set)
      then have "hd (command_binding_findings c binding) \<in> set halting_findings"
        by (auto simp: command_binding_findings_def halting_findings_def split: if_splits)
      with f(4) [OF g] finding_reaches_gate allowed halting_not_reducing show False
        by (auto simp: known_findings_def)
    qed
    ultimately show ?thesis using allowed by blast
  qed
  obtain eff where eff: "eff \<in> set (gated_effects proposals)"
    by (cases proposals) (auto simp: gated_effects_def)
  with ok obtain r where r: "reconcile c w = (Inr (Some r), w1)" "proposals = rc_proposals r"
    using f(3) by blast
  have "\<forall>p \<in> set proposals. pp_exposure_effect p \<noteq> EFFECT_UNKNOWN
      \<and> (pa_disposition adm = REDUCING_ONLY \<longrightarrow> pp_exposure_effect p = REDUCES)"
  proof
    fix p assume "p \<in> set proposals"
    then have "pp_exposure_effect p \<in> set (gated_effects proposals)"
      by (auto simp: gated_effects_def)
    from ok [OF this] show "pp_exposure_effect p \<noteq> EFFECT_UNKNOWN
      \<and> (pa_disposition adm = REDUCING_ONLY \<longrightarrow> pp_exposure_effect p = REDUCES)" by blast
  qed
  moreover have "pa_disposition adm = REDUCING_ONLY \<longrightarrow> proposals \<noteq> []"
    using ok [of NEUTRAL] by (auto simp: gated_effects_def)
  ultimately show ?thesis
    using f(1) r ok [OF eff] by blast
qed

section \<open>Settling a claimed command\<close>

lemma json_ok_command_details:
  assumes "\<forall>p \<in> set proposals. json_ok (PDict (pp_details p))" "\<forall>r \<in> set rs. json_ok (PDict r)"
  shows "json_ok (PDict (command_details claimant disp h findings proposals rs))"
    "json_ok (PDict (command_details claimant disp h findings proposals rs @ [(''reason'', PStr t)]))"
  using assms
  by (auto simp: command_details_def proposal_to_dict_def opt_val_def list_all_iff split: option.split)

text \<open>A reconciler that answers without touching the storage, with proposals as constructed.\<close>

definition storage_neutral :: "'w reconciler \<Rightarrow> command \<Rightarrow> bool" where
  "storage_neutral reconcile c \<longleftrightarrow> (\<forall>w. snd (reconcile c w) = w
     \<and> (\<forall>r. fst (reconcile c w) = Inr (Some r)
          \<longrightarrow> (\<forall>p \<in> set (rc_proposals r). json_ok (PDict (pp_details p)))))"

lemma reconcile_claimed_neutral:
  assumes "storage_neutral reconcile c"
  shows "snd (reconcile_claimed reconcile clock release binding c w) = w"
    "reconcile_claimed reconcile clock release binding c w = (Inr (adm, findings, proposals), w')
      \<Longrightarrow> \<forall>p \<in> set proposals. json_ok (PDict (pp_details p))"
proof -
  have same: "snd (reconcile c w) = w" using assms by (simp add: storage_neutral_def)
  then show "snd (reconcile_claimed reconcile clock release binding c w) = w"
    by (auto simp: reconcile_claimed_def bind_act_def split: sum.splits prod.splits list.splits)
  assume rc: "reconcile_claimed reconcile clock release binding c w = (Inr (adm, findings, proposals), w')"
  note f = reconcile_claimed_Inr(3,4) [OF rc]
  show "\<forall>p \<in> set proposals. json_ok (PDict (pp_details p))"
  proof (cases "command_binding_findings c binding")
    case Nil
    with f(1) obtain r where "reconcile c w = (Inr (Some r), w')" "proposals = rc_proposals r" by blast
    with assms show ?thesis unfolding storage_neutral_def by (metis fst_conv)
  next
    case (Cons f fs)
    with f(2) [of f] show ?thesis by simp
  qed
qed

lemma bind_step:
  "append_or_raise st clock c n s d w = (Inr (), w') \<Longrightarrow>
     bind_act (append_or_raise st clock c n s d) f w = f () w'"
  by (simp add: bind_act_def)

context event_backend
begin

lemma append_or_raise_ok:
  assumes "wf_command c" "holds w c es" "json_ok (PDict details)" "clock_text (clock w)"
    and "last_state es = s" "nxt \<in> set (allowed_transitions s)"
  obtains e w' where "append_or_raise st clock c nxt s details w = (Inr (), w')"
    "holds w' c (es @ [e])" "ev_state e = nxt"
proof -
  from append_event_appends [OF assms(1-4), of nxt "Some (Member s)"] assms(5,6)
  obtain e w' where "append_event st c (Member nxt) details (Some (Member s)) (clock w) w = (Inr (Some e), w')"
    "holds w' c (es @ [e])" "ev_state e = nxt" by metis
  with that show thesis by (simp add: append_or_raise_def)
qed

lemma attempt_marks:
  assumes "wf_command c" "holds w c es" "clock_text (clock w)"
    and "last_state es \<in> {CLAIMED, SUBMITTED, ACCEPTED, PARTIALLY_FILLED}"
  obtains e where "holds (attempt_reconciliation_required st clock c err w) c (es @ [e])"
    "ev_state e = RECONCILIATION_REQUIRED"
proof -
  have nxt: "RECONCILIATION_REQUIRED \<in> set (allowed_transitions (last_state es))"
    using assms(4) by auto
  have ok: "json_ok (PDict [(''paper_simulation'', PBool True),
          (''reason'', PStr ''consumer_exception_requires_manual_reconciliation''),
          (''error_type'', PStr (exc_class err))])" by simp
  from append_event_appends [OF assms(1,2) ok assms(3) nxt disjI2 [OF refl]]
  obtain e w' where "append_event st c (Member RECONCILIATION_REQUIRED)
      [(''paper_simulation'', PBool True),
          (''reason'', PStr ''consumer_exception_requires_manual_reconciliation''),
          (''error_type'', PStr (exc_class err))] (Some (Member (last_state es))) (clock w) w
      = (Inr (Some e), w')" "holds w' c (es @ [e])" "ev_state e = RECONCILIATION_REQUIRED"
    by metis
  moreover from this(1) assms(4) holds_events [OF assms(1,2)]
  have "attempt_reconciliation_required st clock c err w = w'"
    by (auto simp: attempt_reconciliation_required_def current_state_def)
  ultimately show thesis using that by simp
qed

text \<open>When every gate passes the command is filled.\<close>

lemma consume_claimed_fills:
  assumes wf: "wf_command c" and h: "holds w c es" and cl: "last_state es = CLAIMED"
    and clock: "\<And>w. clock_text (clock w)"
    and rc: "reconcile_claimed reconcile clock release binding c w = (Inr (adm, findings, proposals), w)"
    and ok: "\<forall>p \<in> set proposals. json_ok (PDict (pp_details p))"
    and rs: "gate_receipts c session receipt release findings (gated_effects proposals) = Inr rs"
    and pass: "\<not> list_ex (\<lambda>r. \<not> truthy (dget r ''policy_allows'')) rs"
    and who: "claimed_by claim = Inr claimant"
  obtains entry es' w' where
    "consume_claimed st reconcile clock session receipt release binding c claim w = (Inr entry, w')"
    "holds w' c es'" "last_state es' = FILLED" "dget entry ''status'' = PStr (state_value FILLED)"
proof -
  let ?d = "command_details claimant (disposition_value (pa_disposition adm))
            (pa_receipt_sha256 adm) findings proposals rs"
  let ?step = "append_or_raise st clock c"
  obtain rs' where "gate_receipts c session receipt release findings (gated_effects proposals) = Inr rs'"
    "\<forall>r \<in> set rs'. json_ok (PDict r)" using gate_receipts_total by blast
  with rs have "\<forall>r \<in> set rs. json_ok (PDict r)" by simp
  note d = json_ok_command_details(1) [OF ok this]
  have ok2: "json_ok (PDict [(''paper_simulation'', PBool True), (''proposals_count'', PInt n)])"
    "json_ok (PDict [(''paper_simulation'', PBool True), (''simulated_fill_count'', PInt n)])" for n
    by simp_all
  obtain e1 w1 where s1:
    "?step SUBMITTED CLAIMED ?d w = (Inr (), w1)" "holds w1 c (es @ [e1])" "ev_state e1 = SUBMITTED"
    by (rule append_or_raise_ok [where clock = clock and w = w and nxt = SUBMITTED,
          OF wf h d clock cl]) auto
  have last1: "last_state (es @ [e1]) = SUBMITTED" by (simp add: last_state_def s1(3))
  obtain e2 w2 where s2:
    "?step ACCEPTED SUBMITTED [(''paper_simulation'', PBool True),
       (''proposals_count'', PInt (int (length proposals)))] w1 = (Inr (), w2)"
    "holds w2 c ((es @ [e1]) @ [e2])" "ev_state e2 = ACCEPTED"
    by (rule append_or_raise_ok [where clock = clock and w = w1 and nxt = ACCEPTED,
          OF wf s1(2) ok2(1) clock last1]) auto
  have last2: "last_state ((es @ [e1]) @ [e2]) = ACCEPTED" by (simp add: last_state_def s2(3))
  obtain e3 w3 where s3:
    "?step FILLED ACCEPTED [(''paper_simulation'', PBool True),
       (''simulated_fill_count'', PInt (int (length proposals)))] w2 = (Inr (), w3)"
    "holds w3 c (((es @ [e1]) @ [e2]) @ [e3])" "ev_state e3 = FILLED"
    by (rule append_or_raise_ok [where clock = clock and w = w2 and nxt = FILLED,
          OF wf s2(2) ok2(2) clock last2]) auto
  have bind_rc: "bind_act (reconcile_claimed reconcile clock release binding c) f w
      = f (adm, findings, proposals) w" for f :: "_ \<Rightarrow> ('w, pydict) act"
    by (simp add: bind_act_def rc)
  have "last_state (((es @ [e1]) @ [e2]) @ [e3]) = FILLED" by (simp add: last_state_def s3(3))
  from that [OF _ s3(2) this] show thesis
    using pass by (simp add: consume_claimed_def bind_rc rs who Let_def bind_step [OF s1(1)]
        bind_step [OF s2(1)] bind_step [OF s3(1)])
qed

text \<open>A claimed command is settled, or it is still claimed when an exception leaves the body.\<close>

lemma consume_claimed_settles:
  assumes wf: "wf_command c" and h: "holds w c es" and cl: "last_state es = CLAIMED"
    and clock: "\<And>w. clock_text (clock w)" and neutral: "storage_neutral reconcile c"
    and run: "consume_claimed st reconcile clock session receipt release binding c claim w = (result, w')"
  shows "(\<exists>entry es' s. result = Inr entry \<and> holds w' c es' \<and> last_state es' = s
      \<and> s \<in> {FILLED, REJECTED} \<and> dget entry ''status'' = PStr (state_value s))
    \<or> (\<exists>e. result = Inl e \<and> w' = w)"
proof -
  let ?rc = "reconcile_claimed reconcile clock release binding c"
  note same = reconcile_claimed_neutral(1) [OF neutral, of clock release binding w]
  show ?thesis
  proof (cases "fst (?rc w)")
    case (Inl e)
    then have "?rc w = (Inl e, w)" using same by (simp add: prod_eq_iff)
    then show ?thesis
      using run by (auto simp: consume_claimed_def bind_act_eq(2))
  next
    case (Inr a)
    obtain adm findings proposals where a: "a = (adm, findings, proposals)" by (cases a)
    have rc: "?rc w = (Inr (adm, findings, proposals), w)" using same Inr a by (simp add: prod_eq_iff)
    have bind_rc: "bind_act ?rc f w = f (adm, findings, proposals) w" for f :: "_ \<Rightarrow> ('w, pydict) act"
      by (simp add: bind_act_def rc)
    note ok = reconcile_claimed_neutral(2) [OF neutral rc]
    obtain rs where rs: "gate_receipts c session receipt release findings (gated_effects proposals) = Inr rs"
      "\<forall>r \<in> set rs. json_ok (PDict r)" using gate_receipts_total by blast
    show ?thesis
    proof (cases "claimed_by claim")
      case (Inl e)
      then show ?thesis
        using run by (auto simp: consume_claimed_def bind_rc rs(1))
    next
      case (Inr claimant)
      let ?d = "command_details claimant (disposition_value (pa_disposition adm))
            (pa_receipt_sha256 adm) findings proposals rs"
      note d = json_ok_command_details [OF ok rs(2)]
      let ?step = "append_or_raise st clock c"
      show ?thesis
      proof (cases "list_ex (\<lambda>r. \<not> truthy (dget r ''policy_allows'')) rs")
        case True
        obtain e w1 where
          "?step REJECTED CLAIMED (?d @ [(''reason'', PStr ''paper_command_gate_would_block'')]) w = (Inr (), w1)"
          "holds w1 c (es @ [e])" "ev_state e = REJECTED"
          by (rule append_or_raise_ok [where clock = clock and w = w and nxt = REJECTED,
                OF wf h d(2) clock cl]) auto
        with run True show ?thesis
          by (auto simp: consume_claimed_def bind_rc rs(1) Inr Let_def bind_step
              last_state_def intro!: exI [of _ "es @ [e]"])
      next
        case False
        from consume_claimed_fills [OF wf h cl clock rc ok rs(1) False Inr]
        obtain entry es' w1 where "consume_claimed st reconcile clock session receipt release binding c claim w
            = (Inr entry, w1)" "holds w1 c es'" "last_state es' = FILLED"
          "dget entry ''status'' = PStr (state_value FILLED)" by metis
        with run show ?thesis
          by (intro disjI1 exI [of _ entry] exI [of _ es'] exI [of _ FILLED]) simp
      qed
    qed
  qed
qed

lemma consume_command_settles:
  assumes wf: "wf_command c" and h: "holds w c []"
    and clock: "\<And>w. clock_text (clock w)" and neutral: "storage_neutral reconcile c"
    and due: "ec_effective_date c = session" and who: "safe_path_part claimant ''claimant'' = Inr who"
  obtains entry w' es s where
    "consume_command st reconcile clock session claimant receipt release binding c w = (Inr [entry], w')"
    "holds w' c es" "last_state es = s" "s \<in> {FILLED, REJECTED, RECONCILIATION_REQUIRED}"
    "dget entry ''status'' = PStr (state_value s)" "dget entry ''command_id'' = PStr (ec_command_id c)"
proof -
  have day: "is_due_on c (PStr session) = Inr True"
    using wf_command_date [OF wf] by (simp add: is_due_on_def due iso_date_fixed)
  have ok: "json_ok (PDict [(''claimant'', PStr who)])" "CLAIMED \<in> set (allowed_transitions (last_state []))"
    by (simp_all add: last_state_def)
  have "Some (Member QUEUED) = None \<or> Some (Member QUEUED) = Some (Member (last_state []))"
    by (simp add: last_state_def)
  from append_event_appends [OF wf h ok(1) clock ok(2) this]
  obtain e w1 where cl: "append_event st c (Member CLAIMED) [(''claimant'', PStr who)]
      (Some (Member QUEUED)) (clock w) w = (Inr (Some e), w1)" "holds w1 c [e]" "ev_state e = CLAIMED"
    by (metis append_Nil)
  then have claim: "claim_due st c (PStr session) claimant (clock w) w = (Inr (Some e), w1)"
    by (simp add: claim_due_def day who)
  have queued: "current_state st c w = Inr QUEUED"
    by (simp add: current_state_def holds_events [OF wf h] last_state_def)
  have last: "last_state [e] = CLAIMED" by (simp add: last_state_def cl(3))
  obtain result w2 where run:
    "consume_claimed st reconcile clock session receipt release binding c e w1 = (result, w2)" by force
  from consume_claimed_settles [OF wf cl(2) last clock neutral run] show thesis
  proof (elim disjE exE conjE)
    fix entry es' s
    assume "result = Inr entry" "holds w2 c es'" "last_state es' = s" "s \<in> {FILLED, REJECTED}"
      "dget entry ''status'' = PStr (state_value s)"
    moreover have "dget entry ''command_id'' = PStr (ec_command_id c)" if "result = Inr entry"
      using run that by (auto simp: consume_claimed_def bind_act_Inr_iff Let_def split: if_splits)
    ultimately show thesis
      using that run by (auto simp: consume_command_def queued claim)
  next
    fix x assume x: "result = Inl x" "w2 = w1"
    from attempt_marks [where clock = clock and w = w1 and err = x, OF wf cl(2) clock] last obtain e' where
      "holds (attempt_reconciliation_required st clock c x w1) c ([e] @ [e'])"
      "ev_state e' = RECONCILIATION_REQUIRED" by auto
    with that run x show thesis
      by (auto simp: consume_command_def queued claim last_state_def)
  qed
qed

lemma consume_command_fills:
  assumes wf: "wf_command c" and h: "holds w c []"
    and clock: "\<And>w. clock_text (clock w)"
    and due: "ec_effective_date c = session" and who: "safe_path_part claimant ''claimant'' = Inr who"
    and rc: "\<And>w1. reconcile_claimed reconcile clock release binding c w1
        = (Inr (adm, findings, proposals), w1)"
    and ok: "\<forall>p \<in> set proposals. json_ok (PDict (pp_details p))"
    and rs: "gate_receipts c session receipt release findings (gated_effects proposals) = Inr rs"
    and pass: "\<not> list_ex (\<lambda>r. \<not> truthy (dget r ''policy_allows'')) rs"
  obtains entry w' where
    "consume_command st reconcile clock session claimant receipt release binding c w = (Inr [entry], w')"
    "dget entry ''status'' = PStr ''filled''"
proof -
  have day: "is_due_on c (PStr session) = Inr True"
    using wf_command_date [OF wf] by (simp add: is_due_on_def due iso_date_fixed)
  have dok: "json_ok (PDict [(''claimant'', PStr who)])" "CLAIMED \<in> set (allowed_transitions (last_state []))"
    by (simp_all add: last_state_def)
  have "Some (Member QUEUED) = None \<or> Some (Member QUEUED) = Some (Member (last_state []))"
    by (simp add: last_state_def)
  from append_event_appends [OF wf h dok(1) clock dok(2) this]
  obtain e w1 where cl: "append_event st c (Member CLAIMED) [(''claimant'', PStr who)]
      (Some (Member QUEUED)) (clock w) w = (Inr (Some e), w1)" "holds w1 c [e]" "ev_state e = CLAIMED"
    "ev_details_json e = canonical_json [(''claimant'', PStr who)]"
    by (metis append_Nil)
  have last: "last_state [e] = CLAIMED" by (simp add: last_state_def cl(3))
  have "json_loads (canonical_json [(''claimant'', PStr who)]) = Some (PDict [(''claimant'', PStr who)])"
    using json_loads_dumps [OF dok(1) style_ok_styles(1) [of False]] by (simp add: canonical_json_def)
  then have claimant: "claimed_by e = Inr (py_str (PStr who))"
    by (simp add: claimed_by_def event_details_def json_dict_def dict_call_def cl(4) keys_def)
  have queued: "current_state st c w = Inr QUEUED"
    by (simp add: current_state_def holds_events [OF wf h] last_state_def)
  have claim: "claim_due st c (PStr session) claimant (clock w) w = (Inr (Some e), w1)"
    by (simp add: claim_due_def day who cl(1))
  obtain entry w2 where
    "consume_claimed st reconcile clock session receipt release binding c e w1 = (Inr entry, w2)"
    "dget entry ''status'' = PStr (state_value FILLED)"
    by (rule consume_claimed_fills [OF wf cl(2) last clock rc ok rs pass claimant])
  then show thesis
    using that by (simp add: consume_command_def queued claim)
qed

end

section \<open>Properties\<close>


text \<open>A platform without proposals, and one whose reconciler raises.\<close>

definition idle_reconciler :: "'w reconciler" where
  "idle_reconciler c w = (Inr (Some \<lparr>rc_proposals = [], rc_integrity_findings = []\<rparr>), w)"

definition failing_reconciler :: "'w reconciler" where
  "failing_reconciler c w = (Inl (OtherError ''BrokerTimeout''), w)"

lemma sample_claimant: "safe_path_part (PStr ''worker-1'') ''claimant'' = Inr ''worker-1''"
  "clock_text ''t''"
  by code_simp+


text \<open>C9: a simulated fill is always an admitted one. If the consumer, on any store, reports a
  command as filled, then the command is bound to this runtime, the runtime's receipt attests
  the expected release, the admission of the command is not halted, the platform answered, and
  every proposal's exposure effect is known; under a reducing-only admission there are proposals
  and each of them reduces exposure.\<close>

theorem simulated_fill_is_admitted:
  assumes "consume_command st reconcile clock session claimant receipt release binding c w = (Inr entries, w')"
    and "entry \<in> set entries" "dget entry ''status'' = PStr ''filled''"
  shows "\<exists>w1 w2 adm r. evaluate_paper_execution_admission (Some c) (RelIdentity release) (clock w1) = Inr adm
    \<and> pa_disposition adm \<noteq> RISK_HALTED
    \<and> reconcile c w1 = (Inr (Some r), w2)
    \<and> ec_platform c = cb_platform binding \<and> ec_account_scope c = cb_account_scope binding
    \<and> ec_strategy_profile c = cb_strategy_profile binding
    \<and> sv_is_valid (validate_runtime_loaded_receipt receipt (RelIdentity release) True)
    \<and> (\<forall>p \<in> set (rc_proposals r). pp_exposure_effect p \<noteq> EFFECT_UNKNOWN)
    \<and> (pa_disposition adm = REDUCING_ONLY \<longrightarrow> rc_proposals r \<noteq> []
         \<and> (\<forall>p \<in> set (rc_proposals r). pp_exposure_effect p = REDUCES))"
proof -
  from assms obtain claim w1 where
    "consume_claimed st reconcile clock session receipt release binding c claim w1 = (Inr entry, w')"
    by (auto simp: consume_command_def split: sum.splits if_splits option.splits prod.splits)
  from consume_claimed_filled [OF this assms(3)] show ?thesis
    unfolding binding_matches by metis
qed

theorem simulated_fill_is_admitted_witness:
  "\<exists>r c entry w adm. from_decision sample_args (sample_reconciled r) None ''t'' = Inr c
     \<and> consume_command (durable_store (local_config ''/data'') (local_object_store []) longer_name)
        idle_reconciler (\<lambda>w. ''t'') ''2026-07-30'' (PStr ''worker-1'') (PDict sample_receipt)
        sample_release \<lparr>cb_platform = ''schwab'', cb_account_scope = ''paper-1'',
          cb_strategy_profile = ''soxl''\<rparr> c ([], []) = (Inr [entry], w)
     \<and> dget entry ''status'' = PStr ''filled''
     \<and> evaluate_paper_execution_admission (Some c) (RelIdentity sample_release) ''t'' = Inr adm
     \<and> pa_disposition adm \<noteq> RISK_HALTED"
proof -
  let ?b = "\<lparr>cb_platform = ''schwab'', cb_account_scope = ''paper-1'', cb_strategy_profile = ''soxl''\<rparr>"
  obtain r c where s: "from_decision sample_args (sample_reconciled r) None ''t'' = Inr c" "wf_command c"
    "ec_effective_date c = ''2026-07-30''" "pr_disposition r = ALLOW_NEW_RISK"
    "binding_findings c sample_release r = []"
    "ec_platform c = ''schwab''" "ec_account_scope c = ''paper-1''" "ec_strategy_profile c = ''soxl''"
    and e: "\<And>now. evaluate_paper_execution_admission (Some c) (RelIdentity sample_release) now
        = Inr (admit_receipt c sample_release r)"
    by (rule sample_admitted [of ALLOW_NEW_RISK "[]"]) auto
  let ?adm = "admit_receipt c sample_release r"
  from admission_not_halted [OF e [of "''t''"]] s(4,5) obtain intent where
    "command_intent c = Inr intent"
    "build_strategy_release_identity (RelValue (dget intent ''strategy_release'')) = Inr sample_release"
    by (auto simp: admit_receipt_disposition)
  then have v: "validate_execution_command_release_binding c (RelIdentity sample_release)
      = Inr (verification_of (Some (ri_release_id sample_release)) [])"
    by (simp add: validate_execution_command_release_binding_def binding_valid_id)
  have empty: "normalize_runtime_command_integrity_findings [] = []"
    by (simp add: normalize_runtime_command_integrity_findings_def)
  have rc: "reconcile_claimed idle_reconciler (\<lambda>w. ''t'') sample_release ?b c w1 = (Inr (?adm, [], []), w1)" for w1
    using s by (simp add: reconcile_claimed_def e v command_binding_findings_def bind_act_def
        idle_reconciler_def admit_receipt_def finding_strings_def empty verification_of_def dedup_def)
  obtain d where d: "evaluate_runtime_command_gate (EnumMember SUBMIT) (EnumMember NEUTRAL) (Some c)
        (Some (EnumMember CLAIMED)) (PStr ''2026-07-30'') (PDict sample_receipt)
        (RelIdentity sample_release) (finding_strings []) default_gate_policy = Inr d"
    by (rule gate_total [of "Some (EnumMember CLAIMED)"]) auto
  have "gt_policy_allows d"
    using sample_gate [OF d s(3)] by (simp add: finding_strings_def empty)
  have rs: "gate_receipts c ''2026-07-30'' (PDict sample_receipt) sample_release [] (gated_effects [])
      = Inr [gate_to_receipt d]"
    by (simp add: gate_receipts_def gated_effects_def d)
  have h: "local_log.holds ''data'' ([], []) c []"
    by (simp add: local_log.holds_def)
  obtain entry w where "consume_command (durable_store (local_config ''/data'') (local_object_store []) longer_name)
        idle_reconciler (\<lambda>w. ''t'') ''2026-07-30'' (PStr ''worker-1'') (PDict sample_receipt)
        sample_release ?b c ([], []) = (Inr [entry], w)" "dget entry ''status'' = PStr ''filled''"
    by (rule local_log.consume_command_fills [where os = "local_object_store []", OF s(2) h sample_claimant(2) s(3) sample_claimant(1) rc _ rs])
      (simp_all add: \<open>gt_policy_allows d\<close>)
  moreover have "pa_disposition ?adm \<noteq> RISK_HALTED"
    using simulated_fill_is_admitted [OF calculation(1) _ calculation(2)] e by auto
  ultimately show ?thesis using s(1) e by blast
qed

text \<open>The consumer changes nothing without its evidence. With a store and a reconciler, if the
  binding of the runtime or the expected release cannot be built, or the runtime's receipt does
  not attest that release, the report is blocked with a reason and no command is claimed: the
  storage is as it was, whatever is due. Without a store it raises RuntimeError, also unchanged.\<close>

theorem consumer_blocks_without_evidence:
  assumes "\<And>b i. build_paper_execution_command_binding expected_binding = Inr b
      \<Longrightarrow> build_strategy_release_identity expected_release = Inr i
      \<Longrightarrow> \<not> sv_is_valid (validate_runtime_loaded_receipt receipt (RelIdentity i) True)"
  shows "(has_backend st \<longrightarrow> (\<exists>reason. consume_due_paper_execution_commands (Some st) session claimant
        (Some reconcile) receipt expected_release expected_binding clock w
      = (Inr (blocked_report reason), w)))
    \<and> (\<not> has_backend st \<longrightarrow> (\<exists>m. consume_due_paper_execution_commands (Some st) session claimant
        (Some reconcile) receipt expected_release expected_binding clock w = (Inl (RuntimeError m), w)))"
proof (cases "build_paper_execution_command_binding expected_binding")
  case (Inr b)
  show ?thesis
  proof (cases "build_strategy_release_identity expected_release")
    case inner: (Inr i)
    from assms [OF Inr inner] inner Inr show ?thesis
      by (auto simp: consume_due_paper_execution_commands_def)
  qed (auto simp: consume_due_paper_execution_commands_def Inr)
qed (auto simp: consume_due_paper_execution_commands_def)

theorem consumer_blocks_without_evidence_witness:
  "\<exists>reason. consume_due_paper_execution_commands
        (Some (durable_store (local_config ''/data'') (local_object_store []) longer_name))
        (PStr ''2026-07-30'') (PStr ''worker-1'') (Some idle_reconciler) PNone (RelIdentity sample_release)
        (BindingOther PNone) (\<lambda>w. ''t'') ([], []) = (Inr (blocked_report reason), ([], []))"
proof -
  have "\<not> sv_is_valid (validate_runtime_loaded_receipt PNone (RelIdentity i) True)" for i
    by (simp add: validate_runtime_loaded_receipt_def verification_of_def sv_is_valid_def Let_def)
  moreover have "has_backend (durable_store (local_config ''/data'') (local_object_store []) longer_name)"
    by (simp add: has_backend_def durable_store_def command_version_root_def local_config_def is_set_def)
  ultimately show ?thesis
    using consumer_blocks_without_evidence [of "BindingOther PNone" "RelIdentity sample_release" PNone
        "durable_store (local_config ''/data'') (local_object_store []) longer_name"
        "PStr ''2026-07-30''" "PStr ''worker-1''" idle_reconciler "\<lambda>w. ''t''" "([], [])"] by simp
qed

end
