(* ===== verification/PyNumber.thy ===== *)
theory PyNumber
  imports PyJson
begin

text \<open>
  Conversions of a dynamically typed value to a float, and the tests for a number that
  several modules share: \<open>float(value)\<close>, and \<open>isinstance(value, (int, float))\<close> without booleans.
\<close>

definition py_float :: "pyval \<Rightarrow> pyfloat res" where
  "py_float v = (case v of
     PBool b \<Rightarrow> Inr (Fin (of_bool b))
   | PInt i \<Rightarrow> (case float_of_int i of Some x \<Rightarrow> Inr x | None \<Rightarrow> Inl OverflowError)
   | PFloat x \<Rightarrow> Inr x
   | PStr s \<Rightarrow> (case float_of_text s of Some x \<Rightarrow> Inr x
       | None \<Rightarrow> Inl (ValueError (''could not convert string to float: '' @ str_repr s)))
   | _ \<Rightarrow> Inl (TypeError ''float() argument must be a string or a real number''))"

fun is_number :: "pyval \<Rightarrow> bool" where
  "is_number (PInt _) = True"
| "is_number (PFloat _) = True"
| "is_number _ = False"

fun is_bool :: "pyval \<Rightarrow> bool" where
  "is_bool (PBool _) = True"
| "is_bool _ = False"

text \<open>\<open>except (TypeError, ValueError) as exc: raise e\<close>.\<close>

definition reraise_type_value :: "'a res \<Rightarrow> py_exc \<Rightarrow> 'a res" where
  "reraise_type_value r e = (case r of
     Inl x \<Rightarrow> if is_type_error x \<or> is_value_error x then Inl e else Inl x | Inr a \<Rightarrow> Inr a)"

lemma reraise_Inr [simp, res_simps]: "reraise_type_value r e = Inr a \<longleftrightarrow> r = Inr a"
  by (cases r) (auto simp: reraise_type_value_def)

lemma py_float_simps [simp]: "py_float (PFloat x) = Inr x"
  by (simp add: py_float_def)

lemma f_le_zero_one: "f_le (Fin 0) x \<Longrightarrow> f_le x (Fin 1) \<Longrightarrow> f_isfinite x"
  by (cases x) auto

section \<open>Evaluating floats\<close>

text \<open>Rounding a numeral ratio to binary64 by simplification: \<open>float_eval\<close>, with the numerator
  and denominator of a ratio that is not an integer given by \<open>quotient_of_ratio\<close>.\<close>

lemma bit_len_numeral [simp]:
  "bit_len 0 = 0" "bit_len 1 = 1"
  "bit_len (numeral (num.Bit0 n)) = 1 + bit_len (numeral n)"
  "bit_len (numeral (num.Bit1 n)) = 1 + bit_len (numeral n)"
  by (subst bit_len.simps; simp)+

lemma quotient_of_ratio:
  "0 < b \<Longrightarrow> coprime a b \<Longrightarrow> quotient_of (of_int a / of_int b) = (a, b)"
  by (simp add: Fract_of_int_quotient [symmetric] quotient_of_Fract normalize_def coprime_iff_gcd_eq_1)

lemma floor_numeral_ratio:
  "\<lfloor>numeral a / numeral b :: rat\<rfloor> = numeral a div numeral b"
  "\<lfloor>1 / numeral b :: rat\<rfloor> = 1 div numeral b"
  using floor_divide_of_int_eq [where 'a = rat, of "numeral a" "numeral b"]
    floor_divide_of_int_eq [where 'a = rat, of "1" "numeral b"] by simp_all

lemmas float_eval = floor_numeral_ratio to_float_def round_pos_def ilog2_def Let_def pow2_def
  round_half_even_def

lemma float_repr_3: "float_repr (Fin 3) = ''3.0''"
proof -
  have "digit_char (Suc (Suc (Suc 0))) = CHR ''3''" by code_simp
  then show ?thesis
    by (simp add: float_digits_def digits_cand_def ilog10_def digits10.simps [of 3] eval_nat_numeral
        pow10_def float_eval layout_def rstrip_by_def)
qed

end
