(* ===== verification/RuntimeControl.thy ===== *)
theory RuntimeControl
  imports PyNumber JsonRoundtrip
begin

text \<open>
  The runtime control of a deployed target, \<open>common/runtime_control.py\<close>: the strict parsers, the
  cash policy, the control with its reviewed document, the overrides that may only tighten it,
  and the resolution in the documented precedence. \<open>RuntimeControlError\<close> is a ValueError.
\<close>

section \<open>Strict parsing\<close>

datatype runtime_mode = LIVE | PAPER | DRY_RUN

fun runtime_mode_value :: "runtime_mode \<Rightarrow> string" where
  "runtime_mode_value LIVE = ''live''"
| "runtime_mode_value PAPER = ''paper''"
| "runtime_mode_value DRY_RUN = ''dry_run''"

fun safety_rank :: "runtime_mode \<Rightarrow> nat" where
  "safety_rank LIVE = 0"
| "safety_rank PAPER = 1"
| "safety_rank DRY_RUN = 2"

definition submits_live_orders :: "runtime_mode \<Rightarrow> bool" where
  "submits_live_orders m \<longleftrightarrow> m = LIVE"

text \<open>\<open>str(raw if raw is not None else "").strip().lower()\<close>.\<close>

definition flag_text :: "pyval \<Rightarrow> string" where
  "flag_text raw = lower (strip (if raw = PNone then [] else py_str raw))"

definition parse_runtime_mode :: "pyval \<Rightarrow> string \<Rightarrow> runtime_mode res" where
  "parse_runtime_mode raw name =
     (case find (\<lambda>m. runtime_mode_value m = flag_text raw) [LIVE, PAPER, DRY_RUN] of
        Some m \<Rightarrow> Inr m
      | None \<Rightarrow> Inl (ValueError (name @ '' must be one of live, paper, dry_run; got '' @ py_repr raw)))"

definition true_values :: "string list" where
  "true_values = [''1'', ''true'', ''yes'', ''y'', ''on'']"

definition false_values :: "string list" where
  "false_values = [''0'', ''false'', ''no'', ''n'', ''off'']"

definition parse_strict_bool :: "pyval \<Rightarrow> string \<Rightarrow> bool res" where
  "parse_strict_bool raw name = (case raw of
     PBool b \<Rightarrow> Inr b
   | _ \<Rightarrow> if flag_text raw \<in> set true_values then Inr True
       else if flag_text raw \<in> set false_values then Inr False
       else Inl (ValueError (name @ '' must be a boolean (true/false); got '' @ py_repr raw)))"

definition parse_optional_strict_bool :: "pyval \<Rightarrow> string \<Rightarrow> bool option res" where
  "parse_optional_strict_bool raw name =
     (if raw = PNone \<or> (case raw of PStr s \<Rightarrow> strip s = [] | _ \<Rightarrow> False) then Inr None
      else map_res Some (parse_strict_bool raw name))"

definition parse_ratio :: "pyval \<Rightarrow> string \<Rightarrow> pyfloat res" where
  "parse_ratio raw name =
     (let e = ValueError (name @ '' must be a number in [0, 1]; got '' @ py_repr raw) in
      require (\<not> is_bool raw) e
     (bind_res (reraise_type_value (py_float raw) e) (\<lambda>value.
        require (f_isfinite value \<and> f_le (Fin 0) value \<and> f_le value (Fin 1)) e (Inr value))))"

definition parse_non_negative :: "pyval \<Rightarrow> string \<Rightarrow> pyfloat res" where
  "parse_non_negative raw name =
     (let e = ValueError (name @ '' must be a non-negative number; got '' @ py_repr raw) in
      require (\<not> is_bool raw) e
     (bind_res (reraise_type_value (py_float raw) e) (\<lambda>value.
        require (f_isfinite value \<and> \<not> f_lt value (Fin 0)) e (Inr value))))"

definition control_required_text :: "pydict \<Rightarrow> string \<Rightarrow> string res" where
  "control_required_text payload key = (let s = strip (str_or_empty (dget payload key)) in
     require (s \<noteq> []) (ValueError (''runtime control field '' @ str_repr key @ '' is required'')) (Inr s))"

section \<open>Cash policy\<close>

record cash_policy =
  cp_cash_only :: bool
  cp_reserved_cash_ratio :: pyfloat
  cp_reserved_cash_floor_usd :: pyfloat

definition cash_policy_post_init :: "cash_policy \<Rightarrow> cash_policy res" where
  "cash_policy_post_init p =
     bind_res (parse_ratio (PFloat (cp_reserved_cash_ratio p)) ''cash_policy.reserved_cash_ratio'') (\<lambda>_.
     bind_res (parse_non_negative (PFloat (cp_reserved_cash_floor_usd p))
         ''cash_policy.reserved_cash_floor_usd'') (\<lambda>_. Inr p))"

definition default_cash_policy :: cash_policy where
  "default_cash_policy = \<lparr>cp_cash_only = True, cp_reserved_cash_ratio = Fin 0,
     cp_reserved_cash_floor_usd = Fin 0\<rparr>"

definition sorted_unknown :: "pydict \<Rightarrow> string list \<Rightarrow> string list" where
  "sorted_unknown payload known = sort (filter (\<lambda>k. k \<notin> set known) (keys payload))"

definition cash_policy_from_mapping :: "pyval \<Rightarrow> cash_policy res" where
  "cash_policy_from_mapping v = (case (if truthy v then v else PDict []) of
     PDict payload \<Rightarrow>
       (let unknown = sorted_unknown payload
          [''cash_only'', ''reserved_cash_ratio'', ''reserved_cash_floor_usd''] in
        require (unknown = [])
          (ValueError (''cash_policy has unknown fields: '' @ py_repr (PList (map PStr unknown))))
       (bind_res (parse_strict_bool (dget_or payload ''cash_only'' (PBool True))
           ''cash_policy.cash_only'') (\<lambda>b.
        bind_res (parse_ratio (dget_or payload ''reserved_cash_ratio'' (PFloat (Fin 0)))
           ''cash_policy.reserved_cash_ratio'') (\<lambda>r.
        bind_res (parse_non_negative (dget_or payload ''reserved_cash_floor_usd'' (PFloat (Fin 0)))
           ''cash_policy.reserved_cash_floor_usd'') (\<lambda>f.
        cash_policy_post_init \<lparr>cp_cash_only = b, cp_reserved_cash_ratio = r,
          cp_reserved_cash_floor_usd = f\<rparr>)))))
   | _ \<Rightarrow> Inl (ValueError ''cash_policy must be an object''))"

definition effective_reserve_ratio :: "cash_policy \<Rightarrow> pyval \<Rightarrow> pyfloat res" where
  "effective_reserve_ratio p strategy_default =
     map_res (f_max (cp_reserved_cash_ratio p)) (parse_ratio strategy_default ''strategy_default_ratio'')"

definition reserved_cash_usd :: "cash_policy \<Rightarrow> pyval \<Rightarrow> pyval \<Rightarrow> pyfloat res" where
  "reserved_cash_usd p total_equity strategy_default =
     bind_res (py_float (py_or total_equity (PFloat (Fin 0)))) (\<lambda>e.
     map_res (\<lambda>r. f_max (cp_reserved_cash_floor_usd p) (f_mul (f_max (Fin 0) e) r))
       (effective_reserve_ratio p strategy_default))"

definition cash_policy_to_dict :: "cash_policy \<Rightarrow> pydict" where
  "cash_policy_to_dict p =
     [(''cash_only'', PBool (cp_cash_only p)),
      (''reserved_cash_ratio'', PFloat (cp_reserved_cash_ratio p)),
      (''reserved_cash_floor_usd'', PFloat (cp_reserved_cash_floor_usd p))]"

section \<open>Control\<close>

record runtime_control =
  rk_target_id :: string
  rk_platform_id :: string
  rk_strategy_profile :: string
  rk_enabled :: bool
  rk_mode :: runtime_mode
  rk_cash_policy :: cash_policy
  rk_risk_limits_ref :: "string option"
  rk_options_enabled :: bool

definition control_identity :: "runtime_control \<Rightarrow> (string \<times> string) list" where
  "control_identity c = [(''target_id'', rk_target_id c), (''platform_id'', rk_platform_id c),
     (''strategy_profile'', rk_strategy_profile c)]"

definition control_post_init :: "runtime_control \<Rightarrow> runtime_control res" where
  "control_post_init c = (case find (\<lambda>(k, v). strip v = []) (control_identity c) of
     Some (k, v) \<Rightarrow> Inl (ValueError (''runtime control field '' @ str_repr k @ '' is required''))
   | None \<Rightarrow> Inr c)"

definition safe_default :: "string \<Rightarrow> string \<Rightarrow> string \<Rightarrow> runtime_control res" where
  "safe_default target_id platform_id strategy_profile = control_post_init
     \<lparr>rk_target_id = target_id, rk_platform_id = platform_id, rk_strategy_profile = strategy_profile,
      rk_enabled = False, rk_mode = DRY_RUN, rk_cash_policy = default_cash_policy,
      rk_risk_limits_ref = None, rk_options_enabled = False\<rparr>"

definition may_submit_live_orders :: "runtime_control \<Rightarrow> bool" where
  "may_submit_live_orders c \<longleftrightarrow> rk_enabled c \<and> submits_live_orders (rk_mode c)"

definition control_schema :: string where
  "control_schema = ''qsl.runtime_control.v1''"

definition control_fields :: "string list" where
  "control_fields = [''schema_version'', ''target_id'', ''platform_id'', ''strategy_profile'',
     ''enabled'', ''mode'', ''cash_policy'', ''risk_limits_ref'', ''options_enabled'', ''description'']"

definition control_from_mapping :: "pyval \<Rightarrow> runtime_control res" where
  "control_from_mapping v = (case v of
     PDict payload \<Rightarrow>
       (let version = dget_or payload ''schema_version'' (PStr control_schema);
            unknown = sorted_unknown payload control_fields;
            risk_ref = dget payload ''risk_limits_ref'' in
        require (version = PStr control_schema)
          (ValueError (''unsupported runtime control schema_version '' @ py_repr version))
       (require (unknown = [])
          (ValueError (''runtime control has unknown fields: '' @ py_repr (PList (map PStr unknown))))
       (bind_res (control_required_text payload ''target_id'') (\<lambda>t.
        bind_res (control_required_text payload ''platform_id'') (\<lambda>p.
        bind_res (control_required_text payload ''strategy_profile'') (\<lambda>s.
        bind_res (parse_strict_bool (dget_or payload ''enabled'' (PBool False)) ''enabled'') (\<lambda>e.
        bind_res (parse_runtime_mode (dget_or payload ''mode'' (PStr ''dry_run'')) ''mode'') (\<lambda>m.
        bind_res (cash_policy_from_mapping (dget payload ''cash_policy'')) (\<lambda>cash.
        bind_res (parse_strict_bool (dget_or payload ''options_enabled'' (PBool False))
            ''options_enabled'') (\<lambda>opts.
        control_post_init \<lparr>rk_target_id = t, rk_platform_id = p, rk_strategy_profile = s,
          rk_enabled = e, rk_mode = m, rk_cash_policy = cash,
          rk_risk_limits_ref = (if risk_ref = PNone \<or> risk_ref = PStr [] then None
             else Some (strip (py_str risk_ref))),
          rk_options_enabled = opts\<rparr>))))))))))
   | _ \<Rightarrow> Inl (ValueError ''runtime control must be an object''))"

definition control_to_dict :: "runtime_control \<Rightarrow> pydict" where
  "control_to_dict c =
     [(''schema_version'', PStr control_schema), (''target_id'', PStr (rk_target_id c)),
      (''platform_id'', PStr (rk_platform_id c)), (''strategy_profile'', PStr (rk_strategy_profile c)),
      (''enabled'', PBool (rk_enabled c)), (''mode'', PStr (runtime_mode_value (rk_mode c))),
      (''cash_policy'', PDict (cash_policy_to_dict (rk_cash_policy c))),
      (''options_enabled'', PBool (rk_options_enabled c))]
     @ (case rk_risk_limits_ref c of None \<Rightarrow> [] | Some r \<Rightarrow> [(''risk_limits_ref'', PStr r)])"

section \<open>Overrides\<close>

record tightening_override =
  to_enabled :: "bool option"
  to_mode :: "runtime_mode option"
  to_cash_only :: "bool option"
  to_reserved_cash_ratio :: "pyval option"
  to_source :: string

text \<open>Each assignment goes through \<open>replace\<close>, which runs the constructor's checks again.\<close>

definition override_cash :: "tightening_override \<Rightarrow> cash_policy \<Rightarrow> cash_policy res" where
  "override_cash ov cash =
     bind_res (case to_cash_only ov of None \<Rightarrow> Inr cash
        | Some b \<Rightarrow> require (b \<or> \<not> cp_cash_only cash)
            (ValueError (to_source ov @ '' cannot disable cash-only execution''))
            (cash_policy_post_init (cash\<lparr>cp_cash_only := b\<rparr>))) (\<lambda>cash1.
     case to_reserved_cash_ratio ov of None \<Rightarrow> Inr cash1
        | Some v \<Rightarrow> bind_res (parse_ratio v (to_source ov @ ''.reserved_cash_ratio'')) (\<lambda>ratio.
            require (\<not> f_lt ratio (cp_reserved_cash_ratio cash1))
              (ValueError (to_source ov @ '' cannot lower the reserved cash ratio''))
              (cash_policy_post_init (cash1\<lparr>cp_reserved_cash_ratio := ratio\<rparr>))))"

definition apply_override :: "tightening_override \<Rightarrow> runtime_control \<Rightarrow> runtime_control res" where
  "apply_override ov c =
     bind_res (case to_enabled ov of None \<Rightarrow> Inr c
        | Some b \<Rightarrow> require (\<not> (b \<and> \<not> rk_enabled c))
            (ValueError (to_source ov @ '' cannot enable a disabled target''))
            (control_post_init (c\<lparr>rk_enabled := b\<rparr>))) (\<lambda>r1.
     bind_res (case to_mode ov of None \<Rightarrow> Inr r1
        | Some m \<Rightarrow> require (\<not> safety_rank m < safety_rank (rk_mode c))
            (ValueError (to_source ov @ '' cannot move mode from ''
               @ runtime_mode_value (rk_mode c) @ '' to '' @ runtime_mode_value m))
            (control_post_init (r1\<lparr>rk_mode := m\<rparr>))) (\<lambda>r2.
     bind_res (override_cash ov (rk_cash_policy r2)) (\<lambda>cash.
       control_post_init (r2\<lparr>rk_cash_policy := cash\<rparr>))))"

fun apply_overrides :: "tightening_override list \<Rightarrow> runtime_control \<Rightarrow> runtime_control res" where
  "apply_overrides [] c = Inr c"
| "apply_overrides (ov # ovs) c = bind_res (apply_override ov c) (apply_overrides ovs)"

section \<open>Resolution\<close>

text \<open>The reviewed document must name the same target, platform and profile.\<close>

definition reviewed_control :: "runtime_control \<Rightarrow> pyval \<Rightarrow> runtime_control res" where
  "reviewed_control control document =
     bind_res (control_from_mapping document) (\<lambda>reviewed.
       case find (\<lambda>((k, v), (_, v')). v \<noteq> v') (zip (control_identity reviewed) (control_identity control)) of
         Some ((k, v), (_, v')) \<Rightarrow> Inl (ValueError (''runtime control '' @ k @ '' '' @ str_repr v
            @ '' does not match '' @ str_repr v'))
       | None \<Rightarrow> Inr reviewed)"

definition resolve_runtime_control ::
  "string \<Rightarrow> string \<Rightarrow> string \<Rightarrow> pyval \<Rightarrow> tightening_override list \<Rightarrow> runtime_control res" where
  "resolve_runtime_control target_id platform_id strategy_profile document overrides =
     bind_res (safe_default target_id platform_id strategy_profile) (\<lambda>control.
     bind_res (if document = PNone then Inr control else reviewed_control control document)
       (apply_overrides overrides))"

text \<open>\<open>env.get(name)\<close> is None or a text.\<close>

definition resolve_runtime_control_from_env ::
  "(string \<Rightarrow> string option) \<Rightarrow> string \<Rightarrow> string \<Rightarrow> string \<Rightarrow> runtime_control res" where
  "resolve_runtime_control_from_env env target_id platform_id strategy_profile =
     (let get = (\<lambda>k. case env k of None \<Rightarrow> PNone | Some s \<Rightarrow> PStr s);
          raw_document = strip (str_or_empty (get ''RUNTIME_CONTROL_JSON''));
          raw_mode = strip (str_or_empty (get ''RUNTIME_CONTROL_MODE_OVERRIDE'')) in
      bind_res (if raw_document = [] then Inr PNone
         else case json_loads raw_document of Some v \<Rightarrow> Inr v
            | None \<Rightarrow> Inl (ValueError ''RUNTIME_CONTROL_JSON must contain valid JSON'')) (\<lambda>document.
      bind_res (resolve_runtime_control target_id platform_id strategy_profile document []) (\<lambda>control.
      bind_res (parse_optional_strict_bool (get ''RUNTIME_TARGET_ENABLED'') ''RUNTIME_TARGET_ENABLED'') (\<lambda>enabled.
      bind_res (if raw_mode = [] then Inr None
         else map_res Some (parse_runtime_mode (PStr raw_mode) ''RUNTIME_CONTROL_MODE_OVERRIDE'')) (\<lambda>mode.
      apply_override \<lparr>to_enabled = (if enabled = Some False then Some False else None), to_mode = mode,
        to_cash_only = None, to_reserved_cash_ratio = None, to_source = ''environment''\<rparr> control)))))"

section \<open>Valid controls\<close>

named_theorems control_simps

definition valid_cash :: "cash_policy \<Rightarrow> bool" where
  "valid_cash p \<longleftrightarrow> f_isfinite (cp_reserved_cash_ratio p) \<and> f_le (Fin 0) (cp_reserved_cash_ratio p)
     \<and> f_le (cp_reserved_cash_ratio p) (Fin 1) \<and> f_isfinite (cp_reserved_cash_floor_usd p)
     \<and> \<not> f_lt (cp_reserved_cash_floor_usd p) (Fin 0)"

definition valid_control :: "runtime_control \<Rightarrow> bool" where
  "valid_control c \<longleftrightarrow> strip (rk_target_id c) \<noteq> [] \<and> strip (rk_platform_id c) \<noteq> []
     \<and> strip (rk_strategy_profile c) \<noteq> [] \<and> valid_cash (rk_cash_policy c)"

lemma parse_ratio_Inr [control_simps]: "parse_ratio v f = Inr x \<longleftrightarrow> \<not> is_bool v \<and> py_float v = Inr x
    \<and> f_isfinite x \<and> f_le (Fin 0) x \<and> f_le x (Fin 1)"
  by (auto simp: parse_ratio_def Let_def res_simps)

lemma parse_non_negative_Inr [control_simps]: "parse_non_negative v f = Inr x \<longleftrightarrow> \<not> is_bool v
    \<and> py_float v = Inr x \<and> f_isfinite x \<and> \<not> f_lt x (Fin 0)"
  by (auto simp: parse_non_negative_def Let_def res_simps)

lemma cash_post_init_Inr [control_simps]: "cash_policy_post_init p = Inr q \<longleftrightarrow> q = p \<and> valid_cash p"
  by (auto simp: cash_policy_post_init_def bind_res_Inr_iff control_simps valid_cash_def)

lemma control_post_init_Inr [control_simps]: "control_post_init c = Inr c' \<longleftrightarrow> c' = c
    \<and> strip (rk_target_id c) \<noteq> [] \<and> strip (rk_platform_id c) \<noteq> [] \<and> strip (rk_strategy_profile c) \<noteq> []"
  by (auto simp: control_post_init_def control_identity_def)

lemma valid_default [simp]: "valid_cash default_cash_policy"
  by (simp add: valid_cash_def default_cash_policy_def f_lt_def)

lemma cash_from_mapping_valid: "cash_policy_from_mapping v = Inr p \<Longrightarrow> valid_cash p"
  by (auto simp: cash_policy_from_mapping_def Let_def bind_res_Inr_iff require_Inr_iff control_simps
      split: pyval.splits)

lemma control_from_mapping_valid: "control_from_mapping v = Inr c \<Longrightarrow> valid_control c"
  by (auto simp: control_from_mapping_def Let_def bind_res_Inr_iff require_Inr_iff control_simps
      valid_control_def dest: cash_from_mapping_valid split: pyval.splits)

lemma safe_default_valid: "safe_default t p s = Inr c \<Longrightarrow> valid_control c"
  by (auto simp: safe_default_def control_simps valid_control_def)

text \<open>The order in which a control may move: disabled, a safer mode, cash only, a higher reserve.\<close>

definition tighter :: "runtime_control \<Rightarrow> runtime_control \<Rightarrow> bool" where
  "tighter c' c \<longleftrightarrow> control_identity c' = control_identity c
     \<and> rk_risk_limits_ref c' = rk_risk_limits_ref c \<and> rk_options_enabled c' = rk_options_enabled c
     \<and> (rk_enabled c' \<longrightarrow> rk_enabled c) \<and> safety_rank (rk_mode c) \<le> safety_rank (rk_mode c')
     \<and> (cp_cash_only (rk_cash_policy c) \<longrightarrow> cp_cash_only (rk_cash_policy c'))
     \<and> f_le (cp_reserved_cash_ratio (rk_cash_policy c)) (cp_reserved_cash_ratio (rk_cash_policy c'))
     \<and> cp_reserved_cash_floor_usd (rk_cash_policy c') = cp_reserved_cash_floor_usd (rk_cash_policy c)"

lemma tighter_refl: "valid_control c \<Longrightarrow> tighter c c"
  by (auto simp: tighter_def valid_control_def valid_cash_def intro: f_le_refl f_isfinite_not_NaN)

lemma tighter_trans: "tighter c'' c' \<Longrightarrow> tighter c' c \<Longrightarrow> tighter c'' c"
  by (auto simp: tighter_def intro: f_le_trans)

lemma tighter_live: "tighter c' c \<Longrightarrow> may_submit_live_orders c' \<Longrightarrow> may_submit_live_orders c"
  by (cases "rk_mode c"; cases "rk_mode c'")
    (auto simp: tighter_def may_submit_live_orders_def submits_live_orders_def)

text \<open>When an override is accepted, and what it leaves.\<close>

definition accepts_cash :: "tightening_override \<Rightarrow> cash_policy \<Rightarrow> bool" where
  "accepts_cash ov cash \<longleftrightarrow> (to_cash_only ov = Some False \<longrightarrow> \<not> cp_cash_only cash)
     \<and> (\<forall>v. to_reserved_cash_ratio ov = Some v \<longrightarrow> (\<exists>x f. parse_ratio v f = Inr x
          \<and> \<not> f_lt x (cp_reserved_cash_ratio cash)))"

lemma valid_cash_updates:
  "valid_cash (p\<lparr>cp_cash_only := b\<rparr>) = valid_cash p"
  "valid_cash p \<Longrightarrow> f_isfinite x \<Longrightarrow> f_le (Fin 0) x \<Longrightarrow> f_le x (Fin 1) \<Longrightarrow>
     valid_cash (p\<lparr>cp_reserved_cash_ratio := x\<rparr>)"
  by (auto simp: valid_cash_def)

lemma override_cash_iff:
  assumes "valid_cash cash"
  shows "(\<exists>p. override_cash ov cash = Inr p) \<longleftrightarrow> accepts_cash ov cash"
    "override_cash ov cash = Inr p \<Longrightarrow> valid_cash p \<and> (cp_cash_only cash \<longrightarrow> cp_cash_only p)
       \<and> f_le (cp_reserved_cash_ratio cash) (cp_reserved_cash_ratio p)
       \<and> cp_reserved_cash_floor_usd p = cp_reserved_cash_floor_usd cash"
proof -
  have nan: "cp_reserved_cash_ratio cash \<noteq> NaN" using assms by (auto simp: valid_cash_def)
  show "(\<exists>p. override_cash ov cash = Inr p) \<longleftrightarrow> accepts_cash ov cash"
    using assms
    by (auto simp: override_cash_def accepts_cash_def bind_res_Inr_iff require_Inr_iff control_simps
        valid_cash_updates split: option.splits)
  assume "override_cash ov cash = Inr p"
  then show "valid_cash p \<and> (cp_cash_only cash \<longrightarrow> cp_cash_only p)
       \<and> f_le (cp_reserved_cash_ratio cash) (cp_reserved_cash_ratio p)
       \<and> cp_reserved_cash_floor_usd p = cp_reserved_cash_floor_usd cash"
    using assms nan
    by (auto simp: override_cash_def bind_res_Inr_iff require_Inr_iff control_simps valid_cash_updates
        f_le_refl f_lt_not_le f_isfinite_not_NaN split: option.splits)
qed

lemma apply_override_iff:
  assumes "valid_control c"
  shows "(\<exists>c'. apply_override ov c = Inr c') \<longleftrightarrow> (to_enabled ov = Some True \<longrightarrow> rk_enabled c)
     \<and> (\<forall>m. to_mode ov = Some m \<longrightarrow> safety_rank (rk_mode c) \<le> safety_rank m)
     \<and> accepts_cash ov (rk_cash_policy c)"
proof -
  have "valid_cash (rk_cash_policy c)" using assms by (simp add: valid_control_def)
  from override_cash_iff(1) [OF this] assms show ?thesis
    by (auto simp: apply_override_def bind_res_Inr_iff require_Inr_iff control_simps valid_control_def
        not_less split: option.splits)
qed

lemma apply_override_Inr:
  assumes "apply_override ov c = Inr c'" "valid_control c"
  shows "valid_control c'" "tighter c' c"
    "rk_enabled c' = (case to_enabled ov of None \<Rightarrow> rk_enabled c | Some b \<Rightarrow> b)"
    "rk_mode c' = (case to_mode ov of None \<Rightarrow> rk_mode c | Some m \<Rightarrow> m)"
proof -
  from assms obtain cash where cash: "override_cash ov (rk_cash_policy c) = Inr cash"
    and c': "c' = c\<lparr>rk_enabled := (case to_enabled ov of None \<Rightarrow> rk_enabled c | Some b \<Rightarrow> b),
      rk_mode := (case to_mode ov of None \<Rightarrow> rk_mode c | Some m \<Rightarrow> m), rk_cash_policy := cash\<rparr>"
    and e: "to_enabled ov = Some True \<longrightarrow> rk_enabled c"
    and m: "\<forall>m. to_mode ov = Some m \<longrightarrow> safety_rank (rk_mode c) \<le> safety_rank m"
    by (auto simp: apply_override_def bind_res_Inr_iff require_Inr_iff control_simps
        split: option.splits)
  have "valid_cash (rk_cash_policy c)" using assms by (simp add: valid_control_def)
  note p = override_cash_iff(2) [OF this cash]
  show "valid_control c'" using assms(2) p by (simp add: valid_control_def c')
  show "tighter c' c"
    using p e m by (auto simp: tighter_def c' control_identity_def split: option.splits)
  show "rk_enabled c' = (case to_enabled ov of None \<Rightarrow> rk_enabled c | Some b \<Rightarrow> b)"
    "rk_mode c' = (case to_mode ov of None \<Rightarrow> rk_mode c | Some m \<Rightarrow> m)" by (simp_all add: c')
qed

lemma apply_overrides_tighter:
  "apply_overrides ovs c = Inr c' \<Longrightarrow> valid_control c \<Longrightarrow> valid_control c' \<and> tighter c' c"
proof (induction ovs arbitrary: c)
  case (Cons ov ovs)
  then obtain c1 where "apply_override ov c = Inr c1" "apply_overrides ovs c1 = Inr c'"
    by (auto simp: bind_res_Inr_iff)
  with Cons apply_override_Inr [of ov c c1] show ?case by (meson tighter_trans)
qed (simp add: tighter_refl)

text \<open>The control before the overrides: the reviewed document, or the safe default.\<close>

lemma reviewed_control_Inr:
  "reviewed_control control document = Inr c \<longleftrightarrow>
     control_from_mapping document = Inr c \<and> control_identity c = control_identity control"
  by (auto simp: reviewed_control_def bind_res_Inr_iff control_identity_def split: option.splits if_splits)

lemma resolve_Inr:
  assumes "resolve_runtime_control t p s document ovs = Inr c"
  obtains base where "if document = PNone then safe_default t p s = Inr base
      else control_from_mapping document = Inr base"
    "control_identity base = [(''target_id'', t), (''platform_id'', p), (''strategy_profile'', s)]"
    "valid_control base" "apply_overrides ovs base = Inr c"
proof -
  from assms obtain d base where d: "safe_default t p s = Inr d" "apply_overrides ovs base = Inr c"
    and base: "(if document = PNone then Inr d else reviewed_control d document) = Inr base"
    by (auto simp: resolve_runtime_control_def bind_res_Inr_iff)
  have "control_identity d = [(''target_id'', t), (''platform_id'', p), (''strategy_profile'', s)]"
    using d(1) by (auto simp: safe_default_def control_simps control_identity_def)
  with that d base safe_default_valid [OF d(1)] show thesis
    by (auto simp: reviewed_control_Inr split: if_splits dest: control_from_mapping_valid)
qed

section \<open>Reading a written control\<close>

lemma dget_or_dget: "dget_or d k v = (if k \<in> set (keys d) then dget d k else v)"
proof (cases "map_of d k")
  case None
  then have "k \<notin> set (keys d)" by (simp add: keys_def map_of_eq_None_iff)
  with None show ?thesis by (simp add: dget_or_def)
next
  case (Some x)
  then have "k \<in> set (keys d)" by (force simp: keys_def dest: map_of_SomeD)
  with Some show ?thesis by (simp add: dget_or_def dget_def)
qed

lemma sorted_unknown_Nil: "sorted_unknown d known = [] \<longleftrightarrow> set (keys d) \<subseteq> set known"
proof -
  have "sorted_unknown d known = [] \<longleftrightarrow> set (sorted_unknown d known) = {}" by simp
  then show ?thesis by (auto simp: sorted_unknown_def)
qed

lemma cash_read:
  assumes "set (keys d) = {''cash_only'', ''reserved_cash_ratio'', ''reserved_cash_floor_usd''}"
    and "dget d ''cash_only'' = PBool (cp_cash_only p)"
    and "dget d ''reserved_cash_ratio'' = PFloat (cp_reserved_cash_ratio p)"
    and "dget d ''reserved_cash_floor_usd'' = PFloat (cp_reserved_cash_floor_usd p)"
    and "valid_cash p"
  shows "cash_policy_from_mapping (PDict d) = Inr p"
proof -
  have "d \<noteq> []"
  proof
    assume "d = []"
    with assms(1) show False by (simp add: keys_def)
  qed
  have r: "parse_ratio (PFloat (cp_reserved_cash_ratio p)) f = Inr (cp_reserved_cash_ratio p)"
    "parse_non_negative (PFloat (cp_reserved_cash_floor_usd p)) f = Inr (cp_reserved_cash_floor_usd p)"
    "cash_policy_post_init \<lparr>cp_cash_only = cp_cash_only p, cp_reserved_cash_ratio = cp_reserved_cash_ratio p,
       cp_reserved_cash_floor_usd = cp_reserved_cash_floor_usd p\<rparr> = Inr p" for f
    using assms(5) by (simp_all add: control_simps valid_cash_def)
  have "sorted_unknown d [''cash_only'', ''reserved_cash_ratio'', ''reserved_cash_floor_usd''] = []"
    using assms(1) by (simp add: sorted_unknown_Nil)
  then show ?thesis
    using \<open>d \<noteq> []\<close> r assms(1)
    by (simp add: cash_policy_from_mapping_def dget_or_dget assms(2-4) parse_strict_bool_def)
qed

lemma runtime_mode_text: "parse_runtime_mode (PStr (runtime_mode_value m)) f = Inr m"
  by (cases m) (simp_all add: parse_runtime_mode_def flag_text_def, code_simp+)

lemma control_read:
  assumes keys: "set (keys w) = set (keys (control_to_dict c))"
    and get: "\<And>k. k \<noteq> ''cash_policy'' \<Longrightarrow> dget w k = dget (control_to_dict c) k"
    and cash: "cash_policy_from_mapping (dget w ''cash_policy'') = Inr (rk_cash_policy c)"
    and t: "trimmed (rk_target_id c)" "trimmed (rk_platform_id c)" "trimmed (rk_strategy_profile c)"
      "rk_target_id c \<noteq> []" "rk_platform_id c \<noteq> []" "rk_strategy_profile c \<noteq> []"
    and ref: "\<And>r. rk_risk_limits_ref c = Some r \<Longrightarrow> trimmed r \<and> r \<noteq> []"
  shows "control_from_mapping (PDict w) = Inr c"
proof -
  have g: "dget_or w ''schema_version'' v = PStr control_schema"
    "dget_or w ''enabled'' v = PBool (rk_enabled c)" "dget_or w ''mode'' v = PStr (runtime_mode_value (rk_mode c))"
    "dget_or w ''options_enabled'' v = PBool (rk_options_enabled c)"
    "dget w ''target_id'' = PStr (rk_target_id c)" "dget w ''platform_id'' = PStr (rk_platform_id c)"
    "dget w ''strategy_profile'' = PStr (rk_strategy_profile c)"
    "dget w ''risk_limits_ref'' = (case rk_risk_limits_ref c of None \<Rightarrow> PNone | Some r \<Rightarrow> PStr r)" for v
    using keys get by (auto simp: dget_or_dget control_to_dict_def keys_def split: option.split)
  have u: "sorted_unknown w control_fields = []"
    unfolding sorted_unknown_Nil keys
    by (auto simp: control_to_dict_def keys_def control_fields_def split: option.splits)
  show ?thesis
    using t ref
    by (auto simp: control_from_mapping_def g u Let_def control_required_text_def runtime_mode_text cash
        parse_strict_bool_def control_post_init_def control_identity_def split: option.split)
qed

lemma control_from_mapping_texts:
  assumes "control_from_mapping v = Inr c"
  shows "trimmed (rk_target_id c)" "trimmed (rk_platform_id c)" "trimmed (rk_strategy_profile c)"
    "rk_target_id c \<noteq> []" "rk_platform_id c \<noteq> []" "rk_strategy_profile c \<noteq> []"
    "rk_risk_limits_ref c = Some r \<Longrightarrow> trimmed r"
  using assms
  by (auto simp: control_from_mapping_def Let_def bind_res_Inr_iff require_Inr_iff control_simps
      control_required_text_def split: pyval.splits if_splits)

section \<open>Properties\<close>

text \<open>C22: resolution only ever tightens. Whatever the overrides are, a resolved control is at
  least as tight as the control before them, which is the reviewed document for this very
  target, platform and profile, or the safe default: it is not enabled or live unless that
  control is, cash-only stays, the reserve does not fall, and the identity, the risk-limit
  reference and the options switch are untouched.\<close>

theorem resolve_only_tightens:
  assumes "resolve_runtime_control t p s document ovs = Inr c"
  shows "\<exists>base. (if document = PNone then safe_default t p s = Inr base
        else control_from_mapping document = Inr base)
    \<and> control_identity base = [(''target_id'', t), (''platform_id'', p), (''strategy_profile'', s)]
    \<and> tighter c base \<and> (may_submit_live_orders c \<longrightarrow> may_submit_live_orders base)
    \<and> (document = PNone \<longrightarrow> \<not> may_submit_live_orders c)"
proof -
  obtain base where base: "if document = PNone then safe_default t p s = Inr base
      else control_from_mapping document = Inr base"
    "control_identity base = [(''target_id'', t), (''platform_id'', p), (''strategy_profile'', s)]"
    "valid_control base" "apply_overrides ovs base = Inr c"
    using resolve_Inr [OF assms] .
  have t: "tighter c base" using apply_overrides_tighter [OF base(4,3)] by simp
  have "\<not> may_submit_live_orders base" if "document = PNone"
    using base(1) that by (auto simp: safe_default_def control_simps may_submit_live_orders_def)
  with base(1,2) t tighter_live [OF t] show ?thesis by blast
qed

definition sample_document :: pyval where
  "sample_document = PDict [(''target_id'', PStr ''soxl-live''), (''platform_id'', PStr ''schwab''),
     (''strategy_profile'', PStr ''soxl''), (''enabled'', PBool True), (''mode'', PStr '' LIVE ''),
     (''cash_policy'', PDict [(''reserved_cash_ratio'', PFloat (Fin (1 / 4)))])]"

definition sample_control :: runtime_control where
  "sample_control = \<lparr>rk_target_id = ''soxl-live'', rk_platform_id = ''schwab'', rk_strategy_profile = ''soxl'',
     rk_enabled = True, rk_mode = LIVE, rk_cash_policy = \<lparr>cp_cash_only = True,
       cp_reserved_cash_ratio = Fin (1 / 4), cp_reserved_cash_floor_usd = Fin 0\<rparr>,
     rk_risk_limits_ref = None, rk_options_enabled = False\<rparr>"

lemma sample_control: "control_from_mapping sample_document = Inr sample_control"
proof -
  have "strip ''soxl-live'' = ''soxl-live''" "strip ''schwab'' = ''schwab''" "strip ''soxl'' = ''soxl''"
    "flag_text (PStr '' LIVE '') = ''live''" by code_simp+
  moreover have "parse_ratio (PFloat (Fin (1 / 4))) f = Inr (Fin (1 / 4))"
    "parse_non_negative (PFloat (Fin 0)) f = Inr (Fin 0)" for f
    by (simp_all add: control_simps f_lt_def)
  moreover have "cash_policy_post_init \<lparr>cp_cash_only = True, cp_reserved_cash_ratio = Fin (1 / 4),
      cp_reserved_cash_floor_usd = Fin 0\<rparr> = Inr \<lparr>cp_cash_only = True, cp_reserved_cash_ratio = Fin (1 / 4),
      cp_reserved_cash_floor_usd = Fin 0\<rparr>"
    by (simp add: control_simps valid_cash_def f_lt_def)
  ultimately show ?thesis
    by (simp add: sample_document_def sample_control_def control_from_mapping_def sorted_unknown_def keys_def
        control_fields_def dget_or_def control_required_text_def parse_strict_bool_def
        parse_runtime_mode_def cash_policy_from_mapping_def
        control_post_init_def control_identity_def Let_def)
qed

theorem resolve_only_tightens_witness:
  "\<exists>c. resolve_runtime_control ''soxl-live'' ''schwab'' ''soxl'' sample_document
        [\<lparr>to_enabled = None, to_mode = Some PAPER, to_cash_only = None,
          to_reserved_cash_ratio = Some (PFloat (Fin (1 / 2))), to_source = ''operator''\<rparr>] = Inr c
     \<and> rk_mode c = PAPER \<and> \<not> may_submit_live_orders c \<and> tighter c sample_control"
proof -
  let ?ov = "\<lparr>to_enabled = None, to_mode = Some PAPER, to_cash_only = None,
          to_reserved_cash_ratio = Some (PFloat (Fin (1 / 2))), to_source = ''operator''\<rparr>"
  have "valid_control sample_control" by (rule control_from_mapping_valid [OF sample_control])
  have "accepts_cash ?ov (rk_cash_policy sample_control)"
    by (auto simp: accepts_cash_def sample_control_def control_simps f_lt_def)
  with apply_override_iff [OF \<open>valid_control sample_control\<close>, of ?ov] obtain c where
    c: "apply_override ?ov sample_control = Inr c" by (auto simp: sample_control_def)
  have "strip ''soxl-live'' = ''soxl-live''" "strip ''schwab'' = ''schwab''" "strip ''soxl'' = ''soxl''"
    by code_simp+
  then obtain d where d: "safe_default ''soxl-live'' ''schwab'' ''soxl'' = Inr d"
    "control_identity d = control_identity sample_control"
    by (simp add: safe_default_def control_post_init_def control_identity_def sample_control_def)
  have r: "resolve_runtime_control ''soxl-live'' ''schwab'' ''soxl'' sample_document [?ov] = Inr c"
    using d(1) reviewed_control_Inr [of d sample_document sample_control] d(2) sample_control c
    by (simp add: resolve_runtime_control_def sample_document_def)
  from resolve_only_tightens [OF r] sample_control have "tighter c sample_control"
    by (auto simp: sample_document_def)
  moreover have "rk_mode c = PAPER"
    using apply_override_Inr(4) [OF c \<open>valid_control sample_control\<close>] by simp
  ultimately show ?thesis
    using r by (simp add: may_submit_live_orders_def submits_live_orders_def)
qed

text \<open>An override is accepted exactly when none of its fields would loosen the control; a
  refused override raises and an accepted one leaves a valid control with just the fields it
  names changed.\<close>

theorem override_accepted_iff:
  assumes "valid_control c"
  shows "(case apply_override ov c of
      Inr c' \<Rightarrow> valid_control c' \<and> tighter c' c
        \<and> rk_enabled c' = (case to_enabled ov of None \<Rightarrow> rk_enabled c | Some b \<Rightarrow> b)
        \<and> rk_mode c' = (case to_mode ov of None \<Rightarrow> rk_mode c | Some m \<Rightarrow> m)
    | Inl _ \<Rightarrow> (to_enabled ov = Some True \<and> \<not> rk_enabled c)
        \<or> (\<exists>m. to_mode ov = Some m \<and> safety_rank m < safety_rank (rk_mode c))
        \<or> (to_cash_only ov = Some False \<and> cp_cash_only (rk_cash_policy c))
        \<or> (\<exists>v. to_reserved_cash_ratio ov = Some v \<and> \<not> (\<exists>x f. parse_ratio v f = Inr x
             \<and> \<not> f_lt x (cp_reserved_cash_ratio (rk_cash_policy c)))))"
proof (cases "apply_override ov c")
  case (Inl e)
  then have "\<not> (\<exists>c'. apply_override ov c = Inr c')" by simp
  then show ?thesis
    unfolding apply_override_iff [OF assms] using Inl
    by (auto simp: accepts_cash_def not_le simp del: not_ex)
next
  case (Inr c')
  with apply_override_Inr [OF Inr assms] show ?thesis by simp
qed

theorem override_accepted_witness:
  "\<exists>e. apply_override \<lparr>to_enabled = Some True, to_mode = None, to_cash_only = None,
        to_reserved_cash_ratio = None, to_source = ''operator''\<rparr> (sample_control\<lparr>rk_enabled := False\<rparr>) = Inl e"
proof -
  let ?ov = "\<lparr>to_enabled = Some True, to_mode = None, to_cash_only = None,
        to_reserved_cash_ratio = None, to_source = ''operator''\<rparr>"
  let ?c = "sample_control\<lparr>rk_enabled := False\<rparr>"
  have v: "valid_control ?c"
    using control_from_mapping_valid [OF sample_control] by (simp add: valid_control_def)
  show ?thesis
  proof (cases "apply_override ?ov ?c")
    case (Inr c')
    with override_accepted_iff [OF v, of ?ov] show ?thesis by (auto simp: tighter_def)
  qed blast
qed







end
