(* ===== verification/ReduceOnly.thy ===== *)
theory ReduceOnly
  imports RuntimeCommandGate PyNumber
begin

text \<open>
  Explicitly approved long-only reductions: the check of one sell order against freshly
  reconciled quantities, \<open>common/long_only_reduce.py\<close>, and the composite admission that binds the
  order to a durable command and to the runtime gate,
  \<open>common/reduce_only_command_admission.py\<close>.
\<close>

named_theorems reduce_simps

section \<open>The order and the facts\<close>

text \<open>The fields of \<open>OrderIntent\<close> are not checked when it is built, so they are any value.\<close>

record order_intent =
  oi_symbol :: pyval
  oi_side :: pyval
  oi_quantity :: pyval
  oi_order_type :: pyval
  oi_limit_price :: pyval
  oi_time_in_force :: pyval
  oi_account_id :: pyval
  oi_metadata :: pydict

datatype reduce_finding = INVALID_ORDER | NOT_SELL | SYMBOL_NOT_ALLOWED | LONG_QUANTITY_UNAVAILABLE
  | SHORT_QUANTITY_PRESENT | SELLABLE_QUANTITY_UNAVAILABLE | SELLABLE_EXCEEDS_LONG
  | QUANTITY_EXCEEDS_SELLABLE

fun reduce_value :: "reduce_finding \<Rightarrow> string" where
  "reduce_value INVALID_ORDER = ''invalid_order''"
| "reduce_value NOT_SELL = ''not_sell''"
| "reduce_value SYMBOL_NOT_ALLOWED = ''symbol_not_allowed''"
| "reduce_value LONG_QUANTITY_UNAVAILABLE = ''long_quantity_unavailable''"
| "reduce_value SHORT_QUANTITY_PRESENT = ''short_quantity_present''"
| "reduce_value SELLABLE_QUANTITY_UNAVAILABLE = ''sellable_quantity_unavailable''"
| "reduce_value SELLABLE_EXCEEDS_LONG = ''sellable_exceeds_long''"
| "reduce_value QUANTITY_EXCEEDS_SELLABLE = ''quantity_exceeds_sellable''"

definition order_symbol :: "pyval \<Rightarrow> string option" where
  "order_symbol v = (case v of
     PStr s \<Rightarrow> (let n = upper (strip s) in if n = [] then None else Some n) | _ \<Rightarrow> None)"

text \<open>An int that no float can hold makes \<open>float\<close> raise OverflowError.\<close>

definition nonnegative_quantity :: "pyval \<Rightarrow> pyfloat option res" where
  "nonnegative_quantity v = (if \<not> is_number v then Inr None
     else map_res (\<lambda>q. if f_isfinite q \<and> f_le (Fin 0) q then Some q else None) (py_float v))"

definition positive_quantity :: "pyval \<Rightarrow> pyfloat option res" where
  "positive_quantity v = map_res (\<lambda>q. case q of None \<Rightarrow> None
     | Some x \<Rightarrow> if f_lt (Fin 0) x then Some x else None) (nonnegative_quantity v)"

text \<open>A set of symbols, None when one is unusable or there is none.\<close>

definition normalized_symbols :: "pyval list \<Rightarrow> string list option" where
  "normalized_symbols vs = (if vs = [] \<or> None \<in> order_symbol ` set vs then None
     else Some (map (the \<circ> order_symbol) vs))"

definition quantity_tolerance :: pyfloat where
  "quantity_tolerance = to_float (1 / 10 ^ 9)"

definition exceeds :: "pyfloat \<Rightarrow> pyfloat \<Rightarrow> bool" where
  "exceeds x limit = f_lt (f_add limit quantity_tolerance) x"

record reduce_validation =
  lr_approved :: bool
  lr_findings :: "string list"

definition reduce_validation_to_dict :: "reduce_validation \<Rightarrow> pydict" where
  "reduce_validation_to_dict v =
     [(''approved'', PBool (lr_approved v)), (''findings'', PTuple (map PStr (lr_findings v)))]"

definition found_when :: "bool \<Rightarrow> reduce_finding \<Rightarrow> string list" where
  "found_when b f = (if b then [reduce_value f] else [])"

text \<open>None stands for an object that is not an \<open>OrderIntent\<close>.\<close>

definition validate_long_only_reduce_only_order ::
  "order_intent option \<Rightarrow> pydict \<Rightarrow> pydict \<Rightarrow> pydict \<Rightarrow> pyval list \<Rightarrow> reduce_validation res" where
  "validate_long_only_reduce_only_order order longs shorts sellables allowed = (case order of
     None \<Rightarrow> Inr \<lparr>lr_approved = False, lr_findings = [reduce_value INVALID_ORDER]\<rparr>
   | Some oi \<Rightarrow>
     (let is_sell = (lower (strip (str_or_empty (oi_side oi))) = ''sell'') in
      case order_symbol (oi_symbol oi) of
        None \<Rightarrow> Inr \<lparr>lr_approved = False,
          lr_findings = reduce_value INVALID_ORDER # found_when (\<not> is_sell) NOT_SELL\<rparr>
      | Some symbol \<Rightarrow>
        if \<not> is_sell then Inr \<lparr>lr_approved = False, lr_findings = [reduce_value NOT_SELL]\<rparr>
        else
          bind_res (positive_quantity (oi_quantity oi)) (\<lambda>requested.
          bind_res (nonnegative_quantity (dget longs symbol)) (\<lambda>long.
          bind_res (nonnegative_quantity (dget shorts symbol)) (\<lambda>short.
          bind_res (nonnegative_quantity (dget sellables symbol)) (\<lambda>sellable.
          let findings =
            found_when (case normalized_symbols allowed of None \<Rightarrow> True | Some ss \<Rightarrow> symbol \<notin> set ss)
              SYMBOL_NOT_ALLOWED
            @ found_when (requested = None) INVALID_ORDER
            @ found_when (case long of None \<Rightarrow> True | Some l \<Rightarrow> f_le l (Fin 0)) LONG_QUANTITY_UNAVAILABLE
            @ found_when (case short of None \<Rightarrow> True | Some s \<Rightarrow> f_lt (Fin 0) s) SHORT_QUANTITY_PRESENT
            @ found_when (sellable = None) SELLABLE_QUANTITY_UNAVAILABLE
            @ found_when (case (sellable, long) of (Some s, Some l) \<Rightarrow> exceeds s l | _ \<Rightarrow> False)
                SELLABLE_EXCEEDS_LONG
            @ found_when (case (requested, sellable) of (Some q, Some s) \<Rightarrow> exceeds q s | _ \<Rightarrow> False)
                QUANTITY_EXCEEDS_SELLABLE
          in Inr \<lparr>lr_approved = (findings = []), lr_findings = findings\<rparr>))))))"

section \<open>The digest of an order\<close>

definition canonical_optional_text :: "pyval \<Rightarrow> string option" where
  "canonical_optional_text v = (if v = PNone then None
     else let s = strip (py_str v) in if s = [] then None else Some s)"

definition finite_positive :: "pyval \<Rightarrow> pyfloat option res" where
  "finite_positive v = (if \<not> is_number v then Inr None
     else map_res (\<lambda>x. if f_isfinite x \<and> f_lt (Fin 0) x then Some x else None) (py_float v))"

definition finite_optional :: "pyval \<Rightarrow> pyfloat option res" where
  "finite_optional v = (if v = PNone then Inr None else finite_positive v)"

definition opt_float :: "pyfloat option \<Rightarrow> pyval" where
  "opt_float x = (case x of None \<Rightarrow> PNone | Some y \<Rightarrow> PFloat y)"

definition order_payload :: "order_intent \<Rightarrow> string \<Rightarrow> string \<Rightarrow> string \<Rightarrow> pyfloat \<Rightarrow> pyfloat option \<Rightarrow> pydict" where
  "order_payload oi symbol side order_type quantity limit_price =
     [(''account_id'', opt_val (canonical_optional_text (oi_account_id oi))),
      (''limit_price'', opt_float limit_price), (''order_type'', PStr (lower order_type)),
      (''quantity'', PFloat quantity), (''side'', PStr (lower side)), (''symbol'', PStr (upper symbol)),
      (''time_in_force'', opt_val (canonical_optional_text (oi_time_in_force oi)))]"

text \<open>The payload, None when the order cannot be identified.\<close>

definition reduce_only_payload :: "order_intent option \<Rightarrow> pydict option res" where
  "reduce_only_payload order = (case order of None \<Rightarrow> Inr None | Some oi \<Rightarrow>
     bind_res (finite_positive (oi_quantity oi)) (\<lambda>quantity.
     bind_res (finite_optional (oi_limit_price oi)) (\<lambda>limit_price.
     Inr (case (canonical_optional_text (oi_symbol oi), canonical_optional_text (oi_side oi),
            canonical_optional_text (oi_order_type oi), quantity) of
         (Some symbol, Some side, Some order_type, Some q) \<Rightarrow>
           if oi_limit_price oi \<noteq> PNone \<and> limit_price = None then None
           else Some (order_payload oi symbol side order_type q limit_price)
       | _ \<Rightarrow> None))))"

definition build_reduce_only_order_digest :: "order_intent option \<Rightarrow> string option res" where
  "build_reduce_only_order_digest order = map_res (map_option (\<lambda>p.
     sha256_hex (json_dumps (compact_style True) (PDict p)))) (reduce_only_payload order)"

section \<open>Admission\<close>

definition digest_field :: string where
  "digest_field = ''reduce_only_order_sha256''"

definition binding_missing :: string where
  "binding_missing = ''reduce_only_command_order_binding_missing''"

definition binding_mismatch :: string where
  "binding_mismatch = ''reduce_only_command_order_binding_mismatch''"

definition invalid_order_digest :: string where
  "invalid_order_digest = ''reduce_only_invalid_order_digest''"

definition default_reduce_only_policy :: gate_policy where
  "default_reduce_only_policy = default_gate_policy\<lparr>gp_mode := REDUCING\<rparr>"

record reduce_admission =
  rd_approved :: bool
  rd_findings :: "string list"
  rd_order_validation :: reduce_validation
  rd_release_verification :: "verification option"
  rd_gate :: gate_decision

definition reduce_admission_to_dict :: "reduce_admission \<Rightarrow> pydict" where
  "reduce_admission_to_dict a =
     [(''approved'', PBool (rd_approved a)), (''findings'', PList (map PStr (rd_findings a))),
      (''order_validation'', PDict (reduce_validation_to_dict (rd_order_validation a))),
      (''command_release_verification'', case rd_release_verification a of None \<Rightarrow> PNone
         | Some v \<Rightarrow> PDict [(''release_id'', opt_val (sv_release_id v)),
             (''findings'', PTuple (map PStr (sv_findings v)))]),
      (''runtime_command_gate'', PDict (gate_to_receipt (rd_gate a)))]"

text \<open>The binding of the order to the command: the release verification, whether the digests
  agree, and the findings, in the order in which the code appends them.\<close>

definition order_binding ::
  "command option \<Rightarrow> release_arg \<Rightarrow> string option \<Rightarrow> (verification option \<times> bool \<times> string list) res" where
  "order_binding cmd expected digest = (case cmd of
     None \<Rightarrow> Inr (None, False, [binding_missing])
   | Some c \<Rightarrow>
     bind_res (validate_execution_command_release_binding c expected) (\<lambda>v.
     bind_res (command_intent c) (\<lambda>intent.
       let expected_digest = lower (strip (str_or_empty (dget intent digest_field))) in
       Inr (if \<not> is_sha256_hex expected_digest then (Some v, False, sv_findings v @ [binding_missing])
         else if digest = None \<or> Some expected_digest \<noteq> digest
         then (Some v, False, sv_findings v @ [binding_mismatch])
         else (Some v, True, sv_findings v)))))"

definition evaluate_reduce_only_command_admission ::
  "order_intent option \<Rightarrow> pydict \<Rightarrow> pydict \<Rightarrow> pydict \<Rightarrow> pyval list \<Rightarrow> command option \<Rightarrow> pyval \<Rightarrow> pyval
    \<Rightarrow> release_arg \<Rightarrow> command_state enum_arg option \<Rightarrow> finding_arg list \<Rightarrow> gate_policy option
    \<Rightarrow> reduce_admission res" where
  "evaluate_reduce_only_command_admission order longs shorts sellables allowed cmd as_of receipt
      expected state integrity policy =
     bind_res (validate_long_only_reduce_only_order order longs shorts sellables allowed) (\<lambda>validation.
     bind_res (build_reduce_only_order_digest order) (\<lambda>digest.
     bind_res (order_binding cmd expected digest) (\<lambda>(verification, binding_valid, found).
     bind_res (evaluate_runtime_command_gate (EnumMember SUBMIT) (EnumMember REDUCES) cmd state as_of
         receipt expected
         (integrity @ (case verification of None \<Rightarrow> []
            | Some v \<Rightarrow> map (\<lambda>f. FindingValue (PStr f)) (sv_findings v)))
         (case policy of None \<Rightarrow> default_reduce_only_policy | Some p \<Rightarrow> p)) (\<lambda>gate.
     let findings = lr_findings validation
           @ (if digest = None then [invalid_order_digest] else []) @ found @ gt_reasons gate
     in Inr \<lparr>rd_approved = (lr_approved validation \<and> binding_valid
            \<and> (case verification of None \<Rightarrow> True | Some v \<Rightarrow> sv_is_valid v) \<and> gt_policy_allows gate),
          rd_findings = dedup (filter (\<lambda>f. f \<noteq> []) findings), rd_order_validation = validation,
          rd_release_verification = verification, rd_gate = gate\<rparr>))))"

section \<open>Facts\<close>

lemma found_when_Nil [reduce_simps]: "found_when b f = [] \<longleftrightarrow> \<not> b"
  by (simp add: found_when_def)

lemma validate_approved:
  assumes "validate_long_only_reduce_only_order order longs shorts sellables allowed = Inr v"
  shows "lr_approved v \<longleftrightarrow> (\<exists>oi symbol ss q l s sq. order = Some oi \<and> order_symbol (oi_symbol oi) = Some symbol
      \<and> lower (strip (str_or_empty (oi_side oi))) = ''sell''
      \<and> normalized_symbols allowed = Some ss \<and> symbol \<in> set ss
      \<and> positive_quantity (oi_quantity oi) = Inr (Some q)
      \<and> nonnegative_quantity (dget longs symbol) = Inr (Some l) \<and> \<not> f_le l (Fin 0)
      \<and> nonnegative_quantity (dget shorts symbol) = Inr (Some sq) \<and> \<not> f_lt (Fin 0) sq
      \<and> nonnegative_quantity (dget sellables symbol) = Inr (Some s)
      \<and> \<not> exceeds s l \<and> \<not> exceeds q s)" (is "_ \<longleftrightarrow> ?r")
proof (cases order)
  case (Some oi)
  show ?thesis
  proof (cases "order_symbol (oi_symbol oi)")
    case sym: (Some symbol)
    show ?thesis
    proof (cases "lower (strip (str_or_empty (oi_side oi))) = ''sell''")
      case True
      from assms Some sym True obtain q l sq s where
        f: "positive_quantity (oi_quantity oi) = Inr q" "nonnegative_quantity (dget longs symbol) = Inr l"
        "nonnegative_quantity (dget shorts symbol) = Inr sq"
        "nonnegative_quantity (dget sellables symbol) = Inr s"
        and v: "lr_approved v \<longleftrightarrow>
          \<not> (case normalized_symbols allowed of None \<Rightarrow> True | Some ss \<Rightarrow> symbol \<notin> set ss)
          \<and> q \<noteq> None \<and> \<not> (case l of None \<Rightarrow> True | Some l \<Rightarrow> f_le l (Fin 0))
          \<and> \<not> (case sq of None \<Rightarrow> True | Some s \<Rightarrow> f_lt (Fin 0) s) \<and> s \<noteq> None
          \<and> \<not> (case (s, l) of (Some s, Some l) \<Rightarrow> exceeds s l | _ \<Rightarrow> False)
          \<and> \<not> (case (q, s) of (Some q, Some s) \<Rightarrow> exceeds q s | _ \<Rightarrow> False)"
        by (auto simp: validate_long_only_reduce_only_order_def Let_def bind_res_Inr_iff found_when_Nil)
      show ?thesis
        unfolding v using Some sym True f
        by (cases "normalized_symbols allowed"; cases q; cases l; cases sq; cases s) simp_all
    qed (use assms Some sym in \<open>auto simp: validate_long_only_reduce_only_order_def\<close>)
  qed (use assms Some in \<open>auto simp: validate_long_only_reduce_only_order_def Let_def\<close>)
qed (use assms in \<open>auto simp: validate_long_only_reduce_only_order_def\<close>)

lemma order_binding_valid:
  assumes "order_binding cmd expected digest = Inr (verification, valid, found)"
  shows "valid \<longleftrightarrow> (\<exists>c intent d. cmd = Some c \<and> command_intent c = Inr intent \<and> digest = Some d
      \<and> is_sha256_hex d \<and> lower (strip (str_or_empty (dget intent digest_field))) = d)"
    "cmd = Some c \<Longrightarrow> \<exists>v. verification = Some v
       \<and> validate_execution_command_release_binding c expected = Inr v"
proof -
  show "valid \<longleftrightarrow> (\<exists>c intent d. cmd = Some c \<and> command_intent c = Inr intent \<and> digest = Some d
      \<and> is_sha256_hex d \<and> lower (strip (str_or_empty (dget intent digest_field))) = d)"
  proof (cases cmd)
    case (Some c)
    with assms obtain v intent where "command_intent c = Inr intent"
      "(let d = lower (strip (str_or_empty (dget intent digest_field))) in Inr (
         if \<not> is_sha256_hex d then (Some v, False, sv_findings v @ [binding_missing])
         else if digest = None \<or> Some d \<noteq> digest then (Some v, False, sv_findings v @ [binding_mismatch])
         else (Some v, True, sv_findings v))) = (Inr (verification, valid, found) :: _ res)"
      unfolding order_binding_def by (auto simp: bind_res_Inr_iff)
    with Some show ?thesis by (cases digest) (auto simp: Let_def split: if_splits)
  qed (use assms in \<open>simp add: order_binding_def\<close>)
  assume "cmd = Some c"
  with assms obtain v where "validate_execution_command_release_binding c expected = Inr v"
    "verification = Some v"
    by (auto simp: order_binding_def bind_res_Inr_iff Let_def split: if_splits)
  then show "\<exists>v. verification = Some v
       \<and> validate_execution_command_release_binding c expected = Inr v" by blast
qed

text \<open>The routing fields a digest stands for.\<close>

lemma reduce_only_payload_Some:
  assumes "reduce_only_payload (Some oi) = Inr (Some p)"
  obtains symbol side order_type q lp where
    "canonical_optional_text (oi_symbol oi) = Some symbol" "canonical_optional_text (oi_side oi) = Some side"
    "canonical_optional_text (oi_order_type oi) = Some order_type"
    "finite_positive (oi_quantity oi) = Inr (Some q)" "finite_optional (oi_limit_price oi) = Inr lp"
    "p = order_payload oi symbol side order_type q lp"
proof -
  from assms obtain q lp where f: "finite_positive (oi_quantity oi) = Inr q"
    "finite_optional (oi_limit_price oi) = Inr lp"
    and p: "(case (canonical_optional_text (oi_symbol oi), canonical_optional_text (oi_side oi),
            canonical_optional_text (oi_order_type oi), q) of
         (Some symbol, Some side, Some order_type, Some q) \<Rightarrow>
           if oi_limit_price oi \<noteq> PNone \<and> lp = None then None
           else Some (order_payload oi symbol side order_type q lp)
       | _ \<Rightarrow> None) = Some p"
    unfolding reduce_only_payload_def option.case bind_res_Inr_iff sum.inject by blast
  then show thesis
    using that by (cases "canonical_optional_text (oi_symbol oi)";
        cases "canonical_optional_text (oi_side oi)"; cases "canonical_optional_text (oi_order_type oi)";
        cases q) (simp_all split: if_splits)
qed

lemma order_payload_inject:
  assumes "json_norm (PDict (order_payload oi symbol side ty q lp))
      = json_norm (PDict (order_payload oi' symbol' side' ty' q' lp'))"
  shows "canonical_optional_text (oi_account_id oi) = canonical_optional_text (oi_account_id oi')
    \<and> upper symbol = upper symbol' \<and> lower side = lower side' \<and> q = q' \<and> lp = lp'
    \<and> lower ty = lower ty'
    \<and> canonical_optional_text (oi_time_in_force oi) = canonical_optional_text (oi_time_in_force oi')"
proof -
  have n: "json_norm (PDict (order_payload oi symbol side ty q lp)) = PDict
      (map (\<lambda>(k, v). (k, json_norm v)) (order_payload oi symbol side ty q lp))"
    for oi symbol side ty q lp
    unfolding json_norm_dict by (simp add: order_payload_def)
  have t: "opt_val a = opt_val b \<longleftrightarrow> a = b" "json_norm (opt_val a) = opt_val a"
    "opt_float x = opt_float y \<longleftrightarrow> x = y" "json_norm (opt_float x) = opt_float x" for a b x y
    by (auto simp: opt_val_def opt_float_def split: option.splits)
  show ?thesis
    using assms unfolding n by (simp add: order_payload_def t)
qed

lemma payload_json_ok:
  "float_ok q \<Longrightarrow> (\<And>x. lp = Some x \<Longrightarrow> float_ok x) \<Longrightarrow> json_ok (PDict (order_payload oi symbol side ty q lp))"
  by (auto simp: order_payload_def opt_val_def opt_float_def split: option.split)

section \<open>A concrete reduction\<close>

definition sample_order :: order_intent where
  "sample_order = \<lparr>oi_symbol = PStr '' soxl'', oi_side = PStr ''SELL'', oi_quantity = PInt 3,
     oi_order_type = PStr ''market'', oi_limit_price = PNone, oi_time_in_force = PNone,
     oi_account_id = PStr ''A-1'', oi_metadata = []\<rparr>"

definition sample_facts :: "int \<Rightarrow> pydict" where
  "sample_facts n = [(''SOXL'', PInt n)]"

lemma sample_order_approved:
  "validate_long_only_reduce_only_order (Some sample_order) (sample_facts 5) (sample_facts 0)
     (sample_facts 5) [PStr ''SOXL''] = Inr \<lparr>lr_approved = True, lr_findings = []\<rparr>"
proof -
  have t: "order_symbol (PStr '' soxl'') = Some ''SOXL''" "order_symbol (PStr ''SOXL'') = Some ''SOXL''"
    "lower (strip ''SELL'') = ''sell''"
    "normalized_symbols [PStr ''SOXL''] = Some [''SOXL'']" by code_simp+
  have f: "py_float (PInt 3) = Inr (Fin 3)" "py_float (PInt 5) = Inr (Fin 5)" "py_float (PInt 0) = Inr (Fin 0)"
    by (simp_all add: py_float_def float_of_int_def float_eval)
  have eps: "quantity_tolerance = Fin (4835703278458517 / 2 ^ 82)"
    using quotient_of_ratio [of 1000000000 1] by (simp add: quantity_tolerance_def float_eval)
  have "coprime (24178516397128286772582037 :: int) 4835703278458516698824704" by code_simp
  from quotient_of_ratio [OF _ this]
  have "quotient_of (24178516397128286772582037 / 4835703278458516698824704)
      = (24178516397128286772582037, 4835703278458516698824704)" by simp
  then have "\<not> exceeds (Fin 3) (Fin 5)" "\<not> exceeds (Fin 5) (Fin 5)"
    by (simp_all add: exceeds_def eps float_eval f_lt_def)
  then show ?thesis
    by (simp add: validate_long_only_reduce_only_order_def sample_order_def sample_facts_def t f
        positive_quantity_def nonnegative_quantity_def f_lt_def found_when_def)
qed

lemma sample_order_digest:
  obtains d where "build_reduce_only_order_digest (Some sample_order) = Inr (Some d)" "is_sha256_hex d"
proof -
  have t: "canonical_optional_text (PStr '' soxl'') = Some ''soxl''"
    "canonical_optional_text (PStr ''SELL'') = Some ''SELL''"
    "canonical_optional_text (PStr ''market'') = Some ''market''"
    by code_simp+
  have "finite_positive (PInt 3) = Inr (Some (Fin 3))"
    by (simp add: finite_positive_def py_float_def float_of_int_def float_eval f_lt_def)
  note t = t this
  then show thesis
    using that by (simp add: build_reduce_only_order_digest_def reduce_only_payload_def sample_order_def
        finite_optional_def)
qed

section \<open>Properties\<close>

text \<open>C24: an order is approved exactly when it is a sell of an allowed symbol for a positive
  quantity, with a positive long position, no short one, and a sellable quantity that neither
  exceeds the position nor is exceeded by the order, each beyond the tolerance. Every other case,
  a missing fact included, is refused with at least one finding.\<close>

theorem reduce_only_order_approved_iff:
  assumes "validate_long_only_reduce_only_order (Some oi) longs shorts sellables allowed = Inr v"
  shows "(lr_approved v \<longleftrightarrow> lr_findings v = [])
    \<and> (lr_approved v \<longleftrightarrow> (\<exists>symbol ss q l s sq. order_symbol (oi_symbol oi) = Some symbol
      \<and> lower (strip (str_or_empty (oi_side oi))) = ''sell''
      \<and> normalized_symbols allowed = Some ss \<and> symbol \<in> set ss
      \<and> positive_quantity (oi_quantity oi) = Inr (Some q)
      \<and> nonnegative_quantity (dget longs symbol) = Inr (Some l) \<and> \<not> f_le l (Fin 0)
      \<and> nonnegative_quantity (dget shorts symbol) = Inr (Some sq) \<and> \<not> f_lt (Fin 0) sq
      \<and> nonnegative_quantity (dget sellables symbol) = Inr (Some s)
      \<and> \<not> f_lt (f_add l quantity_tolerance) s \<and> \<not> f_lt (f_add s quantity_tolerance) q))"
proof
  show "lr_approved v \<longleftrightarrow> lr_findings v = []"
    using assms by (auto simp: validate_long_only_reduce_only_order_def Let_def bind_res_Inr_iff
        split: option.splits if_splits)
qed (use validate_approved [OF assms] in \<open>simp add: exceeds_def\<close>)

theorem reduce_only_order_approved_witness:
  "\<exists>v. validate_long_only_reduce_only_order (Some sample_order) (sample_facts 5) (sample_facts 0)
        (sample_facts 5) [PStr ''SOXL''] = Inr v \<and> lr_approved v \<and> lr_findings v = []"
  using reduce_only_order_approved_iff [OF sample_order_approved] sample_order_approved by auto




lemma float_ok_3: "float_ok (Fin 3)"
proof -
  have "p_number ''3.0'' = Some (PFloat (Fin 3), [])" by code_simp
  then show ?thesis by (simp add: float_ok_def float_repr_3 is_digit_def del: float_repr.simps)
qed


end
