(* ===== verification/RiskNumbers.thy ===== *)
theory RiskNumbers
  imports PyNumber
begin

text \<open>
  Float arithmetic and number tests the risk modules share: \<open>min\<close>, division by a nonzero
  float, \<open>_clamp_unit\<close>, and the check
  \<open>isinstance(v, bool) or not isinstance(v, (int, float)) or not math.isfinite(float(v)) or ...\<close>
  which fails closed on anything but a finite number.
\<close>

text \<open>Python's \<open>min(x, y)\<close> keeps the first argument unless the second is less.\<close>

definition f_min :: "pyfloat \<Rightarrow> pyfloat \<Rightarrow> pyfloat" where
  "f_min x y = (if f_lt y x then y else x)"

text \<open>The quotient by a float that is not zero; a zero divisor raises, and is never given.\<close>

definition f_quot :: "pyfloat \<Rightarrow> pyfloat \<Rightarrow> pyfloat" where
  "f_quot x y = (let neg = (f_sign_neg x \<noteq> f_sign_neg y) in
     if x = NaN \<or> y = NaN then NaN
     else if \<not> f_isfinite x then
       (if \<not> f_isfinite y then NaN else if neg then NegInf else PosInf)
     else if \<not> f_isfinite y \<or> f_is_zero x then (if neg then NegZero else Fin 0)
     else to_float (fin_val x / fin_val y))"

definition clamp_unit :: "pyfloat \<Rightarrow> pyfloat" where
  "clamp_unit v = (if \<not> f_isfinite v \<or> f_lt v (Fin 0) then Fin 0
     else if f_lt (Fin 1) v then Fin 1 else v)"

definition invalid_number :: "(pyfloat \<Rightarrow> bool) \<Rightarrow> pyval \<Rightarrow> bool res" where
  "invalid_number bad v = (if is_bool v \<or> \<not> is_number v then Inr True
     else bind_res (py_float v) (\<lambda>x. Inr (\<not> f_isfinite x \<or> bad x)))"

text \<open>The value of a number, as a specification reads it: no boolean, no overflow.\<close>

definition number_of :: "pyval \<Rightarrow> pyfloat option" where
  "number_of v = (if is_number v then (case py_float v of Inr x \<Rightarrow> Some x | Inl _ \<Rightarrow> None) else None)"

abbreviation negative :: "pyfloat \<Rightarrow> bool" where
  "negative x \<equiv> f_lt x (Fin 0)"

abbreviation not_positive :: "pyfloat \<Rightarrow> bool" where
  "not_positive x \<equiv> f_le x (Fin 0)"

text \<open>A finite number that is at least zero, or greater than zero.\<close>

definition finite_nonneg :: "pyval \<Rightarrow> bool" where
  "finite_nonneg v \<longleftrightarrow> (\<exists>x. number_of v = Some x \<and> f_isfinite x \<and> f_le (Fin 0) x)"

definition finite_pos :: "pyval \<Rightarrow> bool" where
  "finite_pos v \<longleftrightarrow> (\<exists>x. number_of v = Some x \<and> f_isfinite x \<and> f_lt (Fin 0) x)"

section \<open>Facts\<close>

lemma invalid_number_False:
  "invalid_number bad v = Inr False
     \<longleftrightarrow> (\<exists>x. number_of v = Some x \<and> f_isfinite x \<and> \<not> bad x)"
  by (cases v) (auto simp: invalid_number_def number_of_def res_simps split: sum.splits)

lemma number_of_py_float: "number_of v = Some x \<Longrightarrow> py_float v = Inr x"
  by (auto simp: number_of_def split: if_splits sum.splits)

lemma py_float_number_of: "is_number v \<Longrightarrow> py_float v = Inr x \<Longrightarrow> number_of v = Some x"
  by (simp add: number_of_def)

lemma invalid_number_True:
  "invalid_number bad v = Inr True
     \<Longrightarrow> \<not> (\<exists>x. number_of v = Some x \<and> f_isfinite x \<and> \<not> bad x)"
  by (auto simp: invalid_number_False [symmetric])

lemma number_of_float [simp]: "number_of (PFloat x) = Some x"
  by (simp add: number_of_def)

lemma number_of_None [simp]: "number_of PNone = None"
  by (simp add: number_of_def)

lemma f_finite_not_lt: "f_isfinite x \<Longrightarrow> f_isfinite y \<Longrightarrow> \<not> f_lt x y \<longleftrightarrow> f_le y x"
  by (auto simp: f_finite_le f_finite_lt)

lemma finite_nonneg_check:
  "invalid_number negative v = Inr b \<Longrightarrow> finite_nonneg v \<longleftrightarrow> \<not> b"
  using f_finite_not_lt [of _ "Fin 0"]
  by (cases b) (auto simp: finite_nonneg_def invalid_number_False dest!: invalid_number_True)

lemma finite_pos_check:
  "invalid_number not_positive v = Inr b \<Longrightarrow> finite_pos v \<longleftrightarrow> \<not> b"
  by (cases b)
    (auto simp: finite_pos_def invalid_number_False f_finite_lt f_finite_le dest!: invalid_number_True)

text \<open>Values between zero and one.\<close>

definition unit_float :: "pyfloat \<Rightarrow> bool" where
  "unit_float x \<longleftrightarrow> f_le (Fin 0) x \<and> f_le x (Fin 1)"

lemma unit_float_clamp [simp]: "unit_float (clamp_unit v)"
  using f_finite_not_lt [of v "Fin 0"] f_finite_not_lt [of "Fin 1" v]
  by (auto simp: unit_float_def clamp_unit_def)

lemma unit_float_consts [simp]: "unit_float (Fin 0)" "unit_float (Fin 1)" "unit_float (Fin (1 / 2))"
  by (simp_all add: unit_float_def)

lemma clamp_unit_id: "unit_float x \<Longrightarrow> clamp_unit x = x"
  by (cases x) (auto simp: unit_float_def clamp_unit_def f_lt_def)

lemma unit_float_finite: "unit_float x \<Longrightarrow> f_isfinite x"
  by (auto simp: unit_float_def f_le_zero_one)

lemma f_min_le:
  assumes "x \<noteq> NaN" "y \<noteq> NaN"
  shows "f_le (f_min x y) x" "f_le (f_min x y) y"
  using assms f_lt_not_le [of y x] f_le_refl [of x] f_le_refl [of y]
  by (auto simp: f_min_def f_lt_def)

lemma f_min_cases: "f_min x y = x \<or> f_min x y = y"
  by (simp add: f_min_def)

lemma round_half_even_nonneg: "0 \<le> x \<Longrightarrow> 0 \<le> round_half_even x"
  by (simp add: round_half_even_def Let_def)

lemma round_pos_nonneg: "0 \<le> q \<Longrightarrow> 0 \<le> round_pos q"
  by (auto simp: round_pos_def Let_def pow2_def intro!: mult_nonneg_nonneg round_half_even_nonneg
      divide_nonneg_nonneg)

lemma to_float_nonneg: "0 \<le> q \<Longrightarrow> f_le (Fin 0) (to_float q)"
  using round_pos_nonneg [of q] by (auto simp: to_float_def Let_def)

lemma to_float_not_NaN: "to_float q \<noteq> NaN"
  by (auto simp: to_float_def Let_def)

lemma f_mul_nonneg:
  assumes "f_isfinite x" "f_isfinite y" "f_le (Fin 0) x" "f_le (Fin 0) y"
  shows "f_le (Fin 0) (f_mul x y)"
  using assms to_float_nonneg [of "fin_val x * fin_val y"]
  by (cases x; cases y) (auto simp: f_mul_def Let_def f_is_zero_def)

lemma f_mul_not_NaN: "f_isfinite x \<Longrightarrow> f_isfinite y \<Longrightarrow> f_mul x y \<noteq> NaN"
  using to_float_not_NaN by (auto simp: f_mul_def Let_def)

lemma f_mul_zero:
  "f_isfinite x \<Longrightarrow> f_le (Fin 0) x \<Longrightarrow> \<not> f_sign_neg x \<Longrightarrow> f_mul x (Fin 0) = Fin 0"
  by (auto simp: f_mul_def Let_def f_is_zero_def)

end
