(* ===== verification/CapitalEnvelope.thy ===== *)
theory CapitalEnvelope
  imports RiskNumbers
begin

text \<open>
  The capital risk envelope (\<open>risk/capital_risk_envelope.py\<close>): a pure map from an equity, a
  realised volatility and a drawdown to the scale new risk is allowed to have. The caller's
  numbers are dynamic values (\<open>pyval\<close>): None, a boolean, NaN or a string each take the branch the
  code gives them. A huge int makes \<open>float\<close> raise OverflowError, which the model lets through.
\<close>

section \<open>Bands and envelopes\<close>

record band =
  bd_id :: string
  bd_scale :: pyfloat
  bd_brake :: pyfloat
  bd_max_3x :: pyfloat
  bd_hitl :: bool
  bd_summary :: string

definition band_under_50k :: band where
  "band_under_50k = \<lparr>bd_id = ''under_50k'', bd_scale = Fin 1, bd_brake = to_float (15 / 100),
     bd_max_3x = Fin 1, bd_hitl = False,
     bd_summary = ''allow_full_3x_etf; financing requires separate mandate''\<rparr>"

definition band_50k_250k :: band where
  "band_50k_250k = \<lparr>bd_id = ''from_50k_to_250k'', bd_scale = to_float (85 / 100),
     bd_brake = to_float (10 / 100), bd_max_3x = Fin (1 / 2), bd_hitl = True,
     bd_summary = ''cap_3x_etf_weight_or_partial_unlevered_sleeve''\<rparr>"

definition band_250k_1m :: band where
  "band_250k_1m = \<lparr>bd_id = ''from_250k_to_1m'', bd_scale = to_float (65 / 100),
     bd_brake = to_float (75 / 1000), bd_max_3x = Fin (1 / 4), bd_hitl = True,
     bd_summary = ''reduce_3x_sleeve; new_leverage_requires_hitl''\<rparr>"

definition band_above_1m :: band where
  "band_above_1m = \<lparr>bd_id = ''above_1m'', bd_scale = Fin (1 / 2), bd_brake = to_float (5 / 100),
     bd_max_3x = Fin 0, bd_hitl = True, bd_summary = ''default_prohibit_new_leverage_exposure''\<rparr>"

definition resolve_band :: "pyfloat \<Rightarrow> band" where
  "resolve_band equity =
     (if f_lt equity (Fin 50000) then band_under_50k
      else if f_lt equity (Fin 250000) then band_50k_250k
      else if f_le equity (Fin 1000000) then band_250k_1m
      else band_above_1m)"

record leverage_cap =
  lc_max_3x_etf_weight :: pyfloat
  lc_new_leverage_requires_hitl :: bool
  lc_summary :: string

record envelope =
  en_band_id :: string
  en_capital_scale :: pyfloat
  en_vol_scale :: pyfloat
  en_dd_scale :: pyfloat
  en_combined_scale :: pyfloat
  en_leverage_product_cap :: leverage_cap
  en_new_risk_allowed :: bool
  en_reasons :: "string list"
  en_dd_brake :: pyfloat
  en_risk_preference :: "string option"
  en_live_authority_granted :: bool

definition invalid_risk_input_reasons :: "string list" where
  "invalid_risk_input_reasons =
     [''INVALID_EQUITY_FAIL_CLOSED'', ''INVALID_TARGET_VOL_FAIL_CLOSED'',
      ''INVALID_REALIZED_VOL_FAIL_CLOSED'', ''INVALID_DRAWDOWN_FAIL_CLOSED'']"

definition risk_profile_ids :: "string list" where
  "risk_profile_ids = [''CAPITAL_PRESERVATION'', ''BALANCED_COMPOUNDING'', ''GROWTH_COMPOUNDING'']"

definition default_target_vol :: pyfloat where
  "default_target_vol = to_float (20 / 100)"

section \<open>The evaluation\<close>

definition vol_scale :: "pyval \<Rightarrow> pyfloat \<Rightarrow> (pyfloat \<times> string list) res" where
  "vol_scale realized_vol target_vol =
     (if realized_vol = PNone then Inr (Fin 1, [])
      else bind_res (invalid_number negative realized_vol) (\<lambda>bad.
        if bad then Inr (Fin 0, [''INVALID_REALIZED_VOL_FAIL_CLOSED''])
        else bind_res (py_float realized_vol) (\<lambda>rv.
          if f_le rv (Fin 0) then Inr (Fin 1, [])
          else let scale = f_min (Fin 1) (f_quot target_vol rv)
            in Inr (clamp_unit scale, if f_lt scale (Fin 1) then [''VOL_SCALE_REDUCED''] else []))))"

definition dd_scale :: "pyval \<Rightarrow> pyfloat \<Rightarrow> (pyfloat \<times> bool \<times> string list) res" where
  "dd_scale drawdown dd_brake =
     (if drawdown = PNone then Inr (Fin 1, True, [])
      else bind_res (invalid_number negative drawdown) (\<lambda>bad.
        if bad then Inr (Fin 0, False, [''INVALID_DRAWDOWN_FAIL_CLOSED''])
        else bind_res (py_float drawdown) (\<lambda>dd.
          Inr (if f_le dd_brake dd then (Fin 0, False, [''DRAWDOWN_BRAKE_TRIPPED''])
            else if f_le (f_mul (Fin (1 / 2)) dd_brake) dd
              then (Fin (1 / 2), True, [''DRAWDOWN_HALF_BRAKE''])
            else (Fin 1, True, [])))))"

definition resolve_preference :: "pyval \<Rightarrow> string option \<times> string list" where
  "resolve_preference risk_preference =
     (if risk_preference = PNone then (None, [])
      else let preference = upper (strip (str_or_empty risk_preference)) in
        if preference \<noteq> [] \<and> preference \<notin> set risk_profile_ids
          then (None, [''UNKNOWN_RISK_PREFERENCE''])
        else if preference \<noteq> [] then (Some preference, [''RISK_PREFERENCE_'' @ preference])
        else (Some preference, []))"

definition invalid_envelope :: "string option \<Rightarrow> string list \<Rightarrow> envelope" where
  "invalid_envelope preference reasons =
     \<lparr>en_band_id = ''invalid'', en_capital_scale = Fin 0, en_vol_scale = Fin 0, en_dd_scale = Fin 0,
      en_combined_scale = Fin 0,
      en_leverage_product_cap = \<lparr>lc_max_3x_etf_weight = Fin 0, lc_new_leverage_requires_hitl = True,
        lc_summary = ''invalid_equity''\<rparr>,
      en_new_risk_allowed = False, en_reasons = reasons, en_dd_brake = Fin 0,
      en_risk_preference = preference, en_live_authority_granted = False\<rparr>"

definition resolve_target :: "pyval \<Rightarrow> (bool \<times> pyfloat) res" where
  "resolve_target target_vol =
     (if target_vol = PNone then Inr (False, default_target_vol)
      else bind_res (invalid_number not_positive target_vol) (\<lambda>target_invalid.
        if target_invalid then Inr (True, default_target_vol)
        else map_res (\<lambda>x. (False, x)) (py_float target_vol)))"

definition valid_envelope ::
  "string option \<Rightarrow> string list \<Rightarrow> bool \<Rightarrow> band \<Rightarrow> pyfloat \<times> string list
     \<Rightarrow> pyfloat \<times> bool \<times> string list \<Rightarrow> envelope" where
  "valid_envelope preference reasons target_invalid b vol dd =
     (case (vol, dd) of ((vs, vol_reasons), (ds, new_risk_allowed, dd_reasons)) \<Rightarrow>
       \<lparr>en_band_id = bd_id b, en_capital_scale = clamp_unit (bd_scale b), en_vol_scale = vs,
        en_dd_scale = ds, en_combined_scale = clamp_unit (f_mul (f_mul (bd_scale b) vs) ds),
        en_leverage_product_cap = \<lparr>lc_max_3x_etf_weight = clamp_unit (bd_max_3x b),
          lc_new_leverage_requires_hitl = bd_hitl b, lc_summary = bd_summary b\<rparr>,
        en_new_risk_allowed = (new_risk_allowed \<and> \<not> target_invalid
          \<and> ''INVALID_REALIZED_VOL_FAIL_CLOSED'' \<notin> set vol_reasons),
        en_reasons = reasons @ (if target_invalid then [''INVALID_TARGET_VOL_FAIL_CLOSED''] else [])
          @ [''BAND_'' @ upper (bd_id b)] @ vol_reasons @ dd_reasons,
        en_dd_brake = bd_brake b, en_risk_preference = preference,
        en_live_authority_granted = False\<rparr>)"

definition evaluate_capital_risk_envelope ::
  "pyval \<Rightarrow> pyval \<Rightarrow> pyval \<Rightarrow> pyval \<Rightarrow> pyval \<Rightarrow> envelope res" where
  "evaluate_capital_risk_envelope equity_usd realized_vol drawdown risk_preference target_vol =
     (case resolve_preference risk_preference of (preference, reasons) \<Rightarrow>
       bind_res (invalid_number negative equity_usd) (\<lambda>bad.
       if bad then Inr (invalid_envelope preference (reasons @ [''INVALID_EQUITY_FAIL_CLOSED'']))
       else bind_res (resolve_target target_vol) (\<lambda>(target_invalid, target).
         bind_res (py_float equity_usd) (\<lambda>equity.
         let b = resolve_band equity in
         bind_res (vol_scale realized_vol target) (\<lambda>vol.
         bind_res (dd_scale drawdown (bd_brake b)) (\<lambda>dd.
         Inr (valid_envelope preference reasons target_invalid b vol dd)))))))"

text \<open>The call with the defaults of the optional arguments.\<close>

definition default_envelope :: "pyval \<Rightarrow> pyval \<Rightarrow> envelope res" where
  "default_envelope equity_usd drawdown =
     evaluate_capital_risk_envelope equity_usd PNone drawdown PNone (PFloat default_target_vol)"

section \<open>Several accounts\<close>

record account_envelope =
  ae_account_id :: string
  ae_equity_usd :: "pyfloat option"
  ae_envelope :: envelope

record multi_account_view =
  mv_total_equity_usd :: "pyfloat option"
  mv_aggregate_envelope :: envelope
  mv_accounts :: "account_envelope list"
  mv_any_prohibited :: bool
  mv_new_risk_allowed :: bool
  mv_reasons :: "string list"

definition valid_equity :: "pyval \<Rightarrow> bool res" where
  "valid_equity v = map_res Not (invalid_number negative v)"

text \<open>\<open>max(0.0, 1.0 - equity / peak)\<close>, for a peak that is not zero.\<close>

definition drawdown_of :: "pyfloat \<Rightarrow> pyfloat \<Rightarrow> pyfloat" where
  "drawdown_of equity peak = f_max (Fin 0) (f_sub (Fin 1) (f_quot equity peak))"

definition account_drawdown :: "pydict \<Rightarrow> pyval \<Rightarrow> pyval res" where
  "account_drawdown account equity_usd =
     (let explicit = dget account ''drawdown_from_peak''; peak = dget account ''peak_equity_usd'' in
      if explicit \<noteq> PNone then Inr explicit
      else if peak = PNone then Inr PNone
      else bind_res (valid_equity equity_usd) (\<lambda>valid.
        if \<not> valid then Inr (PFloat (Fin (- 1)))
        else bind_res (invalid_number not_positive peak) (\<lambda>bad.
          if bad then Inr (PFloat (Fin (- 1)))
          else bind_res (py_float equity_usd) (\<lambda>e. bind_res (py_float peak) (\<lambda>p.
            Inr (PFloat (drawdown_of e p)))))))"

definition account_summary ::
  "pyval \<Rightarrow> pyval \<Rightarrow> pydict \<Rightarrow> (account_envelope \<times> string list) res" where
  "account_summary risk_preference target_vol account =
     (let account_id = strip (str_or_empty (dget account ''account_id''));
          raw_equity = dget account ''equity_usd'' in
      bind_res (valid_equity raw_equity) (\<lambda>valid.
      bind_res (if valid then map_res Some (py_float raw_equity) else Inr None) (\<lambda>equity.
      bind_res (account_drawdown account raw_equity) (\<lambda>drawdown.
      bind_res (evaluate_capital_risk_envelope
          (if equity \<noteq> None then raw_equity else PFloat NaN) (dget account ''realized_vol'') drawdown
          risk_preference target_vol) (\<lambda>e.
      Inr (\<lparr>ae_account_id = account_id, ae_equity_usd = equity, ae_envelope = e\<rparr>,
        (if equity = None then [''ACCOUNT_EQUITY_UNKNOWN_FAIL_CLOSED''] else [])
        @ (if account_id = [] then [''ACCOUNT_ID_MISSING_FAIL_CLOSED''] else [])))))))"

fun total_equity :: "pyfloat \<Rightarrow> account_envelope list \<Rightarrow> pyfloat" where
  "total_equity acc [] = acc"
| "total_equity acc (s # ss) =
     total_equity (case ae_equity_usd s of None \<Rightarrow> acc | Some e \<Rightarrow> f_add acc e) ss"

definition evaluate_multi_account_envelope_view ::
  "pydict list \<Rightarrow> pyval \<Rightarrow> pyval \<Rightarrow> multi_account_view res" where
  "evaluate_multi_account_envelope_view accounts risk_preference target_vol =
     bind_res (mapM (account_summary risk_preference target_vol) accounts) (\<lambda>rs.
     let summaries = map fst rs;
         aggregate_equity_valid = (summaries \<noteq> [] \<and> (\<forall>s \<in> set summaries. ae_equity_usd s \<noteq> None));
         equity_sum = total_equity (Fin 0) summaries;
         any_prohibited = (\<exists>s \<in> set summaries.
           \<not> en_new_risk_allowed (ae_envelope s) \<or> ae_account_id s = []);
         reasons = concat (map snd rs)
           @ (if summaries = [] then [''ACCOUNTS_EMPTY_FAIL_CLOSED''] else [])
           @ (if any_prohibited then [''ACCOUNT_NEW_RISK_PROHIBITED''] else []) in
     bind_res (evaluate_capital_risk_envelope
         (PFloat (if aggregate_equity_valid then equity_sum else NaN)) PNone PNone
         risk_preference target_vol) (\<lambda>aggregate.
     Inr \<lparr>mv_total_equity_usd = (if aggregate_equity_valid then Some equity_sum else None),
       mv_aggregate_envelope = aggregate, mv_accounts = summaries,
       mv_any_prohibited = any_prohibited,
       mv_new_risk_allowed = (en_new_risk_allowed aggregate \<and> \<not> any_prohibited
         \<and> aggregate_equity_valid),
       mv_reasons = dedup reasons\<rparr>))"

section \<open>Applying an envelope\<close>

text \<open>The result None stands for "no scale": an invalid input that no brake explains.\<close>

definition apply_envelope_to_sized_weight :: "pyval \<Rightarrow> envelope option \<Rightarrow> pyfloat option res" where
  "apply_envelope_to_sized_weight sized_weight envelope =
     bind_res (invalid_number negative sized_weight) (\<lambda>bad.
     if bad then Inr (Some (Fin 0))
     else case envelope of None \<Rightarrow> Inr (Some (Fin 0)) | Some e \<Rightarrow>
       if set invalid_risk_input_reasons \<inter> set (en_reasons e) \<noteq> {}
          \<and> ''DRAWDOWN_BRAKE_TRIPPED'' \<notin> set (en_reasons e) then Inr None
       else bind_res (py_float sized_weight) (\<lambda>w.
         let out = f_mul w (clamp_unit (en_combined_scale e)) in
         Inr (Some (if \<not> f_isfinite out \<or> f_lt out (Fin 0) then Fin 0
                    else f_min (f_min w (Fin 1)) out))))"

text \<open>An unusable scale leaves the targets as they are; so do \<open>float\<close>'s TypeError and ValueError.\<close>

definition usable_scale :: "pyval \<Rightarrow> pyfloat option res" where
  "usable_scale combined_scale =
     (if combined_scale = PNone \<or> is_bool combined_scale then Inr None
      else case py_float combined_scale of
        Inl e \<Rightarrow> if is_type_error e \<or> is_value_error e then Inr None else Inl e
      | Inr number \<Rightarrow> Inr (if \<not> f_isfinite number \<or> f_lt number (Fin 0) then None
          else Some (clamp_unit number)))"

definition usable_amount :: "pyval \<Rightarrow> pyfloat option res" where
  "usable_amount v =
     (if is_bool v then Inr None
      else case py_float v of
        Inl e \<Rightarrow> if is_type_error e \<or> is_value_error e then Inr None else Inl e
      | Inr amount \<Rightarrow> Inr (if \<not> f_isfinite amount \<or> f_lt amount (Fin 0) then None else Some amount))"

definition scaled_target ::
  "pyfloat option \<Rightarrow> (string \<times> pyval) \<Rightarrow> (string \<times> pyfloat) list \<Rightarrow> (string \<times> pyfloat) list res" where
  "scaled_target scale item out = (case item of (key, v) \<Rightarrow>
     let symbol = strip key in
     if symbol = [] then Inr out
     else bind_res (usable_amount v) (\<lambda>amount.
       Inr (case amount of None \<Rightarrow> out | Some a \<Rightarrow>
         dict_set out symbol (case scale of None \<Rightarrow> a | Some s \<Rightarrow> f_min a (f_mul a s)))))"

fun scaled_targets ::
  "pyfloat option \<Rightarrow> pydict \<Rightarrow> (string \<times> pyfloat) list \<Rightarrow> (string \<times> pyfloat) list res" where
  "scaled_targets scale [] out = Inr out"
| "scaled_targets scale (item # items) out =
     bind_res (scaled_target scale item out) (\<lambda>out'. scaled_targets scale items out')"

definition apply_combined_scale_to_targets ::
  "pydict option \<Rightarrow> pyval \<Rightarrow> (string \<times> pyfloat) list res" where
  "apply_combined_scale_to_targets targets combined_scale =
     bind_res (usable_scale combined_scale) (\<lambda>scale.
     scaled_targets scale (case targets of None \<Rightarrow> [] | Some d \<Rightarrow> d) [])"

section \<open>Facts\<close>

lemma vol_scale_unit:
  "vol_scale rv target = Inr (s, reasons) \<Longrightarrow> unit_float s"
  by (auto simp: vol_scale_def res_simps Let_def split: if_splits)

lemma vol_scale_reasons:
  assumes "vol_scale rv target = Inr (s, reasons)"
  shows "''INVALID_REALIZED_VOL_FAIL_CLOSED'' \<in> set reasons \<longleftrightarrow> \<not> (rv = PNone \<or> finite_nonneg rv)"
    and "''INVALID_REALIZED_VOL_FAIL_CLOSED'' \<in> set reasons \<Longrightarrow> s = Fin 0"
  using assms finite_nonneg_check [of rv]
  by (auto simp: vol_scale_def res_simps Let_def split: if_splits)

lemma dd_scale_unit: "dd_scale dd brake = Inr (s, a, reasons) \<Longrightarrow> unit_float s"
  by (auto simp: dd_scale_def res_simps split: if_splits)

text \<open>A drawdown that is a finite number of at least zero and below the brake.\<close>

definition below_brake :: "pyfloat \<Rightarrow> pyval \<Rightarrow> bool" where
  "below_brake brake v \<longleftrightarrow> (\<exists>d. number_of v = Some d \<and> f_isfinite d \<and> f_le (Fin 0) d \<and> \<not> f_le brake d)"

lemma dd_scale_allowed:
  assumes "dd_scale dd brake = Inr (s, a, reasons)"
  shows "a \<longleftrightarrow> dd = PNone \<or> below_brake brake dd" and "\<not> a \<Longrightarrow> s = Fin 0"
proof -
  have nonneg: "\<not> f_lt x (Fin 0) \<longleftrightarrow> f_le (Fin 0) x" if "f_isfinite x" for x
    using f_finite_not_lt [OF that, of "Fin 0"] by simp
  show "a \<longleftrightarrow> dd = PNone \<or> below_brake brake dd"
  proof (cases "dd = PNone")
    case True
    then show ?thesis using assms by (simp add: dd_scale_def)
  next
    case False
    then obtain bad where bad: "invalid_number negative dd = Inr bad"
      using assms by (auto simp: dd_scale_def res_simps)
    show ?thesis
    proof (cases bad)
      case True
      then have "\<not> a" using assms bad False by (simp add: dd_scale_def)
      moreover have "\<not> below_brake brake dd"
        using invalid_number_True [of negative dd] bad True nonneg by (auto simp: below_brake_def)
      ultimately show ?thesis using False by simp
    next
      case ok: False
      then obtain x where x: "number_of dd = Some x" "f_isfinite x" "\<not> f_lt x (Fin 0)"
        using bad by (auto simp: invalid_number_False)
      have "a \<longleftrightarrow> \<not> f_le brake x"
        using assms bad False ok number_of_py_float [OF x(1)]
        by (auto simp: dd_scale_def split: if_splits)
      then show ?thesis using x False nonneg [OF x(2)] by (auto simp: below_brake_def)
    qed
  qed
  show "s = Fin 0" if "\<not> a"
    using assms that by (auto simp: dd_scale_def res_simps split: if_splits)
qed

lemma resolve_target_valid:
  "resolve_target t = Inr (bad, x) \<Longrightarrow> \<not> bad \<longleftrightarrow> t = PNone \<or> finite_pos t"
  using finite_pos_check [of t] by (auto simp: resolve_target_def res_simps split: if_splits)

text \<open>A product with a zero factor is zero, or NaN when the other factor is not finite.\<close>

definition no_room :: "pyfloat \<Rightarrow> bool" where
  "no_room x \<longleftrightarrow> x = NaN \<or> f_is_zero x"

lemma no_room_mul: "no_room x \<or> no_room y \<Longrightarrow> no_room (f_mul x y)"
  by (cases x; cases y) (auto simp: no_room_def f_mul_def f_is_zero_def Let_def)

lemma no_room_zero [simp]: "no_room (Fin 0)"
  by (simp add: no_room_def f_is_zero_def)

lemma no_room_clamp: "no_room x \<Longrightarrow> f_is_zero (clamp_unit x)"
  by (auto simp: no_room_def f_is_zero_def clamp_unit_def f_lt_def)

lemma valid_envelope_zero:
  assumes "vol_scale rv target = Inr (vs, vr)" "dd_scale dd (bd_brake b) = Inr (ds, a, dr)"
    and "\<not> (en_new_risk_allowed (valid_envelope p r False b (vs, vr) (ds, a, dr)))"
  shows "f_is_zero (en_combined_scale (valid_envelope p r False b (vs, vr) (ds, a, dr)))"
proof -
  have "vs = Fin 0 \<or> ds = Fin 0"
    using assms(3) vol_scale_reasons [OF assms(1)] dd_scale_allowed [OF assms(2)]
    by (auto simp: valid_envelope_def)
  then have "no_room (f_mul (f_mul (bd_scale b) vs) ds)"
    using no_room_mul [of _ "Fin 0"] no_room_mul [of "Fin 0"] no_room_mul [of "f_mul (bd_scale b) (Fin 0)"]
    by (auto simp: no_room_zero)
  then show ?thesis by (simp add: valid_envelope_def no_room_clamp)
qed

text \<open>The shape of every successful evaluation.\<close>

lemma envelope_cases:
  assumes "evaluate_capital_risk_envelope eq rv dd pref target = Inr e"
  obtains (invalid) p r where "\<not> finite_nonneg eq" "e = invalid_envelope p (r @ [''INVALID_EQUITY_FAIL_CLOSED''])"
  | (valid) p r x bad t vs vr ds a dr where "number_of eq = Some x" "f_isfinite x" "f_le (Fin 0) x"
      "resolve_target target = Inr (bad, t)" "vol_scale rv t = Inr (vs, vr)"
      "dd_scale dd (bd_brake (resolve_band x)) = Inr (ds, a, dr)"
      "e = valid_envelope p r bad (resolve_band x) (vs, vr) (ds, a, dr)"
proof -
  obtain p r where pr: "resolve_preference pref = (p, r)" by fastforce
  obtain bad where bad: "invalid_number negative eq = Inr bad"
    using assms pr by (auto simp: evaluate_capital_risk_envelope_def res_simps)
  show thesis
  proof (cases bad)
    case True
    then show thesis
      using assms pr bad finite_nonneg_check [OF bad] invalid [of p r]
      by (simp add: evaluate_capital_risk_envelope_def)
  next
    case False
    then obtain x where x: "number_of eq = Some x" "f_isfinite x" "\<not> f_lt x (Fin 0)"
      using bad by (auto simp: invalid_number_False)
    have "f_le (Fin 0) x" using x f_finite_not_lt [of x "Fin 0"] by simp
    with x pr bad False assms number_of_py_float [OF x(1)] show thesis
      by (auto simp: evaluate_capital_risk_envelope_def res_simps Let_def intro!: valid)
  qed
qed

text \<open>The envelope in terms of its inputs.\<close>

lemma envelope_allows:
  assumes "evaluate_capital_risk_envelope eq rv dd pref target = Inr e"
  shows "en_new_risk_allowed e \<longleftrightarrow>
    finite_nonneg eq \<and> (target = PNone \<or> finite_pos target) \<and> (rv = PNone \<or> finite_nonneg rv)
    \<and> (dd = PNone \<or> below_brake (en_dd_brake e) dd)"
  using assms
proof (cases rule: envelope_cases)
  case invalid
  then show ?thesis by (simp add: invalid_envelope_def)
next
  case (valid p r x bad t vs vr ds a dr)
  then have "finite_nonneg eq" by (auto simp: finite_nonneg_def)
  then show ?thesis
    using valid resolve_target_valid [OF valid(4)] vol_scale_reasons(1) [OF valid(5)]
      dd_scale_allowed(1) [OF valid(6)]
    by (auto simp: valid_envelope_def)
qed

lemma envelope_scales:
  assumes "evaluate_capital_risk_envelope eq rv dd pref target = Inr e"
  shows "unit_float (en_combined_scale e) \<and> unit_float (en_capital_scale e)
    \<and> unit_float (en_vol_scale e) \<and> unit_float (en_dd_scale e)
    \<and> unit_float (lc_max_3x_etf_weight (en_leverage_product_cap e))"
  using assms
proof (cases rule: envelope_cases)
  case (valid p r x bad t vs vr ds a dr)
  then show ?thesis
    using vol_scale_unit [OF valid(5)] dd_scale_unit [OF valid(6)] by (simp add: valid_envelope_def)
qed (simp add: invalid_envelope_def)

lemma envelope_prohibited_zero:
  assumes "evaluate_capital_risk_envelope eq rv dd pref target = Inr e"
    and "\<not> en_new_risk_allowed e"
  shows "f_is_zero (en_combined_scale e) \<or> ''INVALID_TARGET_VOL_FAIL_CLOSED'' \<in> set (en_reasons e)"
  using assms(1)
proof (cases rule: envelope_cases)
  case (valid p r x bad t vs vr ds a dr)
  then show ?thesis
    using assms(2) valid_envelope_zero [OF valid(5, 6)] by (cases bad) (auto simp: valid_envelope_def)
qed (simp add: invalid_envelope_def f_is_zero_def)

lemma envelope_no_authority:
  "evaluate_capital_risk_envelope eq rv dd pref target = Inr e \<Longrightarrow> \<not> en_live_authority_granted e"
  by (erule envelope_cases) (simp_all add: invalid_envelope_def valid_envelope_def)


text \<open>Every scale of an envelope lies between zero and one, so that an envelope never enlarges
  a position, and an envelope that prohibits new risk has a combined scale of zero unless its only
  reason is an invalid target volatility.\<close>

theorem envelope_scale_bounds:
  assumes "evaluate_capital_risk_envelope eq rv dd pref target = Inr e"
  shows "unit_float (en_combined_scale e) \<and> unit_float (en_capital_scale e)
    \<and> unit_float (en_vol_scale e) \<and> unit_float (en_dd_scale e)
    \<and> unit_float (lc_max_3x_etf_weight (en_leverage_product_cap e))
    \<and> (en_new_risk_allowed e \<or> f_is_zero (en_combined_scale e)
         \<or> ''INVALID_TARGET_VOL_FAIL_CLOSED'' \<in> set (en_reasons e))"
  using envelope_scales [OF assms] envelope_prohibited_zero [OF assms] by blast

section \<open>Weights and targets\<close>

lemma f_min_zero:
  assumes "f_is_zero z" "f_isfinite w" "f_le (Fin 0) w"
  shows "f_is_zero (f_min w z)"
  using assms by (cases w) (auto simp: f_min_def f_is_zero_def f_lt_def)

lemma f_min_unit:
  assumes "f_isfinite w" "f_le (Fin 0) w"
  shows "unit_float (f_min w (Fin 1))" and "f_le (f_min w (Fin 1)) w"
  using assms by (cases w; auto simp: f_min_def unit_float_def f_lt_def)+

lemma f_min_below:
  assumes "unit_float m" "f_isfinite x" "f_le (Fin 0) x"
  shows "unit_float (f_min m x) \<and> f_le (f_min m x) m"
  using assms unit_float_finite [OF assms(1)]
  by (cases m; cases x) (auto simp: f_min_def unit_float_def f_lt_def)

lemma sized_weight_cases:
  assumes "apply_envelope_to_sized_weight w (Some e) = Inr (Some x)" "number_of w = Some y"
    "f_isfinite y" "f_le (Fin 0) y"
  defines "out \<equiv> f_mul y (clamp_unit (en_combined_scale e))"
  shows "x = (if \<not> f_isfinite out \<or> f_lt out (Fin 0) then Fin 0 else f_min (f_min y (Fin 1)) out)"
proof -
  have "\<not> f_lt y (Fin 0)" using assms(3, 4) f_finite_not_lt [of y "Fin 0"] by simp
  then have "invalid_number negative w = Inr False" using assms by (auto simp: invalid_number_False)
  then show ?thesis
    using assms(1) number_of_py_float [OF assms(2)]
    by (auto simp: apply_envelope_to_sized_weight_def out_def Let_def split: if_splits)
qed

text \<open>Scaling a sized weight by an envelope only shrinks it: the result is between zero and one,
  and no more than the weight it was given when that is a finite number of at least zero.\<close>

theorem sized_weight_only_shrinks:
  assumes "apply_envelope_to_sized_weight w (Some e) = Inr (Some x)"
  shows "unit_float x \<and> (\<forall>y. number_of w = Some y \<longrightarrow> f_isfinite y \<longrightarrow> f_le (Fin 0) y \<longrightarrow> f_le x y)"
proof (cases "\<exists>y. number_of w = Some y \<and> f_isfinite y \<and> f_le (Fin 0) y")
  case True
  then obtain y where y: "number_of w = Some y" "f_isfinite y" "f_le (Fin 0) y" by blast
  let ?out = "f_mul y (clamp_unit (en_combined_scale e))"
  have out: "f_le (Fin 0) ?out"
    using f_mul_nonneg [OF y(2) unit_float_finite [OF unit_float_clamp] y(3)] unit_float_clamp
    by (simp add: unit_float_def)
  show ?thesis
    using sized_weight_cases [OF assms y] f_min_unit [OF y(2, 3)] out y
      f_min_below [of "f_min y (Fin 1)" ?out] f_le_trans
    by (auto split: if_splits)
next
  case False
  obtain bad where bad: "invalid_number negative w = Inr bad"
    using assms by (auto simp: apply_envelope_to_sized_weight_def res_simps)
  then have "bad" using False finite_nonneg_check [OF bad] by (auto simp: finite_nonneg_def)
  then show ?thesis
    using assms bad False by (auto simp: apply_envelope_to_sized_weight_def)
qed

lemma braked_envelope:
  assumes "evaluate_capital_risk_envelope eq rv dd pref target = Inr e" "finite_nonneg eq"
    and "number_of dd = Some d" "f_isfinite d" "f_le (Fin 0) d" "f_le (en_dd_brake e) d"
  shows "''DRAWDOWN_BRAKE_TRIPPED'' \<in> set (en_reasons e) \<and> f_is_zero (en_combined_scale e)"
  using assms(1)
proof (cases rule: envelope_cases)
  case invalid
  then show ?thesis using assms(2) by simp
next
  case (valid p r x bad t vs vr ds a dr)
  have "dd \<noteq> PNone" using assms(3) by auto
  moreover have "invalid_number negative dd = Inr False"
    using assms(3, 4, 5) f_finite_not_lt [of d "Fin 0"] by (auto simp: invalid_number_False)
  moreover have "en_dd_brake e = bd_brake (resolve_band x)" using valid by (simp add: valid_envelope_def)
  ultimately have "ds = Fin 0 \<and> dr = [''DRAWDOWN_BRAKE_TRIPPED'']"
    using valid(6) assms(6) number_of_py_float [OF assms(3)] by (simp add: dd_scale_def)
  then show ?thesis
    using valid(7) no_room_clamp [OF no_room_mul [of _ "Fin 0"]] by (simp add: valid_envelope_def)
qed


text \<open>What a list of scaled targets holds: every amount comes from a usable target of that symbol
  and lies between zero and its amount.\<close>

definition shrunk :: "pydict \<Rightarrow> (string \<times> pyfloat) list \<Rightarrow> bool" where
  "shrunk items out \<longleftrightarrow> (\<forall>(symbol, x) \<in> set out. \<exists>key v a. (key, v) \<in> set items \<and> strip key = symbol
     \<and> symbol \<noteq> [] \<and> py_float v = Inr a \<and> f_isfinite a \<and> f_le (Fin 0) x \<and> f_le x a)"

lemma set_dict_set: "p \<in> set (dict_set d k v) \<Longrightarrow> p \<in> set d \<or> p = (k, v)"
  by (induction d) (auto split: if_splits)

lemma usable_amount_Some:
  "usable_amount v = Inr (Some a) \<Longrightarrow> py_float v = Inr a \<and> f_isfinite a \<and> f_le (Fin 0) a"
  using f_finite_not_lt [of a "Fin 0"]
  by (auto simp: usable_amount_def split: if_splits sum.splits)

lemma usable_scale_Some: "usable_scale v = Inr (Some s) \<Longrightarrow> unit_float s"
  by (auto simp: usable_scale_def split: if_splits sum.splits)

lemma scaled_amount:
  assumes "f_isfinite a" "f_le (Fin 0) a" "case scale of None \<Rightarrow> True | Some s \<Rightarrow> unit_float s"
  defines "x \<equiv> (case scale of None \<Rightarrow> a | Some s \<Rightarrow> f_min a (f_mul a s))"
  shows "f_le (Fin 0) x \<and> f_le x a"
proof (cases scale)
  case None
  then show ?thesis using assms f_le_refl [OF f_isfinite_not_NaN [OF assms(1)]] by simp
next
  case (Some s)
  then have s: "f_isfinite s" "f_le (Fin 0) s"
    using assms(3) unit_float_finite [of s] by (auto simp: unit_float_def)
  show ?thesis
    using f_mul_nonneg [OF assms(1) s(1) assms(2) s(2)] f_mul_not_NaN [OF assms(1) s(1)]
      f_min_le [of a "f_mul a s"] f_isfinite_not_NaN [OF assms(1)] f_le_refl [of a] f_min_cases [of a "f_mul a s"] assms(1, 2)
    by (auto simp: x_def Some)
qed

lemma scaled_targets_shrunk:
  assumes "scaled_targets scale items out = Inr out'" "shrunk all out" "set items \<subseteq> set all"
    and "case scale of None \<Rightarrow> True | Some s \<Rightarrow> unit_float s"
  shows "shrunk all out'"
  using assms
proof (induction scale items out arbitrary: out' rule: scaled_targets.induct)
  case (2 scale item items out)
  obtain key v where item: "item = (key, v)" by fastforce
  from 2 item obtain out1 where step: "scaled_target scale item out = Inr out1"
    and rest: "scaled_targets scale items out1 = Inr out'"
    by (auto simp: res_simps)
  have "shrunk all out1"
  proof (cases "strip key = []")
    case True
    then show ?thesis using step item 2(3) by (simp add: scaled_target_def)
  next
    case False
    then obtain amount where amount: "usable_amount v = Inr amount"
      using step item by (auto simp: scaled_target_def res_simps)
    show ?thesis
    proof (cases amount)
      case None
      then show ?thesis using step item amount 2(3) False by (simp add: scaled_target_def Let_def)
    next
      case (Some a)
      note a = usable_amount_Some [OF amount [unfolded Some]]
      let ?x = "case scale of None \<Rightarrow> a | Some s \<Rightarrow> f_min a (f_mul a s)"
      have "out1 = dict_set out (strip key) ?x"
        using step item amount Some False by (simp add: scaled_target_def)
      moreover have "f_le (Fin 0) ?x \<and> f_le ?x a" using scaled_amount [of a scale] a 2(5) by simp
      moreover have "(key, v) \<in> set all" using 2(4) item by simp
      ultimately show ?thesis
        using 2(3) a False unfolding shrunk_def by (auto dest!: set_dict_set)
    qed
  qed
  then show ?case using 2(1) [OF rest] 2(4, 5) by simp
qed simp

text \<open>C37: the envelope's scale never invents a target and never raises one: every scaled target
  belongs to an input of the same symbol and lies between zero and that input's amount, also when
  the scale itself is not usable.\<close>

theorem targets_only_shrink:
  assumes "apply_combined_scale_to_targets (Some targets) scale = Inr out"
  shows "\<forall>(symbol, x) \<in> set out. \<exists>key v a. (key, v) \<in> set targets \<and> strip key = symbol
    \<and> symbol \<noteq> [] \<and> py_float v = Inr a \<and> f_isfinite a \<and> f_le (Fin 0) x \<and> f_le x a"
proof -
  obtain s where s: "usable_scale scale = Inr s" "scaled_targets s targets [] = Inr out"
    using assms by (auto simp: apply_combined_scale_to_targets_def res_simps)
  have "case s of None \<Rightarrow> True | Some s \<Rightarrow> unit_float s"
    using s(1) usable_scale_Some by (auto split: option.splits)
  moreover have "shrunk targets []" by (simp add: shrunk_def)
  ultimately show ?thesis using scaled_targets_shrunk [OF s(2)] by (simp add: shrunk_def)
qed

section \<open>Several accounts\<close>

text \<open>An account whose own envelope lets it take new risk.\<close>

definition healthy_account :: "pyval \<Rightarrow> pydict \<Rightarrow> bool" where
  "healthy_account target account \<longleftrightarrow>
     strip (str_or_empty (dget account ''account_id'')) \<noteq> []
     \<and> (target = PNone \<or> finite_pos target)
     \<and> (dget account ''realized_vol'' = PNone \<or> finite_nonneg (dget account ''realized_vol''))
     \<and> (\<exists>x dd. number_of (dget account ''equity_usd'') = Some x \<and> f_isfinite x \<and> f_le (Fin 0) x
          \<and> account_drawdown account (dget account ''equity_usd'') = Inr dd
          \<and> (dd = PNone \<or> below_brake (bd_brake (resolve_band x)) dd))"

lemma envelope_brake:
  assumes "evaluate_capital_risk_envelope eq rv dd pref target = Inr e"
    "number_of eq = Some x" "f_isfinite x" "f_le (Fin 0) x"
  shows "en_dd_brake e = bd_brake (resolve_band x)"
  using assms(1)
proof (cases rule: envelope_cases)
  case invalid
  then show ?thesis using assms by (auto simp: finite_nonneg_def)
qed (use assms in \<open>simp add: valid_envelope_def\<close>)

lemma account_summary_facts:
  assumes "account_summary pref target account = Inr (s, r)"
  shows "(ae_equity_usd s \<noteq> None \<longleftrightarrow> finite_nonneg (dget account ''equity_usd''))
    \<and> (en_new_risk_allowed (ae_envelope s) \<and> ae_account_id s \<noteq> [] \<longleftrightarrow> healthy_account target account)"
proof -
  let ?eq = "dget account ''equity_usd''"
  obtain valid equity dd e where v: "valid_equity ?eq = Inr valid"
      "(if valid then map_res Some (py_float ?eq) else Inr None) = Inr equity"
      "account_drawdown account ?eq = Inr dd"
      "evaluate_capital_risk_envelope (if equity \<noteq> None then ?eq else PFloat NaN)
         (dget account ''realized_vol'') dd pref target = Inr e"
    and s: "s = \<lparr>ae_account_id = strip (str_or_empty (dget account ''account_id'')),
      ae_equity_usd = equity, ae_envelope = e\<rparr>"
    using assms by (auto simp: account_summary_def Let_def bind_res_Inr_iff)
  have valid: "valid \<longleftrightarrow> finite_nonneg ?eq" and eq: "equity \<noteq> None \<longleftrightarrow> valid"
    using v(1, 2) finite_nonneg_check [of ?eq] by (auto simp: valid_equity_def res_simps split: if_splits)
  show ?thesis
  proof (cases valid)
    case True
    then obtain x where x: "number_of ?eq = Some x" "f_isfinite x" "f_le (Fin 0) x"
      using valid by (auto simp: finite_nonneg_def)
    have ev: "evaluate_capital_risk_envelope ?eq (dget account ''realized_vol'') dd pref target = Inr e"
      using v(4) eq True by simp
    show ?thesis
      using envelope_allows [OF ev] envelope_brake [OF ev x] x v(3) s eq True valid
      by (auto simp: healthy_account_def)
  next
    case False
    have "\<not> finite_nonneg (PFloat NaN)" by (auto simp: finite_nonneg_def)
    then have "\<not> en_new_risk_allowed e" using envelope_allows [OF v(4)] eq False by simp
    moreover have "\<not> healthy_account target account"
      using valid False by (auto simp: healthy_account_def finite_nonneg_def)
    ultimately show ?thesis using s eq valid False by simp
  qed
qed

lemma account_summary_pair:
  "account_summary pref target account = Inr p \<Longrightarrow>
    (ae_equity_usd (fst p) \<noteq> None \<longleftrightarrow> finite_nonneg (dget account ''equity_usd''))
    \<and> (en_new_risk_allowed (ae_envelope (fst p)) \<and> ae_account_id (fst p) \<noteq> []
      \<longleftrightarrow> healthy_account target account)"
  by (rule account_summary_facts [where r = "snd p"]) simp

text \<open>C35: the view over several accounts allows new risk exactly when there is an account, every
  account is named, has a valid equity and is allowed new risk by its own envelope, and the sum of
  the equities is still finite: one unhealthy account stops them all.\<close>

theorem multi_account_allows_iff:
  assumes "evaluate_multi_account_envelope_view accounts pref target = Inr v"
  shows "mv_new_risk_allowed v \<longleftrightarrow> accounts \<noteq> [] \<and> (\<forall>a \<in> set accounts. healthy_account target a)
    \<and> (\<exists>t. mv_total_equity_usd v = Some t \<and> finite_nonneg (PFloat t))"
proof -
  obtain rs agg where rs: "mapM (account_summary pref target) accounts = Inr rs"
    and agg: "evaluate_capital_risk_envelope (PFloat (if map fst rs \<noteq> [] \<and>
        (\<forall>s \<in> set (map fst rs). ae_equity_usd s \<noteq> None) then total_equity (Fin 0) (map fst rs) else NaN))
        PNone PNone pref target = Inr agg"
    and v: "mv_total_equity_usd v = (if map fst rs \<noteq> [] \<and> (\<forall>s \<in> set (map fst rs). ae_equity_usd s \<noteq> None)
        then Some (total_equity (Fin 0) (map fst rs)) else None)"
      "mv_new_risk_allowed v \<longleftrightarrow> en_new_risk_allowed agg
        \<and> \<not> (\<exists>s \<in> set (map fst rs). \<not> en_new_risk_allowed (ae_envelope s) \<or> ae_account_id s = [])
        \<and> (map fst rs \<noteq> [] \<and> (\<forall>s \<in> set (map fst rs). ae_equity_usd s \<noteq> None))"
    using assms by (auto simp: evaluate_multi_account_envelope_view_def Let_def bind_res_Inr_iff)
  have pairs: "list_all2 (\<lambda>a p. account_summary pref target a = Inr p) accounts rs"
    using rs by (simp add: mapM_Inr_iff)
  then have "list_all2 (\<lambda>a p. (ae_equity_usd (fst p) \<noteq> None \<longleftrightarrow> finite_nonneg (dget a ''equity_usd''))
      \<and> (en_new_risk_allowed (ae_envelope (fst p)) \<and> ae_account_id (fst p) \<noteq> [] \<longleftrightarrow> healthy_account target a))
      accounts rs"
    by (rule list_all2_mono) (rule account_summary_pair)
  then have all: "(\<forall>s \<in> set (map fst rs). en_new_risk_allowed (ae_envelope s) \<and> ae_account_id s \<noteq> [])
      \<longleftrightarrow> (\<forall>a \<in> set accounts. healthy_account target a)"
    and some: "(\<forall>s \<in> set (map fst rs). ae_equity_usd s \<noteq> None)
      \<longleftrightarrow> (\<forall>a \<in> set accounts. finite_nonneg (dget a ''equity_usd''))"
    by (induction accounts rs rule: list_all2_induct) auto
  have ne: "map fst rs \<noteq> [] \<longleftrightarrow> accounts \<noteq> []" using pairs list_all2_lengthD by fastforce
  have tgt: "(\<forall>a \<in> set accounts. healthy_account target a) \<and> accounts \<noteq> [] \<Longrightarrow>
      (target = PNone \<or> finite_pos target) \<and> (\<forall>a \<in> set accounts. finite_nonneg (dget a ''equity_usd''))"
    by (cases accounts) (auto simp: healthy_account_def finite_nonneg_def)
  have nan: "\<not> finite_nonneg (PFloat NaN)" by (auto simp: finite_nonneg_def)
  show ?thesis
    using v all some ne tgt envelope_allows [OF agg] nan by (auto split: if_splits)
qed

section \<open>Concrete inputs\<close>

lemma float_brake: "to_float (3 / 20) = Fin (5404319552844595 / 36028797018963968)"
proof -
  have "coprime (3 :: int) 20" by code_simp
  from quotient_of_ratio [OF _ this] have "quotient_of (3 / 20) = (3, 20)" by simp
  then show ?thesis by (simp add: float_eval)
qed

lemma float_half: "to_float (1 / 2) = Fin (1 / 2)" "to_float (1 / 4) = Fin (1 / 4)"
  using quotient_of_ratio [of 2 1] quotient_of_ratio [of 4 1] by (simp_all add: float_eval)

lemma float_50: "to_float 50 = Fin 50"
  by (simp add: float_eval)

lemmas envelope_eval = evaluate_capital_risk_envelope_def resolve_preference_def invalid_number_def
  resolve_target_def vol_scale_def dd_scale_def resolve_band_def f_lt_def valid_envelope_def
  band_under_50k_def float_brake Let_def

lemma sample_envelope:
  "\<exists>e. evaluate_capital_risk_envelope (PFloat (Fin 30000)) PNone (PFloat (Fin d)) PNone PNone = Inr e
     \<and> en_dd_brake e = Fin (5404319552844595 / 36028797018963968)"
  by (simp add: envelope_eval)


theorem envelope_scale_bounds_witness:
  "\<exists>e. evaluate_capital_risk_envelope (PFloat (Fin 30000)) PNone (PFloat (Fin (1 / 8))) PNone PNone = Inr e
     \<and> unit_float (en_combined_scale e)"
  using sample_envelope [of "1 / 8"] envelope_scale_bounds by blast

definition half_envelope :: envelope where
  "half_envelope = (valid_envelope None [] False band_under_50k (Fin 1, []) (Fin 1, True, []))
     \<lparr>en_combined_scale := Fin (1 / 2)\<rparr>"

theorem sized_weight_only_shrinks_witness:
  "apply_envelope_to_sized_weight (PFloat (Fin (1 / 2))) (Some half_envelope) = Inr (Some (Fin (1 / 4)))
     \<and> f_le (Fin (1 / 4)) (Fin (1 / 2))"
proof -
  have run: "apply_envelope_to_sized_weight (PFloat (Fin (1 / 2))) (Some half_envelope)
      = Inr (Some (Fin (1 / 4)))"
    by (simp add: apply_envelope_to_sized_weight_def invalid_number_def half_envelope_def
        valid_envelope_def band_under_50k_def upper_def clamp_unit_def f_lt_def f_mul_def f_is_zero_def
        float_half f_min_def invalid_risk_input_reasons_def upper_char_def)
  show ?thesis using run sized_weight_only_shrinks [OF run] by simp
qed


definition sample_targets :: pydict where
  "sample_targets = [('' SPY'', PFloat (Fin 100)), (''QQQ'', PNone)]"

theorem targets_only_shrink_witness:
  "\<exists>out. apply_combined_scale_to_targets (Some sample_targets) (PFloat (Fin (1 / 2))) = Inr out
     \<and> out = [(''SPY'', Fin 50)] \<and> (\<forall>(symbol, x) \<in> set out. f_le x (Fin 100))"
proof -
  have strip: "strip '' SPY'' = ''SPY''" "strip ''QQQ'' = ''QQQ''" by code_simp+
  have run: "apply_combined_scale_to_targets (Some sample_targets) (PFloat (Fin (1 / 2)))
      = Inr [(''SPY'', Fin 50)]"
    by (simp add: apply_combined_scale_to_targets_def sample_targets_def usable_scale_def strip
        scaled_target_def usable_amount_def clamp_unit_def f_lt_def f_mul_def f_is_zero_def
        float_50 f_min_def py_float_def)
  show ?thesis using targets_only_shrink [OF run] run
    by (auto simp: sample_targets_def py_float_def)
qed

definition sample_accounts :: "pydict list" where
  "sample_accounts = [[(''account_id'', PStr ''A''), (''equity_usd'', PFloat (Fin 30000))]]"

theorem multi_account_allows_witness:
  "\<exists>v. evaluate_multi_account_envelope_view sample_accounts PNone PNone = Inr v \<and> mv_new_risk_allowed v"
proof -
  have id: "strip ''A'' = ''A''" by code_simp
  have sum: "to_float 30000 = Fin 30000" by (simp add: float_eval)
  obtain v where v: "evaluate_multi_account_envelope_view sample_accounts PNone PNone = Inr v"
    "mv_total_equity_usd v = Some (Fin 30000)"
    by (simp add: evaluate_multi_account_envelope_view_def sample_accounts_def account_summary_def
        valid_equity_def account_drawdown_def dget_def envelope_eval id sum)
  have "healthy_account PNone (hd sample_accounts)"
    by (simp add: healthy_account_def sample_accounts_def id dget_def account_drawdown_def)
  then show ?thesis
    using multi_account_allows_iff [OF v(1)] v
    by (simp add: sample_accounts_def finite_nonneg_def)
qed

end
