(* ===== verification/NewRiskGate.thy ===== *)
theory NewRiskGate
  imports CapitalEnvelope
begin

text \<open>
  The account's new-risk gate (\<open>risk/account_new_risk_gate.py\<close>) with the production drift axis
  (\<open>risk/production_drift_new_risk.py\<close>): from one injected snapshot it decides only whether new
  risk is prohibited. The numbers of a snapshot and its drift status are dynamic values.
\<close>

section \<open>The production drift axis\<close>

text \<open>A drift status is a dynamic value or an enum member, of which the code reads the value.\<close>

datatype drift_arg = DriftEnum pyval | DriftValue pyval

definition allowed_statuses :: "string list" where
  "allowed_statuses = [''healthy'', ''watch'', ''review'', ''critical'']"

definition actionable_statuses :: "string list" where
  "actionable_statuses = [''review'', ''critical'']"

definition normalize_production_drift_status :: "drift_arg \<Rightarrow> string option res" where
  "normalize_production_drift_status status =
     (if status = DriftValue PNone then Inr None
      else case (case status of DriftEnum v \<Rightarrow> v | DriftValue v \<Rightarrow> v) of
        PStr s \<Rightarrow> Inr (let normalized = lower (strip s) in if normalized = [] then None else Some normalized)
      | _ \<Rightarrow> Inl (TypeError ''production_drift_status must be str, enum, or None''))"

definition production_drift_new_risk_reasons :: "drift_arg \<Rightarrow> string list" where
  "production_drift_new_risk_reasons status =
     (case normalize_production_drift_status status of
        Inl _ \<Rightarrow> [''PRODUCTION_DRIFT_STATUS_INVALID_FAIL_CLOSED'']
      | Inr None \<Rightarrow> []
      | Inr (Some normalized) \<Rightarrow>
          if normalized \<notin> set allowed_statuses then [''PRODUCTION_DRIFT_STATUS_INVALID_FAIL_CLOSED'']
          else if normalized \<in> set actionable_statuses then [''PRODUCTION_DRIFT_'' @ upper normalized]
          else [])"

text \<open>A drift result as the code reads it: its two attributes, None where it lacks one, and the
  object itself, which stands for the status when there is no such attribute.\<close>

record drift_result =
  dr_baseline_available :: "pyval option"
  dr_status :: "drift_arg option"
  dr_self :: drift_arg

definition production_drift_status_from_result :: "drift_result option \<Rightarrow> string option res" where
  "production_drift_status_from_result drift =
     (case drift of None \<Rightarrow> Inr None
      | Some d \<Rightarrow> if dr_baseline_available d = Some (PBool False) then Inr None
          else normalize_production_drift_status
                 (case dr_status d of None \<Rightarrow> dr_self d | Some status \<Rightarrow> status))"

text \<open>The status a probe summary retains: a ban stays known when the observation has expired.\<close>

definition production_drift_status_from_probe_summary :: "pydict option \<Rightarrow> string option" where
  "production_drift_status_from_probe_summary summary =
     (case summary of None \<Rightarrow> None
      | Some d \<Rightarrow>
        (case normalize_production_drift_status (DriftValue (dget d ''status'')) of
           Inl _ \<Rightarrow> None
         | Inr None \<Rightarrow> None
         | Inr (Some normalized) \<Rightarrow>
             if normalized \<in> {''parked'', ''unavailable''} then
               (case dget d ''risk_status'' of
                  PStr s \<Rightarrow> if s \<in> set actionable_statuses then Some s else None
                | _ \<Rightarrow> None)
             else if normalized \<in> set allowed_statuses then Some normalized
             else None))"

text \<open>\<open>probe\<close> is the store probe the caller injects, or the code's default one; it may raise.\<close>

definition resolve_production_drift_status_from_store ::
  "(string \<Rightarrow> string \<Rightarrow> pydict option res) \<Rightarrow> string \<Rightarrow> string \<Rightarrow> string option" where
  "resolve_production_drift_status_from_store probe strategy_profile domain =
     (let profile = strip strategy_profile; domain_key = strip domain in
      if profile = [] \<or> domain_key = [] then None
      else case probe profile domain_key of
        Inl _ \<Rightarrow> None
      | Inr summary \<Rightarrow> production_drift_status_from_probe_summary summary)"

section \<open>Snapshots\<close>

record injected_snapshot =
  sn_observation_status :: string
  sn_reconciliation_status :: string
  sn_circuit_breaker_state :: string
  sn_equity_usd :: pyval
  sn_peak_equity_usd :: pyval
  sn_drawdown_from_peak :: pyval
  sn_realized_vol :: pyval
  sn_production_drift_status :: drift_arg
  sn_daily_loss_usd :: pyval

datatype new_risk_disposition = ALLOW_NEW_RISK | NEW_RISK_PROHIBITED

record new_risk_result =
  nr_disposition :: new_risk_disposition
  nr_reason_codes :: "string list"
  nr_combined_scale :: "pyfloat option"
  nr_live_authority_granted :: bool
  nr_circuit_breaker_reset :: bool
  nr_account_enablement_changed :: bool
  nr_risk_input_invalid :: bool
  nr_hard_brake_triggered :: bool

definition envelope_prohibit_reasons :: "string list" where
  "envelope_prohibit_reasons =
     [''INVALID_EQUITY_FAIL_CLOSED'', ''INVALID_DRAWDOWN_FAIL_CLOSED'',
      ''INVALID_REALIZED_VOL_FAIL_CLOSED'', ''INVALID_TARGET_VOL_FAIL_CLOSED'',
      ''DRAWDOWN_BRAKE_TRIPPED'']"

text \<open>AccountNewRiskGateError is a ValueError. None is a snapshot of another class.\<close>

definition validate_injected_snapshot :: "injected_snapshot option \<Rightarrow> injected_snapshot res" where
  "validate_injected_snapshot snapshot =
     (case snapshot of
        None \<Rightarrow> Inl (ValueError ''snapshot must be InjectedReconciliationSnapshot'')
      | Some s \<Rightarrow>
        require (sn_observation_status s \<in> {''COMPLETE'', ''STALE'', ''UNAVAILABLE''})
          (ValueError ''observation_status is not an allowed enum value'')
        (require (sn_reconciliation_status s \<in> {''VERIFIED'', ''UNVERIFIED'', ''FAILED''})
          (ValueError ''reconciliation_status is not an allowed enum value'')
        (require (sn_circuit_breaker_state s \<in> {''CLOSED'', ''OPEN''})
          (ValueError ''circuit_breaker_state is not an allowed enum value'')
        (Inr s))))"

section \<open>The axes\<close>

text \<open>\<open>equity\<close> is the float the caller derived; a bad peak gives NaN, which the envelope rejects.\<close>

definition derive_drawdown_from_peak :: "pyfloat \<Rightarrow> pyval \<Rightarrow> pyval \<Rightarrow> pyval res" where
  "derive_drawdown_from_peak equity peak drawdown =
     (if drawdown \<noteq> PNone then Inr drawdown
      else if peak = PNone then Inr PNone
      else bind_res (invalid_number not_positive peak) (\<lambda>bad.
        if bad then Inr (PFloat NaN)
        else bind_res (py_float peak) (\<lambda>p. Inr (PFloat (drawdown_of equity p)))))"

definition prohibiting :: "string list \<Rightarrow> string list" where
  "prohibiting reasons = filter (\<lambda>code. code \<in> set envelope_prohibit_reasons) reasons"

text \<open>The peak's own brake, when an explicit drawdown is malformed.\<close>

definition peak_brake :: "pyval \<Rightarrow> pyval \<Rightarrow> bool res" where
  "peak_brake equity_usd peak =
     (if peak = PNone \<or> is_bool equity_usd \<or> \<not> is_number equity_usd then Inr False
      else bind_res (py_float equity_usd) (\<lambda>equity.
        if \<not> f_isfinite equity then Inr False
        else bind_res (derive_drawdown_from_peak equity peak PNone) (\<lambda>peak_drawdown.
          bind_res (default_envelope equity_usd peak_drawdown) (\<lambda>peak_envelope.
          Inr (''DRAWDOWN_BRAKE_TRIPPED'' \<in> set (en_reasons peak_envelope))))))"

definition capital_verdict :: "envelope \<Rightarrow> string list \<times> pyfloat option" where
  "capital_verdict envelope =
     (if en_new_risk_allowed envelope then ([], Some (en_combined_scale envelope))
      else let found = prohibiting (en_reasons envelope);
               reasons = (if found = [] then [''CAPITAL_ENVELOPE_NEW_RISK_PROHIBITED''] else found);
               data_error = (set invalid_risk_input_reasons \<inter> set reasons \<noteq> {})
           in (reasons, if data_error \<and> ''DRAWDOWN_BRAKE_TRIPPED'' \<notin> set reasons then None
                        else Some (en_combined_scale envelope)))"

definition evaluate_capital_axis :: "injected_snapshot \<Rightarrow> (string list \<times> pyfloat option) res" where
  "evaluate_capital_axis s =
     (let equity_usd = sn_equity_usd s; peak = sn_peak_equity_usd s in
      if equity_usd = PNone then Inr ([''EQUITY_UNKNOWN_FAIL_CLOSED''], None)
      else bind_res (if is_number equity_usd \<and> \<not> is_bool equity_usd then py_float equity_usd
                     else Inr NaN) (\<lambda>equity.
        bind_res (derive_drawdown_from_peak equity peak (sn_drawdown_from_peak s)) (\<lambda>drawdown.
        bind_res (evaluate_capital_risk_envelope equity_usd (sn_realized_vol s) drawdown PNone
            (PFloat default_target_vol)) (\<lambda>envelope.
        bind_res (if peak = PNone then Inr False else invalid_number not_positive peak)
          (\<lambda>peak_invalid.
        if peak_invalid then
          (let found = prohibiting (en_reasons envelope);
               reasons = append_new found ''INVALID_DRAWDOWN_FAIL_CLOSED''
           in Inr (reasons, if ''DRAWDOWN_BRAKE_TRIPPED'' \<in> set reasons then Some (Fin 0) else None))
        else bind_res (if ''INVALID_DRAWDOWN_FAIL_CLOSED'' \<in> set (en_reasons envelope)
                       then peak_brake equity_usd peak else Inr False) (\<lambda>braked.
          if braked then
            Inr (prohibiting (en_reasons envelope) @ [''DRAWDOWN_BRAKE_TRIPPED''], Some (Fin 0))
          else Inr (capital_verdict envelope)))))))"

text \<open>\<open>limits\<close> is what the caller passes: None, another class, or the daily loss limit of its
  \<open>RuntimeRiskLimits\<close>, which may be None.\<close>

datatype limits_arg = NoLimits | NotLimits | DailyLimit pyval

definition evaluate_daily_loss_axis :: "injected_snapshot \<Rightarrow> limits_arg \<Rightarrow> string list res" where
  "evaluate_daily_loss_axis s limits =
     (case limits of
        NoLimits \<Rightarrow> Inr []
      | NotLimits \<Rightarrow> Inl (ValueError ''runtime_risk_limits must be RuntimeRiskLimits'')
      | DailyLimit limit \<Rightarrow>
        if limit = PNone then Inr []
        else bind_res (invalid_number negative (sn_daily_loss_usd s)) (\<lambda>bad.
          if bad then Inr [''DAILY_LOSS_UNKNOWN_FAIL_CLOSED'']
          else bind_res (py_float (sn_daily_loss_usd s)) (\<lambda>loss. bind_res (py_float limit) (\<lambda>l.
            Inr (if f_le l loss then [''DAILY_LOSS_LIMIT_EXCEEDED''] else [])))))"

section \<open>The decision\<close>

definition status_reasons :: "injected_snapshot \<Rightarrow> string list" where
  "status_reasons s =
     (if sn_observation_status s \<noteq> ''COMPLETE'' then [''OBSERVATION_NOT_COMPLETE''] else [])
     @ (if sn_reconciliation_status s \<noteq> ''VERIFIED'' then [''RECONCILIATION_NOT_VERIFIED''] else [])
     @ (if sn_circuit_breaker_state s \<noteq> ''CLOSED'' then [''CIRCUIT_BREAKER_OPEN''] else [])"

definition evaluate_new_risk_admission ::
  "injected_snapshot option \<Rightarrow> limits_arg \<Rightarrow> new_risk_result res" where
  "evaluate_new_risk_admission snapshot limits =
     bind_res (validate_injected_snapshot snapshot) (\<lambda>validated.
     bind_res (evaluate_capital_axis validated) (\<lambda>(capital_reasons, combined_scale).
     bind_res (evaluate_daily_loss_axis validated limits) (\<lambda>loss_reasons.
     let reasons = status_reasons validated @ capital_reasons @ loss_reasons
           @ production_drift_new_risk_reasons (sn_production_drift_status validated) in
     Inr (if reasons \<noteq> [] then
       \<lparr>nr_disposition = NEW_RISK_PROHIBITED, nr_reason_codes = reasons,
        nr_combined_scale = combined_scale, nr_live_authority_granted = False,
        nr_circuit_breaker_reset = False, nr_account_enablement_changed = False,
        nr_risk_input_invalid = (set invalid_risk_input_reasons \<inter> set reasons \<noteq> {}
          \<or> ''EQUITY_UNKNOWN_FAIL_CLOSED'' \<in> set reasons),
        nr_hard_brake_triggered = (''DRAWDOWN_BRAKE_TRIPPED'' \<in> set reasons)\<rparr>
     else
       \<lparr>nr_disposition = ALLOW_NEW_RISK, nr_reason_codes = [], nr_combined_scale = combined_scale,
        nr_live_authority_granted = False, nr_circuit_breaker_reset = False,
        nr_account_enablement_changed = False, nr_risk_input_invalid = False,
        nr_hard_brake_triggered = False\<rparr>))))"

text \<open>The reader is a parameter; a gate error passes, any other exception becomes one.\<close>

definition evaluate_new_risk_from_reader ::
  "injected_snapshot option res \<Rightarrow> (py_exc \<Rightarrow> bool) \<Rightarrow> limits_arg \<Rightarrow> new_risk_result res" where
  "evaluate_new_risk_from_reader outcome is_gate_error limits =
     (case outcome of
        Inr snapshot \<Rightarrow> evaluate_new_risk_admission snapshot limits
      | Inl exc \<Rightarrow> if is_gate_error exc then Inl exc
          else Inl (ValueError (''reconciliation snapshot reader failed: '' @ exc_class exc)))"

section \<open>Orders that reduce risk\<close>

definition finite_value :: "pyval \<Rightarrow> pyfloat option res" where
  "finite_value v = bind_res (invalid_number (\<lambda>_. False) v) (\<lambda>bad.
     if bad then Inr None else map_res Some (py_float v))"

definition is_proven_risk_reducing_order ::
  "pyval \<Rightarrow> string \<Rightarrow> pyval \<Rightarrow> pyval \<Rightarrow> bool res" where
  "is_proven_risk_reducing_order position side quantity pending_quantity =
     bind_res (finite_value position) (\<lambda>pos_opt. case pos_opt of None \<Rightarrow> Inr False | Some pos \<Rightarrow>
     bind_res (finite_value quantity) (\<lambda>qty_opt. case qty_opt of None \<Rightarrow> Inr False | Some qty \<Rightarrow>
     bind_res (finite_value pending_quantity) (\<lambda>pend_opt. case pend_opt of None \<Rightarrow> Inr False | Some pending \<Rightarrow>
       Inr (if f_le qty (Fin 0) \<or> side \<notin> {''buy'', ''sell''} then False
         else if f_lt (Fin 0) pos \<and> side = ''sell'' \<and> f_le pending (Fin 0)
           then f_le (f_sub qty pending) pos
         else if f_lt pos (Fin 0) \<and> side = ''buy'' \<and> f_le (Fin 0) pending
           then f_le (f_add qty pending) (f_neg pos)
         else False))))"

section \<open>Facts\<close>

lemma default_target_finite_pos: "finite_pos (PFloat default_target_vol)"
proof -
  have "to_float (1 / 5) = Fin (3602879701896397 / 18014398509481984)"
    using quotient_of_ratio [of 5 1] by (simp add: float_eval)
  then show ?thesis by (simp add: finite_pos_def default_target_vol_def f_lt_def)
qed

lemma dd_scale_reasons:
  assumes "dd_scale dd brake = Inr (s, a, reasons)"
  shows "''INVALID_DRAWDOWN_FAIL_CLOSED'' \<in> set reasons \<longleftrightarrow> \<not> (dd = PNone \<or> finite_nonneg dd)"
  using assms finite_nonneg_check [of dd] by (auto simp: dd_scale_def res_simps split: if_splits)

lemma vol_scale_reason_set:
  "vol_scale rv target = Inr (s, reasons) \<Longrightarrow>
    set reasons \<subseteq> {''INVALID_REALIZED_VOL_FAIL_CLOSED'', ''VOL_SCALE_REDUCED''}"
  by (auto simp: vol_scale_def res_simps Let_def split: if_splits)

lemma preference_none [simp]: "resolve_preference PNone = (None, [])"
  by (simp add: resolve_preference_def)

text \<open>With the default preference, the envelope reports an invalid drawdown exactly for one.\<close>

lemma envelope_invalid_drawdown:
  assumes "evaluate_capital_risk_envelope eq rv dd PNone target = Inr e" "finite_nonneg eq"
  shows "''INVALID_DRAWDOWN_FAIL_CLOSED'' \<in> set (en_reasons e) \<longleftrightarrow> \<not> (dd = PNone \<or> finite_nonneg dd)"
proof -
  obtain x where x: "number_of eq = Some x" "f_isfinite x" "f_le (Fin 0) x" "\<not> f_lt x (Fin 0)"
    using assms(2) f_finite_not_lt [of _ "Fin 0"] by (auto simp: finite_nonneg_def)
  then have "invalid_number negative eq = Inr False" by (auto simp: invalid_number_False)
  then obtain bad t vs vr ds a dr where parts: "resolve_target target = Inr (bad, t)"
      "vol_scale rv t = Inr (vs, vr)" "dd_scale dd (bd_brake (resolve_band x)) = Inr (ds, a, dr)"
      "e = valid_envelope None [] bad (resolve_band x) (vs, vr) (ds, a, dr)"
    using assms(1) number_of_py_float [OF x(1)]
    by (auto simp: evaluate_capital_risk_envelope_def res_simps Let_def)
  have "''INVALID_DRAWDOWN_FAIL_CLOSED'' \<noteq> ''BAND_'' @ upper (bd_id (resolve_band x))" by simp
  then show ?thesis
    using dd_scale_reasons [OF parts(3)] vol_scale_reason_set [OF parts(2)] parts(4)
    by (auto simp: valid_envelope_def)
qed

text \<open>The snapshot's capital facts let new risk through.\<close>

definition capital_allows :: "injected_snapshot \<Rightarrow> bool" where
  "capital_allows s \<longleftrightarrow> (\<exists>x dd. number_of (sn_equity_usd s) = Some x \<and> f_isfinite x \<and> f_le (Fin 0) x
     \<and> (sn_peak_equity_usd s = PNone \<or> finite_pos (sn_peak_equity_usd s))
     \<and> (sn_realized_vol s = PNone \<or> finite_nonneg (sn_realized_vol s))
     \<and> derive_drawdown_from_peak x (sn_peak_equity_usd s) (sn_drawdown_from_peak s) = Inr dd
     \<and> (dd = PNone \<or> below_brake (bd_brake (resolve_band x)) dd))"

lemma below_brake_nonneg: "below_brake b v \<Longrightarrow> finite_nonneg v"
  by (auto simp: below_brake_def finite_nonneg_def)

lemma capital_verdict_empty: "fst (capital_verdict e) = [] \<longleftrightarrow> en_new_risk_allowed e"
  by (simp add: capital_verdict_def Let_def)

lemma capital_axis_parts:
  assumes "evaluate_capital_axis s = Inr (reasons, scale)" "sn_equity_usd s \<noteq> PNone"
  shows "\<exists>x dd e pinv.
      (if is_number (sn_equity_usd s) \<and> \<not> is_bool (sn_equity_usd s) then py_float (sn_equity_usd s)
        else Inr NaN) = Inr x
      \<and> derive_drawdown_from_peak x (sn_peak_equity_usd s) (sn_drawdown_from_peak s) = Inr dd
      \<and> evaluate_capital_risk_envelope (sn_equity_usd s) (sn_realized_vol s) dd PNone
          (PFloat default_target_vol) = Inr e
      \<and> (if sn_peak_equity_usd s = PNone then Inr False
          else invalid_number not_positive (sn_peak_equity_usd s)) = Inr pinv
      \<and> (if pinv then
        (let found = prohibiting (en_reasons e); reasons = append_new found ''INVALID_DRAWDOWN_FAIL_CLOSED''
         in Inr (reasons, if ''DRAWDOWN_BRAKE_TRIPPED'' \<in> set reasons then Some (Fin 0) else None))
      else bind_res (if ''INVALID_DRAWDOWN_FAIL_CLOSED'' \<in> set (en_reasons e)
                     then peak_brake (sn_equity_usd s) (sn_peak_equity_usd s) else Inr False) (\<lambda>braked.
        if braked then Inr (prohibiting (en_reasons e) @ [''DRAWDOWN_BRAKE_TRIPPED''], Some (Fin 0))
        else Inr (capital_verdict e))) = Inr (reasons, scale)"
  using assms(1) assms(2)
  by (simp only: evaluate_capital_axis_def Let_def if_False bind_res_Inr_iff) blast

lemma capital_axis_empty:
  assumes "evaluate_capital_axis s = Inr (reasons, scale)"
  shows "reasons = [] \<longleftrightarrow> capital_allows s"
proof (cases "sn_equity_usd s = PNone")
  case True
  then show ?thesis using assms by (auto simp: evaluate_capital_axis_def capital_allows_def)
next
  case False
  let ?eq = "sn_equity_usd s" and ?peak = "sn_peak_equity_usd s"
  obtain x dd e pinv where parts:
      "(if is_number ?eq \<and> \<not> is_bool ?eq then py_float ?eq else Inr NaN) = Inr x"
      "derive_drawdown_from_peak x ?peak (sn_drawdown_from_peak s) = Inr dd"
      "evaluate_capital_risk_envelope ?eq (sn_realized_vol s) dd PNone (PFloat default_target_vol) = Inr e"
      "(if ?peak = PNone then Inr False else invalid_number not_positive ?peak) = Inr pinv"
    and final: "(if pinv then
        (let found = prohibiting (en_reasons e); reasons = append_new found ''INVALID_DRAWDOWN_FAIL_CLOSED''
         in Inr (reasons, if ''DRAWDOWN_BRAKE_TRIPPED'' \<in> set reasons then Some (Fin 0) else None))
      else bind_res (if ''INVALID_DRAWDOWN_FAIL_CLOSED'' \<in> set (en_reasons e)
                     then peak_brake ?eq ?peak else Inr False) (\<lambda>braked.
        if braked then Inr (prohibiting (en_reasons e) @ [''DRAWDOWN_BRAKE_TRIPPED''], Some (Fin 0))
        else Inr (capital_verdict e))) = Inr (reasons, scale)"
    using capital_axis_parts [OF assms False] by blast
  obtain braked where rest: "if pinv then reasons \<noteq> []
      else (if ''INVALID_DRAWDOWN_FAIL_CLOSED'' \<in> set (en_reasons e) then peak_brake ?eq ?peak else Inr False)
             = Inr braked \<and> (if braked then reasons \<noteq> [] else reasons = fst (capital_verdict e))"
  proof (cases pinv)
    case True
    then have "reasons \<noteq> []" using final by (auto simp: Let_def append_new_def split: if_splits)
    then show thesis using True that by simp
  next
    case False
    then obtain b where b: "(if ''INVALID_DRAWDOWN_FAIL_CLOSED'' \<in> set (en_reasons e)
        then peak_brake ?eq ?peak else Inr False) = Inr b"
        "(if b then Inr (prohibiting (en_reasons e) @ [''DRAWDOWN_BRAKE_TRIPPED''], Some (Fin 0))
          else Inr (capital_verdict e)) = (Inr (reasons, scale) :: (string list \<times> pyfloat option) res)"
      using final by (simp only: if_False bind_res_Inr_iff) blast
    have "if b then reasons \<noteq> [] else reasons = fst (capital_verdict e)"
      using b(2) by (cases b) (auto simp: prod_eq_iff)
    then show thesis using b(1) False that by simp
  qed
  have peak: "\<not> pinv \<longleftrightarrow> ?peak = PNone \<or> finite_pos ?peak"
    using parts(4) finite_pos_check [of ?peak] by (auto split: if_splits)
  have allowed: "en_new_risk_allowed e \<longleftrightarrow> finite_nonneg ?eq
      \<and> (sn_realized_vol s = PNone \<or> finite_nonneg (sn_realized_vol s))
      \<and> (dd = PNone \<or> below_brake (en_dd_brake e) dd)"
    using envelope_allows [OF parts(3)] default_target_finite_pos by auto
  have eq: "finite_nonneg ?eq \<longleftrightarrow> number_of ?eq = Some x \<and> f_isfinite x \<and> f_le (Fin 0) x"
    using parts(1) by (cases ?eq) (simp_all add: finite_nonneg_def number_of_def)
  have "\<not> pinv \<Longrightarrow> en_new_risk_allowed e \<Longrightarrow> \<not> braked"
    using rest allowed envelope_invalid_drawdown [OF parts(3)] below_brake_nonneg by auto
  then have reasons: "reasons = [] \<longleftrightarrow> \<not> pinv \<and> en_new_risk_allowed e"
    using rest capital_verdict_empty [of e] by (auto split: if_splits)
  show ?thesis
  proof (cases "finite_nonneg ?eq")
    case True
    then have x: "number_of ?eq = Some x" "f_isfinite x" "f_le (Fin 0) x" using eq by auto
    have "capital_allows s \<longleftrightarrow> (?peak = PNone \<or> finite_pos ?peak)
        \<and> (sn_realized_vol s = PNone \<or> finite_nonneg (sn_realized_vol s))
        \<and> (dd = PNone \<or> below_brake (en_dd_brake e) dd)"
      by (simp add: capital_allows_def x parts(2) envelope_brake [OF parts(3) x])
    then show ?thesis using reasons peak allowed True by simp
  next
    case False
    then have "\<not> capital_allows s" by (auto simp: capital_allows_def finite_nonneg_def)
    then show ?thesis using reasons allowed False by simp
  qed
qed

definition drift_allows :: "drift_arg \<Rightarrow> bool" where
  "drift_allows status \<longleftrightarrow> normalize_production_drift_status status
     \<in> {Inr None, Inr (Some ''healthy''), Inr (Some ''watch'')}"

lemma drift_empty: "production_drift_new_risk_reasons status = [] \<longleftrightarrow> drift_allows status"
  by (auto simp: production_drift_new_risk_reasons_def drift_allows_def allowed_statuses_def
      actionable_statuses_def split: sum.splits option.splits if_splits)

definition daily_loss_allows :: "pyval \<Rightarrow> limits_arg \<Rightarrow> bool" where
  "daily_loss_allows daily_loss limits \<longleftrightarrow> (case limits of NoLimits \<Rightarrow> True | NotLimits \<Rightarrow> False
     | DailyLimit limit \<Rightarrow> limit = PNone \<or> (\<exists>l x. py_float limit = Inr l \<and> number_of daily_loss = Some x
         \<and> f_isfinite x \<and> f_le (Fin 0) x \<and> \<not> f_le l x))"

lemma daily_loss_empty:
  assumes "evaluate_daily_loss_axis s limits = Inr reasons"
  shows "reasons = [] \<longleftrightarrow> daily_loss_allows (sn_daily_loss_usd s) limits"
proof (cases limits)
  case (DailyLimit limit)
  show ?thesis
  proof (cases "limit = PNone")
    case False
    then obtain bad where bad: "invalid_number negative (sn_daily_loss_usd s) = Inr bad"
      using assms DailyLimit by (auto simp: evaluate_daily_loss_axis_def res_simps)
    note ok = finite_nonneg_check [OF bad]
    show ?thesis
      using assms DailyLimit False bad ok number_of_py_float
      by (cases bad) (fastforce simp: evaluate_daily_loss_axis_def daily_loss_allows_def finite_nonneg_def
          res_simps split: if_splits)+
  qed (use assms DailyLimit in \<open>simp add: evaluate_daily_loss_axis_def daily_loss_allows_def\<close>)
qed (use assms in \<open>simp_all add: evaluate_daily_loss_axis_def daily_loss_allows_def\<close>)

lemma admission_parts:
  assumes "evaluate_new_risk_admission (Some s) limits = Inr r"
  obtains capital scale losses where "evaluate_capital_axis s = Inr (capital, scale)"
    "evaluate_daily_loss_axis s limits = Inr losses"
    "nr_reason_codes r = status_reasons s @ capital @ losses
       @ production_drift_new_risk_reasons (sn_production_drift_status s)"
    "nr_disposition r = ALLOW_NEW_RISK \<longleftrightarrow> nr_reason_codes r = []"
    "nr_hard_brake_triggered r \<longleftrightarrow> ''DRAWDOWN_BRAKE_TRIPPED'' \<in> set (nr_reason_codes r)"
    "nr_combined_scale r = scale"
  using assms
  by (auto simp: evaluate_new_risk_admission_def validate_injected_snapshot_def bind_res_Inr_iff
      require_Inr_iff Let_def split: if_splits)

text \<open>C30: the account gate allows new risk exactly when the observation is complete, the
  reconciliation verified and the breaker closed, the equity, peak, volatility and drawdown facts
  are well formed and the drawdown is below the brake of the equity's band, a configured daily loss
  limit is not reached by a known loss, and the drift status is absent, healthy or watch. Anything
  unknown or malformed prohibits new risk.\<close>

theorem new_risk_allowed_iff:
  assumes "evaluate_new_risk_admission (Some s) limits = Inr r"
  shows "nr_disposition r = ALLOW_NEW_RISK \<longleftrightarrow>
    sn_observation_status s = ''COMPLETE'' \<and> sn_reconciliation_status s = ''VERIFIED''
    \<and> sn_circuit_breaker_state s = ''CLOSED'' \<and> capital_allows s
    \<and> daily_loss_allows (sn_daily_loss_usd s) limits \<and> drift_allows (sn_production_drift_status s)"
  using assms
proof (rule admission_parts)
  fix capital scale losses
  assume "evaluate_capital_axis s = Inr (capital, scale)" "evaluate_daily_loss_axis s limits = Inr losses"
    "nr_reason_codes r = status_reasons s @ capital @ losses
       @ production_drift_new_risk_reasons (sn_production_drift_status s)"
    "nr_disposition r = ALLOW_NEW_RISK \<longleftrightarrow> nr_reason_codes r = []"
  then show ?thesis
    using capital_axis_empty daily_loss_empty drift_empty by (auto simp: status_reasons_def)
qed

text \<open>A peak that shows the brake is seen, whether or not the explicit drawdown is malformed.\<close>

definition peak_shows_brake :: "injected_snapshot \<Rightarrow> bool" where
  "peak_shows_brake s \<longleftrightarrow> (\<exists>x p. number_of (sn_equity_usd s) = Some x \<and> f_isfinite x \<and> f_le (Fin 0) x
     \<and> number_of (sn_peak_equity_usd s) = Some p \<and> f_isfinite p \<and> f_lt (Fin 0) p
     \<and> f_isfinite (drawdown_of x p) \<and> f_le (bd_brake (resolve_band x)) (drawdown_of x p))"

lemma drawdown_of_nonneg: "f_le (Fin 0) (drawdown_of x p)"
proof (cases "f_sub (Fin 1) (f_quot x p) = NaN")
  case True
  then show ?thesis by (simp add: drawdown_of_def f_max_def f_lt_def)
next
  case False
  then show ?thesis using f_max_ge [of "Fin 0"] by (simp add: drawdown_of_def)
qed

lemma derive_from_peak:
  assumes "number_of peak = Some p" "f_isfinite p" "f_lt (Fin 0) p"
  shows "derive_drawdown_from_peak x peak PNone = Inr (PFloat (drawdown_of x p))"
proof -
  have "invalid_number not_positive peak = Inr False"
    using assms by (auto simp: invalid_number_False f_lt_def)
  then show ?thesis
    using assms number_of_py_float [OF assms(1)] by (auto simp: derive_drawdown_from_peak_def)
qed

lemma brake_reported:
  assumes "evaluate_capital_risk_envelope eq rv (PFloat d) pref target = Inr e"
    and "number_of eq = Some x" "f_isfinite x" "f_le (Fin 0) x"
    and "f_isfinite d" "f_le (Fin 0) d" "f_le (bd_brake (resolve_band x)) d"
  shows "''DRAWDOWN_BRAKE_TRIPPED'' \<in> set (en_reasons e) \<and> f_is_zero (en_combined_scale e)"
proof -
  have "finite_nonneg eq" using assms(2-4) by (auto simp: finite_nonneg_def)
  then show ?thesis
    using braked_envelope [OF assms(1)] envelope_brake [OF assms(1-4)] assms(5-7) by simp
qed

lemma prohibiting_brake:
  "''DRAWDOWN_BRAKE_TRIPPED'' \<in> set reasons \<Longrightarrow> ''DRAWDOWN_BRAKE_TRIPPED'' \<in> set (prohibiting reasons)"
  by (simp add: prohibiting_def envelope_prohibit_reasons_def)

lemma capital_verdict_brake:
  assumes "''DRAWDOWN_BRAKE_TRIPPED'' \<in> set (en_reasons e)" "\<not> en_new_risk_allowed e"
  shows "''DRAWDOWN_BRAKE_TRIPPED'' \<in> set (fst (capital_verdict e))
    \<and> snd (capital_verdict e) = Some (en_combined_scale e)"
  using prohibiting_brake [OF assms(1)] assms(2) by (auto simp: capital_verdict_def Let_def)

lemma capital_axis_brake:
  assumes "evaluate_capital_axis s = Inr (reasons, scale)" "peak_shows_brake s"
    and "sn_drawdown_from_peak s = PNone \<or> \<not> finite_nonneg (sn_drawdown_from_peak s)"
  shows "''DRAWDOWN_BRAKE_TRIPPED'' \<in> set reasons \<and> (\<exists>z. scale = Some z \<and> f_is_zero z)"
proof -
  let ?eq = "sn_equity_usd s" and ?peak = "sn_peak_equity_usd s"
  obtain x p where x: "number_of ?eq = Some x" "f_isfinite x" "f_le (Fin 0) x"
    and p: "number_of ?peak = Some p" "f_isfinite p" "f_lt (Fin 0) p"
    and d: "f_isfinite (drawdown_of x p)" "f_le (bd_brake (resolve_band x)) (drawdown_of x p)"
    using assms(2) by (auto simp: peak_shows_brake_def)
  have eq: "?eq \<noteq> PNone" "is_number ?eq" "\<not> is_bool ?eq" "py_float ?eq = Inr x" "finite_nonneg ?eq"
    using x number_of_py_float [OF x(1)]
    by (auto simp: number_of_def finite_nonneg_def split: if_splits elim: is_bool.elims)
  have peak: "?peak \<noteq> PNone" "invalid_number not_positive ?peak = Inr False"
    using p by (auto simp: invalid_number_False f_lt_def)
  obtain dd e where
      dd: "derive_drawdown_from_peak x ?peak (sn_drawdown_from_peak s) = Inr dd"
    and e: "evaluate_capital_risk_envelope ?eq (sn_realized_vol s) dd PNone (PFloat default_target_vol) = Inr e"
    and final: "bind_res (if ''INVALID_DRAWDOWN_FAIL_CLOSED'' \<in> set (en_reasons e)
                     then peak_brake ?eq ?peak else Inr False) (\<lambda>braked.
        if braked then Inr (prohibiting (en_reasons e) @ [''DRAWDOWN_BRAKE_TRIPPED''], Some (Fin 0))
        else Inr (capital_verdict e)) = Inr (reasons, scale)"
    using capital_axis_parts [OF assms(1) eq(1)] eq(2-4) peak by auto
  show ?thesis
  proof (cases "sn_drawdown_from_peak s = PNone")
    case True
    then have "dd = PFloat (drawdown_of x p)" using dd derive_from_peak [OF p] by simp
    then have braked: "''DRAWDOWN_BRAKE_TRIPPED'' \<in> set (en_reasons e)" "f_is_zero (en_combined_scale e)"
      using brake_reported [OF e [unfolded \<open>dd = _\<close>] x d(1) drawdown_of_nonneg d(2)] by auto
    have "finite_nonneg dd"
      using d(1) drawdown_of_nonneg by (simp add: \<open>dd = _\<close> finite_nonneg_def)
    then have "''INVALID_DRAWDOWN_FAIL_CLOSED'' \<notin> set (en_reasons e)"
      using envelope_invalid_drawdown [OF e eq(5)] by simp
    then have verdict: "(reasons, scale) = capital_verdict e" using final by simp
    have "\<not> below_brake (en_dd_brake e) dd"
      using d(2) envelope_brake [OF e x] by (simp add: below_brake_def \<open>dd = _\<close>)
    then have "\<not> en_new_risk_allowed e" using envelope_allows [OF e] \<open>dd = _\<close> by simp
    then show ?thesis using capital_verdict_brake [OF braked(1)] braked(2) verdict by (metis fst_conv snd_conv)
  next
    case False
    then have bad: "\<not> finite_nonneg dd" "dd \<noteq> PNone"
      using assms(3) dd by (auto simp: derive_drawdown_from_peak_def)
    then have "''INVALID_DRAWDOWN_FAIL_CLOSED'' \<in> set (en_reasons e)"
      using envelope_invalid_drawdown [OF e eq(5)] by simp
    moreover obtain braked where b: "peak_brake ?eq ?peak = Inr braked"
      using final calculation by (auto simp: bind_res_Inr_iff)
    then have "braked"
      using peak(1) eq x(2) brake_reported [OF _ x d(1) drawdown_of_nonneg d(2)] derive_from_peak [OF p]
      by (auto simp: peak_brake_def default_envelope_def bind_res_Inr_iff)
    ultimately show ?thesis using final b by (auto simp: f_is_zero_def)
  qed
qed

text \<open>C33: when the equity has fallen from an injected peak by the brake of its band, new risk is
  prohibited, the hard brake is reported and the scale is zero, whatever the other axes say; leaving
  out the explicit drawdown or sending a malformed one does not hide it.\<close>

theorem peak_breach_trips_hard_brake:
  assumes "evaluate_new_risk_admission (Some s) limits = Inr r" "peak_shows_brake s"
    and "sn_drawdown_from_peak s = PNone \<or> \<not> finite_nonneg (sn_drawdown_from_peak s)"
  shows "nr_disposition r = NEW_RISK_PROHIBITED \<and> nr_hard_brake_triggered r
    \<and> (\<exists>z. nr_combined_scale r = Some z \<and> f_is_zero z)"
  using assms(1)
proof (rule admission_parts)
  fix capital scale losses
  assume parts: "evaluate_capital_axis s = Inr (capital, scale)"
    "nr_reason_codes r = status_reasons s @ capital @ losses
       @ production_drift_new_risk_reasons (sn_production_drift_status s)"
    "nr_disposition r = ALLOW_NEW_RISK \<longleftrightarrow> nr_reason_codes r = []"
    "nr_hard_brake_triggered r \<longleftrightarrow> ''DRAWDOWN_BRAKE_TRIPPED'' \<in> set (nr_reason_codes r)"
    "nr_combined_scale r = scale"
  then show ?thesis
    using capital_axis_brake [OF parts(1) assms(2, 3)]
    by (cases "nr_disposition r") auto
qed

lemma f_sub_signed:
  assumes "f_isfinite q" "f_lt (Fin 0) q" "f_isfinite d"
  shows "f_le (Fin 0) d \<Longrightarrow> f_add q d = to_float (fin_val q + \<bar>fin_val d\<bar>)"
    and "f_le d (Fin 0) \<Longrightarrow> f_sub q d = to_float (fin_val q + \<bar>fin_val d\<bar>)"
  using assms by (cases q; cases d; auto simp: f_sub_def f_lt_def)+

lemma fin_val_neg: "fin_val (f_neg x) = - fin_val x"
  by (cases x) auto

lemma finite_value_Some: "finite_value v = Inr (Some x) \<Longrightarrow> number_of v = Some x \<and> f_isfinite x"
  using number_of_py_float by (fastforce simp: finite_value_def res_simps invalid_number_False split: if_splits)

lemma reducing_order_facts:
  assumes "is_proven_risk_reducing_order position side quantity pending = Inr True"
  obtains p q d where "number_of position = Some p" "number_of quantity = Some q" "number_of pending = Some d"
    "f_isfinite p" "f_isfinite q" "f_isfinite d" "f_lt (Fin 0) q"
    "(side = ''sell'' \<and> f_lt (Fin 0) p \<and> f_le d (Fin 0) \<and> f_le (f_sub q d) p)
     \<or> (side = ''buy'' \<and> f_lt p (Fin 0) \<and> f_le (Fin 0) d \<and> f_le (f_add q d) (f_neg p))"
proof -
  obtain p where p: "finite_value position = Inr (Some p)"
    using assms by (auto simp: is_proven_risk_reducing_order_def bind_res_Inr_iff split: option.splits)
  obtain q where q: "finite_value quantity = Inr (Some q)"
    using assms p by (auto simp: is_proven_risk_reducing_order_def bind_res_Inr_iff split: option.splits)
  obtain d where d: "finite_value pending = Inr (Some d)"
    using assms p q by (auto simp: is_proven_risk_reducing_order_def bind_res_Inr_iff split: option.splits)
  have fin: "f_isfinite p" "f_isfinite q" "f_isfinite d"
    using finite_value_Some p q d by auto
  have "f_lt (Fin 0) q"
    using assms p q d fin f_finite_not_lt [of "Fin 0" q]
    by (auto simp: is_proven_risk_reducing_order_def split: if_splits)
  moreover have "(side = ''sell'' \<and> f_lt (Fin 0) p \<and> f_le d (Fin 0) \<and> f_le (f_sub q d) p)
     \<or> (side = ''buy'' \<and> f_lt p (Fin 0) \<and> f_le (Fin 0) d \<and> f_le (f_add q d) (f_neg p))"
    using assms p q d by (auto simp: is_proven_risk_reducing_order_def split: if_splits)
  ultimately show thesis
    using that finite_value_Some [OF p] finite_value_Some [OF q] finite_value_Some [OF d] by blast
qed

text \<open>C38: an order that is proven to reduce risk cannot grow or reverse a position: whatever part
  of it and of the pending quantity fills, the position keeps its sign and does not grow, provided
  the sum of the two quantities is one the float arithmetic represents exactly.\<close>

theorem reducing_order_never_crosses_zero:
  assumes "is_proven_risk_reducing_order position side quantity pending = Inr True"
    and "number_of position = Some p" "number_of quantity = Some q" "number_of pending = Some d"
    and "fin_val (to_float (fin_val q + \<bar>fin_val d\<bar>)) = fin_val q + \<bar>fin_val d\<bar>"
    and "0 \<le> filled" "filled \<le> fin_val q + \<bar>fin_val d\<bar>"
  defines "after \<equiv> (if side = ''sell'' then fin_val p - filled else fin_val p + filled)"
  shows "0 \<le> after * fin_val p \<and> \<bar>after\<bar> \<le> \<bar>fin_val p\<bar>"
  using assms(1)
proof (rule reducing_order_facts)
  fix p' q' d'
  assume vals: "number_of position = Some p'" "number_of quantity = Some q'" "number_of pending = Some d'"
    and fin: "f_isfinite p'" "f_isfinite q'" "f_isfinite d'" and q: "f_lt (Fin 0) q'"
    and side: "(side = ''sell'' \<and> f_lt (Fin 0) p' \<and> f_le d' (Fin 0) \<and> f_le (f_sub q' d') p')
     \<or> (side = ''buy'' \<and> f_lt p' (Fin 0) \<and> f_le (Fin 0) d' \<and> f_le (f_add q' d') (f_neg p'))"
  have eqs: "p' = p" "q' = q" "d' = d" using vals assms(2-4) by auto
  let ?sum = "to_float (fin_val q + \<bar>fin_val d\<bar>)"
  have "0 < fin_val q" using q fin eqs by (simp add: f_finite_lt)
  then have sum: "f_le ?sum (Fin b) \<Longrightarrow> fin_val q + \<bar>fin_val d\<bar> \<le> b" for b
    using assms(5) by (cases ?sum) auto
  show ?thesis
  proof (cases "side = ''sell''")
    case True
    then have s: "f_lt (Fin 0) p" "f_le d (Fin 0)" "f_le (f_sub q d) p" using side eqs by auto
    have "0 < fin_val p" "p = Fin (fin_val p)" using s(1) fin(1) eqs by (cases p; simp add: f_lt_def)+
    moreover have "fin_val q + \<bar>fin_val d\<bar> \<le> fin_val p"
      using s(3) f_sub_signed(2) [of q d] s(2) fin q eqs sum [of "fin_val p"] calculation(2) by simp
    ultimately show ?thesis
      using True assms(6, 7) by (auto simp: after_def intro: mult_nonneg_nonneg)
  next
    case False
    then have s: "f_lt p (Fin 0)" "f_le (Fin 0) d" "f_le (f_add q d) (f_neg p)" using side eqs by auto
    have neg: "fin_val p < 0" "f_neg p = Fin (- fin_val p)"
      using s(1) fin(1) eqs by (cases p; simp add: f_lt_def)+
    moreover have "fin_val q + \<bar>fin_val d\<bar> \<le> - fin_val p"
      using s(3) f_sub_signed(1) [of q d] s(2) fin q eqs sum [of "- fin_val p"] neg(2) by simp
    ultimately show ?thesis
      using False assms(6, 7) by (auto simp: after_def intro: mult_nonpos_nonpos)
  qed
qed

section \<open>Concrete inputs\<close>

lemma default_target: "default_target_vol = Fin (3602879701896397 / 18014398509481984)"
  using quotient_of_ratio [of 5 1] by (simp add: default_target_vol_def float_eval)

lemma admission_total:
  assumes "validate_injected_snapshot (Some s) = Inr s" "evaluate_capital_axis s = Inr c"
    "evaluate_daily_loss_axis s limits = Inr l"
  shows "\<exists>r. evaluate_new_risk_admission (Some s) limits = Inr r"
  using assms by (cases c) (simp add: evaluate_new_risk_admission_def Let_def)

definition healthy_snapshot :: injected_snapshot where
  "healthy_snapshot = \<lparr>sn_observation_status = ''COMPLETE'', sn_reconciliation_status = ''VERIFIED'',
     sn_circuit_breaker_state = ''CLOSED'', sn_equity_usd = PFloat (Fin 30000),
     sn_peak_equity_usd = PNone, sn_drawdown_from_peak = PFloat (Fin (1 / 8)),
     sn_realized_vol = PNone, sn_production_drift_status = DriftValue (PStr ''watch''),
     sn_daily_loss_usd = PFloat (Fin 10)\<rparr>"

lemma watch_text: "strip ''watch'' = ''watch''" "lower ''watch'' = ''watch''"
  by code_simp+

theorem new_risk_allowed_witness:
  "\<exists>r. evaluate_new_risk_admission (Some healthy_snapshot) (DailyLimit (PFloat (Fin 500))) = Inr r
     \<and> nr_disposition r = ALLOW_NEW_RISK"
proof -
  have "validate_injected_snapshot (Some healthy_snapshot) = Inr healthy_snapshot"
    by (simp add: validate_injected_snapshot_def healthy_snapshot_def)
  moreover have "\<exists>c. evaluate_capital_axis healthy_snapshot = Inr c"
    by (simp add: healthy_snapshot_def evaluate_capital_axis_def derive_drawdown_from_peak_def
        envelope_eval default_target)
  moreover have "\<exists>l. evaluate_daily_loss_axis healthy_snapshot (DailyLimit (PFloat (Fin 500))) = Inr l"
    by (simp add: healthy_snapshot_def evaluate_daily_loss_axis_def invalid_number_def f_lt_def)
  ultimately obtain r where
    r: "evaluate_new_risk_admission (Some healthy_snapshot) (DailyLimit (PFloat (Fin 500))) = Inr r"
    using admission_total by blast
  have "capital_allows healthy_snapshot"
    by (simp add: capital_allows_def healthy_snapshot_def derive_drawdown_from_peak_def
        resolve_band_def f_lt_def below_brake_def band_under_50k_def float_brake)
  then show ?thesis
    using new_risk_allowed_iff [OF r] r
    by (simp add: healthy_snapshot_def daily_loss_allows_def drift_allows_def
        normalize_production_drift_status_def watch_text Let_def)
qed

definition fallen_snapshot :: injected_snapshot where
  "fallen_snapshot = healthy_snapshot
     \<lparr>sn_peak_equity_usd := PFloat (Fin 60000), sn_drawdown_from_peak := PStr ''n/a''\<rparr>"

theorem peak_breach_trips_hard_brake_witness:
  "\<exists>r. evaluate_new_risk_admission (Some fallen_snapshot) NoLimits = Inr r \<and> nr_hard_brake_triggered r"
proof -
  have half: "drawdown_of (Fin 30000) (Fin 60000) = Fin (1 / 2)"
    by (simp add: drawdown_of_def f_quot_def f_is_zero_def float_half f_sub_def f_max_def f_lt_def)
  have "validate_injected_snapshot (Some fallen_snapshot) = Inr fallen_snapshot"
    by (simp add: validate_injected_snapshot_def fallen_snapshot_def healthy_snapshot_def)
  moreover have "\<exists>c. evaluate_capital_axis fallen_snapshot = Inr c"
    by (simp add: fallen_snapshot_def healthy_snapshot_def evaluate_capital_axis_def
        derive_drawdown_from_peak_def envelope_eval default_target half peak_brake_def default_envelope_def)
  moreover have "\<exists>l. evaluate_daily_loss_axis fallen_snapshot NoLimits = Inr l"
    by (simp add: evaluate_daily_loss_axis_def)
  ultimately obtain r where r: "evaluate_new_risk_admission (Some fallen_snapshot) NoLimits = Inr r"
    using admission_total by blast
  have "peak_shows_brake fallen_snapshot"
    by (simp add: peak_shows_brake_def fallen_snapshot_def healthy_snapshot_def half
        resolve_band_def f_lt_def band_under_50k_def float_brake)
  moreover have "\<not> finite_nonneg (sn_drawdown_from_peak fallen_snapshot)"
    by (simp add: fallen_snapshot_def finite_nonneg_def number_of_def)
  ultimately show ?thesis using peak_breach_trips_hard_brake [OF r] r by blast
qed

theorem reducing_order_never_crosses_zero_witness:
  "is_proven_risk_reducing_order (PFloat (Fin 10)) ''sell'' (PFloat (Fin 4)) (PFloat (Fin 0)) = Inr True
     \<and> 0 \<le> (10 - 3 :: rat) * 10 \<and> \<bar>10 - 3 :: rat\<bar> \<le> 10"
proof -
  have four: "to_float 4 = Fin 4" by (simp add: float_eval)
  have run: "is_proven_risk_reducing_order (PFloat (Fin 10)) ''sell'' (PFloat (Fin 4)) (PFloat (Fin 0)) = Inr True"
    by (simp add: is_proven_risk_reducing_order_def finite_value_def invalid_number_def f_lt_def
        f_sub_def four)
  then show ?thesis
    using reducing_order_never_crosses_zero [OF run, of "Fin 10" "Fin 4" "Fin 0" 3] four by simp
qed

end
