(* ===== verification/RiskEngine.thy ===== *)
theory RiskEngine
  imports RiskNumbers "HOL-Library.Multiset"
begin

text \<open>
  The risk engine (\<open>risk/engine.py\<close>) and the contracts it shares with the risk gates
  (\<open>risk/contracts.py\<close>): routes and their severity, signals, the worst-case aggregation, the action
  an assessment resolves to, and the validation of the limits and the hold policy. The regime
  detector and the plugins are parameters: functions of the market data that may raise.
\<close>

section \<open>Routes and regimes\<close>

definition normalise_regime :: "pyval \<Rightarrow> string" where
  "normalise_regime raw = (let v = lower (strip (str_or_empty raw)) in
     if v \<in> {''risk_on'', ''normal'', ''bull''} then ''normal''
     else if v \<in> {''elevated'', ''soft_defense'', ''risk_reduced''} then ''elevated''
     else if v \<in> {''stress'', ''hard_defense'', ''risk_off'', ''crisis''} then ''stress''
     else ''unknown'')"

definition risk_route_severity :: "(string \<times> int) list" where
  "risk_route_severity = [(''no_action'', 0), (''watch'', 1), (''opportunity_watch'', 2),
     (''risk_reduced'', 3), (''risk_off'', 4), (''blocked'', 5)]"

definition route_severity :: "string \<Rightarrow> int" where
  "route_severity route = (case map_of risk_route_severity route of None \<Rightarrow> 0 | Some n \<Rightarrow> n)"

section \<open>Signals, assessments, actions\<close>

record regime_context =
  rc_as_of :: string
  rc_volatility_percentile :: pyfloat
  rc_pairwise_correlation :: pyfloat
  rc_regime :: string
  rc_vix_level :: "pyfloat option"
  rc_credit_spread :: "pyfloat option"

record risk_signal =
  rs_plugin :: string
  rs_schema_version :: string
  rs_route :: string
  rs_confidence :: pyfloat
  rs_suggested_action :: string
  rs_reason_codes :: "string list"
  rs_execution_controls :: pydict
  rs_emergency :: bool
  rs_as_of :: string

definition signal_severity :: "risk_signal \<Rightarrow> int" where
  "signal_severity s = route_severity (rs_route s)"

record risk_assessment =
  as_as_of :: string
  as_effective_route :: string
  as_effective_regime :: string
  as_confidence :: pyfloat
  as_signals :: "risk_signal list"
  as_regime_context :: "regime_context option"

definition assessment_severity :: "risk_assessment \<Rightarrow> int" where
  "assessment_severity a = route_severity (as_effective_route a)"

definition actionable :: "risk_assessment \<Rightarrow> bool" where
  "actionable a \<longleftrightarrow> as_effective_route a \<notin> {''no_action'', ''watch'', ''opportunity_watch''}"

record risk_action =
  ra_action :: string
  ra_reason :: string
  ra_budget_scalar :: pyfloat
  ra_leverage_scalar :: pyfloat
  ra_risk_asset_scalar :: pyfloat
  ra_target_destination :: "string option"
  ra_notify :: pyval

definition default_action :: "string \<Rightarrow> string \<Rightarrow> risk_action" where
  "default_action action reason =
     \<lparr>ra_action = action, ra_reason = reason, ra_budget_scalar = Fin 1, ra_leverage_scalar = Fin 1,
      ra_risk_asset_scalar = Fin 1, ra_target_destination = None, ra_notify = PBool True\<rparr>"

definition reject_action :: "string \<Rightarrow> risk_action" where
  "reject_action reason = (default_action ''reject'' reason)
     \<lparr>ra_budget_scalar := Fin 0, ra_leverage_scalar := Fin 0, ra_risk_asset_scalar := Fin 0\<rparr>"

section \<open>Worst-case aggregation\<close>

text \<open>\<open>min\<close> over a list that is not empty.\<close>

fun min_confidence :: "pyfloat \<Rightarrow> risk_signal list \<Rightarrow> pyfloat" where
  "min_confidence least [] = least"
| "min_confidence least (s # ss) = min_confidence (f_min least (rs_confidence s)) ss"

text \<open>Python's \<open>sorted(..., reverse=True)\<close> keeps the order of equal elements.\<close>

definition by_severity :: "risk_signal list \<Rightarrow> risk_signal list" where
  "by_severity signals = sort_key (\<lambda>s. - signal_severity s) signals"

definition aggregate_risk_signals ::
  "risk_signal list \<Rightarrow> regime_context option \<Rightarrow> risk_assessment" where
  "aggregate_risk_signals signals regime = (case by_severity signals of
     [] \<Rightarrow> \<lparr>as_as_of = [], as_effective_route = ''no_action'', as_effective_regime = ''normal'',
       as_confidence = Fin 1, as_signals = [], as_regime_context = regime\<rparr>
   | worst # others \<Rightarrow>
       \<lparr>as_as_of = rs_as_of worst, as_effective_route = rs_route worst,
        as_effective_regime = (case regime of None \<Rightarrow> ''normal''
          | Some r \<Rightarrow> normalise_regime (PStr (rc_regime r))),
        as_confidence = min_confidence (rs_confidence (hd signals)) (tl signals),
        as_signals = worst # others, as_regime_context = regime\<rparr>)"

section \<open>The engine\<close>

text \<open>What the account side passes: no snapshot, a \<open>PortfolioSnapshot\<close> with its equity, a mapping, or
  an object of another class.\<close>

datatype portfolio_arg = NoPortfolio | Portfolio pyval | PortfolioMapping pydict | OtherPortfolio

text \<open>Market data, with the snapshot and the strategy decision once \<open>assess\<close> has added them.\<close>

type_synonym 'd market = "pydict \<times> (portfolio_arg \<times> 'd) option"

record 'd risk_engine =
  re_detector :: "('d market \<Rightarrow> regime_context res) option"
  re_plugins :: "('d market \<Rightarrow> risk_signal res) list"
  re_default_route :: string

definition plugin_error_signal :: risk_signal where
  "plugin_error_signal =
     \<lparr>rs_plugin = ''risk_engine'', rs_schema_version = ''qpk.risk_plugin_error.v1'',
      rs_route = ''blocked'', rs_confidence = Fin 1, rs_suggested_action = ''blocked'',
      rs_reason_codes = [''plugin_evaluation_error''], rs_execution_controls = [],
      rs_emergency = False, rs_as_of = []\<rparr>"

definition plugin_signal :: "'d market \<Rightarrow> ('d market \<Rightarrow> risk_signal res) \<Rightarrow> risk_signal" where
  "plugin_signal md plugin = (case plugin md of Inl _ \<Rightarrow> plugin_error_signal | Inr s \<Rightarrow> s)"

definition engine_evaluate ::
  "'d risk_engine \<Rightarrow> 'd market \<Rightarrow> risk_signal list option \<Rightarrow> risk_assessment res" where
  "engine_evaluate eng md plugin_signals =
     bind_res (case re_detector eng of None \<Rightarrow> Inr None | Some detect \<Rightarrow> map_res Some (detect md)) (\<lambda>regime.
     let signals = map (plugin_signal md) (re_plugins eng)
           @ (case plugin_signals of None \<Rightarrow> [] | Some ss \<Rightarrow> ss) in
     Inr (if signals = [] then
       \<lparr>as_as_of = [], as_effective_route = re_default_route eng,
        as_effective_regime = (case regime of None \<Rightarrow> ''normal'' | Some r \<Rightarrow> rc_regime r),
        as_confidence = Fin 1, as_signals = [], as_regime_context = regime\<rparr>
       else aggregate_risk_signals signals regime))"

definition engine_resolve :: "risk_assessment \<Rightarrow> pydict option \<Rightarrow> risk_action res" where
  "engine_resolve assessment strategy_config =
     (let cfg = (case strategy_config of None \<Rightarrow> [] | Some d \<Rightarrow> d);
          route = as_effective_route assessment in
      if route = ''no_action'' then Inr (default_action ''no_action'' ''no_risk_detected'')
      else if route = ''watch'' then
        Inr ((default_action ''watch'' ''elevated_signal'')
          \<lparr>ra_notify := dget_or cfg ''risk_watch_notify'' (PBool True)\<rparr>)
      else if route = ''risk_reduced'' then
        bind_res (py_float (dget_or cfg ''risk_reduced_scalar'' (PFloat (Fin (1 / 2))))) (\<lambda>scalar.
        Inr ((default_action ''risk_reduced'' ''moderate_risk'')
          \<lparr>ra_budget_scalar := scalar, ra_risk_asset_scalar := scalar\<rparr>))
      else if route = ''risk_off'' then
        (let target = py_or (dget cfg ''safe_haven'') (dget cfg ''cash_substitute_symbol'') in
         Inr ((default_action ''risk_off'' ''severe_risk'')
           \<lparr>ra_budget_scalar := Fin 0, ra_leverage_scalar := Fin 0, ra_risk_asset_scalar := Fin 0,
            ra_target_destination := (if truthy target then Some (py_str target) else None)\<rparr>))
      else if route = ''blocked'' then
        Inr ((default_action ''blocked'' ''execution_blocked'')\<lparr>ra_budget_scalar := Fin 0\<rparr>)
      else Inr (default_action route ''unknown_route''))"

definition portfolio_equity :: "portfolio_arg \<Rightarrow> pyval" where
  "portfolio_equity portfolio = (case portfolio of
     Portfolio equity \<Rightarrow> equity | PortfolioMapping d \<Rightarrow> dget d ''total_equity'' | _ \<Rightarrow> PNone)"

definition engine_assess ::
  "'d risk_engine \<Rightarrow> 'd \<Rightarrow> portfolio_arg \<Rightarrow> pydict option \<Rightarrow> risk_action res" where
  "engine_assess eng decision portfolio market_data =
     (if portfolio = NoPortfolio then Inr (reject_action ''missing_portfolio_snapshot'')
      else bind_res (invalid_number not_positive (portfolio_equity portfolio)) (\<lambda>bad.
        if bad then Inr (reject_action ''invalid_portfolio_snapshot'')
        else bind_res (engine_evaluate eng
            ((case market_data of None \<Rightarrow> [] | Some d \<Rightarrow> d), Some (portfolio, decision)) None) (\<lambda>assessment.
        bind_res (engine_resolve assessment None) (\<lambda>resolved.
        Inr (if ra_action resolved \<in> {''blocked'', ''risk_off''} then reject_action (ra_reason resolved)
             else default_action ''approve'' ''risk_engine_passed'')))))"

section \<open>Limits\<close>

text \<open>\<open>any(...)\<close> over a check that may raise: the first True ends it.\<close>

fun any_res :: "('a \<Rightarrow> bool res) \<Rightarrow> 'a list \<Rightarrow> bool res" where
  "any_res f [] = Inr False"
| "any_res f (x # xs) = bind_res (f x) (\<lambda>b. if b then Inr True else any_res f xs)"

record runtime_risk_limits =
  rl_allowed_symbols :: "string list"
  rl_product_leverage_factors :: pydict
  rl_nominal_caps :: pydict
  rl_total_nominal_exposure_cap :: pyval
  rl_total_effective_exposure_cap :: pyval
  rl_max_positions :: pyval
  rl_max_daily_loss_usd :: pyval

text \<open>\<open>tuple(value)\<close>: the items of a list or a tuple, the keys of a mapping.\<close>

definition symbol_items :: "pyval \<Rightarrow> pyval list res" where
  "symbol_items v = (case v of PList xs \<Rightarrow> Inr xs | PTuple xs \<Rightarrow> Inr xs
     | PDict d \<Rightarrow> Inr (map PStr (keys d))
     | PStr _ \<Rightarrow> Inl (ValueError ''allowed_symbols must be a sequence of symbols'')
     | _ \<Rightarrow> Inl (TypeError ''object is not iterable''))"

fun canonical_symbol :: "pyval \<Rightarrow> bool" where
  "canonical_symbol (PStr s) \<longleftrightarrow> s \<noteq> [] \<and> s = strip s \<and> s = upper s"
| "canonical_symbol _ \<longleftrightarrow> False"

fun str_of :: "pyval \<Rightarrow> string" where
  "str_of (PStr s) = s"
| "str_of _ = []"

definition covering_mapping :: "string list \<Rightarrow> pyval \<Rightarrow> string \<Rightarrow> pydict res" where
  "covering_mapping symbols v field_name = (case v of
     PDict d \<Rightarrow> require (set (keys d) = set symbols)
       (ValueError (field_name @ '' must cover allowed_symbols exactly'')) (Inr d)
   | _ \<Rightarrow> Inl (ValueError (field_name @ '' must be a mapping'')))"

fun positive_factor :: "pyval \<Rightarrow> bool" where
  "positive_factor (PInt i) \<longleftrightarrow> 1 \<le> i"
| "positive_factor _ \<longleftrightarrow> False"

fun nonneg_int :: "pyval \<Rightarrow> bool" where
  "nonneg_int (PInt i) \<longleftrightarrow> 0 \<le> i"
| "nonneg_int _ \<longleftrightarrow> False"

definition limits_post_init ::
  "pyval \<Rightarrow> pyval \<Rightarrow> pyval \<Rightarrow> pyval \<Rightarrow> pyval \<Rightarrow> pyval \<Rightarrow> pyval \<Rightarrow> runtime_risk_limits res" where
  "limits_post_init allowed_symbols factors_arg caps_arg nominal_cap effective_cap max_positions daily_loss =
     bind_res (symbol_items allowed_symbols) (\<lambda>items.
     require (items \<noteq> [] \<and> (\<forall>v \<in> set items. canonical_symbol v))
       (ValueError ''allowed_symbols must contain canonical symbols'')
     (let symbols = map str_of items in
     require (distinct symbols) (ValueError ''allowed_symbols must not contain duplicates'')
     (bind_res (covering_mapping symbols factors_arg ''product_leverage_factors'') (\<lambda>factors.
     require (\<forall>v \<in> set (map snd factors). positive_factor v)
       (ValueError ''product_leverage_factors must contain positive integers'')
     (bind_res (covering_mapping symbols caps_arg ''nominal_caps'') (\<lambda>caps.
     bind_res (any_res (invalid_number negative) (map snd caps)) (\<lambda>bad_cap.
     require (\<not> bad_cap) (ValueError ''nominal_caps must contain finite nonnegative values'')
     (bind_res (invalid_number negative nominal_cap) (\<lambda>bad_nominal.
     require (\<not> bad_nominal) (ValueError ''total_nominal_exposure_cap must be finite and nonnegative'')
     (bind_res (invalid_number negative effective_cap) (\<lambda>bad_effective.
     require (\<not> bad_effective) (ValueError ''total_effective_exposure_cap must be finite and nonnegative'')
     (require (nonneg_int max_positions) (ValueError ''max_positions must be a nonnegative integer'')
     (bind_res (if daily_loss = PNone then Inr False else invalid_number not_positive daily_loss)
       (\<lambda>bad_loss.
     require (\<not> bad_loss) (ValueError ''max_daily_loss_usd must be finite and positive'')
     (Inr \<lparr>rl_allowed_symbols = symbols, rl_product_leverage_factors = factors, rl_nominal_caps = caps,
        rl_total_nominal_exposure_cap = nominal_cap, rl_total_effective_exposure_cap = effective_cap,
        rl_max_positions = max_positions, rl_max_daily_loss_usd = daily_loss\<rparr>)))))))))))))))"

record hold_policy =
  hp_enabled :: bool
  hp_hold_below_nav :: pyfloat
  hp_require_cash_only :: bool

definition hold_policy_post_init :: "pyval \<Rightarrow> pyval \<Rightarrow> pyval \<Rightarrow> hold_policy res" where
  "hold_policy_post_init enabled hold_below_nav require_cash_only =
     require (is_bool enabled) (ValueError ''enabled must be a bool'')
     (bind_res (invalid_number not_positive hold_below_nav) (\<lambda>bad.
     require (\<not> bad) (ValueError ''hold_below_nav must be a finite positive number'')
     (require (is_bool require_cash_only) (ValueError ''require_cash_only must be a bool'')
     (map_res (\<lambda>nav. \<lparr>hp_enabled = (enabled = PBool True), hp_hold_below_nav = nav,
        hp_require_cash_only = (require_cash_only = PBool True)\<rparr>) (py_float hold_below_nav)))))"

definition default_small_account_hold_policy :: hold_policy where
  "default_small_account_hold_policy =
     \<lparr>hp_enabled = True, hp_hold_below_nav = Fin 1000, hp_require_cash_only = True\<rparr>"

section \<open>Facts\<close>

lemma severity_stops: "4 \<le> route_severity route \<longleftrightarrow> route \<in> {''risk_off'', ''blocked''}"
  by (simp add: route_severity_def risk_route_severity_def)

lemma by_severity_set [simp]: "set (by_severity ss) = set ss"
  by (simp add: by_severity_def)

lemma by_severity_Nil [simp]: "by_severity ss = [] \<longleftrightarrow> ss = []"
  by (simp add: by_severity_def flip: set_empty)

lemma by_severity_hd:
  assumes "by_severity ss = worst # others" "s \<in> set ss"
  shows "signal_severity s \<le> signal_severity worst"
proof -
  have "sorted (map (\<lambda>s. - signal_severity s) (worst # others))"
    using assms(1) sorted_sort_key [of "\<lambda>s. - signal_severity s" ss] by (simp add: by_severity_def)
  moreover have "s \<in> set (worst # others)" using assms by_severity_set [of ss] by simp
  ultimately show ?thesis by auto
qed

lemma min_confidence_le:
  assumes "least \<noteq> NaN" "\<forall>s \<in> set ss. rs_confidence s \<noteq> NaN"
  shows "min_confidence least ss \<noteq> NaN \<and> f_le (min_confidence least ss) least
    \<and> (\<forall>s \<in> set ss. f_le (min_confidence least ss) (rs_confidence s))"
  using assms
proof (induction ss arbitrary: least)
  case Nil
  then show ?case using f_le_refl by simp
next
  case (Cons s ss)
  let ?m = "f_min least (rs_confidence s)"
  have m: "?m \<noteq> NaN" "f_le ?m least" "f_le ?m (rs_confidence s)"
    using Cons.prems f_min_le [of least "rs_confidence s"] f_min_cases [of least "rs_confidence s"] by auto
  have "\<forall>s \<in> set ss. rs_confidence s \<noteq> NaN" using Cons.prems by simp
  from Cons.IH [OF m(1) this] m show ?case
    using f_le_trans by auto
qed

text \<open>The aggregation is worst case: the assessment's severity is the greatest of the signals',
  its signals are the given ones, and its confidence is no greater than any of theirs.\<close>

theorem aggregation_is_worst_case:
  fixes regime
  assumes "signals \<noteq> []" "\<forall>s \<in> set signals. rs_confidence s \<noteq> NaN"
  defines "a \<equiv> aggregate_risk_signals signals regime"
  shows "assessment_severity a = Max (signal_severity ` set signals) \<and> mset (as_signals a) = mset signals
    \<and> (\<forall>s \<in> set signals. f_le (as_confidence a) (rs_confidence s))"
proof -
  obtain worst others where sorted: "by_severity signals = worst # others"
    using assms(1) by (cases "by_severity signals") auto
  have a: "as_effective_route a = rs_route worst" "as_signals a = by_severity signals"
    "as_confidence a = min_confidence (rs_confidence (hd signals)) (tl signals)"
    by (simp_all add: a_def aggregate_risk_signals_def sorted)
  have "worst \<in> set signals" using sorted by_severity_set [of signals] by auto
  then have "Max (signal_severity ` set signals) = signal_severity worst"
    using by_severity_hd [OF sorted] by (intro Max_eqI) auto
  moreover have "mset (by_severity signals) = mset signals" by (simp add: by_severity_def)
  moreover have "f_le (as_confidence a) (rs_confidence s)" if "s \<in> set signals" for s
    using that assms(1, 2) min_confidence_le [of "rs_confidence (hd signals)" "tl signals"] a(3)
    by (cases signals) auto
  ultimately show ?thesis using a by (simp add: assessment_severity_def signal_severity_def)
qed

lemma resolve_stops:
  assumes "engine_resolve a cfg = Inr r"
  shows "ra_action r \<in> {''blocked'', ''risk_off''} \<longleftrightarrow> as_effective_route a \<in> {''blocked'', ''risk_off''}"
  using assms by (auto simp: engine_resolve_def Let_def res_simps default_action_def split: if_splits)

lemma aggregate_stops:
  assumes "signals \<noteq> []"
  shows "as_effective_route (aggregate_risk_signals signals regime) \<in> {''blocked'', ''risk_off''}
    \<longleftrightarrow> (\<exists>s \<in> set signals. rs_route s \<in> {''blocked'', ''risk_off''})"
proof -
  obtain worst others where sorted: "by_severity signals = worst # others"
    using assms by (cases "by_severity signals") auto
  have worst: "worst \<in> set signals" using sorted by_severity_set [of signals] by auto
  have "4 \<le> signal_severity worst \<longleftrightarrow> (\<exists>s \<in> set signals. 4 \<le> signal_severity s)"
    using worst by_severity_hd [OF sorted] by force
  then show ?thesis
    using severity_stops by (auto simp: aggregate_risk_signals_def sorted signal_severity_def)
qed

lemma plugin_signal_stops:
  "rs_route (plugin_signal md p) \<in> {''blocked'', ''risk_off''}
    \<longleftrightarrow> \<not> (\<exists>s. p md = Inr s \<and> rs_route s \<notin> {''blocked'', ''risk_off''})"
  by (cases "p md") (auto simp: plugin_signal_def plugin_error_signal_def)

text \<open>C31: the engine approves a decision exactly when the account snapshot is there with a finite
  positive equity and no plugin raised, blocked or asked for risk off; without plugins its default
  route decides. A plugin that raises therefore stops the decision.\<close>

theorem engine_approves_iff:
  assumes "engine_assess eng decision portfolio market_data = Inr a"
  defines "md \<equiv> ((case market_data of None \<Rightarrow> [] | Some d \<Rightarrow> d), Some (portfolio, decision))"
  shows "ra_action a = ''approve'' \<longleftrightarrow>
    portfolio \<noteq> NoPortfolio \<and> finite_pos (portfolio_equity portfolio)
    \<and> (if re_plugins eng = [] then re_default_route eng \<notin> {''blocked'', ''risk_off''}
       else \<forall>p \<in> set (re_plugins eng). \<exists>s. p md = Inr s \<and> rs_route s \<notin> {''blocked'', ''risk_off''})"
proof (cases "portfolio = NoPortfolio")
  case True
  then show ?thesis using assms(1) by (auto simp: engine_assess_def reject_action_def default_action_def)
next
  case False
  then obtain bad where bad: "invalid_number not_positive (portfolio_equity portfolio) = Inr bad"
    using assms(1) by (auto simp: engine_assess_def res_simps)
  show ?thesis
  proof (cases bad)
    case True
    then show ?thesis
      using assms(1) False bad finite_pos_check [OF bad]
      by (auto simp: engine_assess_def reject_action_def default_action_def)
  next
    case ok: False
    obtain assessment resolved where run: "engine_evaluate eng md None = Inr assessment"
        "engine_resolve assessment None = Inr resolved"
      and a: "a = (if ra_action resolved \<in> {''blocked'', ''risk_off''} then reject_action (ra_reason resolved)
             else default_action ''approve'' ''risk_engine_passed'')"
      using assms(1) False bad ok by (auto simp: engine_assess_def bind_res_Inr_iff md_def)
    have "ra_action a = ''approve'' \<longleftrightarrow> as_effective_route assessment \<notin> {''blocked'', ''risk_off''}"
      using resolve_stops [OF run(2)] by (simp add: a reject_action_def default_action_def)
    moreover have "as_effective_route assessment \<notin> {''blocked'', ''risk_off''} \<longleftrightarrow>
      (if re_plugins eng = [] then re_default_route eng \<notin> {''blocked'', ''risk_off''}
       else \<forall>p \<in> set (re_plugins eng). \<exists>s. p md = Inr s \<and> rs_route s \<notin> {''blocked'', ''risk_off''})"
    proof (cases "re_plugins eng = []")
      case True
      then show ?thesis using run(1) by (auto simp: engine_evaluate_def bind_res_Inr_iff)
    next
      case ne: False
      obtain regime where "assessment = aggregate_risk_signals (map (plugin_signal md) (re_plugins eng)) regime"
        using run(1) ne by (auto simp: engine_evaluate_def bind_res_Inr_iff)
      then show ?thesis
        using aggregate_stops [of "map (plugin_signal md) (re_plugins eng)"] plugin_signal_stops [of md] ne
        by (simp add: Ball_def Bex_def)
    qed
    ultimately show ?thesis using False finite_pos_check [OF bad] ok by simp
  qed
qed

text \<open>What validated limits look like.\<close>

definition limits_ok :: "runtime_risk_limits \<Rightarrow> bool" where
  "limits_ok l \<longleftrightarrow> rl_allowed_symbols l \<noteq> [] \<and> distinct (rl_allowed_symbols l)
     \<and> (\<forall>s \<in> set (rl_allowed_symbols l). s \<noteq> [] \<and> s = strip s \<and> s = upper s)
     \<and> set (keys (rl_product_leverage_factors l)) = set (rl_allowed_symbols l)
     \<and> set (keys (rl_nominal_caps l)) = set (rl_allowed_symbols l)
     \<and> (\<forall>(s, v) \<in> set (rl_product_leverage_factors l). \<exists>i \<ge> 1. v = PInt i)
     \<and> (\<forall>(s, v) \<in> set (rl_nominal_caps l). finite_nonneg v)
     \<and> finite_nonneg (rl_total_nominal_exposure_cap l) \<and> finite_nonneg (rl_total_effective_exposure_cap l)
     \<and> (\<exists>i \<ge> 0. rl_max_positions l = PInt i)
     \<and> (rl_max_daily_loss_usd l = PNone \<or> finite_pos (rl_max_daily_loss_usd l))"

lemma any_res_False: "any_res f xs = Inr False \<longleftrightarrow> (\<forall>x \<in> set xs. f x = Inr False)"
proof (induction xs)
  case (Cons x xs)
  then show ?case by (cases "f x") auto
qed simp

lemma canonical_symbol_str: "canonical_symbol v \<Longrightarrow> str_of v \<noteq> [] \<and> str_of v = strip (str_of v) \<and> str_of v = upper (str_of v)"
  by (cases v) auto

lemma covering_keys: "covering_mapping symbols v name = Inr d \<Longrightarrow> set (keys d) = set symbols"
  by (cases v) (auto simp: covering_mapping_def require_Inr_iff)

lemma invalid_False_nonneg: "invalid_number negative v = Inr False \<Longrightarrow> finite_nonneg v"
  using finite_nonneg_check by blast

lemma invalid_False_pos: "invalid_number not_positive v = Inr False \<Longrightarrow> finite_pos v"
  using finite_pos_check by blast

text \<open>Limits that pass their validation are well formed: distinct canonical symbols, a factor of
  at least one and a finite cap of at least zero for exactly those symbols, finite exposure caps, a
  count of positions, and a daily loss limit that is absent or finite and positive.\<close>

theorem runtime_limits_well_formed:
  assumes "limits_post_init symbols factors caps nominal effective positions loss = Inr l"
  shows "limits_ok l"
proof -
  obtain items fs cs where items: "items \<noteq> []" "\<forall>v \<in> set items. canonical_symbol v" "distinct (map str_of items)"
    and fs: "covering_mapping (map str_of items) factors ''product_leverage_factors'' = Inr fs"
      "\<forall>v \<in> set (map snd fs). positive_factor v"
    and cs: "covering_mapping (map str_of items) caps ''nominal_caps'' = Inr cs"
      "any_res (invalid_number negative) (map snd cs) = Inr False"
    and rest: "invalid_number negative nominal = Inr False" "invalid_number negative effective = Inr False"
      "nonneg_int positions" "loss = PNone \<or> invalid_number not_positive loss = Inr False"
    and l: "l = \<lparr>rl_allowed_symbols = map str_of items, rl_product_leverage_factors = fs, rl_nominal_caps = cs,
        rl_total_nominal_exposure_cap = nominal, rl_total_effective_exposure_cap = effective,
        rl_max_positions = positions, rl_max_daily_loss_usd = loss\<rparr>"
    using assms unfolding limits_post_init_def Let_def bind_res_Inr_iff require_Inr_iff
    by (auto split: if_splits)
  have "\<forall>(s, v) \<in> set fs. \<exists>i \<ge> 1. v = PInt i" using fs(2) by (auto elim!: positive_factor.elims)
  moreover have "\<forall>(s, v) \<in> set cs. finite_nonneg v" using cs(2) invalid_False_nonneg by (auto simp: any_res_False)
  moreover have "\<exists>i \<ge> 0. positions = PInt i" using rest(3) by (cases positions) auto
  ultimately show ?thesis
    using items fs(1) cs(1) rest covering_keys canonical_symbol_str invalid_False_nonneg invalid_False_pos
    by (auto simp: limits_ok_def l)
qed

section \<open>Concrete inputs\<close>

definition watch_signal :: risk_signal where
  "watch_signal = plugin_error_signal\<lparr>rs_route := ''watch'', rs_confidence := Fin (1 / 2)\<rparr>"

theorem aggregation_is_worst_case_witness:
  "assessment_severity (aggregate_risk_signals [watch_signal, plugin_error_signal] None) = 5"
proof -
  have "[watch_signal, plugin_error_signal] \<noteq> []"
    "\<forall>s \<in> set [watch_signal, plugin_error_signal]. rs_confidence s \<noteq> NaN"
    by (simp_all add: watch_signal_def plugin_error_signal_def)
  from aggregation_is_worst_case [OF this] show ?thesis
    by (simp add: watch_signal_def plugin_error_signal_def signal_severity_def route_severity_def
        risk_route_severity_def)
qed

definition watching_engine :: "unit risk_engine" where
  "watching_engine = \<lparr>re_detector = None, re_plugins = [\<lambda>md. Inr watch_signal],
     re_default_route = ''no_action''\<rparr>"

theorem engine_approves_witness:
  "\<exists>a. engine_assess watching_engine () (Portfolio (PFloat (Fin 100))) None = Inr a
     \<and> ra_action a = ''approve''"
proof -
  obtain a where a: "engine_assess watching_engine () (Portfolio (PFloat (Fin 100))) None = Inr a"
    by (simp add: engine_assess_def watching_engine_def engine_evaluate_def portfolio_equity_def
        invalid_number_def plugin_signal_def aggregate_risk_signals_def by_severity_def
        engine_resolve_def watch_signal_def)
  then show ?thesis
    using engine_approves_iff [OF a]
    by (simp add: watching_engine_def watch_signal_def portfolio_equity_def finite_pos_def f_lt_def)
qed

theorem runtime_limits_well_formed_witness:
  "\<exists>l. limits_post_init (PList [PStr ''SPY'']) (PDict [(''SPY'', PInt 1)]) (PDict [(''SPY'', PFloat (Fin 1))])
     (PFloat (Fin 1)) (PFloat (Fin 1)) (PInt 3) PNone = Inr l \<and> limits_ok l"
proof -
  have "canonical_symbol (PStr ''SPY'')" by code_simp
  then obtain l where l: "limits_post_init (PList [PStr ''SPY'']) (PDict [(''SPY'', PInt 1)])
      (PDict [(''SPY'', PFloat (Fin 1))]) (PFloat (Fin 1)) (PFloat (Fin 1)) (PInt 3) PNone = Inr l"
    by (simp add: limits_post_init_def symbol_items_def covering_mapping_def keys_def
        invalid_number_def f_lt_def)
  then show ?thesis using runtime_limits_well_formed [OF l] by blast
qed

end
