(* ===== verification/ExecutionOutcomes.thy ===== *)
theory ExecutionOutcomes
  imports PyJson
begin

text \<open>
  The outcome of one strategy run (\<open>common/execution_outcomes.py\<close>): its stage, which stages are
  final, which may be retried because no order reached the broker, and which skipped orders block.
\<close>

definition default_terminal_stages :: "string list" where
  "default_terminal_stages = [''SUBMITTED'', ''RECONCILED'', ''COMPLETED'']"

definition default_retryable_stages :: "string list" where
  "default_retryable_stages = [''EXECUTION_BLOCKED'', ''FUNDING_BLOCKED'']"

definition default_blocking_skip_reasons :: "string list" where
  "default_blocking_skip_reasons = [''buy_quantity_zero'', ''insufficient_cash'',
     ''insufficient_cash_for_whole_share'', ''quote_unavailable'', ''sell_quantity_zero'']"

definition default_funding_skip_reasons :: "string list" where
  "default_funding_skip_reasons = [''insufficient_cash'', ''insufficient_cash_for_whole_share'']"

definition normalize_stage :: "pyval \<Rightarrow> string" where
  "normalize_stage v = upper (strip (str_or_empty v))"

definition normalize_skip_reason :: "pyval \<Rightarrow> string" where
  "normalize_skip_reason v = strip (str_or_empty v)"

definition is_terminal_stage :: "pyval \<Rightarrow> string list \<Rightarrow> bool" where
  "is_terminal_stage v terminal_stages \<longleftrightarrow> normalize_stage v \<in> set terminal_stages"

definition is_retryable_stage :: "pyval \<Rightarrow> string list \<Rightarrow> bool" where
  "is_retryable_stage v retryable_stages \<longleftrightarrow> normalize_stage v \<in> set retryable_stages"

definition filter_execution_blocking_skips :: "pydict list \<Rightarrow> string list \<Rightarrow> pydict list" where
  "filter_execution_blocking_skips skipped_orders blocking_reasons =
     filter (\<lambda>item. normalize_skip_reason (dget item ''reason'') \<in> set blocking_reasons) skipped_orders"

definition is_funding_block :: "pydict list \<Rightarrow> string list \<Rightarrow> bool" where
  "is_funding_block blocking_skips funding_reasons \<longleftrightarrow> blocking_skips \<noteq> []
     \<and> (\<forall>item \<in> set blocking_skips. normalize_skip_reason (dget item ''reason'') \<in> set funding_reasons)"

definition is_terminal_funding_block :: "pydict list \<Rightarrow> string list \<Rightarrow> bool" where
  "is_terminal_funding_block blocking_skips funding_reasons =
     is_funding_block blocking_skips funding_reasons"

definition resolve_strategy_run_stage :: "bool \<Rightarrow> bool \<Rightarrow> bool \<Rightarrow> bool \<Rightarrow> string" where
  "resolve_strategy_run_stage dry_run_only execution_blocked terminal_funding_block action_done =
     (if dry_run_only then ''DRY_RUN_COMPLETED''
      else if terminal_funding_block \<and> \<not> action_done then ''FUNDING_BLOCKED''
      else if execution_blocked \<and> action_done then ''PARTIAL_SUBMITTED''
      else if execution_blocked then ''EXECUTION_BLOCKED''
      else if action_done then ''SUBMITTED'' else ''NO_ACTION'')"

text \<open>The stages as the functions read them: their own normal form.\<close>

definition stage_names :: "string list" where
  "stage_names = [''DRY_RUN_COMPLETED'', ''FUNDING_BLOCKED'', ''PARTIAL_SUBMITTED'',
     ''EXECUTION_BLOCKED'', ''SUBMITTED'', ''NO_ACTION'']"

lemma normalize_stage_names: "list_all (\<lambda>s. normalize_stage (PStr s) = s) stage_names"
  by code_simp

lemma resolved_stage_normal:
  "normalize_stage (PStr (resolve_strategy_run_stage dry blocked funding done))
     = resolve_strategy_run_stage dry blocked funding done"
  using normalize_stage_names
  by (simp add: stage_names_def resolve_strategy_run_stage_def)

text \<open>For a run that is not a dry run, the stage may be retried exactly when nothing was done at
  the broker and the run was blocked, and it is final exactly when something was done and nothing
  was blocked; a dry run is neither. So a run that reached the broker is never offered for retry.\<close>

theorem retry_only_without_submission:
  fixes dry blocked funding acted :: bool
  defines "stage \<equiv> PStr (resolve_strategy_run_stage dry blocked funding acted)"
  shows "(is_retryable_stage stage default_retryable_stages
      \<longleftrightarrow> \<not> dry \<and> \<not> acted \<and> (blocked \<or> funding))
    \<and> (is_terminal_stage stage default_terminal_stages \<longleftrightarrow> \<not> dry \<and> acted \<and> \<not> blocked)"
  unfolding stage_def is_retryable_stage_def is_terminal_stage_def resolved_stage_normal
  by (simp add: resolve_strategy_run_stage_def default_retryable_stages_def default_terminal_stages_def)

end
