(* ===== verification/ExecutionMarkers.thy ===== *)
theory ExecutionMarkers
  imports CommandStore JsonRoundtrip PyNumber
begin

text \<open>
  The execution marker store (\<open>common/execution_state.py\<close>, up to the account journal): the keys of
  an execution and of an account owner, the durable markers, claims and outcomes under those keys,
  the exclusive claim of a physical account, the report scan and the store's configuration. A
  state is the object store's state and the file system, as in the command store.
\<close>

section \<open>Keys\<close>

fun first_non_empty :: "pyval list \<Rightarrow> string" where
  "first_non_empty [] = []"
| "first_non_empty (v # vs) =
     (let s = strip (str_or_empty v) in if s \<noteq> [] then s else first_non_empty vs)"

definition env_bool :: "pyval \<Rightarrow> bool \<Rightarrow> bool" where
  "env_bool v default_value = (let s = lower (strip (str_or_empty v)) in
     if s = [] then default_value
     else if s \<in> {''1'', ''true'', ''t'', ''yes'', ''y'', ''on''} then True
     else if s \<in> {''0'', ''false'', ''f'', ''no'', ''n'', ''off''} then False
     else default_value)"

text \<open>\<open>_parse_cloud_uri\<close>: the bucket and the prefix without slashes around it.\<close>

definition parse_cloud_uri :: "string \<Rightarrow> (string \<times> string) res" where
  "parse_cloud_uri uri = (let s = strip uri in
     if \<not> starts_with ''gs://'' s \<and> \<not> starts_with ''s3://'' s
     then Inl (ValueError ''cloud uri must start with gs:// or s3://'')
     else let remainder = drop 5 s; bucket = takeWhile (\<lambda>c. c \<noteq> CHR ''/'') remainder;
              rest = drop 1 (dropWhile (\<lambda>c. c \<noteq> CHR ''/'') remainder)
       in if bucket = [] then Inl (ValueError ''cloud uri must include a bucket'')
          else Inr (bucket, strip_by (\<lambda>c. c = CHR ''/'') rest))"

text \<open>The environment is a function; the deprecation warning has no effect on the result.\<close>

definition read_cloud_env :: "(string \<Rightarrow> string option) \<Rightarrow> string \<Rightarrow> string \<Rightarrow> string option" where
  "read_cloud_env env new_key old_key = (case env new_key of Some v \<Rightarrow> Some v | None \<Rightarrow> env old_key)"

definition key_char :: "char \<Rightarrow> bool" where
  "key_char c \<longleftrightarrow> is_lower c \<or> is_digit c \<or> c \<in> {CHR ''.'', CHR ''_'', CHR ''='', CHR ''-''}"

definition clean_key_part :: "pyval \<Rightarrow> string \<Rightarrow> string" where
  "clean_key_part v fallback =
     (let cleaned = strip_by (\<lambda>c. c = CHR ''-'' \<or> c = CHR ''.'')
            (squeeze (sub_runs key_char (lower (strip (str_or_empty v)))))
      in if cleaned = [] then fallback else cleaned)"

definition slashes :: "string \<Rightarrow> string" where
  "slashes key = map (\<lambda>c. if c = CHR 0x5C then CHR ''/'' else c) key"

definition clean_relative_key :: "string \<Rightarrow> string" where
  "clean_relative_key key =
     (let parts = map (\<lambda>part. clean_key_part (PStr part) ''unknown'')
            (filter (\<lambda>part. strip part \<noteq> []) (split_on (CHR ''/'') (slashes key)))
      in if parts = [] then ''unknown'' else join ''/'' parts)"

definition build_execution_marker_key ::
  "string \<Rightarrow> string \<Rightarrow> string \<Rightarrow> string \<Rightarrow> pyval \<Rightarrow> pyval \<Rightarrow> pyval \<Rightarrow> string" where
  "build_execution_marker_key platform strategy_profile account_scope execution_mode signal_date
     effective_date execution_timing_contract =
     (let signal = first_non_empty [signal_date]; effective = first_non_empty [effective_date] in
      if signal = [] \<and> effective = [] then []
      else join ''/'' [''v1'', clean_key_part (PStr platform) ''platform'',
        clean_key_part (PStr account_scope) ''account'',
        clean_key_part (PStr strategy_profile) ''strategy'',
        clean_key_part (PStr execution_mode) ''mode'',
        clean_key_part (PStr (if signal = [] then ''no-signal-date'' else signal)) ''signal'',
        clean_key_part (PStr (if effective = [] then ''no-effective-date'' else effective)) ''effective'',
        clean_key_part (py_or execution_timing_contract (PStr ''no-contract'')) ''contract''])"

definition build_account_owner_marker_key :: "string \<Rightarrow> string \<Rightarrow> string res" where
  "build_account_owner_marker_key broker account_id =
     (let broker_part = first_non_empty [PStr broker]; account_part = first_non_empty [PStr account_id] in
      if broker_part = [] \<or> account_part = []
      then Inl (ValueError ''account owner marker requires broker and account_id'')
      else Inr (join ''/'' [''v1'', ''account-owner'', clean_key_part (PStr broker_part) ''broker'',
        clean_key_part (PStr account_part) ''account'']))"

section \<open>The store\<close>

record marker_store =
  ms_local_dir :: "string option"
  ms_cloud_prefix_uri :: "string option"
  ms_project_id :: "string option"
  ms_namespace :: string
  ms_outcome_namespace :: string
  ms_scan_limit :: pyval

text \<open>The object store also tests for an object and overwrites one; \<open>expanduser\<close> and the directory
  for temporary files are the operating system's.\<close>

record 'w marker_backend = "'w object_store" +
  mb_exists :: "string \<Rightarrow> 'w \<Rightarrow> bool res"
  mb_write_text :: "string \<Rightarrow> string \<Rightarrow> 'w \<Rightarrow> unit res \<times> 'w"
  mb_expanduser :: "string \<Rightarrow> string"
  mb_tempdir :: string

definition local_root :: "marker_store \<Rightarrow> 'w marker_backend \<Rightarrow> string" where
  "local_root st bk = norm_path (mb_expanduser bk
     (if is_set (ms_local_dir st) then the (ms_local_dir st) else mb_tempdir bk))"

definition local_path_in :: "marker_store \<Rightarrow> 'w marker_backend \<Rightarrow> string \<Rightarrow> string \<Rightarrow> string" where
  "local_path_in st bk namespace marker_key =
     path_join (path_join (local_root st bk) namespace) (clean_relative_key marker_key @ ''.json'')"

definition marker_path :: "marker_store \<Rightarrow> 'w marker_backend \<Rightarrow> string \<Rightarrow> string" where
  "marker_path st bk marker_key = local_path_in st bk (ms_namespace st) marker_key"

definition outcome_path :: "marker_store \<Rightarrow> 'w marker_backend \<Rightarrow> string \<Rightarrow> string" where
  "outcome_path st bk marker_key = local_path_in st bk (ms_outcome_namespace st) marker_key"

text \<open>The parts of an object name, without the ones that are empty or only slashes.\<close>

definition object_name :: "string list \<Rightarrow> string" where
  "object_name parts = join ''/''
     (filter (\<lambda>p. p \<noteq> []) (map (strip_by (\<lambda>c. c = CHR ''/'')) parts))"

definition cloud_uri_for_namespace :: "marker_store \<Rightarrow> string \<Rightarrow> string \<Rightarrow> string res" where
  "cloud_uri_for_namespace st marker_key namespace =
     bind_res (parse_cloud_uri (case ms_cloud_prefix_uri st of None \<Rightarrow> [] | Some u \<Rightarrow> u)) (\<lambda>(bucket, prefix).
     Inr (''gs://'' @ bucket @ ''/''
       @ object_name [prefix, namespace, clean_relative_key marker_key @ ''.json'']))"

definition cloud_prefix_for_namespace :: "marker_store \<Rightarrow> string \<Rightarrow> string \<Rightarrow> string res" where
  "cloud_prefix_for_namespace st marker_key namespace =
     bind_res (parse_cloud_uri (case ms_cloud_prefix_uri st of None \<Rightarrow> [] | Some u \<Rightarrow> u)) (\<lambda>(bucket, prefix).
     Inr (''gs://'' @ bucket @ ''/''
       @ object_name [prefix, namespace, clean_relative_key marker_key] @ ''/''))"

definition marker_uri :: "marker_store \<Rightarrow> string \<Rightarrow> string res" where
  "marker_uri st marker_key = cloud_uri_for_namespace st marker_key (ms_namespace st)"

definition outcome_uri :: "marker_store \<Rightarrow> string \<Rightarrow> string res" where
  "outcome_uri st marker_key = cloud_uri_for_namespace st marker_key (ms_outcome_namespace st)"

abbreviation on_cloud :: "marker_store \<Rightarrow> bool" where
  "on_cloud st \<equiv> is_set (ms_cloud_prefix_uri st)"

definition path_exists :: "string \<Rightarrow> files \<Rightarrow> bool" where
  "path_exists p fs \<longleftrightarrow> map_of fs p \<noteq> None \<or> (\<exists>u \<in> set (file_names fs). path_below p u \<noteq> None)"

definition has_marker :: "marker_store \<Rightarrow> 'w marker_backend \<Rightarrow> string \<Rightarrow> 'w \<times> files \<Rightarrow> bool res" where
  "has_marker st bk marker_key w = (case w of (cw, fs) \<Rightarrow>
     if strip marker_key = [] then Inr False
     else bind_res (if on_cloud st then bind_res (marker_uri st marker_key) (\<lambda>u. mb_exists bk u cw)
                    else Inr False) (\<lambda>in_cloud.
       Inr (in_cloud \<or> (is_set (ms_local_dir st) \<and> path_exists (marker_path st bk marker_key) fs))))"

text \<open>The payloads. \<open>now\<close> is the clock's UTC instant as text.\<close>

definition marker_payload :: "string \<Rightarrow> pydict \<Rightarrow> string \<Rightarrow> string" where
  "marker_payload marker_key metadata now = json_dumps indent_style (PDict
     [(''schema_version'', PStr ''execution_marker.v1''), (''marker_key'', PStr marker_key),
      (''recorded_at'', PStr now), (''metadata'', PDict metadata)])"

definition outcome_payload :: "string \<Rightarrow> pydict \<Rightarrow> string \<Rightarrow> string" where
  "outcome_payload marker_key metadata now = json_dumps indent_style (PDict
     [(''schema_version'', PStr ''execution_outcome.v1''), (''marker_key'', PStr marker_key),
      (''recorded_at'', PStr now), (''metadata'', PDict metadata)])"

definition claim_payload :: "string \<Rightarrow> pydict \<Rightarrow> string \<Rightarrow> string" where
  "claim_payload marker_key metadata now = json_dumps indent_style (PDict
     [(''schema_version'', PStr ''execution_claim.v1''), (''marker_key'', PStr marker_key),
      (''claimed_at'', PStr now), (''state'', PStr ''claimed''), (''metadata'', PDict metadata)])"

definition record_marker ::
  "marker_store \<Rightarrow> 'w marker_backend \<Rightarrow> string \<Rightarrow> pydict \<Rightarrow> string \<Rightarrow> ('w \<times> files, unit) act" where
  "record_marker st bk marker_key metadata now w = (case w of (cw, fs) \<Rightarrow>
     if strip marker_key = [] then (Inr (), w)
     else if on_cloud st then
       (case marker_uri st marker_key of Inl e \<Rightarrow> (Inl e, w)
        | Inr u \<Rightarrow> (let (r, cw') = mb_write_text bk u (marker_payload marker_key metadata now) cw
            in (r, (cw', fs))))
     else if is_set (ms_local_dir st) then
       (Inr (), (cw, dict_set fs (marker_path st bk marker_key) (marker_payload marker_key metadata now)))
     else (Inr (), w))"

text \<open>Create-only writes, shared by the claim and the outcome.\<close>

definition create_record ::
  "marker_store \<Rightarrow> 'w marker_backend \<Rightarrow> string res \<Rightarrow> string \<Rightarrow> string \<Rightarrow> string \<Rightarrow> ('w \<times> files, bool) act" where
  "create_record st bk uri path data missing w = (case w of (cw, fs) \<Rightarrow>
     if on_cloud st then
       (case uri of Inl e \<Rightarrow> (Inl e, w)
        | Inr u \<Rightarrow> (let (r, cw') = os_create_text bk u data cw in (r, (cw', fs))))
     else if is_set (ms_local_dir st) then
       (let (created, fs') = fs_create path data fs in (Inr created, (cw, fs')))
     else (Inl (RuntimeError missing), w))"

definition record_outcome ::
  "marker_store \<Rightarrow> 'w marker_backend \<Rightarrow> string \<Rightarrow> pydict \<Rightarrow> string \<Rightarrow> ('w \<times> files, bool) act" where
  "record_outcome st bk marker_key metadata now =
     (if strip marker_key = [] then ret False
      else create_record st bk (outcome_uri st marker_key) (outcome_path st bk marker_key)
        (outcome_payload marker_key metadata now)
        ''execution state store has no durable outcome backend'')"

definition claim_marker ::
  "marker_store \<Rightarrow> 'w marker_backend \<Rightarrow> string \<Rightarrow> pydict \<Rightarrow> string \<Rightarrow> ('w \<times> files, bool) act" where
  "claim_marker st bk marker_key metadata now =
     (if strip marker_key = [] then raise_act (ValueError ''execution claim requires a marker key'')
      else create_record st bk (marker_uri st marker_key) (marker_path st bk marker_key)
        (claim_payload marker_key metadata now)
        ''execution state store has no durable claim backend'')"

text \<open>An exception that means the object is not there. \<open>says_404\<close> tells whether its text holds 404,
  which the model's exceptions do not carry in general.\<close>

definition contains_text :: "string \<Rightarrow> string \<Rightarrow> bool" where
  "contains_text needle s \<longleftrightarrow> (\<exists>i \<in> set [0..<Suc (length s)]. starts_with needle (drop i s))"

definition means_not_found :: "(py_exc \<Rightarrow> bool) \<Rightarrow> py_exc \<Rightarrow> bool" where
  "means_not_found says_404 e \<longleftrightarrow> e = FileNotFoundError
     \<or> contains_text ''NotFound'' (exc_class e) \<or> says_404 e"

definition read_marker_text ::
  "marker_store \<Rightarrow> 'w marker_backend \<Rightarrow> (py_exc \<Rightarrow> bool) \<Rightarrow> string \<Rightarrow> 'w \<times> files \<Rightarrow> string option res" where
  "read_marker_text st bk says_404 marker_key w = (case w of (cw, fs) \<Rightarrow>
     if on_cloud st then
       bind_res (marker_uri st marker_key) (\<lambda>u.
       bind_res (mb_exists bk u cw) (\<lambda>there.
       if \<not> there then Inr None
       else (case os_read_text bk u cw of
           Inr s \<Rightarrow> Inr (Some s)
         | Inl e \<Rightarrow> if means_not_found says_404 e then Inr None else Inl e)))
     else if is_set (ms_local_dir st) then
       (let p = marker_path st bk marker_key in
        if \<not> path_exists p fs then Inr None else map_res Some (fs_read p fs))
     else Inl (RuntimeError ''execution state store has no durable claim backend''))"

definition read_marker ::
  "marker_store \<Rightarrow> 'w marker_backend \<Rightarrow> (py_exc \<Rightarrow> bool) \<Rightarrow> string \<Rightarrow> 'w \<times> files \<Rightarrow> pydict option res" where
  "read_marker st bk says_404 marker_key w =
     (if strip marker_key = [] then Inr None
      else bind_res (read_marker_text st bk says_404 marker_key w) (\<lambda>found. case found of
          None \<Rightarrow> Inr None
        | Some raw \<Rightarrow>
          if strip raw = [] then Inr None
          else (case json_loads raw of
              None \<Rightarrow> Inl (ValueError ''the text is not valid JSON'')
            | Some (PDict d) \<Rightarrow> Inr (Some d)
            | Some _ \<Rightarrow> Inl (RuntimeError
                (''execution marker payload is not an object: '' @ marker_key)))))"

section \<open>Owning an account\<close>

record owner_claim =
  oc_allowed :: bool
  oc_contested :: bool
  oc_created :: bool
  oc_owner_id :: string
  oc_marker_key :: string

definition claim_owner_metadata :: "pydict \<Rightarrow> string \<Rightarrow> pydict" where
  "claim_owner_metadata metadata owner = dict_set metadata ''owner_id'' (PStr owner)"

definition existing_owner_of :: "pydict \<Rightarrow> string" where
  "existing_owner_of existing =
     first_non_empty [case dget existing ''metadata'' of PDict m \<Rightarrow> dget m ''owner_id'' | _ \<Rightarrow> PNone]"

definition claim_account_owner ::
  "marker_store \<Rightarrow> 'w marker_backend \<Rightarrow> (py_exc \<Rightarrow> bool) \<Rightarrow> string \<Rightarrow> string \<Rightarrow> string \<Rightarrow> pydict \<Rightarrow> string
     \<Rightarrow> ('w \<times> files, owner_claim) act" where
  "claim_account_owner st bk says_404 broker account_id owner_id metadata now =
     (let owner = first_non_empty [PStr owner_id] in
      if owner = [] then raise_act (ValueError ''account owner claim requires owner_id'')
      else bind_act (lift_res (build_account_owner_marker_key broker account_id)) (\<lambda>marker_key.
        bind_act (claim_marker st bk marker_key (claim_owner_metadata metadata owner) now) (\<lambda>created.
        if created then ret \<lparr>oc_allowed = True, oc_contested = False, oc_created = True,
          oc_owner_id = owner, oc_marker_key = marker_key\<rparr>
        else (\<lambda>w. case read_marker st bk says_404 marker_key w of
            Inl e \<Rightarrow> (Inl e, w)
          | Inr None \<Rightarrow> (Inl (RuntimeError
              (''account owner claim lost the create race but marker is unreadable: '' @ marker_key)), w)
          | Inr (Some existing) \<Rightarrow>
              (let existing_owner = existing_owner_of existing in
               (Inr (if existing_owner = owner then
                  \<lparr>oc_allowed = True, oc_contested = False, oc_created = False, oc_owner_id = owner,
                   oc_marker_key = marker_key\<rparr>
                else
                  \<lparr>oc_allowed = False, oc_contested = True, oc_created = False,
                   oc_owner_id = (if existing_owner = [] then ''unknown'' else existing_owner),
                   oc_marker_key = marker_key\<rparr>), w))))))"

section \<open>Exclusive ownership\<close>

lemma first_non_empty_one: "first_non_empty [v] = strip (str_or_empty v)"
  by (simp add: Let_def)

lemma strip_Cons_not_space: "\<not> is_space c \<Longrightarrow> strip (c # s) \<noteq> []"
  by (auto simp: strip_def strip_by_def dropWhile_eq_Nil_conv)

lemma owner_key_not_blank:
  "build_account_owner_marker_key broker account = Inr key \<Longrightarrow> strip key \<noteq> []"
  by (auto simp: build_account_owner_marker_key_def Let_def is_space_def
      intro!: strip_Cons_not_space split: if_splits)

lemma json_dict_not_blank: "strip (json_dumps st (PDict d)) \<noteq> []"
  by (auto simp: json_dumps_def json_wrap_def is_space_def intro!: strip_Cons_not_space)

lemma owner_metadata_ok:
  "json_ok (PDict md) \<Longrightarrow> json_ok (PDict (claim_owner_metadata md owner))"
  by (induction md) (auto simp: claim_owner_metadata_def list_all_iff fst_dict_set split: if_splits)

lemma dict_set_same: "dget (dict_set d k v) k = v"
  by (simp add: dget_def map_of_dict_set)

text \<open>What a reader finds under a key whose claim was made with these arguments.\<close>

lemma claim_payload_owner:
  assumes "json_ok (PDict md)"
  obtains d where "json_loads (claim_payload key (claim_owner_metadata md owner) now) = Some (PDict d)"
    and "existing_owner_of d = strip owner"
proof -
  let ?md = "claim_owner_metadata md owner"
  let ?p = "[(''schema_version'', PStr ''execution_claim.v1''), (''marker_key'', PStr key),
      (''claimed_at'', PStr now), (''state'', PStr ''claimed''), (''metadata'', PDict ?md)]"
  have md: "json_ok (PDict ?md)" by (rule owner_metadata_ok [OF assms])
  then have "json_ok (PDict ?p)" by simp
  from json_loads_dict [OF this style_ok_styles(2)] obtain d where
    d: "json_loads (json_dumps indent_style (PDict ?p)) = Some (PDict d)"
      "\<And>k. dget d k = json_norm (dget ?p k)" by metis
  let ?m = "map (\<lambda>(k, v). (k, json_norm v)) (sort_key fst ?md)"
  have "dget ?p ''metadata'' = PDict ?md" by (simp add: dget_def)
  then have "dget d ''metadata'' = PDict ?m" by (simp only: d(2) json_norm_dict)
  moreover have "dget ?m ''owner_id'' = PStr owner"
    using md dget_norm_sorted [of ?md "''owner_id''"] by (simp add: claim_owner_metadata_def dict_set_same)
  ultimately have "existing_owner_of d = strip owner"
    by (simp add: existing_owner_of_def first_non_empty_one del: first_non_empty.simps)
  then show thesis using that d(1) by (simp add: claim_payload_def)
qed

lemma local_claim:
  assumes "\<not> on_cloud st" "is_set (ms_local_dir st)" "strip key \<noteq> []"
  shows "claim_marker st bk key md now (cw, fs) =
    (if map_of fs (marker_path st bk key) = None
     then (Inr True, (cw, dict_set fs (marker_path st bk key) (claim_payload key md now)))
     else (Inr False, (cw, fs)))"
  using assms by (simp add: claim_marker_def create_record_def fs_create_def)

lemma local_read:
  assumes "\<not> on_cloud st" "is_set (ms_local_dir st)" "strip key \<noteq> []"
    and "map_of fs (marker_path st bk key) = Some raw" "strip raw \<noteq> []" "json_loads raw = Some (PDict d)"
  shows "read_marker st bk says_404 key (cw, fs) = Inr (Some d)"
  using assms by (simp add: read_marker_def read_marker_text_def path_exists_def fs_read_def)

text \<open>A claim of an account on local storage: it creates the marker, or reads the one there.\<close>

lemma owner_claim_local:
  assumes "\<not> on_cloud st" "is_set (ms_local_dir st)" "build_account_owner_marker_key broker account = Inr key"
    "strip owner \<noteq> []"
  shows "map_of fs (marker_path st bk key) = None \<Longrightarrow>
      claim_account_owner st bk says_404 broker account owner md now (cw, fs) =
      (Inr \<lparr>oc_allowed = True, oc_contested = False, oc_created = True, oc_owner_id = strip owner,
         oc_marker_key = key\<rparr>,
       (cw, dict_set fs (marker_path st bk key)
              (claim_payload key (claim_owner_metadata md (strip owner)) now)))"
    and "map_of fs (marker_path st bk key) = Some raw \<Longrightarrow> strip raw \<noteq> [] \<Longrightarrow> json_loads raw = Some (PDict d)
      \<Longrightarrow> claim_account_owner st bk says_404 broker account owner md now (cw, fs) =
      (Inr (if existing_owner_of d = strip owner
        then \<lparr>oc_allowed = True, oc_contested = False, oc_created = False, oc_owner_id = strip owner,
          oc_marker_key = key\<rparr>
        else \<lparr>oc_allowed = False, oc_contested = True, oc_created = False,
          oc_owner_id = (if existing_owner_of d = [] then ''unknown'' else existing_owner_of d),
          oc_marker_key = key\<rparr>), (cw, fs))"
  using assms(3, 4)
  by (simp_all add: claim_account_owner_def bind_act_def Let_def
      local_claim [OF assms(1, 2) owner_key_not_blank [OF assms(3)]]
      local_read [OF assms(1, 2) owner_key_not_blank [OF assms(3)]] del: strip_trimmed)

lemma first_claim_file:
  assumes "json_ok (PDict md)"
  obtains d where "json_loads (claim_payload key (claim_owner_metadata md (strip owner)) now) = Some (PDict d)"
    "existing_owner_of d = strip owner"
    "strip (claim_payload key (claim_owner_metadata md (strip owner)) now) \<noteq> []"
  using claim_payload_owner [OF assms, of key "strip owner" now]
  by (auto simp: claim_payload_def json_dict_not_blank)

text \<open>C29: a physical account has one owner. Once a claim of the account created its marker, every
  later claim of the same account is refused to any other owner and allowed to the same one,
  reports the first owner and writes nothing, as long as nobody removes the marker file.\<close>

theorem account_owner_exclusive:
  assumes "\<not> on_cloud st" "is_set (ms_local_dir st)" "json_ok (PDict metadata)"
    and "claim_account_owner st bk says_404 broker account a metadata now (cw, fs) = (Inr first, (cw1, fs1))"
    and "oc_created first"
    and "map_of fs2 (marker_path st bk (oc_marker_key first))
           = map_of fs1 (marker_path st bk (oc_marker_key first))"
    and "claim_account_owner st bk says_404 broker account b metadata2 now2 (cw2, fs2) = (Inr second, w3)"
  shows "(oc_allowed second \<longleftrightarrow> strip b = strip a) \<and> \<not> oc_created second
    \<and> oc_owner_id second = strip a \<and> w3 = (cw2, fs2)"
proof -
  obtain key where key: "build_account_owner_marker_key broker account = Inr key" and a: "strip a \<noteq> []"
    using assms(4) by (auto simp: claim_account_owner_def Let_def res_simps split: if_splits)
  have b: "strip b \<noteq> []"
    using assms(7) by (auto simp: claim_account_owner_def Let_def split: if_splits)
  note claim_a = owner_claim_local [OF assms(1, 2) key a] and claim_b = owner_claim_local [OF assms(1, 2) key b]
  have free: "map_of fs (marker_path st bk key) = None"
  proof (rule ccontr)
    assume "\<not> ?thesis"
    then have "\<not> oc_created first"
      using assms(4) key a
      by (auto simp: claim_account_owner_def Let_def bind_act_def
          local_claim [OF assms(1, 2) owner_key_not_blank [OF key]] split: sum.splits option.splits if_splits)
    then show False using assms(5) by simp
  qed
  let ?raw = "claim_payload key (claim_owner_metadata metadata (strip a)) now"
  have first: "oc_marker_key first = key" "fs1 = dict_set fs (marker_path st bk key) ?raw"
    using assms(4) claim_a(1) [OF free, of says_404 metadata now cw] by auto
  obtain d where d: "json_loads ?raw = Some (PDict d)" "existing_owner_of d = strip a" "strip ?raw \<noteq> []"
    using first_claim_file [OF assms(3)] by metis
  have "map_of fs2 (marker_path st bk key) = Some ?raw"
    using assms(6) first by (simp add: map_of_dict_set)
  from claim_b(2) [OF this d(3, 1), of says_404 metadata2 now2 cw2] show ?thesis
    using assms(7) d(2) a by (auto split: if_splits)
qed

section \<open>Keys are paths of safe parts\<close>

abbreviation edge :: "char \<Rightarrow> bool" where
  "edge c \<equiv> c = CHR ''-'' \<or> c = CHR ''.''"

text \<open>No two hyphens in a row.\<close>

definition single_hyphens :: "string \<Rightarrow> bool" where
  "single_hyphens s \<longleftrightarrow> successively (\<lambda>c d. \<not> (c = CHR ''-'' \<and> d = CHR ''-'')) s"

definition clean_part :: "string \<Rightarrow> bool" where
  "clean_part s \<longleftrightarrow> s \<noteq> [] \<and> list_all key_char s \<and> trimmed_by edge s \<and> single_hyphens s"

lemma hd_squeeze: "squeeze (c # s) \<noteq> [] \<and> hd (squeeze (c # s)) = c"
  by (induction s arbitrary: c) auto

lemma squeeze_single: "single_hyphens (squeeze s)"
proof (induction s rule: squeeze.induct)
  case (1 c d cs)
  obtain t where t: "squeeze (d # cs) = d # t" using hd_squeeze [of d cs] by (metis list.collapse)
  show ?case
    using 1 by (auto simp: single_hyphens_def t successively_Cons)
qed (simp_all add: single_hyphens_def)

lemma squeeze_id: "single_hyphens s \<Longrightarrow> squeeze s = s"
  by (induction s rule: squeeze.induct) (auto simp: single_hyphens_def)

lemma set_squeeze: "set (squeeze s) \<subseteq> set s"
  by (induction s rule: squeeze.induct) auto

lemma strip_by_infix: "\<exists>u v. s = u @ strip_by P s @ v"
proof -
  let ?d = "dropWhile P s"
  have "?d = rev (dropWhile P (rev ?d)) @ rev (takeWhile P (rev ?d))"
    by (metis rev_append rev_rev_ident takeWhile_dropWhile_id)
  moreover have "s = takeWhile P s @ ?d" by simp
  ultimately show ?thesis unfolding strip_by_def by metis
qed

lemma single_hyphens_infix: "single_hyphens (u @ t @ v) \<Longrightarrow> single_hyphens t"
  by (simp add: single_hyphens_def successively_append_iff)

lemma strip_by_single: "single_hyphens s \<Longrightarrow> single_hyphens (strip_by P s)"
  using strip_by_infix [of s P] single_hyphens_infix by metis

lemma set_join: "set (join sep ps) \<subseteq> set sep \<union> (\<Union>p \<in> set ps. set p)"
  by (induction sep ps rule: join.induct) auto

lemma key_char_props: "key_char c \<Longrightarrow> lower_char c = c \<and> \<not> is_space c \<and> c \<noteq> CHR ''/'' \<and> c \<noteq> CHR 0x5C"
  by (auto simp: key_char_def lower_char_fixed is_lower_def is_digit_def is_space_def lower_char_def)

lemma key_char_hyphen: "key_char (CHR ''-'')"
  by (simp add: key_char_def)

lemma clean_part_result:
  assumes "clean_part fallback"
  shows "clean_part (clean_key_part v fallback)"
proof -
  let ?sq = "squeeze (sub_runs key_char (lower (strip (str_or_empty v))))"
  let ?c = "strip_by edge ?sq"
  have "key_char c" if "c \<in> set ?c" for c
    using that set_strip_by [of edge ?sq] set_squeeze set_sub_runs [of c key_char] key_char_hyphen by blast
  moreover have "single_hyphens ?c" by (rule strip_by_single [OF squeeze_single])
  moreover have "trimmed_by edge ?c" by simp
  ultimately have "?c \<noteq> [] \<Longrightarrow> clean_part ?c"
    unfolding clean_part_def list_all_iff by blast
  then show ?thesis using assms by (auto simp: clean_key_part_def Let_def)
qed

lemma clean_part_fixed:
  assumes "clean_part s"
  shows "clean_key_part (PStr s) fallback = s"
proof -
  have chars: "key_char c" if "c \<in> set s" for c using assms that by (auto simp: clean_part_def list_all_iff)
  have "strip s = s" using chars key_char_props by (auto intro!: strip_trimmed trimmed_all)
  moreover have "lower s = s" using chars key_char_props by (intro lower_fixed) auto
  moreover have "sub_runs key_char s = s" using chars by (rule sub_runs_safe)
  ultimately show ?thesis
    using assms by (simp add: clean_key_part_def clean_part_def squeeze_id)
qed

lemma clean_relative_key_parts:
  assumes "parts \<noteq> []" "\<And>p. p \<in> set parts \<Longrightarrow> clean_part p"
  shows "clean_relative_key (join ''/'' parts) = join ''/'' parts"
proof -
  have chars: "key_char c" if "p \<in> set parts" "c \<in> set p" for p c
    using assms(2) that by (auto simp: clean_part_def list_all_iff)
  have sep: "split_on (CHR ''/'') (join ''/'' parts) = parts"
    using assms(1) chars key_char_props by (intro split_on_join) blast+
  have "c \<noteq> CHR 0x5C" if "c \<in> set (join ''/'' parts)" for c
    using that set_join [of "''/''" parts] chars key_char_props by force
  then have "slashes (join ''/'' parts) = join ''/'' parts"
    unfolding slashes_def by (intro map_idI) auto
  moreover have "strip p \<noteq> []" if "p \<in> set parts" for p
    using assms(2) [OF that] chars [OF that] key_char_props
    by (cases p) (auto simp: clean_part_def intro!: strip_Cons_not_space)
  then have "filter (\<lambda>p. strip p \<noteq> []) parts = parts" by (simp add: filter_id_conv)
  moreover have "map (\<lambda>p. clean_key_part (PStr p) ''unknown'') parts = parts"
    using assms(2) clean_part_fixed by (intro map_idI) auto
  ultimately show ?thesis using assms(1) sep by (simp add: clean_relative_key_def)
qed

lemma clean_fallbacks: "list_all clean_part [''v1'', ''platform'', ''account'', ''strategy'', ''mode'',
    ''signal'', ''effective'', ''contract'', ''account-owner'', ''broker'', ''unknown'']"
  by code_simp

text \<open>C40: a marker key is its own path: it has eight parts of safe characters, none of which can
  climb out of its directory, and the cleaning that makes a file name of it leaves it unchanged, so
  two executions share a marker file exactly when they have the same key.\<close>

theorem marker_key_is_its_own_path:
  assumes "build_execution_marker_key platform profile account mode signal effective contract = key"
    and "key \<noteq> []"
  shows "clean_relative_key key = key \<and> length (split_on (CHR ''/'') key) = 8
    \<and> (\<forall>part \<in> set (split_on (CHR ''/'') key). part \<noteq> ''..'' \<and> clean_part part)"
proof -
  have fb: "clean_part ''v1''" "clean_part ''platform''" "clean_part ''account''" "clean_part ''strategy''"
    "clean_part ''mode''" "clean_part ''signal''" "clean_part ''effective''" "clean_part ''contract''"
    using clean_fallbacks by simp_all
  define sig eff where "sig = first_non_empty [signal]" and "eff = first_non_empty [effective]"
  define parts where "parts = [''v1'', clean_key_part (PStr platform) ''platform'',
        clean_key_part (PStr account) ''account'', clean_key_part (PStr profile) ''strategy'',
        clean_key_part (PStr mode) ''mode'',
        clean_key_part (PStr (if sig = [] then ''no-signal-date'' else sig)) ''signal'',
        clean_key_part (PStr (if eff = [] then ''no-effective-date'' else eff)) ''effective'',
        clean_key_part (py_or contract (PStr ''no-contract'')) ''contract'']"
  have key: "key = join ''/'' parts"
    using assms unfolding build_execution_marker_key_def Let_def sig_def [symmetric] eff_def [symmetric]
      parts_def [symmetric] by (auto split: if_splits)
  have len: "length parts = 8" by (simp add: parts_def)
  have clean: "clean_part p" if "p \<in> set parts" for p
    using that fb clean_part_result unfolding parts_def by auto
  have ne: "parts \<noteq> []" using len by auto
  have "CHR ''/'' \<notin> set p" if "p \<in> set parts" for p
    using clean [OF that] key_char_props by (fastforce simp: clean_part_def list_all_iff)
  then have "split_on (CHR ''/'') key = parts" unfolding key using ne by (intro split_on_join) auto
  moreover have "p \<noteq> ''..''" if "clean_part p" for p
    using that by (auto simp: clean_part_def trimmed_by_def)
  ultimately show ?thesis
    using clean_relative_key_parts [OF ne clean] clean len key by auto
qed

section \<open>Concrete inputs\<close>

theorem marker_key_is_its_own_path_witness:
  "build_execution_marker_key ''IBKR'' ''Alpha Beta'' ''U123'' ''live'' (PStr ''2026-01-02'') PNone PNone
     = ''v1/ibkr/u123/alpha-beta/live/2026-01-02/no-effective-date/no-contract''
   \<and> clean_relative_key ''v1/ibkr/u123/alpha-beta/live/2026-01-02/no-effective-date/no-contract''
     = ''v1/ibkr/u123/alpha-beta/live/2026-01-02/no-effective-date/no-contract''"
proof -
  have key: "build_execution_marker_key ''IBKR'' ''Alpha Beta'' ''U123'' ''live'' (PStr ''2026-01-02'') PNone PNone
     = ''v1/ibkr/u123/alpha-beta/live/2026-01-02/no-effective-date/no-contract''"
    by code_simp
  then show ?thesis using marker_key_is_its_own_path [OF key] by simp
qed

definition sample_store :: marker_store where
  "sample_store = \<lparr>ms_local_dir = Some ''/data'', ms_cloud_prefix_uri = None, ms_project_id = None,
     ms_namespace = ''execution_markers'', ms_outcome_namespace = ''execution_outcomes'',
     ms_scan_limit = PInt 100\<rparr>"

definition no_cloud :: "unit marker_backend" where
  "no_cloud = \<lparr>os_create_text = \<lambda>u d w. (Inl FileNotFoundError, w),
     os_read_text = \<lambda>u w. Inl FileNotFoundError, os_list = \<lambda>p w. Inr [],
     mb_exists = \<lambda>u w. Inr False, mb_write_text = \<lambda>u d w. (Inl FileNotFoundError, w),
     mb_expanduser = id, mb_tempdir = ''/tmp''\<rparr>"

abbreviation sample_claim :: "string \<Rightarrow> unit \<times> files \<Rightarrow> owner_claim res \<times> (unit \<times> files)" where
  "sample_claim owner \<equiv> claim_account_owner sample_store no_cloud (\<lambda>_. False) ''ibkr'' ''U123'' owner []
     ''2026-01-02T00:00:00+00:00''"

theorem account_owner_exclusive_witness:
  "\<exists>first fs second w. sample_claim ''alpha'' ((), []) = (Inr first, ((), fs)) \<and> oc_created first
     \<and> sample_claim ''beta'' ((), fs) = (Inr second, w) \<and> \<not> oc_allowed second
     \<and> oc_owner_id second = ''alpha''"
proof -
  have strip: "strip ''alpha'' = ''alpha''" "strip ''beta'' = ''beta''" by code_simp+
  have key: "build_account_owner_marker_key ''ibkr'' ''U123'' = Inr ''v1/account-owner/ibkr/u123''"
    by code_simp
  have local: "\<not> on_cloud sample_store" "is_set (ms_local_dir sample_store)"
    by (simp_all add: sample_store_def is_set_def)
  have "map_of ([] :: files) (marker_path sample_store no_cloud ''v1/account-owner/ibkr/u123'') = None"
    by simp
  from owner_claim_local(1) [OF local key _ this, of "''alpha''"]
  obtain first fs where first: "sample_claim ''alpha'' ((), []) = (Inr first, ((), fs))" "oc_created first"
    and fs: "fs = dict_set [] (marker_path sample_store no_cloud ''v1/account-owner/ibkr/u123'')
      (claim_payload ''v1/account-owner/ibkr/u123'' (claim_owner_metadata [] (strip ''alpha''))
        ''2026-01-02T00:00:00+00:00'')"
    by (simp add: strip)
  obtain d where d: "json_loads (claim_payload ''v1/account-owner/ibkr/u123''
      (claim_owner_metadata [] (strip ''alpha'')) ''2026-01-02T00:00:00+00:00'') = Some (PDict d)"
    "existing_owner_of d = strip ''alpha''"
    "strip (claim_payload ''v1/account-owner/ibkr/u123''
      (claim_owner_metadata [] (strip ''alpha'')) ''2026-01-02T00:00:00+00:00'') \<noteq> []"
    using first_claim_file [of "[]" "''v1/account-owner/ibkr/u123''" "''alpha''" "''2026-01-02T00:00:00+00:00''"]
    by auto
  have "map_of fs (marker_path sample_store no_cloud ''v1/account-owner/ibkr/u123'')
      = Some (claim_payload ''v1/account-owner/ibkr/u123'' (claim_owner_metadata [] (strip ''alpha''))
          ''2026-01-02T00:00:00+00:00'')"
    by (simp add: fs)
  from owner_claim_local(2) [OF local key _ this d(3, 1), of "''beta''"]
  obtain second w where second: "sample_claim ''beta'' ((), fs) = (Inr second, w)"
    by (simp add: strip)
  have "json_ok (PDict [])" by simp
  from account_owner_exclusive [OF local this first refl second]
  show ?thesis using first second strip by auto
qed

end
