(* ===== verification/ExecutionReports.thy ===== *)
theory ExecutionReports
  imports ExecutionMarkers Sha256 "HOL-Library.Multiset"
begin

text \<open>
  The readers of the execution ledger (\<open>common/execution_state.py\<close>): the scan for a report of an
  earlier execution, the digest of the recent claims and outcomes, and how the store and its
  deduplication are configured from the environment.
\<close>

section \<open>Matching a report\<close>

text \<open>\<open>str.isdigit\<close> and \<open>str.isalnum\<close> on the modelled characters.\<close>

definition py_isdigit :: "char \<Rightarrow> bool" where
  "py_isdigit c \<longleftrightarrow> is_digit c \<or> ord c \<in> {178, 179, 185}"

definition py_isalnum :: "char \<Rightarrow> bool" where
  "py_isalnum c \<longleftrightarrow> is_alnum c \<or> py_isdigit c
     \<or> ord c \<in> {170, 181, 186, 188, 189, 190} \<or> (192 \<le> ord c \<and> ord c \<noteq> 215 \<and> ord c \<noteq> 247)"

definition optional_str :: "pyval \<Rightarrow> string" where
  "optional_str v = strip (str_or_empty v)"

definition is_paper_account_scope :: "pyval \<Rightarrow> bool" where
  "is_paper_account_scope v \<longleftrightarrow> upper (strip (str_or_empty v)) = ''PAPER''"

definition runtime_report_segment :: "pyval \<Rightarrow> string" where
  "runtime_report_segment v =
     (let safe = map (\<lambda>ch. if py_isalnum ch \<or> ch \<in> {CHR ''-'', CHR ''_'', CHR ''.''} then ch
            else CHR ''_'') (strip (str_or_empty v))
      in if safe = [] then ''unknown'' else safe)"

fun month_segment :: "pyval list \<Rightarrow> string" where
  "month_segment [] = []"
| "month_segment (v # vs) = (let s = optional_str v in
     if 7 \<le> length s \<and> s ! 4 = CHR ''-'' \<and> list_all py_isdigit (take 4 s)
        \<and> list_all py_isdigit (take 2 (drop 5 s))
     then take 7 s else month_segment vs)"

definition date_key :: "pyval \<Rightarrow> string" where
  "date_key v = (let s = optional_str v in
     if 10 \<le> length s \<and> s ! 4 = CHR ''-'' \<and> s ! 7 = CHR ''-'' then take 10 s else s)"

definition date_keys :: "pyval list \<Rightarrow> string list" where
  "date_keys vs = filter (\<lambda>key. key \<noteq> []) (map date_key vs)"

definition report_signal_snapshot :: "pydict \<Rightarrow> pydict" where
  "report_signal_snapshot report = (case dget report ''diagnostics'' of
     PDict diagnostics \<Rightarrow> (case dget diagnostics ''signal_snapshot'' of PDict d \<Rightarrow> d | _ \<Rightarrow> [])
   | _ \<Rightarrow> [])"

definition report_signal_date_keys :: "pydict \<Rightarrow> pydict \<Rightarrow> string list" where
  "report_signal_date_keys report summary = (let snapshot = report_signal_snapshot report in
     date_keys [dget summary ''signal_date'', dget snapshot ''signal_as_of'', dget snapshot ''market_date'',
       dget snapshot ''price_as_of'', dget snapshot ''snapshot_as_of''])"

definition report_effective_date_keys :: "pydict \<Rightarrow> pydict \<Rightarrow> string list" where
  "report_effective_date_keys report summary =
     date_keys [dget summary ''effective_date'', dget (report_signal_snapshot report) ''effective_date'']"

text \<open>\<open>int(float(value or 0)) > 0\<close>.\<close>

definition positive_count :: "pyval \<Rightarrow> bool res" where
  "positive_count v = bind_res (py_float (py_or v (PInt 0))) (\<lambda>x.
     map_res (\<lambda>i. 0 < i) (py_int (PFloat x)))"

definition is_successful_no_action_report :: "pydict \<Rightarrow> pydict \<Rightarrow> bool res" where
  "is_successful_no_action_report report summary =
     (if lower (optional_str (dget report ''status'')) \<noteq> ''ok'' then Inr False
      else bind_res (positive_count (dget summary ''orders_skipped_count'')) (\<lambda>skipped.
        Inr (\<not> skipped \<and> ''action_done'' \<in> set (keys summary) \<and> \<not> truthy (dget summary ''action_done''))))"

record report_query =
  rq_platform :: string
  rq_strategy_profile :: string
  rq_account_scope :: string
  rq_signal_date :: string
  rq_effective_date :: string
  rq_dry_run_only :: bool

definition report_matches_execution :: "report_query \<Rightarrow> pyval \<Rightarrow> bool res" where
  "report_matches_execution q payload =
     bind_res (dict_call (py_or payload (PDict []))) (\<lambda>report.
     let same = (\<lambda>field wanted. lower (optional_str (dget report field)) = lower (strip wanted)) in
     if \<not> same ''platform'' (rq_platform q) then Inr False
     else if \<not> same ''strategy_profile'' (rq_strategy_profile q) then Inr False
     else if \<not> same ''account_scope'' (rq_account_scope q) then Inr False
     else if truthy (dget report ''dry_run'') \<noteq> rq_dry_run_only q then Inr False
     else bind_res (dict_call (py_or (dget report ''summary'') (PDict []))) (\<lambda>summary.
       if rq_signal_date q \<noteq> [] \<and> date_key (PStr (rq_signal_date q)) \<notin> set (report_signal_date_keys report summary)
       then Inr False
       else if rq_effective_date q \<noteq> []
         \<and> date_key (PStr (rq_effective_date q)) \<notin> set (report_effective_date_keys report summary)
       then Inr False
       else if truthy (dget summary ''action_done'') then Inr True
       else bind_res (positive_count (dget summary ''orders_previewed_count'')) (\<lambda>previewed.
         if previewed then Inr True
         else bind_res (positive_count (dget summary ''order_events_count'')) (\<lambda>events.
           if events then Inr True else is_successful_no_action_report report summary))))"

text \<open>The scan: at most \<open>limit\<close> reports are read, an unreadable one is passed over.\<close>

fun scan_reports ::
  "(string \<Rightarrow> string res) \<Rightarrow> report_query \<Rightarrow> pyval \<Rightarrow> int \<Rightarrow> string list \<Rightarrow> bool res" where
  "scan_reports read q limit scanned [] = Inr False"
| "scan_reports read q limit scanned (uri # uris) =
     (if \<not> ends_with ''.json'' uri then scan_reports read q limit scanned uris
      else bind_res (py_int (py_or limit (PInt 1))) (\<lambda>n.
        if max 1 n < scanned + 1 then Inr False
        else (case map_res json_loads (read uri) of
            Inr (Some payload) \<Rightarrow> bind_res (report_matches_execution q payload) (\<lambda>hit.
              if hit then Inr True else scan_reports read q limit (scanned + 1) uris)
          | _ \<Rightarrow> scan_reports read q limit (scanned + 1) uris)))"

definition has_prior_execution_report ::
  "marker_store \<Rightarrow> 'w marker_backend \<Rightarrow> string \<Rightarrow> string \<Rightarrow> string \<Rightarrow> pyval \<Rightarrow> pyval \<Rightarrow> bool \<Rightarrow> 'w \<times> files \<Rightarrow> bool res" where
  "has_prior_execution_report st bk platform strategy_profile account_scope signal_date effective_date
     dry_run_only w = (case w of (cw, fs) \<Rightarrow>
     let signal = first_non_empty [signal_date]; effective = first_non_empty [effective_date] in
     if \<not> on_cloud st then Inr False
     else if signal = [] \<and> effective = [] then Inr False
     else bind_res (parse_cloud_uri (the (ms_cloud_prefix_uri st))) (\<lambda>(bucket, prefix).
       let object_prefix = object_name [prefix, runtime_report_segment (PStr platform),
             runtime_report_segment (PStr strategy_profile), runtime_report_segment (PStr account_scope),
             month_segment [PStr signal, PStr effective]];
           q = \<lparr>rq_platform = platform, rq_strategy_profile = strategy_profile,
             rq_account_scope = account_scope, rq_signal_date = signal, rq_effective_date = effective,
             rq_dry_run_only = dry_run_only\<rparr> in
       bind_res (os_list bk (''gs://'' @ bucket @ ''/'' @ object_prefix) cw) (\<lambda>uris.
       scan_reports (\<lambda>u. os_read_text bk u cw) q (ms_scan_limit st) 0 uris)))"

section \<open>The ledger digest\<close>

text \<open>\<open>xs[-n:]\<close> for a positive \<open>n\<close>.\<close>

definition last_n :: "nat \<Rightarrow> 'a list \<Rightarrow> 'a list" where
  "last_n n xs = drop (length xs - n) xs"

text \<open>The selected entries of one namespace, and whether there were more. Local paths are compared
  by their components.\<close>

definition recent_ledger_entries ::
  "marker_store \<Rightarrow> 'w marker_backend \<Rightarrow> string \<Rightarrow> string \<Rightarrow> nat \<Rightarrow> 'w \<times> files
     \<Rightarrow> ((string \<times> string) list \<times> bool) res" where
  "recent_ledger_entries st bk namespace relative_prefix limit w = (case w of (cw, fs) \<Rightarrow>
     if on_cloud st then
       bind_res (cloud_prefix_for_namespace st relative_prefix namespace) (\<lambda>prefix_uri.
       bind_res (os_list bk prefix_uri cw) (\<lambda>found.
       let uris = sort found in
       map_res (\<lambda>entries. (entries, limit < length uris))
         (mapM (\<lambda>u. map_res (\<lambda>content. (u, content)) (os_read_text bk u cw)) (last_n limit uris))))
     else if is_set (ms_local_dir st) then
       (let base = path_join (path_join (norm_path (mb_expanduser bk (the (ms_local_dir st)))) namespace)
              (clean_relative_key relative_prefix);
            paths = sort_key (split_on (CHR ''/''))
              (filter (\<lambda>u. path_below base u \<noteq> None \<and> ends_with ''.json'' u) (file_names fs)) in
        map_res (\<lambda>entries. (entries, limit < length paths))
          (mapM (\<lambda>p. map_res (\<lambda>content. (p, content)) (fs_read p fs)) (last_n limit paths)))
     else Inl (RuntimeError ''execution state store has no durable ledger backend''))"

type_synonym ledger_record = "string \<times> string \<times> string"

definition ledger_record :: "string \<Rightarrow> string \<times> string \<Rightarrow> ledger_record" where
  "ledger_record namespace entry = (namespace, sha256_hex (fst entry), sha256_hex (snd entry))"

definition ledger_json :: "ledger_record \<Rightarrow> pyval" where
  "ledger_json r = PDict [(''namespace'', PStr (fst r)), (''object_sha256'', PStr (fst (snd r))),
     (''content_sha256'', PStr (snd (snd r)))]"

definition ledger_payload :: "ledger_record list \<Rightarrow> pyval" where
  "ledger_payload records = PDict
     [(''schema_version'', PStr ''execution_ledger_digest.v1''),
      (''records'', PList (map ledger_json (sort records)))]"

definition ledger_digest :: "ledger_record list \<Rightarrow> string res" where
  "ledger_digest records = map_res sha256_hex (json_dumps_strict (compact_style True) (ledger_payload records))"

definition ledger_limit :: "pyval \<Rightarrow> nat res" where
  "ledger_limit record_limit =
     bind_res (reraise_type_value (py_int record_limit) (ValueError ''record_limit must be a positive integer'')) (\<lambda>n.
     require (0 < n) (ValueError ''record_limit must be a positive integer'') (Inr (nat n)))"

definition ledger_prefix :: "string \<Rightarrow> string \<Rightarrow> string \<Rightarrow> string \<Rightarrow> string" where
  "ledger_prefix platform strategy_profile account_scope execution_mode =
     join ''/'' [''v1'', clean_key_part (PStr platform) ''platform'',
       clean_key_part (PStr account_scope) ''account'', clean_key_part (PStr strategy_profile) ''strategy'',
       clean_key_part (PStr execution_mode) ''mode'']"

definition calculate_recent_ledger_digest_with_coverage ::
  "marker_store \<Rightarrow> 'w marker_backend \<Rightarrow> string \<Rightarrow> string \<Rightarrow> string \<Rightarrow> string \<Rightarrow> pyval \<Rightarrow> 'w \<times> files
     \<Rightarrow> (string \<times> nat \<times> bool) res" where
  "calculate_recent_ledger_digest_with_coverage st bk platform strategy_profile account_scope
     execution_mode record_limit w =
     bind_res (ledger_limit record_limit) (\<lambda>limit.
     let prefix = ledger_prefix platform strategy_profile account_scope execution_mode in
     bind_res (recent_ledger_entries st bk (ms_namespace st) prefix limit w) (\<lambda>(claims, more_claims).
     bind_res (recent_ledger_entries st bk (ms_outcome_namespace st) prefix limit w) (\<lambda>(outcomes, more_outcomes).
     let records = map (ledger_record (ms_namespace st)) claims
           @ map (ledger_record (ms_outcome_namespace st)) outcomes in
     map_res (\<lambda>digest. (digest, length records, more_claims \<or> more_outcomes)) (ledger_digest records))))"

definition calculate_recent_ledger_digest ::
  "marker_store \<Rightarrow> 'w marker_backend \<Rightarrow> string \<Rightarrow> string \<Rightarrow> string \<Rightarrow> string \<Rightarrow> pyval \<Rightarrow> 'w \<times> files
     \<Rightarrow> (string \<times> nat) res" where
  "calculate_recent_ledger_digest st bk platform strategy_profile account_scope execution_mode record_limit w =
     map_res (\<lambda>(digest, count, truncated). (digest, count))
       (calculate_recent_ledger_digest_with_coverage st bk platform strategy_profile account_scope
          execution_mode record_limit w)"

section \<open>Configuration\<close>

definition default_execution_state_dir :: string where
  "default_execution_state_dir = ''/tmp/quant_execution_state''"

text \<open>\<open>a or b\<close> on texts that may be missing.\<close>

definition opt_or :: "string option \<Rightarrow> string option \<Rightarrow> string option" where
  "opt_or a b = (if is_set a then a else b)"

definition opt_text :: "string option \<Rightarrow> pyval" where
  "opt_text v = (case v of None \<Rightarrow> PNone | Some s \<Rightarrow> PStr s)"

definition not_blank :: "string option \<Rightarrow> string option" where
  "not_blank v = (if strip (str_or_empty (opt_text v)) = [] then None else v)"

definition state_cloud_uri :: "(string \<Rightarrow> string option) \<Rightarrow> string \<Rightarrow> string option" where
  "state_cloud_uri env prefix =
     read_cloud_env env (prefix @ ''_EXECUTION_STATE_CLOUD_URI'') (prefix @ ''_EXECUTION_STATE_GCS_URI'')"

definition report_cloud_uri :: "(string \<Rightarrow> string option) \<Rightarrow> string option" where
  "report_cloud_uri env = opt_or (env ''QSL_EXECUTION_REPORT_CLOUD_URI'')
     (opt_or (env ''QSL_EXECUTION_REPORT_GCS_URI'')
        (read_cloud_env env ''EXECUTION_REPORT_CLOUD_URI'' ''EXECUTION_REPORT_GCS_URI''))"

definition below_root :: "string \<Rightarrow> string \<Rightarrow> bool" where
  "below_root base p \<longleftrightarrow> p = base \<or> path_below base p \<noteq> None"

text \<open>\<open>resolve\<close> is \<open>Path(...).expanduser().resolve()\<close>, a normal absolute path; \<open>tempdir\<close> is the
  operating system's.\<close>

definition build_execution_marker_store_from_env ::
  "(string \<Rightarrow> string) \<Rightarrow> string \<Rightarrow> (string \<Rightarrow> string option) \<Rightarrow> string \<Rightarrow> string option \<Rightarrow> string option
     \<Rightarrow> string option \<Rightarrow> marker_store res" where
  "build_execution_marker_store_from_env resolve tempdir env platform_env_prefix project_id
     default_local_dir execution_mode =
     (let prefix = upper (strip platform_env_prefix);
          mode = lower (first_non_empty [opt_text execution_mode, opt_text (env (prefix @ ''_EXECUTION_MODE''))]);
          explicit = state_cloud_uri env prefix;
          report = report_cloud_uri env;
          local_dir = (case not_blank (env (prefix @ ''_EXECUTION_STATE_DIR'')) of
              Some d \<Rightarrow> Some d | None \<Rightarrow> not_blank default_local_dir);
          cloud_uri = opt_or explicit report;
          store = \<lparr>ms_local_dir = Some (case local_dir of Some d \<Rightarrow> d | None \<Rightarrow> default_execution_state_dir),
            ms_cloud_prefix_uri = cloud_uri, ms_project_id = project_id,
            ms_namespace = ''execution_markers'', ms_outcome_namespace = ''execution_outcomes'',
            ms_scan_limit = PInt 100\<rparr> in
      if mode \<in> {''live'', ''real'', ''production''}
         \<and> first_non_empty [opt_text explicit, opt_text report] = []
         \<and> (case local_dir of None \<Rightarrow> True
            | Some d \<Rightarrow> below_root (resolve ''/tmp'') (resolve d) \<or> below_root (resolve tempdir) (resolve d))
      then Inl (ValueError ''EXECUTION_STATE_DURABLE_PATH_REQUIRED'')
      else Inr store)"

definition resolve_execution_dedup_enabled ::
  "(string \<Rightarrow> string option) \<Rightarrow> string \<Rightarrow> bool \<Rightarrow> pyval \<Rightarrow> bool" where
  "resolve_execution_dedup_enabled env platform_env_prefix dry_run_only account_scope =
     (let raw = env (upper (strip platform_env_prefix) @ ''_EXECUTION_DEDUP_ENABLED'') in
      if raw \<noteq> None \<and> strip (the raw) \<noteq> [] then env_bool (opt_text raw) dry_run_only
      else dry_run_only \<or> is_paper_account_scope account_scope)"

section \<open>Facts\<close>

text \<open>The reports the scan may read: the first ones, as many as the limit leaves.\<close>

lemma scan_reports_cong:
  assumes "\<forall>u \<in> set (take (nat (max 1 k - scanned)) (filter (ends_with ''.json'') uris)). read u = read' u"
    and "0 \<le> scanned"
  shows "scan_reports read q (PInt k) scanned uris = scan_reports read' q (PInt k) scanned uris"
  using assms
proof (induction uris arbitrary: scanned)
  case (Cons uri uris)
  have limit: "py_int (py_or (PInt k) (PInt 1)) = Inr (if k = 0 then 1 else k)"
    by (simp add: py_or_def py_int_def)
  have max: "max 1 (if k = 0 then 1 else k) = max 1 k" by auto
  show ?case
  proof (cases "ends_with ''.json'' uri \<and> scanned + 1 \<le> max 1 k")
    case True
    then have "nat (max 1 k - scanned) = Suc (nat (max 1 k - (scanned + 1)))" by (simp add: nat_eq_iff Suc_as_int)
    then have "read uri = read' uri"
      and rest: "\<forall>u \<in> set (take (nat (max 1 k - (scanned + 1))) (filter (ends_with ''.json'') uris)). read u = read' u"
      using Cons.prems(1) True by simp_all
    have "scan_reports read q (PInt k) (scanned + 1) uris = scan_reports read' q (PInt k) (scanned + 1) uris"
      using Cons.IH [OF rest] Cons.prems(2) by simp
    with \<open>read uri = read' uri\<close> True show ?thesis by (simp only: scan_reports.simps limit bind_res_simps not_True_eq_False if_False)
  next
    case False
    show ?thesis
    proof (cases "ends_with ''.json'' uri")
      case True
      then have "max 1 k < scanned + 1" using False by (simp only: simp_thms not_le)
      then have "max 1 (if k = 0 then 1 else k) < scanned + 1" by (simp only: max)
      then show ?thesis using True by (simp add: limit)
    next
      case other: False
      then show ?thesis using Cons.prems Cons.IH [of scanned] by simp
    qed
  qed
qed simp

text \<open>The scan for an earlier execution reads at most as many reports as its limit (and one when
  the limit is not positive): the contents of later reports cannot change its answer.\<close>

theorem report_scan_is_bounded:
  assumes "\<forall>u \<in> set (take (nat (max 1 k)) (filter (ends_with ''.json'') uris)). read u = read' u"
  shows "scan_reports read q (PInt k) 0 uris = scan_reports read' q (PInt k) 0 uris"
  using scan_reports_cong [of k 0 uris read read' q] assms by simp

lemma cloud_entries:
  assumes "on_cloud st"
  shows "recent_ledger_entries st bk ns prefix limit (cw, fs) =
    bind_res (cloud_prefix_for_namespace st prefix ns) (\<lambda>prefix_uri.
    bind_res (os_list bk prefix_uri cw) (\<lambda>found.
    map_res (\<lambda>entries. (entries, limit < length (sort found)))
      (mapM (\<lambda>u. map_res (\<lambda>content. (u, content)) (os_read_text bk u cw)) (last_n limit (sort found)))))"
  using assms by (simp add: recent_ledger_entries_def Let_def)

lemma cloud_entries_perm:
  assumes "on_cloud st" "os_read_text bk = os_read_text bk'"
    and "\<And>p. rel_sum (=) (\<lambda>us us'. mset us = mset us') (os_list bk p cw) (os_list bk' p cw)"
  shows "recent_ledger_entries st bk ns prefix limit (cw, fs)
    = recent_ledger_entries st bk' ns prefix limit (cw, fs)"
proof (cases "cloud_prefix_for_namespace st prefix ns")
  case (Inr p)
  show ?thesis
  proof (cases "os_list bk p cw")
    case (Inl e)
    then have "os_list bk' p cw = Inl e" using assms(3) [of p] by (auto elim: rel_sum.cases)
    then show ?thesis using Inl Inr assms(1) by (simp add: cloud_entries)
  next
    case found: (Inr us)
    then obtain us' where us': "os_list bk' p cw = Inr us'" "mset us = mset us'"
      using assms(3) [of p] by (auto elim: rel_sum.cases)
    then have "sort us = sort us'" by (metis properties_for_sort mset_sort sorted_sort)
    moreover have "length us = length us'" using us'(2) by (rule mset_eq_length)
    ultimately show ?thesis using found us' Inr assms(1, 2) by (simp add: cloud_entries)
  qed
qed (use assms(1) in \<open>simp add: cloud_entries\<close>)

text \<open>C39: the ledger digest is repeatable: two object stores that hold the same objects and return
  them in different orders give the same digest, count and coverage, and fail alike.\<close>

theorem ledger_digest_ignores_listing_order:
  assumes "on_cloud st" "os_read_text bk = os_read_text bk'"
    and "\<And>p. rel_sum (=) (\<lambda>us us'. mset us = mset us') (os_list bk p cw) (os_list bk' p cw)"
  shows "calculate_recent_ledger_digest_with_coverage st bk platform profile scope mode limit (cw, fs)
    = calculate_recent_ledger_digest_with_coverage st bk' platform profile scope mode limit (cw, fs)"
  using cloud_entries_perm [OF assms]
  by (simp add: calculate_recent_ledger_digest_with_coverage_def Let_def)

lemma opt_or_blank: "is_set a \<or> is_set b \<Longrightarrow> is_set (opt_or a b)"
  by (auto simp: opt_or_def)

lemma first_non_empty_two:
  "first_non_empty [opt_text a, opt_text b] \<noteq> [] \<Longrightarrow> is_set a \<or> is_set b"
  by (cases a; cases b) (auto simp: opt_text_def is_set_def Let_def strip_def strip_by_def split: if_splits)

text \<open>A marker store built for live execution is durable: it is on object storage, or its
  directory was given and does not lie under the directories for temporary files.\<close>

theorem live_store_is_durable:
  assumes "build_execution_marker_store_from_env resolve tempdir env platform project default_dir mode = Inr st"
    and "lower (first_non_empty [opt_text mode, opt_text (env (upper (strip platform) @ ''_EXECUTION_MODE''))])
      \<in> {''live'', ''real'', ''production''}"
  shows "on_cloud st \<or> (\<exists>d. ms_local_dir st = Some d
    \<and> \<not> below_root (resolve ''/tmp'') (resolve d) \<and> \<not> below_root (resolve tempdir) (resolve d))"
proof -
  let ?prefix = "upper (strip platform)"
  let ?explicit = "state_cloud_uri env ?prefix" and ?report = "report_cloud_uri env"
  show ?thesis
  proof (cases "first_non_empty [opt_text ?explicit, opt_text ?report] = []")
    case True
    then show ?thesis
      using assms unfolding build_execution_marker_store_from_env_def Let_def
      by (auto split: if_splits option.splits)
  next
    case False
    then have "is_set (opt_or ?explicit ?report)" using first_non_empty_two opt_or_blank by blast
    moreover have "ms_cloud_prefix_uri st = opt_or ?explicit ?report"
      using assms(1) unfolding build_execution_marker_store_from_env_def Let_def by (auto split: if_splits)
    ultimately show ?thesis by simp
  qed
qed

section \<open>Concrete inputs\<close>

definition sample_query :: report_query where
  "sample_query = \<lparr>rq_platform = ''ibkr'', rq_strategy_profile = ''alpha'', rq_account_scope = ''u1'',
     rq_signal_date = ''2026-01-02'', rq_effective_date = [], rq_dry_run_only = False\<rparr>"

theorem report_scan_is_bounded_witness:
  "scan_reports (\<lambda>u. Inr ''{}'') sample_query (PInt 1) 0 [''a.json'', ''b.json'']
     = scan_reports (\<lambda>u. if u = ''a.json'' then Inr ''{}'' else Inl FileNotFoundError) sample_query (PInt 1) 0
         [''a.json'', ''b.json'']"
  by (rule report_scan_is_bounded) (simp add: ends_with_def)

definition listing_backend :: "string list \<Rightarrow> unit marker_backend" where
  "listing_backend us = no_cloud\<lparr>os_list := \<lambda>p w. Inr us, os_read_text := \<lambda>u w. Inr u\<rparr>"

theorem ledger_digest_ignores_listing_order_witness:
  "calculate_recent_ledger_digest_with_coverage (sample_store\<lparr>ms_cloud_prefix_uri := Some ''gs://b/p''\<rparr>)
      (listing_backend [''x.json'', ''y.json'']) ''ibkr'' ''alpha'' ''u1'' ''live'' (PInt 5) ((), [])
   = calculate_recent_ledger_digest_with_coverage (sample_store\<lparr>ms_cloud_prefix_uri := Some ''gs://b/p''\<rparr>)
      (listing_backend [''y.json'', ''x.json'']) ''ibkr'' ''alpha'' ''u1'' ''live'' (PInt 5) ((), [])"
  by (rule ledger_digest_ignores_listing_order) (simp_all add: listing_backend_def is_set_def)

definition sample_env :: "string \<Rightarrow> string option" where
  "sample_env name = (if name = ''IBKR_EXECUTION_STATE_DIR'' then Some ''/var/lib/qsl'' else None)"

theorem live_store_is_durable_witness:
  "\<exists>st. build_execution_marker_store_from_env norm_path ''/tmp'' sample_env ''ibkr'' None None (Some ''live'') = Inr st
     \<and> ms_local_dir st = Some ''/var/lib/qsl'' \<and> \<not> below_root ''/tmp'' ''/var/lib/qsl''"
proof -
  have "case build_execution_marker_store_from_env norm_path ''/tmp'' sample_env ''ibkr'' None None (Some ''live'')
    of Inr st \<Rightarrow> ms_local_dir st = Some ''/var/lib/qsl'' \<and> \<not> on_cloud st | Inl e \<Rightarrow> False"
    by code_simp
  then obtain st where st: "build_execution_marker_store_from_env norm_path ''/tmp'' sample_env ''ibkr'' None None
      (Some ''live'') = Inr st" "ms_local_dir st = Some ''/var/lib/qsl''" "\<not> on_cloud st"
    by (auto split: sum.splits)
  have "lower (first_non_empty [opt_text (Some ''live''),
      opt_text (sample_env (upper (strip ''ibkr'') @ ''_EXECUTION_MODE''))]) = ''live''"
    by code_simp
  then have "lower (first_non_empty [opt_text (Some ''live''),
      opt_text (sample_env (upper (strip ''ibkr'') @ ''_EXECUTION_MODE''))]) \<in> {''live'', ''real'', ''production''}"
    by simp
  from live_store_is_durable [OF st(1) this] st(2, 3)
  have "\<not> below_root (norm_path ''/tmp'') (norm_path ''/var/lib/qsl'')" by auto
  moreover have "norm_path ''/tmp'' = ''/tmp''" "norm_path ''/var/lib/qsl'' = ''/var/lib/qsl''" by code_simp+
  ultimately show ?thesis using st by auto
qed

end
