(* ===== verification/CnCalendar.thy ===== *)
theory CnCalendar
  imports PyDate Prelude
begin

text \<open>
  The mainland China equity calendar (\<open>common/cn_equity_calendar.py\<close>): weekdays, holidays and the
  searches over them. The searches are the code's loops, written as \<open>partial_function (option)\<close>, so
  that not returning would be the value None; that they return is proved. A step past the last
  date Python has raises OverflowError.
\<close>

definition cn_equity_holidays :: "string list" where
  "cn_equity_holidays =
    [''2023-01-02'', ''2023-01-23'', ''2023-01-24'', ''2023-01-25'', ''2023-01-26'',
     ''2023-01-27'', ''2023-04-05'', ''2023-05-01'', ''2023-05-02'', ''2023-05-03'',
     ''2023-06-22'', ''2023-06-23'', ''2023-09-29'', ''2023-10-02'', ''2023-10-03'',
     ''2023-10-04'', ''2023-10-05'', ''2023-10-06'', ''2024-01-01'', ''2024-02-09'',
     ''2024-02-12'', ''2024-02-13'', ''2024-02-14'', ''2024-02-15'', ''2024-02-16'',
     ''2024-04-04'', ''2024-04-05'', ''2024-05-01'', ''2024-05-02'', ''2024-05-03'',
     ''2024-06-10'', ''2024-09-16'', ''2024-09-17'', ''2024-10-01'', ''2024-10-02'',
     ''2024-10-03'', ''2024-10-04'', ''2024-10-07'', ''2025-01-01'', ''2025-01-28'',
     ''2025-01-29'', ''2025-01-30'', ''2025-01-31'', ''2025-02-03'', ''2025-02-04'',
     ''2025-04-04'', ''2025-05-01'', ''2025-05-02'', ''2025-05-05'', ''2025-06-02'',
     ''2025-10-01'', ''2025-10-02'', ''2025-10-03'', ''2025-10-06'', ''2025-10-07'',
     ''2025-10-08'', ''2026-01-01'', ''2026-01-02'', ''2026-02-16'', ''2026-02-17'',
     ''2026-02-18'', ''2026-02-19'', ''2026-02-20'', ''2026-02-23'', ''2026-04-06'',
     ''2026-05-01'', ''2026-05-04'', ''2026-05-05'', ''2026-06-19'', ''2026-09-25'',
     ''2026-10-01'', ''2026-10-02'', ''2026-10-05'', ''2026-10-06'', ''2026-10-07'']"

section \<open>Steps of one day\<close>

text \<open>\<open>d + timedelta(days=1)\<close> and \<open>d - timedelta(days=1)\<close>; None is OverflowError.\<close>

definition date_plus_one :: "pydate \<Rightarrow> pydate option" where
  "date_plus_one d =
     (if day d < days_in_month (year d) (month d) then Some (d\<lparr>day := day d + 1\<rparr>)
      else if month d < 12 then Some \<lparr>year = year d, month = month d + 1, day = 1\<rparr>
      else if year d < 9999 then Some \<lparr>year = year d + 1, month = 1, day = 1\<rparr>
      else None)"

definition date_minus_one :: "pydate \<Rightarrow> pydate option" where
  "date_minus_one d =
     (if 1 < day d then Some (d\<lparr>day := day d - 1\<rparr>)
      else if 1 < month d then Some \<lparr>year = year d, month = month d - 1,
        day = days_in_month (year d) (month d - 1)\<rparr>
      else if 1 < year d then Some \<lparr>year = year d - 1, month = 12, day = 31\<rparr>
      else None)"

text \<open>\<open>date.weekday()\<close>: Monday is 0.\<close>

definition weekday :: "pydate \<Rightarrow> int" where
  "weekday d = (date_days d + 6) mod 7"

section \<open>Trading days\<close>

datatype date_arg = DateValue pydate | DateTimeValue pydate | DateText string

definition normalize_cn_equity_date :: "date_arg \<Rightarrow> pydate res" where
  "normalize_cn_equity_date v = (case v of
     DateTimeValue d \<Rightarrow> Inr d
   | DateValue d \<Rightarrow> Inr d
   | DateText s \<Rightarrow> (let t = strip s in
       if t = [] then Inl (ValueError ''date value is required'')
       else case date_fromisoformat (take 10 t) of
         None \<Rightarrow> Inl (ValueError ''Invalid isoformat string'') | Some d \<Rightarrow> Inr d))"

definition is_cn_equity_weekday :: "pydate \<Rightarrow> bool" where
  "is_cn_equity_weekday d \<longleftrightarrow> weekday d < 5"

definition is_cn_equity_holiday :: "string list option \<Rightarrow> pydate \<Rightarrow> bool" where
  "is_cn_equity_holiday holidays d \<longleftrightarrow> date_isoformat d \<in>
     set (case holidays of None \<Rightarrow> cn_equity_holidays | Some hs \<Rightarrow> hs)"

definition is_cn_equity_trading_day :: "string list option \<Rightarrow> pydate \<Rightarrow> bool" where
  "is_cn_equity_trading_day holidays d \<longleftrightarrow>
     is_cn_equity_weekday d \<and> \<not> is_cn_equity_holiday holidays d"

section \<open>Searches\<close>

partial_function (option) next_trading_loop :: "string list option \<Rightarrow> pydate \<Rightarrow> pydate res option" where
  "next_trading_loop holidays current = (case date_plus_one current of
     None \<Rightarrow> Some (Inl OverflowError)
   | Some d \<Rightarrow> if is_cn_equity_trading_day holidays d then Some (Inr d) else next_trading_loop holidays d)"

definition next_cn_equity_trading_day :: "string list option \<Rightarrow> date_arg \<Rightarrow> pydate res option" where
  "next_cn_equity_trading_day holidays v = (case normalize_cn_equity_date v of
     Inl e \<Rightarrow> Some (Inl e) | Inr d \<Rightarrow> next_trading_loop holidays d)"

fun add_trading_loop :: "string list option \<Rightarrow> nat \<Rightarrow> pydate \<Rightarrow> pydate res option" where
  "add_trading_loop holidays 0 current = Some (Inr current)"
| "add_trading_loop holidays (Suc remaining) current =
     (case next_trading_loop holidays current of
        None \<Rightarrow> None
      | Some (Inl e) \<Rightarrow> Some (Inl e)
      | Some (Inr d) \<Rightarrow> add_trading_loop holidays remaining d)"

definition add_cn_equity_trading_days :: "string list option \<Rightarrow> date_arg \<Rightarrow> int \<Rightarrow> pydate res option" where
  "add_cn_equity_trading_days holidays v count =
     (if count < 0 then Some (Inl (ValueError ''count must be non-negative''))
      else case normalize_cn_equity_date v of
        Inl e \<Rightarrow> Some (Inl e) | Inr d \<Rightarrow> add_trading_loop holidays (nat count) d)"

text \<open>The days a generator yields, and the exception that ends it.\<close>

partial_function (option) iter_trading_loop ::
  "string list option \<Rightarrow> pydate \<Rightarrow> pydate \<Rightarrow> (pydate list \<times> py_exc option) option" where
  "iter_trading_loop holidays last_day current =
     (if \<not> date_le current last_day then Some ([], None)
      else let found = (if is_cn_equity_trading_day holidays current then [current] else []) in
        case date_plus_one current of
          None \<Rightarrow> Some (found, Some OverflowError)
        | Some d \<Rightarrow> Option.bind (iter_trading_loop holidays last_day d)
            (\<lambda>(later, e). Some (found @ later, e)))"

definition iter_cn_equity_trading_days ::
  "string list option \<Rightarrow> date_arg \<Rightarrow> date_arg \<Rightarrow> (pydate list \<times> py_exc option) option" where
  "iter_cn_equity_trading_days holidays first_arg last_arg =
     (case bind_res (normalize_cn_equity_date first_arg) (\<lambda>current.
             map_res (\<lambda>last_day. (current, last_day)) (normalize_cn_equity_date last_arg)) of
        Inl e \<Rightarrow> Some ([], Some e)
      | Inr (current, last_day) \<Rightarrow>
          if date_less last_day current then Some ([], None)
          else iter_trading_loop holidays last_day current)"

partial_function (option) month_end_loop ::
  "string list option \<Rightarrow> pydate \<Rightarrow> pydate \<Rightarrow> pydate res option" where
  "month_end_loop holidays current probe =
     (if month probe \<noteq> month current then Some (Inl (ValueError ''no trading day found for month''))
      else if is_cn_equity_trading_day holidays probe then Some (Inr probe)
      else case date_minus_one probe of
        None \<Rightarrow> Some (Inl OverflowError)
      | Some d \<Rightarrow> month_end_loop holidays current d)"

text \<open>The last day of the month is the day before the first of the next one; \<open>date(10000, 1, 1)\<close>
  raises ValueError.\<close>

definition month_end_cn_equity_trading_day :: "string list option \<Rightarrow> date_arg \<Rightarrow> pydate res option" where
  "month_end_cn_equity_trading_day holidays v = (case normalize_cn_equity_date v of
     Inl e \<Rightarrow> Some (Inl e)
   | Inr current \<Rightarrow>
       if month current = 12 \<and> 9999 \<le> year current
       then Some (Inl (ValueError ''year 10000 is out of range''))
       else (case date_minus_one (if month current = 12
               then \<lparr>year = year current + 1, month = 1, day = 1\<rparr>
               else \<lparr>year = year current, month = month current + 1, day = 1\<rparr>) of
           None \<Rightarrow> Some (Inl OverflowError)
         | Some probe \<Rightarrow> month_end_loop holidays current probe))"

section \<open>Facts\<close>

lemma days_in_month_pos: "1 \<le> days_in_month y m"
  by (simp add: days_in_month_def)

lemma date_plus_one_days:
  assumes "valid_date d" "date_plus_one d = Some d'"
  shows "valid_date d' \<and> date_days d' = date_days d + 1"
proof -
  note v = assms(1) [unfolded valid_date_def]
  consider "day d < days_in_month (year d) (month d)" "d' = d\<lparr>day := day d + 1\<rparr>"
    | "day d = days_in_month (year d) (month d)" "month d < 12"
      "d' = \<lparr>year = year d, month = month d + 1, day = 1\<rparr>"
    | "day d = days_in_month (year d) (month d)" "month d = 12" "year d < 9999"
      "d' = \<lparr>year = year d + 1, month = 1, day = 1\<rparr>"
    using assms(2) v by (auto simp: date_plus_one_def split: if_splits)
  then show ?thesis
  proof cases
    case 1
    then show ?thesis using v by (simp add: valid_date_def date_days_def)
  next
    case 2
    then show ?thesis
      using v days_before_month_Suc [of "month d" "year d"] days_in_month_pos
      by (simp add: valid_date_def date_days_def)
  next
    case 3
    then show ?thesis
      using v days_before_year_Suc [of "year d"]
      by (auto simp: valid_date_def date_days_def days_in_month_def days_before_month_def leap_year_def)
  qed
qed

lemma date_plus_one_None:
  assumes "valid_date d" "date_plus_one d = None" "valid_date x"
  shows "date_days x \<le> date_days d"
proof -
  have "year d = 9999" "month d = 12" "day d = 31"
    using assms(1, 2) by (auto simp: date_plus_one_def valid_date_def days_in_month_def split: if_splits)
  moreover have "month x < 12 \<or> (month x = 12 \<and> day x \<le> 31)" "year x \<le> 9999"
    using assms(3) by (auto simp: valid_date_def days_in_month_def split: if_splits)
  ultimately have "date_le x d" by (cases x; cases d) (auto simp: date_le_def date_less_def)
  then show ?thesis using assms by (simp add: date_le_iff_days)
qed

definition last_ordinal :: int where
  "last_ordinal = 3652059"

lemma last_ordinal_bound: "valid_date x \<Longrightarrow> date_days x \<le> last_ordinal"
proof -
  assume "valid_date x"
  then have "date_days x \<le> date_days \<lparr>year = 9999, month = 12, day = 31\<rparr>"
    by (intro date_plus_one_None) (auto simp: valid_date_def date_plus_one_def days_in_month_def)
  then show ?thesis
    by (simp add: last_ordinal_def date_days_def days_before_year_def days_before_month_def leap_year_def)
qed

text \<open>What the search for the next trading day returns.\<close>

definition first_trading_after :: "string list option \<Rightarrow> pydate \<Rightarrow> pydate \<Rightarrow> bool" where
  "first_trading_after hs d t \<longleftrightarrow> valid_date t \<and> date_days d < date_days t \<and> is_cn_equity_trading_day hs t
     \<and> (\<forall>x. valid_date x \<longrightarrow> date_days d < date_days x \<longrightarrow> date_days x < date_days t
          \<longrightarrow> \<not> is_cn_equity_trading_day hs x)"

lemma date_days_inject: "valid_date a \<Longrightarrow> valid_date b \<Longrightarrow> date_days a = date_days b \<Longrightarrow> a = b"
  using date_less_linear [of a b] date_less_days [of a b] date_less_days [of b a] by auto

lemma next_trading_loop_result:
  assumes "valid_date d"
  shows "(\<exists>t. next_trading_loop hs d = Some (Inr t) \<and> first_trading_after hs d t)
    \<or> (next_trading_loop hs d = Some (Inl OverflowError)
       \<and> (\<forall>x. valid_date x \<longrightarrow> date_days d < date_days x \<longrightarrow> \<not> is_cn_equity_trading_day hs x))"
  using assms
proof (induction "nat (last_ordinal - date_days d)" arbitrary: d rule: less_induct)
  case less
  show ?case
  proof (cases "date_plus_one d")
    case None
    then have "next_trading_loop hs d = Some (Inl OverflowError)"
      by (subst next_trading_loop.simps) simp
    then show ?thesis using date_plus_one_None [OF less.prems None] by fastforce
  next
    case (Some d')
    note step = date_plus_one_days [OF less.prems Some]
    have only: "x = d'" if "valid_date x" "date_days d < date_days x" "date_days x \<le> date_days d'" for x
      using that step by (intro date_days_inject) auto
    show ?thesis
    proof (cases "is_cn_equity_trading_day hs d'")
      case True
      then have "next_trading_loop hs d = Some (Inr d')"
        using Some by (subst next_trading_loop.simps) simp
      moreover have "first_trading_after hs d d'"
        using True step by (auto simp: first_trading_after_def)
      ultimately show ?thesis by blast
    next
      case False
      then have eq: "next_trading_loop hs d = next_trading_loop hs d'"
        using Some by (subst next_trading_loop.simps) simp
      have smaller: "nat (last_ordinal - date_days d') < nat (last_ordinal - date_days d)"
        using step last_ordinal_bound [of d'] by linarith
      have before: "\<not> is_cn_equity_trading_day hs x"
        if "valid_date x" "date_days d < date_days x" "date_days x \<le> date_days d'" for x
        using only [OF that] False by simp
      show ?thesis
        using less.hyps [OF smaller conjunct1 [OF step]]
      proof (elim disjE exE conjE)
        fix t assume t: "next_trading_loop hs d' = Some (Inr t)" "first_trading_after hs d' t"
        then have "first_trading_after hs d t"
          using step before unfolding first_trading_after_def by (metis linorder_not_le less_trans zless_add1_eq)
        then show ?thesis using t eq by auto
      next
        assume "next_trading_loop hs d' = Some (Inl OverflowError)"
          "\<forall>x. valid_date x \<longrightarrow> date_days d' < date_days x \<longrightarrow> \<not> is_cn_equity_trading_day hs x"
        then show ?thesis using eq before by (metis linorder_not_le)
      qed
    qed
  qed
qed

text \<open>C36: the search for the next trading day always returns, for any set of holidays: its result is
  the first trading day after the given one, and it raises OverflowError only when the calendar has
  no later trading day.\<close>

theorem next_trading_day_terminates:
  assumes "normalize_cn_equity_date v = Inr d" "valid_date d"
  shows "(\<exists>t. next_cn_equity_trading_day hs v = Some (Inr t) \<and> first_trading_after hs d t)
    \<or> (next_cn_equity_trading_day hs v = Some (Inl OverflowError)
       \<and> (\<forall>x. valid_date x \<longrightarrow> date_days d < date_days x \<longrightarrow> \<not> is_cn_equity_trading_day hs x))"
  using next_trading_loop_result [OF assms(2), of hs] assms(1) by (simp add: next_cn_equity_trading_day_def)

text \<open>Good Friday is a trading day in Shanghai; the Monday after it is a holiday.\<close>

abbreviation april :: "nat \<Rightarrow> pydate" where
  "april n \<equiv> \<lparr>year = 2026, month = 4, day = n\<rparr>"

theorem next_trading_day_terminates_witness:
  "next_cn_equity_trading_day (Some [''2026-04-06'']) (DateText ''2026-04-03'') = Some (Inr (april 7))
   \<and> first_trading_after (Some [''2026-04-06'']) (april 3) (april 7)"
proof -
  have steps: "date_plus_one (april 3) = Some (april 4)" "date_plus_one (april 4) = Some (april 5)"
    "date_plus_one (april 5) = Some (april 6)" "date_plus_one (april 6) = Some (april 7)"
    by (simp_all add: date_plus_one_def days_in_month_def)
  have iso: "date_isoformat (april 6) = ''2026-04-06''" "date_isoformat (april 7) = ''2026-04-07''" by code_simp+
  have days: "\<not> is_cn_equity_trading_day (Some [''2026-04-06'']) (april 4)"
    "\<not> is_cn_equity_trading_day (Some [''2026-04-06'']) (april 5)"
    "\<not> is_cn_equity_trading_day (Some [''2026-04-06'']) (april 6)"
    "is_cn_equity_trading_day (Some [''2026-04-06'']) (april 7)"
    by (simp_all add: is_cn_equity_trading_day_def is_cn_equity_holiday_def iso is_cn_equity_weekday_def
        weekday_def date_days_def days_before_year_def days_before_month_def leap_year_def)
  have d: "normalize_cn_equity_date (DateText ''2026-04-03'') = Inr (april 3)" by code_simp
  have "next_trading_loop (Some [''2026-04-06'']) (april 6) = Some (Inr (april 7))"
    by (subst next_trading_loop.simps) (simp only: steps days option.case if_True)
  then have "next_trading_loop (Some [''2026-04-06'']) (april 5) = Some (Inr (april 7))"
    by (subst next_trading_loop.simps) (simp only: steps days option.case if_False)
  then have "next_trading_loop (Some [''2026-04-06'']) (april 4) = Some (Inr (april 7))"
    by (subst next_trading_loop.simps) (simp only: steps days option.case if_False)
  then have "next_trading_loop (Some [''2026-04-06'']) (april 3) = Some (Inr (april 7))"
    by (subst next_trading_loop.simps) (simp only: steps days option.case if_False)
  then have run: "next_cn_equity_trading_day (Some [''2026-04-06'']) (DateText ''2026-04-03'') = Some (Inr (april 7))"
    by (simp only: next_cn_equity_trading_day_def d sum.case)
  have "valid_date (april 3)" by (simp add: valid_date_def days_in_month_def)
  from next_trading_day_terminates [OF d this, of "Some [''2026-04-06'']"] run show ?thesis by auto
qed

end
