(* ===== verification/PyInstant.thy ===== *)
theory PyInstant
  imports PyDate
begin

text \<open>
  \<open>datetime.fromisoformat\<close> as the C implementation of the oldest Python that pyproject.toml admits
  (3.10) reads it: a date, any one character, \<open>HH[:MM[:SS[.fff[fff]]]]\<close> and an offset
  \<open>+HH:MM[:SS[.ffffff]]\<close>. The scanner is translated with its laxities: the character that ends a
  field is not compared when the field is the last one before the offset, and a colon after the
  seconds introduces a fraction too.
\<close>

text \<open>\<open>parse_digits\<close>: a fixed number of digits.\<close>

definition take_digits :: "nat \<Rightarrow> string \<Rightarrow> (nat \<times> string) option" where
  "take_digits n s = (let ds = take n s in
     if length ds = n \<and> list_all is_digit ds then Some (digits_val ds, drop n s) else None)"

text \<open>\<open>*p\<close>: the character at a position, or the terminating NUL.\<close>

definition char_at :: "string \<Rightarrow> char" where
  "char_at s = (case s of [] \<Rightarrow> CHR 0x00 | c # _ \<Rightarrow> c)"

record clock_time =
  ct_fields :: "nat list"
  ct_micro :: nat
  ct_more :: bool

text \<open>\<open>parse_hh_mm_ss_ff\<close>: \<open>s\<close> is the text from the position on, \<open>k\<close> the distance to the end of the
  field group (which may lie before the end of the text), \<open>i\<close> the number of fields still to read.
  \<open>ct_more\<close> is the answer 1, that the group does not end the text.\<close>

definition clock_fraction :: "nat list \<Rightarrow> string \<Rightarrow> int \<Rightarrow> clock_time option" where
  "clock_fraction vals s k =
     (if k \<noteq> 6 \<and> k \<noteq> 3 then None
      else case take_digits (nat k) s of None \<Rightarrow> None
      | Some (n, r) \<Rightarrow> Some \<lparr>ct_fields = vals, ct_micro = (if k = 3 then 1000 * n else n),
          ct_more = (char_at r \<noteq> CHR 0x00)\<rparr>)"

fun clock_fields :: "nat \<Rightarrow> nat list \<Rightarrow> string \<Rightarrow> int \<Rightarrow> clock_time option" where
  "clock_fields 0 vals s k = clock_fraction vals s k"
| "clock_fields (Suc i) vals s k = (case take_digits 2 s of None \<Rightarrow> None
     | Some (n, r) \<Rightarrow>
       let c = char_at r; vals' = vals @ [n] in
       if k - 3 \<le> 0 then Some \<lparr>ct_fields = vals', ct_micro = 0, ct_more = (c \<noteq> CHR 0x00)\<rparr>
       else if c = CHR '':'' then clock_fields i vals' (drop 1 r) (k - 3)
       else if c = CHR ''.'' then clock_fraction vals' (drop 1 r) (k - 3)
       else None)"

definition clock_field :: "clock_time \<Rightarrow> nat \<Rightarrow> nat" where
  "clock_field t i = (if i < length (ct_fields t) then ct_fields t ! i else 0)"

text \<open>\<open>parse_isoformat_time\<close>: the time of day and, with an offset, its whole seconds.\<close>

definition parse_clock :: "string \<Rightarrow> (clock_time \<times> int option) option" where
  "parse_clock s =
     (let main = takeWhile (\<lambda>c. c \<noteq> CHR ''+'' \<and> c \<noteq> CHR ''-'') s; zone = drop (length main) s in
      case clock_fields 3 [] s (int (length main)) of None \<Rightarrow> None
      | Some t \<Rightarrow>
        if zone = [] then (if ct_more t then None else Some (t, None))
        else if length zone \<notin> {6, 9, 16} then None
        else (case clock_fields 3 [] (tl zone) (int (length zone) - 1) of None \<Rightarrow> None
          | Some z \<Rightarrow> if ct_more z then None
              else Some (t, Some ((if hd zone = CHR ''-'' then -1 else 1)
                * int (clock_field z 0 * 3600 + clock_field z 1 * 60 + clock_field z 2)))))"

text \<open>The instant of a text with offset zero, in microseconds; \<open>None\<close> for every other text (one that
  does not parse, and one that is naive or has another offset).\<close>

definition utc_instant :: "string \<Rightarrow> int option" where
  "utc_instant s = (case date_fromisoformat (take 10 s) of None \<Rightarrow> None
     | Some d \<Rightarrow> (case parse_clock (drop 11 s) of
         Some (t, Some offset) \<Rightarrow>
           if offset = 0 \<and> clock_field t 0 \<le> 23 \<and> clock_field t 1 \<le> 59 \<and> clock_field t 2 \<le> 59
           then Some ((date_days d * 86400 + int (clock_field t 0 * 3600 + clock_field t 1 * 60
             + clock_field t 2)) * 1000000 + int (ct_micro t))
           else None
       | _ \<Rightarrow> None))"

end
