(* ===== verification/PyCompare.thy ===== *)
theory PyCompare
  imports PyNumber
begin

text \<open>
  Comparison of dynamically typed values: \<open>==\<close> (numbers compare by value across \<open>bool\<close>, \<open>int\<close> and
  \<open>float\<close>, dictionaries regardless of order), \<open><\<close> on numbers and on texts, and \<open>math.isclose\<close>.
\<close>

text \<open>The value of a number, an integer without rounding it.\<close>

fun exact :: "pyval \<Rightarrow> pyfloat option" where
  "exact (PBool b) = Some (Fin (of_bool b))"
| "exact (PInt i) = Some (Fin (of_int i))"
| "exact (PFloat x) = Some x"
| "exact _ = None"

definition exact_eq :: "pyval \<Rightarrow> pyval \<Rightarrow> bool" where
  "exact_eq v w = (case (exact v, exact w) of (Some x, Some y) \<Rightarrow> f_eq x y | _ \<Rightarrow> False)"

lemma size_list_member: "x \<in> set xs \<Longrightarrow> f x < Suc (size_list f xs)"
  by (induction xs) auto

function py_eq :: "pyval \<Rightarrow> pyval \<Rightarrow> bool" where
  "py_eq PNone w = (w = PNone)"
| "py_eq (PStr s) w = (w = PStr s)"
| "py_eq (PList xs) w = (case w of PList ys \<Rightarrow>
     length xs = length ys \<and> (\<forall>(x, y) \<in> set (zip xs ys). py_eq x y) | _ \<Rightarrow> False)"
| "py_eq (PTuple xs) w = (case w of PTuple ys \<Rightarrow>
     length xs = length ys \<and> (\<forall>(x, y) \<in> set (zip xs ys). py_eq x y) | _ \<Rightarrow> False)"
| "py_eq (PDict d) w = (case w of PDict e \<Rightarrow> length d = length e
     \<and> list_all (\<lambda>(k, v). case map_of e k of None \<Rightarrow> False | Some u \<Rightarrow> py_eq v u) d | _ \<Rightarrow> False)"
| "py_eq (PBool b) w = exact_eq (PBool b) w"
| "py_eq (PInt i) w = exact_eq (PInt i) w"
| "py_eq (PFloat x) w = exact_eq (PFloat x) w"
  by pat_completeness auto

termination
proof (relation "measure (\<lambda>(v, w). size v)", goal_cases)
  case (2 xs w ys z x y)
  then show ?case using size_list_member [of x xs size] by (auto dest: set_zip_leftD)
next
  case (3 xs w ys z x y)
  then show ?case using size_list_member [of x xs size] by (auto dest: set_zip_leftD)
next
  case (4 d w e z k v u)
  then show ?case using size_list_member [of "(k, v)" d "size_prod (\<lambda>x. 0) size"] by auto
qed simp

text \<open>Only numbers with numbers and texts with texts; the code compares no other values.\<close>

definition py_lt :: "pyval \<Rightarrow> pyval \<Rightarrow> bool res" where
  "py_lt v w = (case (v, w) of
     (PStr s, PStr t) \<Rightarrow> Inr (s < t)
   | _ \<Rightarrow> (case (exact v, exact w) of (Some x, Some y) \<Rightarrow> Inr (f_lt x y)
       | _ \<Rightarrow> Inl (TypeError ''the values cannot be ordered'')))"

definition f_abs :: "pyfloat \<Rightarrow> pyfloat" where
  "f_abs x = (if f_sign_neg x then f_neg x else x)"

text \<open>\<open>math.isclose(x, y, rel_tol=..., abs_tol=...)\<close>.\<close>

definition f_isclose :: "pyfloat \<Rightarrow> pyfloat \<Rightarrow> pyfloat \<Rightarrow> pyfloat \<Rightarrow> bool" where
  "f_isclose x y rel_tol abs_tol \<longleftrightarrow> f_eq x y \<or> (\<not> (x \<in> {PosInf, NegInf} \<or> y \<in> {PosInf, NegInf})
     \<and> (let diff = f_abs (f_sub y x) in f_le diff (f_abs (f_mul rel_tol y))
       \<or> f_le diff (f_abs (f_mul rel_tol x)) \<or> f_le diff abs_tol))"

lemma f_eq_refl: "x \<noteq> NaN \<Longrightarrow> f_eq x x"
  by (simp add: f_eq_def f_le_refl)

lemma py_eq_PFloat [simp]: "py_eq (PFloat x) (PFloat y) = f_eq x y"
  by (simp add: exact_eq_def)

lemma py_eq_PStr_iff [simp]: "py_eq v (PStr s) \<longleftrightarrow> v = PStr s"
  by (cases v) (auto simp: exact_eq_def)

end
