(* ===== verification/AccountDomain.thy ===== *)
theory AccountDomain
  imports PyInstant PyCompare Sha256 RiskNumbers
begin

text \<open>
  Account identity and policy snapshots (\<open>common/account_domain.py\<close>) and the account-currency risk
  budget (\<open>common/account_risk_budget.py\<close>): validated configuration, compared with what a broker
  reports, and the amount of new risk a snapshot leaves.
\<close>

section \<open>Time\<close>

text \<open>\<open>value.replace("Z", "+00:00")\<close>.\<close>

definition expand_zulu :: "string \<Rightarrow> string" where
  "expand_zulu s = concat (map (\<lambda>c. if c = CHR ''Z'' then ''+00:00'' else [c]) s)"

definition domain_time :: "pyval \<Rightarrow> int res" where
  "domain_time v = (case v of
     PStr s \<Rightarrow> (case utc_instant (expand_zulu s) of Some t \<Rightarrow> Inr t
       | None \<Rightarrow> Inl (ValueError ''account domain time must be timezone-aware UTC''))
   | _ \<Rightarrow> Inl (ValueError ''account domain time must be ISO 8601 UTC''))"

section \<open>Domains\<close>

definition identity_fields :: "string list" where
  "identity_fields = [''environment'', ''platform_id'', ''server'', ''account_id_fingerprint'', ''lifecycle_id'']"

definition policy_fields :: "string list" where
  "policy_fields = [''capital_kind'', ''product'', ''phase'', ''account_type'', ''style'', ''preference'',
     ''currency'', ''source'', ''effective_at'', ''valid_until'', ''version'']"

record account_domain =
  dm_identity :: pydict
  dm_policy :: pydict

definition same_keys :: "pydict \<Rightarrow> string list \<Rightarrow> bool" where
  "same_keys d names \<longleftrightarrow> set (keys d) = set names"

fun plain_text :: "pyval \<Rightarrow> bool" where
  "plain_text (PStr s) = (strip s \<noteq> [] \<and> s = strip s)"
| "plain_text _ = False"

definition fingerprint_text :: "string \<Rightarrow> bool" where
  "fingerprint_text s \<longleftrightarrow> starts_with ''sha256:'' s \<and> is_sha256_hex (drop 7 s)"

definition currency_text :: "string \<Rightarrow> bool" where
  "currency_text s \<longleftrightarrow> length s = 3 \<and> list_all (\<lambda>c. 65 \<le> ord c \<and> ord c \<le> 90) s"

definition text_of :: "pydict \<Rightarrow> string \<Rightarrow> string" where
  "text_of d k = py_str (dget d k)"

text \<open>The products a domain may have.\<close>

definition supported_domain :: "pydict \<Rightarrow> pydict \<Rightarrow> unit res" where
  "supported_domain i p =
     (if text_of p ''capital_kind'' = ''FTMO_SIMULATED'' then
        require (text_of p ''product'' = ''FTMO_CFD_2_STEP'' \<and> text_of p ''phase'' = ''FREE_TRIAL''
            \<and> text_of p ''account_type'' \<in> {''STANDARD'', ''SWING''} \<and> text_of i ''environment'' = ''DEMO'')
          (ValueError ''unsupported FTMO account domain'') (Inr ())
      else if text_of p ''capital_kind'' = ''OWN_REAL'' then
        require (text_of i ''environment'' = ''LIVE'' \<and> text_of p ''product'' = ''BROKERAGE''
            \<and> text_of p ''phase'' = ''LIVE'' \<and> text_of p ''account_type'' \<in> {''CASH'', ''MARGIN''})
          (ValueError ''unsupported real account domain'') (Inr ())
      else Inl (ValueError ''invalid capital kind''))"

definition validate_domain_fields :: "pydict \<Rightarrow> pydict \<Rightarrow> string option \<Rightarrow> account_domain res" where
  "validate_domain_fields i p platform_id =
     require (list_all (\<lambda>(k, v). plain_text v) (i @ p)) (ValueError ''account domain fields must be nonempty strings'')
    (require (fingerprint_text (text_of i ''account_id_fingerprint'')) (ValueError ''invalid account fingerprint'')
    (require (case platform_id of None \<Rightarrow> True | Some q \<Rightarrow> lower (text_of i ''platform_id'') = lower q)
       (ValueError ''account domain platform mismatch'')
    (require (text_of p ''preference'' \<in> {''CAPITAL_PRESERVATION'', ''BALANCED_COMPOUNDING'', ''GROWTH_COMPOUNDING''})
       (ValueError ''invalid risk preference'')
    (require (currency_text (text_of p ''currency'')) (ValueError ''invalid currency'')
    (bind_res (domain_time (dget p ''valid_until'')) (\<lambda>until.
     bind_res (domain_time (dget p ''effective_at'')) (\<lambda>effective.
     require (effective < until) (ValueError ''invalid policy validity interval'')
    (bind_res (supported_domain i p) (\<lambda>_. Inr \<lparr>dm_identity = i, dm_policy = p\<rparr>)))))))))"

definition validate_account_domain :: "pyval \<Rightarrow> string option \<Rightarrow> account_domain res" where
  "validate_account_domain value platform_id = (case value of
     PDict d \<Rightarrow>
       if \<not> same_keys d [''identity'', ''policy'']
       then Inl (ValueError ''account_domain must contain identity and policy'')
       else (case dget d ''identity'' of
           PDict i \<Rightarrow>
             if \<not> same_keys i identity_fields then Inl (ValueError ''invalid account domain identity fields'')
             else (case dget d ''policy'' of
                 PDict p \<Rightarrow>
                   if \<not> same_keys p policy_fields then Inl (ValueError ''invalid account domain policy fields'')
                   else validate_domain_fields i p platform_id
               | _ \<Rightarrow> Inl (ValueError ''invalid account domain policy fields''))
         | _ \<Rightarrow> Inl (ValueError ''invalid account domain identity fields''))
   | _ \<Rightarrow> Inl (ValueError ''account_domain must contain identity and policy''))"

text \<open>The functions below validate their argument again; on a validated domain that returns it.\<close>

definition domain_value :: "account_domain \<Rightarrow> pyval" where
  "domain_value dm = PDict [(''identity'', PDict (dm_identity dm)), (''policy'', PDict (dm_policy dm))]"

definition account_domain_key :: "pyval \<Rightarrow> string res" where
  "account_domain_key value = map_res (\<lambda>dm. sha256_hex (json_dumps (compact_style True) (PDict (dm_identity dm))))
     (validate_account_domain value None)"

text \<open>What the broker reported (\<open>BrokerAccountIdentity\<close>, a value its constructor has normalised).\<close>

record broker_identity =
  bi_platform_id :: string
  bi_account_types :: "string list"
  bi_account_modes :: "string list"
  bi_account_id_fingerprint :: "string option"

record observed_facts =
  ob_environment :: pyval
  ob_server :: pyval
  ob_currency :: pyval
  ob_lifecycle_id :: pyval

definition account_domain_matches_broker_identity ::
  "pyval \<Rightarrow> broker_identity option \<Rightarrow> observed_facts \<Rightarrow> bool res" where
  "account_domain_matches_broker_identity value observation ob =
     bind_res (validate_account_domain value None) (\<lambda>dm.
     Inr (case observation of None \<Rightarrow> False
       | Some b \<Rightarrow> let i = dm_identity dm; p = dm_policy dm in
           ob_environment ob = dget i ''environment'' \<and> ob_server ob = dget i ''server''
           \<and> ob_currency ob = dget p ''currency'' \<and> ob_lifecycle_id ob = dget i ''lifecycle_id''
           \<and> bi_platform_id b = lower (text_of i ''platform_id'')
           \<and> bi_account_id_fingerprint b = Some (text_of i ''account_id_fingerprint'')
           \<and> bi_account_types b = [lower (text_of p ''account_type'')]
           \<and> (case bi_account_modes b of [m] \<Rightarrow>
                m \<in> (if text_of i ''environment'' = ''LIVE'' then {''live''} else {''demo'', ''paper''})
              | _ \<Rightarrow> False)))"

definition account_domain_policy_active :: "pyval \<Rightarrow> pyval \<Rightarrow> bool res" where
  "account_domain_policy_active value as_of =
     bind_res (validate_account_domain value None) (\<lambda>dm.
     bind_res (domain_time as_of) (\<lambda>moment.
     bind_res (domain_time (dget (dm_policy dm) ''effective_at'')) (\<lambda>effective.
     if moment < effective then Inr False
     else map_res (\<lambda>until. moment < until) (domain_time (dget (dm_policy dm) ''valid_until'')))))"

section \<open>The budget\<close>

definition source_digest_text :: "pyval \<Rightarrow> bool" where
  "source_digest_text v = (case v of PStr s \<Rightarrow> fingerprint_text s | _ \<Rightarrow> False)"

text \<open>\<open>min(x, y)\<close> of Python on the arguments in order, over several values.\<close>

definition f_min_list :: "pyfloat list \<Rightarrow> pyfloat" where
  "f_min_list xs = foldl f_min (hd xs) (tl xs)"

text \<open>\<open>isinstance(v, bool) or not isinstance(v, (int, float)) or not math.isfinite(float(v))\<close>.\<close>

definition finite_numbers :: "pyval list \<Rightarrow> pyfloat list option res" where
  "finite_numbers vs = foldr (\<lambda>v r. bind_res (invalid_number (\<lambda>_. False) v) (\<lambda>bad.
     if bad then Inr None
     else bind_res (py_float v) (\<lambda>x. map_res (map_option (\<lambda>xs. x # xs)) r))) vs (Inr (Some []))"

definition available_new_risk_budget ::
  "pydict \<Rightarrow> pyval \<Rightarrow> pyval \<Rightarrow> pyval \<Rightarrow> pyval \<Rightarrow> pyval \<Rightarrow> pyfloat res" where
  "available_new_risk_budget snapshot currency floor_v reserved cost_buffer risk_fraction =
     require (dget snapshot ''complete'' = PBool True \<and> py_eq (dget snapshot ''currency'') currency)
       (ValueError ''complete matching-currency snapshot required'')
    (bind_res (domain_time (dget snapshot ''valuation_at'')) (\<lambda>_.
     require (source_digest_text (dget snapshot ''source_digest'')) (ValueError ''snapshot provenance required'')
    (bind_res (finite_numbers [dget snapshot ''balance'', dget snapshot ''equity'', dget snapshot ''cash'',
        floor_v, reserved, cost_buffer, risk_fraction]) (\<lambda>r. case r of
       Some [balance, equity, cash, fl, res, costs, fraction] \<Rightarrow>
         require (\<not> f_lt (f_min_list [balance, fl, res, costs]) (Fin 0)
             \<and> f_lt (Fin 0) fraction \<and> f_le fraction (Fin 1))
           (ValueError ''nonnegative risk inputs required'')
           (Inr (f_max (Fin 0) (f_min (f_mul fraction balance)
              (f_sub (f_sub (f_sub equity fl) res) costs))))
     | _ \<Rightarrow> Inl (ValueError ''finite risk facts required'')))))"

text \<open>\<open>math.floor(x) * step\<close> multiplies an integer by a float: the integer is rounded first.\<close>

definition floor_times :: "pyfloat \<Rightarrow> pyfloat \<Rightarrow> pyfloat res" where
  "floor_times x step =
     (if x = NaN then Inl (ValueError ''cannot convert float NaN to integer'')
      else if \<not> f_isfinite x then Inl OverflowError
      else case float_of_int \<lfloor>fin_val x\<rfloor> of None \<Rightarrow> Inl OverflowError | Some n \<Rightarrow> Inr (f_mul n step))"

definition maximum_risk_quantity :: "pyval \<Rightarrow> pyval \<Rightarrow> pyval \<Rightarrow> pyval \<Rightarrow> pyfloat res" where
  "maximum_risk_quantity budget loss_per_unit estimated_fee quantity_step =
     bind_res (finite_numbers [budget, loss_per_unit, estimated_fee, quantity_step]) (\<lambda>r. case r of
       Some [b, loss, fee, step] \<Rightarrow>
         if f_lt b (Fin 0) \<or> f_lt fee (Fin 0) \<or> f_le loss (Fin 0) \<or> f_le step (Fin 0)
         then Inl (ValueError ''invalid quantity inputs'')
         else if f_le b fee then Inr (Fin 0)
         else if f_is_zero (f_mul loss step) then Inl (OtherError ''ZeroDivisionError'')
         else floor_times (f_quot (f_sub b fee) (f_mul loss step)) step
     | _ \<Rightarrow> Inl (ValueError ''finite quantity inputs required''))"

end
