(* ===== verification/SubmissionTypes.thy ===== *)
theory SubmissionTypes
  imports ExecutionMarkers AccountDomain ReduceOnly
begin

text \<open>
  The vocabulary of the account submission journal (\<open>common/execution_state.py\<close> from
  \<open>ACCOUNT_SUBMISSION_CONTRACT\<close> on): content identities, validated texts, digests, accounts and
  numbers, and the state that the events of one account reduce to: the submission attempts with
  what is certain about each, the risk reservations, the bound domain, the last equity
  observation and the latched circuit breaker.
\<close>

section \<open>Validated values\<close>

definition binding_digest :: "pydict \<Rightarrow> string res" where
  "binding_digest d =
     (if d = [] then Inl (AccountSubmissionError ''nonempty submission binding required'')
      else case json_dumps_strict (compact_style True) (PDict d) of
        Inl _ \<Rightarrow> Inl (AccountSubmissionError ''invalid submission binding'')
      | Inr text \<Rightarrow> Inr (sha256_hex text))"

definition identity_text :: "string \<Rightarrow> bool" where
  "identity_text s \<longleftrightarrow> s \<noteq> [] \<and> s = strip s \<and> length s \<le> 256 \<and> list_all (\<lambda>c. 32 \<le> ord c \<and> ord c \<le> 126) s"

definition submission_text :: "pyval \<Rightarrow> string res" where
  "submission_text v = (case v of
     PStr s \<Rightarrow> require (identity_text s) (AccountSubmissionError ''invalid submission identity'') (Inr s)
   | _ \<Rightarrow> Inl (AccountSubmissionError ''invalid submission identity''))"

definition submission_digest :: "pyval \<Rightarrow> string res" where
  "submission_digest v = (case v of
     PStr s \<Rightarrow> require (is_sha256_hex s) (AccountSubmissionError ''invalid submission digest'') (Inr s)
   | _ \<Rightarrow> Inl (AccountSubmissionError ''invalid submission digest''))"

definition broker_pattern :: "string \<Rightarrow> bool" where
  "broker_pattern s \<longleftrightarrow> s \<noteq> [] \<and> is_lower (hd s)
     \<and> list_all (\<lambda>c. is_lower c \<or> is_digit c \<or> c = CHR ''_'' \<or> c = CHR ''-'') s"

definition ibkr_account :: "string \<Rightarrow> bool" where
  "ibkr_account s \<longleftrightarrow> (\<exists>p \<in> {''DU'', ''U'', ''F'', ''I''}. starts_with p s
     \<and> drop (length p) s \<noteq> [] \<and> list_all is_digit (drop (length p) s))"

definition submission_account :: "pyval \<Rightarrow> pyval \<Rightarrow> (string \<times> string) res" where
  "submission_account broker account_id =
     bind_res (submission_text broker) (\<lambda>b0. let b = lower b0 in
     require (broker_pattern b) (AccountSubmissionError ''invalid broker identity'')
    (bind_res (submission_text account_id) (\<lambda>account.
     if b = ''ibkr'' then
       require (ibkr_account (upper account))
         (AccountSubmissionError ''physical IBKR account identity required'') (Inr (b, upper account))
     else Inr (b, account))))"

definition submission_number :: "pyval \<Rightarrow> pyfloat res" where
  "submission_number v =
     (if is_bool v then Inl (AccountSubmissionError ''invalid submission quantity/price'')
      else bind_res (reraise_type_value (py_float v)
          (AccountSubmissionError ''invalid submission quantity/price'')) (\<lambda>x.
        require (f_isfinite x \<and> \<not> f_lt x (Fin 0))
          (AccountSubmissionError ''invalid submission quantity/price'') (Inr x)))"

definition optional_number :: "pyval \<Rightarrow> pyfloat option res" where
  "optional_number v = (if v = PNone then Inr None else map_res Some (submission_number v))"

section \<open>State\<close>

datatype certainty = PREPARED | KNOWN_PENDING | TERMINAL | UNKNOWN

fun certainty_text :: "certainty \<Rightarrow> string" where
  "certainty_text PREPARED = ''PREPARED''"
| "certainty_text KNOWN_PENDING = ''KNOWN_PENDING''"
| "certainty_text TERMINAL = ''TERMINAL''"
| "certainty_text UNKNOWN = ''UNKNOWN''"

text \<open>An attempt is the data of its PREPARED event and what the later events said.\<close>

record attempt =
  at_data :: pydict
  at_generation :: nat
  at_event_sha256 :: string
  at_certainty :: certainty
  at_observation :: "pydict option"
  at_filled_quantity :: pyfloat
  at_prepared_snapshot :: "pydict option"
  at_last_recorded_at :: "pyval option"
  at_recorded_at :: pyval
  at_observation_sha256 :: "string option"

text \<open>A reservation is the data of its RISK_RESERVED event and what reconciliation left of it.\<close>

record reservation =
  rs_data :: pydict
  rs_remaining_amount :: pyfloat
  rs_reconciled_filled :: pyfloat
  rs_actual_fee :: pyfloat
  rs_remaining_3x_exposure :: pyfloat

record journal_state =
  jn_generation :: nat
  jn_head_sha256 :: string
  jn_attempts :: "(string \<times> attempt) list"
  jn_domain_binding :: "pydict option"
  jn_risk_reservations :: "(string \<times> reservation) list"
  jn_equity_observation :: "pydict option"
  jn_snapshot_position_risk :: pyfloat
  jn_circuit_breaker_open :: bool

definition initial_journal :: journal_state where
  "initial_journal = \<lparr>jn_generation = 0, jn_head_sha256 = replicate 64 (CHR ''0''), jn_attempts = [],
     jn_domain_binding = None, jn_risk_reservations = [], jn_equity_observation = None,
     jn_snapshot_position_risk = Fin 0, jn_circuit_breaker_open = False\<rparr>"

text \<open>\<open>d.get(key)\<close> with a key from a decoded event: a list or a dictionary cannot be hashed.\<close>

definition lookup_key :: "(string \<times> 'a) list \<Rightarrow> pyval \<Rightarrow> 'a option res" where
  "lookup_key d key = (case key of
     PStr s \<Rightarrow> Inr (map_of d s)
   | PList _ \<Rightarrow> Inl (TypeError ''unhashable type: list'')
   | PDict _ \<Rightarrow> Inl (TypeError ''unhashable type: dict'')
   | _ \<Rightarrow> Inr None)"

definition unresolved :: "journal_state \<Rightarrow> bool" where
  "unresolved s \<longleftrightarrow> (\<exists>(i, a) \<in> set (jn_attempts s). at_certainty a \<in> {PREPARED, UNKNOWN})"

text \<open>\<open>(a["intent_id"], a["order_sha256"]) == (intent, order)\<close> for some attempt.\<close>

definition already_attempted :: "journal_state \<Rightarrow> pyval \<Rightarrow> pyval \<Rightarrow> bool" where
  "already_attempted s intent order \<longleftrightarrow> (\<exists>(i, a) \<in> set (jn_attempts s).
     dget (at_data a) ''intent_id'' = intent \<and> dget (at_data a) ''order_sha256'' = order)"

text \<open>A reservation is used up by an attempt for its order that is not a reduction.\<close>

definition reservation_used :: "journal_state \<Rightarrow> pyval \<Rightarrow> bool" where
  "reservation_used s order \<longleftrightarrow> (\<exists>(i, a) \<in> set (jn_attempts s).
     dget (at_data a) ''order_sha256'' = order \<and> \<not> truthy (dget (at_data a) ''reduction''))"

section \<open>Arithmetic on raw fields\<close>

text \<open>Fields that passed \<open>_submission_number\<close> are kept as they were written: an operand that is a text
  raises TypeError, an integer is converted when the other operand is a float.\<close>

definition num_float :: "pyval \<Rightarrow> pyfloat res" where
  "num_float v = (if is_number v \<or> is_bool v then py_float v
     else Inl (TypeError ''unsupported operand type(s)''))"

definition num_sub :: "pyval \<Rightarrow> pyval \<Rightarrow> pyval res" where
  "num_sub v w = (case (v, w) of
     (PInt i, PInt j) \<Rightarrow> Inr (PInt (i - j))
   | _ \<Rightarrow> bind_res (num_float v) (\<lambda>x. bind_res (num_float w) (\<lambda>y. Inr (PFloat (f_sub x y)))))"

section \<open>Facts\<close>

lemma submission_text_Inr [res_simps]: "submission_text v = Inr s \<longleftrightarrow> v = PStr s \<and> identity_text s"
  by (cases v) (auto simp: submission_text_def res_simps)

lemma submission_digest_Inr [res_simps]: "submission_digest v = Inr s \<longleftrightarrow> v = PStr s \<and> is_sha256_hex s"
  by (cases v) (auto simp: submission_digest_def res_simps)

lemma submission_number_finite:
  "submission_number v = Inr x \<Longrightarrow> f_isfinite x \<and> f_le (Fin 0) x"
  by (cases x) (auto simp: submission_number_def res_simps f_lt_def split: if_splits)

lemma submission_number_PFloat [simp]:
  "submission_number (PFloat x) = Inr y \<longleftrightarrow> y = x \<and> f_isfinite x \<and> \<not> f_lt x (Fin 0)"
  by (auto simp: submission_number_def reraise_type_value_def res_simps)

lemma lookup_key_PStr [simp]: "lookup_key d (PStr s) = Inr (map_of d s)"
  by (simp add: lookup_key_def)

end
