(* ===== verification/PendingEvidence.thy ===== *)
theory PendingEvidence
  imports SubmissionTypes
begin

text \<open>
  The check of order-level pending evidence against the journal (\<open>common/pending_order_evidence.py\<close>):
  the envelope must be bound to the observation, and every order to an attempt the journal knows
  to be pending, with the quantity that is left of it.
\<close>

definition evidence_number :: "pyval \<Rightarrow> pyfloat res" where
  "evidence_number v =
     (if is_bool v \<or> \<not> is_number v then Inl (ValueError ''evidence amount must be numeric'')
      else (case py_float v of
          Inl e \<Rightarrow> if e = OverflowError
            then Inl (ValueError ''evidence amount must be finite and nonnegative'') else Inl e
        | Inr x \<Rightarrow> require (f_isfinite x \<and> \<not> f_lt x (Fin 0))
            (ValueError ''evidence amount must be finite and nonnegative'') (Inr x)))"

text \<open>\<open>Fraction(text)\<close> of a decimal; the form with a denominator is no float and does not get here.\<close>

definition fraction_of_text :: "string \<Rightarrow> rat option" where
  "fraction_of_text s0 = (case read_sign (strip s0) of (neg, t) \<Rightarrow>
     (case span_digits t of (ip, t1) \<Rightarrow> (case lex_fraction t1 of (fp, t2) \<Rightarrow>
       (case lex_exponent t2 of (ex, t3) \<Rightarrow>
         if t3 \<noteq> [] \<or> (ip = [] \<and> (fp = None \<or> fp = Some [])) then None
         else Some (if neg then - decimal_val ip fp ex else decimal_val ip fp ex)))))"

definition fraction_of :: "pyval \<Rightarrow> rat res" where
  "fraction_of v = (case fraction_of_text (py_str v) of Some r \<Rightarrow> Inr r
     | None \<Rightarrow> Inl (ValueError ''Invalid literal for Fraction''))"

definition evidence_fields :: "string list" where
  "evidence_fields = [''schema_version'', ''account_domain_key'', ''account_binding'', ''currency'',
     ''source_digest'', ''source_version'', ''valuation_at'', ''observed_through'', ''orders'']"

definition order_fields :: "string list" where
  "order_fields = [''attempt_id'', ''broker_order_id'', ''journal_observation_sha256'',
     ''remaining_quantity'', ''remaining_fee'', ''pending_3x_exposure'']"

definition bound_to_observation :: "pydict \<Rightarrow> pydict \<Rightarrow> unit res" where
  "bound_to_observation evidence observation =
     foldr (\<lambda>k rest. if k \<notin> set (keys observation) then Inl (KeyError k)
       else require (py_eq (dget evidence k) (dget observation k))
         (ValueError ''pending evidence snapshot binding mismatch'') rest)
       [''account_domain_key'', ''account_binding'', ''currency'', ''source_digest'', ''valuation_at''] (Inr ())"

text \<open>The attempt an order names, and what the journal last observed of it.\<close>

definition covered_attempt :: "journal_state \<Rightarrow> int \<Rightarrow> pydict \<Rightarrow> attempt res" where
  "covered_attempt s through order =
     (let missing = ValueError ''pending evidence does not cover journal observation'' in
      case map_of (jn_attempts s) (text_of order ''attempt_id'') of
        None \<Rightarrow> Inl (ValueError ''pending evidence requires known pending attempt'')
      | Some a \<Rightarrow>
        require (at_certainty a = KNOWN_PENDING) (ValueError ''pending evidence requires known pending attempt'')
       (let last_seen = (case at_observation a of None \<Rightarrow> [] | Some o' \<Rightarrow> o') in
        require (dget last_seen ''broker_order_id'' = dget order ''broker_order_id'') missing
       (require (truthy (at_recorded_at a)) missing
       (require (py_eq (dget order ''journal_observation_sha256'')
           (case at_observation_sha256 a of None \<Rightarrow> PNone | Some h \<Rightarrow> PStr h)) missing
       (bind_res (domain_time (at_recorded_at a)) (\<lambda>recorded.
        require (recorded \<le> through) missing (Inr a)))))))"

definition check_order :: "journal_state \<Rightarrow> int \<Rightarrow> pydict \<Rightarrow> pyfloat res" where
  "check_order s through order =
     bind_res (covered_attempt s through order) (\<lambda>a.
     bind_res (lookup_key (jn_risk_reservations s) (dget (at_data a) ''order_sha256'')) (\<lambda>found.
     require (case found of None \<Rightarrow> False
         | Some r \<Rightarrow> f_eq (rs_reconciled_filled r) (at_filled_quantity a))
       (ValueError ''pending evidence requires reconciled reservation'')
    (bind_res (evidence_number (dget order ''remaining_quantity'')) (\<lambda>remaining.
     bind_res (fraction_of (PFloat remaining)) (\<lambda>left.
     bind_res (fraction_of (dget (at_data a) ''quantity'')) (\<lambda>quantity.
     bind_res (fraction_of (PFloat (at_filled_quantity a))) (\<lambda>filled.
     require (left = quantity - filled) (ValueError ''pending evidence remaining quantity mismatch'')
    (bind_res (evidence_number (dget order ''remaining_fee'')) (\<lambda>_.
     evidence_number (dget order ''pending_3x_exposure''))))))))))"

fun check_orders ::
  "journal_state \<Rightarrow> int \<Rightarrow> string list \<Rightarrow> string list \<Rightarrow> pyfloat \<Rightarrow> pyval list \<Rightarrow> pyfloat res" where
  "check_orders s through attempts orders total_3x [] = Inr total_3x"
| "check_orders s through attempts orders total_3x (v # vs) = (case v of PDict order \<Rightarrow>
     require (same_keys order order_fields) (ValueError ''invalid pending order evidence'')
    (require (case dget order ''attempt_id'' of PStr i \<Rightarrow> is_sha256_hex i | _ \<Rightarrow> False)
       (ValueError ''invalid pending evidence attempt'')
    (require (plain_text (dget order ''broker_order_id'')) (ValueError ''invalid pending evidence broker order'')
    (let i = text_of order ''attempt_id''; b = text_of order ''broker_order_id'' in
     require (i \<notin> set attempts \<and> b \<notin> set orders) (ValueError ''duplicate pending evidence identity'')
    (bind_res (check_order s through order) (\<lambda>exposure.
     check_orders s through (i # attempts) (b # orders) (f_add total_3x exposure) vs)))))
   | _ \<Rightarrow> Inl (ValueError ''invalid pending order evidence''))"

definition validate_pending_order_evidence :: "pyval \<Rightarrow> pydict \<Rightarrow> journal_state \<Rightarrow> unit res" where
  "validate_pending_order_evidence evidence observation s = (case evidence of PDict e \<Rightarrow>
     require (same_keys e evidence_fields \<and> dget e ''schema_version'' = PStr ''pending_order_evidence.v1'')
       (ValueError ''invalid pending order evidence envelope'')
    (bind_res (bound_to_observation e observation) (\<lambda>_.
     require (plain_text (dget e ''source_version'')) (ValueError ''pending evidence source version required'')
    (bind_res (domain_time (dget e ''observed_through'')) (\<lambda>through.
     bind_res (domain_time (dget e ''valuation_at'')) (\<lambda>valuation.
     require (through \<le> valuation) (ValueError ''pending evidence watermark after valuation'')
    (case dget e ''orders'' of PList orders \<Rightarrow>
       bind_res (check_orders s through [] [] (Fin 0) orders) (\<lambda>exposure.
       if ''pending_3x_exposure'' \<notin> set (keys observation) then Inl (KeyError ''pending_3x_exposure'')
       else bind_res (evidence_number (dget observation ''pending_3x_exposure'')) (\<lambda>aggregate.
         require (\<not> f_lt aggregate exposure) (ValueError ''pending evidence exceeds aggregate exposure'')
           (Inr ())))
     | _ \<Rightarrow> Inl (ValueError ''pending evidence orders must be a list'')))))))
   | _ \<Rightarrow> Inl (ValueError ''invalid pending order evidence envelope''))"

end
