(* ===== verification/SubmissionJournal.thy ===== *)
theory SubmissionJournal
  imports PendingEvidence CapitalEnvelope
begin

text \<open>
  The events of the account submission journal and their reduction, \<open>read_state\<close>: each event is
  chained to its predecessor by its digest, and each kind has a handler that accepts it in the
  present state or raises. Nothing resolves an attempt whose outcome is unknown, and nothing
  closes the circuit breaker again.
\<close>

section \<open>What is certain about an attempt\<close>

definition submission_ack :: "string list" where
  "submission_ack = [''PendingSubmit'', ''ApiPending'', ''ApiPendingSubmit'', ''Submitted'', ''PreSubmitted'']"

definition submission_partial :: "string list" where
  "submission_partial = [''Partial'', ''PartiallyFilled'']"

definition submission_terminal :: "string list" where
  "submission_terminal = [''Filled'', ''Rejected'', ''rejected'', ''Cancelled'', ''ApiCancelled'']"

definition certainty_of :: "pydict \<Rightarrow> pyval \<Rightarrow> certainty res" where
  "certainty_of observation quantity =
     (let status = dget observation ''status''; filled = dget observation ''filled_quantity'';
          price = dget observation ''average_fill_price'' in
      bind_res (py_lt quantity filled) (\<lambda>over.
      if over then Inr UNKNOWN else
      bind_res (py_lt (PInt 0) filled) (\<lambda>some_filled.
      bind_res (if \<not> some_filled then Inr False
          else if price = PNone then Inr True else map_res Not (py_lt (PInt 0) price)) (\<lambda>unpriced.
      if unpriced then Inr UNKNOWN
      else if status \<in> set (map PStr [''Rejected'', ''rejected'', ''Cancelled'', ''ApiCancelled'']) then Inr TERMINAL
      else if \<not> truthy (dget observation ''broker_order_id'') then Inr UNKNOWN
      else if status = PStr ''Filled'' then Inr (if py_eq filled quantity then TERMINAL else UNKNOWN)
      else if status \<in> set (map PStr submission_partial) then
        bind_res (if some_filled then py_lt filled quantity else Inr False)
          (\<lambda>part. Inr (if part then KNOWN_PENDING else UNKNOWN))
      else Inr (if status \<in> set (map PStr submission_ack) then KNOWN_PENDING else UNKNOWN)))))"

section \<open>Handlers\<close>

definition on_breaker_open :: "pydict \<Rightarrow> journal_state \<Rightarrow> journal_state res" where
  "on_breaker_open data s =
     require (same_keys data [''equity_usd'', ''peak_equity_usd'', ''drawdown_from_peak'', ''owner_id'', ''profile'']
         \<and> \<not> jn_circuit_breaker_open s)
       (AccountSubmissionError ''invalid or duplicate circuit breaker OPEN'')
    (bind_res (submission_text (dget data ''owner_id'')) (\<lambda>_.
     bind_res (submission_text (dget data ''profile'')) (\<lambda>_.
     bind_res (submission_number (dget data ''equity_usd'')) (\<lambda>equity.
     bind_res (optional_number (dget data ''peak_equity_usd'')) (\<lambda>peak.
     bind_res (optional_number (dget data ''drawdown_from_peak'')) (\<lambda>drawdown.
     bind_res (default_envelope (PFloat equity) (case (drawdown, peak) of
           (Some d, _) \<Rightarrow> PFloat d
         | (None, Some p) \<Rightarrow> if f_lt (Fin 0) p then PFloat (drawdown_of equity p) else PNone
         | (None, None) \<Rightarrow> PNone)) (\<lambda>env.
     require (''DRAWDOWN_BRAKE_TRIPPED'' \<in> set (en_reasons env))
       (AccountSubmissionError ''circuit breaker OPEN requires a drawdown breach'')
       (Inr (s\<lparr>jn_circuit_breaker_open := True\<rparr>)))))))))"

definition on_domain_bound :: "pydict \<Rightarrow> journal_state \<Rightarrow> journal_state res" where
  "on_domain_bound data s =
     require (same_keys data [''domain_key'', ''account_type'', ''currency''] \<and> jn_domain_binding s = None)
       (AccountSubmissionError ''invalid or duplicate domain binding'')
    (bind_res (submission_digest (dget data ''domain_key'')) (\<lambda>_.
     bind_res (submission_text (dget data ''account_type'')) (\<lambda>_.
     bind_res (submission_text (dget data ''currency'')) (\<lambda>_.
     Inr (s\<lparr>jn_domain_binding := Some data\<rparr>)))))"

text \<open>A dictionary of nonnegative numbers; \<open>named\<close> also refuses an empty key.\<close>

definition number_map :: "bool \<Rightarrow> string \<Rightarrow> pyval \<Rightarrow> unit res" where
  "number_map named message v = (case v of
     PDict d \<Rightarrow> map_res (\<lambda>_. ()) (mapM (\<lambda>(k, x).
       require (named \<longrightarrow> k \<noteq> []) (AccountSubmissionError message) (submission_number x)) d)
   | _ \<Rightarrow> Inl (AccountSubmissionError message))"

definition equity_fields :: "string list" where
  "equity_fields = [''equity'', ''cash_flow'', ''peak'', ''currency'', ''valuation_at'', ''source_digest'',
     ''covered_fills'', ''covered_fees'', ''position_risk'', ''position_3x_exposure'', ''protected_equity'',
     ''balance'', ''cash'', ''account_domain_key'', ''account_binding'', ''valid_until'',
     ''pending_3x_exposure'', ''open_orders_complete'', ''positions'', ''open_orders_empty'']"

text \<open>The facts an observation states by itself: the account it is of, its completeness, its numbers and
  its validity interval. The result is its equity, cash flow, peak and position risk.\<close>

definition equity_facts ::
  "string \<Rightarrow> pydict \<Rightarrow> pydict \<Rightarrow> (pyfloat \<times> pyfloat \<times> pyfloat \<times> pyfloat) res" where
  "equity_facts account binding data =
     bind_res (submission_number (dget data ''equity'')) (\<lambda>equity.
     bind_res (submission_number (dget data ''balance'')) (\<lambda>_.
     bind_res (submission_number (dget data ''cash'')) (\<lambda>_.
     require (py_eq (dget data ''account_domain_key'') (dget binding ''domain_key'')
         \<and> dget data ''account_binding'' = PStr account \<and> dget data ''open_orders_complete'' = PBool True)
       (AccountSubmissionError ''invalid snapshot account or pending observation'')
    (bind_res (submission_number (dget data ''pending_3x_exposure'')) (\<lambda>_.
     bind_res (number_map True ''invalid position or pending observation'' (dget data ''positions'')) (\<lambda>_.
     require (is_bool (dget data ''open_orders_empty''))
       (AccountSubmissionError ''invalid position or pending observation'')
    (bind_res (domain_time (dget data ''valid_until'')) (\<lambda>until.
     bind_res (domain_time (dget data ''valuation_at'')) (\<lambda>valuation.
     require (valuation < until) (AccountSubmissionError ''invalid snapshot validity interval'')
    (bind_res (submission_number (dget data ''cash_flow'')) (\<lambda>flow.
     bind_res (submission_number (dget data ''peak'')) (\<lambda>peak.
     bind_res (number_map False ''invalid covered attempt ids'' (dget data ''covered_fills'')) (\<lambda>_.
     bind_res (number_map False ''invalid covered fees'' (dget data ''covered_fees'')) (\<lambda>_.
     bind_res (submission_number (dget data ''position_3x_exposure'')) (\<lambda>_.
     bind_res (submission_number (dget data ''position_risk'')) (\<lambda>risk.
     Inr (equity, flow, peak, risk)))))))))))))))))"

text \<open>The peak and the protected equity that follow from the previous observation.\<close>

definition expected_peak :: "pydict option \<Rightarrow> pyfloat \<Rightarrow> pyfloat \<Rightarrow> pyfloat res" where
  "expected_peak previous equity flow = (case previous of None \<Rightarrow> Inr equity
     | Some p \<Rightarrow> map_res (\<lambda>x. f_max equity (f_add x flow)) (num_float (dget p ''peak'')))"

definition expected_protected :: "pydict option \<Rightarrow> pyfloat \<Rightarrow> pyval res" where
  "expected_protected previous equity = (case previous of None \<Rightarrow> Inr (PFloat equity)
     | Some p \<Rightarrow> map_res (\<lambda>more. if more then dget p ''protected_equity'' else PFloat equity)
         (py_lt (PFloat equity) (dget p ''protected_equity'')))"

definition later_valuation :: "pydict option \<Rightarrow> pydict \<Rightarrow> unit res" where
  "later_valuation previous data = (case previous of None \<Rightarrow> Inr ()
     | Some p \<Rightarrow> bind_res (domain_time (dget data ''valuation_at'')) (\<lambda>new.
         bind_res (domain_time (dget p ''valuation_at'')) (\<lambda>old.
         require (old < new) (AccountSubmissionError ''non-monotonic equity observation'') (Inr ()))))"

text \<open>\<open>except (ValueError, TypeError, KeyError) as exc: raise AccountSubmissionError\<close>.\<close>

definition evidence_checked :: "pydict \<Rightarrow> journal_state \<Rightarrow> unit res" where
  "evidence_checked data s =
     (if ''pending_order_evidence'' \<notin> set (keys data) then Inr ()
      else case validate_pending_order_evidence (dget data ''pending_order_evidence'') data s of
        Inr _ \<Rightarrow> Inr ()
      | Inl e \<Rightarrow> Inl (if exc_class e \<in> {''ValueError'', ''TypeError'', ''KeyError''}
          then AccountSubmissionError ''invalid pending order evidence'' else e))"

definition on_equity_observed :: "string \<Rightarrow> pydict \<Rightarrow> journal_state \<Rightarrow> journal_state res" where
  "on_equity_observed account data s =
     (case (same_keys data equity_fields \<or> same_keys data (''pending_order_evidence'' # equity_fields),
         jn_domain_binding s) of
       (True, Some binding) \<Rightarrow>
         bind_res (equity_facts account binding data) (\<lambda>(equity, flow, peak, risk).
         let previous = jn_equity_observation s in
         bind_res (expected_peak previous equity flow) (\<lambda>next_peak.
         bind_res (expected_protected previous equity) (\<lambda>protected.
         require (py_eq (dget data ''protected_equity'') protected)
           (AccountSubmissionError ''invalid protected equity transition'')
        (require (f_isclose peak next_peak (to_float (1 / 10 ^ 12)) (to_float (1 / 10 ^ 9))
             \<and> py_eq (dget data ''currency'') (dget binding ''currency''))
           (AccountSubmissionError ''invalid equity peak transition'')
        (bind_res (later_valuation previous data) (\<lambda>_.
         bind_res (evidence_checked data s) (\<lambda>_.
         Inr (s\<lparr>jn_equity_observation := Some data, jn_snapshot_position_risk := risk\<rparr>))))))))
     | _ \<Rightarrow> Inl (AccountSubmissionError ''invalid equity observation''))"

definition reserved_fields :: "string list" where
  "reserved_fields = [''order_sha256'', ''amount'', ''currency'', ''valuation_at'', ''source_digest'',
     ''reserved_3x_exposure'', ''quantity'', ''estimated_fee'', ''loss_per_unit'', ''quantity_step'',
     ''risk_fraction'', ''product_leverage_factor'', ''unit_price'', ''existing_3x_exposure'',
     ''pending_3x_exposure'', ''floor'', ''cost_buffer'', ''leverage_hitl_approved'', ''account_budget_policy'']"

fun is_dict :: "pyval \<Rightarrow> bool" where
  "is_dict (PDict _) = True"
| "is_dict _ = False"

definition on_risk_reserved :: "pydict \<Rightarrow> journal_state \<Rightarrow> journal_state res" where
  "on_risk_reserved data s =
     require (same_keys data reserved_fields) (AccountSubmissionError ''invalid risk reservation'')
    (bind_res (submission_digest (dget data ''order_sha256'')) (\<lambda>order.
     bind_res (submission_number (dget data ''amount'')) (\<lambda>amount.
     bind_res (submission_number (dget data ''reserved_3x_exposure'')) (\<lambda>exposure.
     case jn_domain_binding s of
       None \<Rightarrow> Inl (AccountSubmissionError ''invalid or duplicate risk reservation'')
     | Some binding \<Rightarrow>
       require (f_lt (Fin 0) amount \<and> map_of (jn_risk_reservations s) order = None)
         (AccountSubmissionError ''invalid or duplicate risk reservation'')
      (require (py_eq (dget data ''currency'') (dget binding ''currency''))
         (AccountSubmissionError ''risk reservation currency mismatch'')
      (bind_res (submission_text (dget data ''valuation_at'')) (\<lambda>_.
       bind_res (submission_text (dget data ''source_digest'')) (\<lambda>_.
       bind_res (submission_number (dget data ''quantity'')) (\<lambda>quantity.
       bind_res (submission_number (dget data ''estimated_fee'')) (\<lambda>fee.
       bind_res (mapM (\<lambda>k. submission_number (dget data k))
         [''loss_per_unit'', ''quantity_step'', ''risk_fraction'', ''product_leverage_factor'', ''unit_price'',
          ''existing_3x_exposure'', ''pending_3x_exposure'', ''floor'', ''cost_buffer'']) (\<lambda>_.
       require (is_dict (dget data ''account_budget_policy'')) (AccountSubmissionError ''invalid account budget policy'')
      (require (is_bool (dget data ''leverage_hitl_approved'')) (AccountSubmissionError ''invalid leverage approval fact'')
      (require (f_lt (Fin 0) quantity \<and> f_le fee amount)
         (AccountSubmissionError ''invalid reserved quantity or fee'')
         (Inr (s\<lparr>jn_risk_reservations := dict_set (jn_risk_reservations s) order
            \<lparr>rs_data = data, rs_remaining_amount = amount, rs_reconciled_filled = Fin 0,
             rs_actual_fee = Fin 0, rs_remaining_3x_exposure = exposure\<rparr>\<rparr>)))))))))))))))"

text \<open>What a reservation keeps when \<open>filled\<close> of its quantity, at \<open>fee\<close>, is in the account's equity.\<close>

definition unfilled_share :: "reservation \<Rightarrow> pyfloat \<Rightarrow> pyfloat res" where
  "unfilled_share r filled = map_res (\<lambda>quantity. f_sub (Fin 1) (f_quot filled quantity))
     (num_float (dget (rs_data r) ''quantity''))"

definition remaining_of :: "attempt \<Rightarrow> reservation \<Rightarrow> pyfloat \<Rightarrow> pyfloat \<Rightarrow> (pyfloat \<times> pyfloat) res" where
  "remaining_of a r filled fee =
     (if at_certainty a = TERMINAL then Inr (Fin 0, Fin 0)
      else bind_res (num_sub (dget (rs_data r) ''amount'') (dget (rs_data r) ''estimated_fee'')) (\<lambda>at_risk.
        bind_res (unfilled_share r filled) (\<lambda>share.
        bind_res (num_float at_risk) (\<lambda>x.
        bind_res (num_float (dget (rs_data r) ''estimated_fee'')) (\<lambda>estimated.
        bind_res (num_float (dget (rs_data r) ''reserved_3x_exposure'')) (\<lambda>exposure.
        Inr (f_add (f_mul x share) (f_max (Fin 0) (f_sub estimated fee)), f_mul exposure share)))))))"

text \<open>The facts of a reconciliation, in the order the code compares them.\<close>

definition covered_by :: "pydict \<Rightarrow> string \<Rightarrow> pyval \<Rightarrow> pyval" where
  "covered_by observation field i = (case dget observation field of
     PDict d \<Rightarrow> (case i of PStr k \<Rightarrow> dget d k | _ \<Rightarrow> PNone) | _ \<Rightarrow> PNone)"

definition reconciliation_facts ::
  "pydict \<Rightarrow> pyval \<Rightarrow> attempt \<Rightarrow> reservation \<Rightarrow> pyfloat \<Rightarrow> pyfloat \<Rightarrow> pyfloat \<Rightarrow> bool res" where
  "reconciliation_facts observation i a r filled fee position_risk =
     (if at_certainty a \<notin> {TERMINAL, KNOWN_PENDING}
        \<or> \<not> py_eq (covered_by observation ''covered_fills'' i) (PFloat filled)
        \<or> \<not> py_eq (covered_by observation ''covered_fees'' i) (PFloat fee)
        \<or> \<not> py_eq (dget observation ''position_risk'') (PFloat position_risk)
        \<or> py_eq (dget observation ''source_digest'') (dget (rs_data r) ''source_digest'')
      then Inr False
      else bind_res (domain_time (dget observation ''valuation_at'')) (\<lambda>new.
        bind_res (domain_time (dget (rs_data r) ''valuation_at'')) (\<lambda>old.
        Inr (old < new \<and> f_eq filled (at_filled_quantity a) \<and> f_le (rs_reconciled_filled r) filled
          \<and> f_le (rs_actual_fee r) fee))))"

definition on_risk_reconciled :: "pydict \<Rightarrow> journal_state \<Rightarrow> journal_state res" where
  "on_risk_reconciled data s =
     require (same_keys data [''attempt_id'', ''filled_quantity'', ''actual_fee'', ''snapshot_position_risk'', ''source_digest''])
       (AccountSubmissionError ''invalid risk reconciliation'')
    (bind_res (lookup_key (jn_attempts s) (dget data ''attempt_id'')) (\<lambda>found.
     case (found, jn_equity_observation s) of
       (Some a, Some observation) \<Rightarrow>
         require (py_eq (dget data ''source_digest'') (dget observation ''source_digest''))
           (AccountSubmissionError ''risk reconciliation snapshot mismatch'')
        (let order = text_of (at_data a) ''order_sha256'' in
         bind_res (submission_number (dget data ''filled_quantity'')) (\<lambda>filled.
         bind_res (submission_number (dget data ''actual_fee'')) (\<lambda>fee.
         bind_res (submission_number (dget data ''snapshot_position_risk'')) (\<lambda>position_risk.
         case map_of (jn_risk_reservations s) order of
           None \<Rightarrow> Inl (AccountSubmissionError ''risk reconciliation facts mismatch'')
         | Some r \<Rightarrow>
           bind_res (reconciliation_facts observation (dget data ''attempt_id'') a r filled fee position_risk) (\<lambda>match.
           require match (AccountSubmissionError ''risk reconciliation facts mismatch'')
          (bind_res (remaining_of a r filled fee) (\<lambda>(amount, exposure).
           Inr (s\<lparr>jn_risk_reservations := dict_set (jn_risk_reservations s) order
                 (r\<lparr>rs_remaining_amount := amount, rs_remaining_3x_exposure := exposure,
                   rs_reconciled_filled := filled, rs_actual_fee := fee\<rparr>),
               jn_snapshot_position_risk := position_risk\<rparr>))))))))
     | _ \<Rightarrow> Inl (AccountSubmissionError ''risk reconciliation snapshot mismatch'')))"

definition prepared_fields :: "string list" where
  "prepared_fields = [''attempt_id'', ''fence'', ''intent_id'', ''order_sha256'', ''release_id'', ''owner_id'',
     ''profile'', ''quantity'']"

text \<open>The field \<open>k\<close> is absent or True.\<close>

definition absent_or_true :: "pydict \<Rightarrow> string \<Rightarrow> bool" where
  "absent_or_true d k \<longleftrightarrow> k \<notin> set (keys d) \<or> dget d k = PBool True"

definition new_attempt :: "nat \<Rightarrow> string \<Rightarrow> pydict \<Rightarrow> journal_state \<Rightarrow> attempt" where
  "new_attempt sequence sha data s = \<lparr>at_data = data, at_generation = sequence, at_event_sha256 = sha,
     at_certainty = PREPARED, at_observation = None, at_filled_quantity = Fin 0,
     at_prepared_snapshot = jn_equity_observation s, at_last_recorded_at = None, at_recorded_at = PNone,
     at_observation_sha256 = None\<rparr>"

definition on_prepared :: "nat \<Rightarrow> string \<Rightarrow> pydict \<Rightarrow> journal_state \<Rightarrow> journal_state res" where
  "on_prepared sequence sha data s =
     require ((same_keys data prepared_fields
           \<or> same_keys data (''reduction'' # ''reduction_source_digest'' # prepared_fields)
           \<or> same_keys data (''new_risk'' # prepared_fields)) \<and> absent_or_true data ''reduction'')
       (AccountSubmissionError ''invalid prepared fields'')
    (require (''new_risk'' \<in> set (keys data) \<longrightarrow>
         dget data ''new_risk'' = PBool True \<and> \<not> jn_circuit_breaker_open s)
       (AccountSubmissionError ''new risk prepared while circuit breaker OPEN'')
    (bind_res (mapM (\<lambda>k. submission_digest (dget data k))
       [''attempt_id'', ''fence'', ''intent_id'', ''order_sha256'', ''release_id'']) (\<lambda>_.
     bind_res (mapM (\<lambda>k. submission_text (dget data k)) [''owner_id'', ''profile'']) (\<lambda>_.
     bind_res (submission_number (dget data ''quantity'')) (\<lambda>quantity.
     require (f_lt (Fin 0) quantity \<and> \<not> unresolved s)
       (AccountSubmissionError ''prepared event bypasses unresolved account'')
    (let i = text_of data ''attempt_id''; order = dget data ''order_sha256'' in
     require (map_of (jn_attempts s) i = None
         \<and> \<not> already_attempted s (dget data ''intent_id'') order)
       (AccountSubmissionError ''duplicate submission identity'')
    (require (jn_domain_binding s \<noteq> None \<and> \<not> truthy (dget data ''reduction'') \<longrightarrow>
         map_of (jn_risk_reservations s) (py_str order) \<noteq> None \<and> \<not> reservation_used s order)
       (AccountSubmissionError ''account risk reservation already used or missing'')
       (Inr (s\<lparr>jn_attempts := dict_set (jn_attempts s) i (new_attempt sequence sha data s)\<rparr>)))))))))"

definition observation_fields :: "string list" where
  "observation_fields = [''status'', ''broker_order_id'', ''filled_quantity'', ''average_fill_price'', ''certainty'']"

fun is_text :: "pyval \<Rightarrow> bool" where
  "is_text (PStr _) = True"
| "is_text _ = False"

text \<open>The broker's facts of an observation, and its filled quantity.\<close>

definition observed_fill :: "pyval \<Rightarrow> (pydict \<times> pyfloat) res" where
  "observed_fill v = (case v of PDict o' \<Rightarrow>
     require (same_keys o' observation_fields) (AccountSubmissionError ''invalid observation fields'')
    (require (is_text (dget o' ''status''))
       (AccountSubmissionError ''invalid broker status'')
    (bind_res (if dget o' ''broker_order_id'' = PNone then Inr []
        else submission_text (dget o' ''broker_order_id'')) (\<lambda>_.
     bind_res (submission_number (dget o' ''filled_quantity'')) (\<lambda>filled.
     bind_res (optional_number (dget o' ''average_fill_price'')) (\<lambda>_.
     Inr (o', filled))))))
   | _ \<Rightarrow> Inl (AccountSubmissionError ''invalid observation fields''))"

text \<open>Whether an attempt may take an observation of the given certainty.\<close>

definition may_observe :: "attempt \<Rightarrow> pydict \<Rightarrow> pyfloat \<Rightarrow> certainty \<Rightarrow> bool res" where
  "may_observe a o' filled c =
     (if dget o' ''certainty'' \<noteq> PStr (certainty_text c) \<or> f_lt filled (at_filled_quantity a) then Inr False
      else bind_res (py_lt (dget (at_data a) ''quantity'') (PFloat filled)) (\<lambda>over.
        Inr (\<not> over \<and> at_certainty a \<notin> {UNKNOWN, TERMINAL}
          \<and> (case at_observation a of None \<Rightarrow> True | Some prior \<Rightarrow>
              truthy (dget prior ''broker_order_id'') \<longrightarrow>
                py_eq (dget prior ''broker_order_id'') (dget o' ''broker_order_id'')))))"

text \<open>The time of reception, when it is recorded, does not move backwards.\<close>

definition watermark_checked :: "attempt \<Rightarrow> pyval \<Rightarrow> unit res" where
  "watermark_checked a recorded_at =
     (if recorded_at = PNone then Inr ()
      else reraise_type_value (bind_res (domain_time recorded_at) (\<lambda>instant.
          case at_last_recorded_at a of None \<Rightarrow> Inr ()
          | Some previous \<Rightarrow> bind_res (domain_time previous) (\<lambda>t.
              require (t \<le> instant) (ValueError ''reception time moved backwards'') (Inr ()))))
        (AccountSubmissionError ''invalid journal observation watermark''))"

definition take_observation :: "string \<Rightarrow> attempt \<Rightarrow> pydict \<Rightarrow> pyfloat \<Rightarrow> certainty \<Rightarrow> pyval \<Rightarrow> attempt" where
  "take_observation sha a o' filled c recorded_at = a\<lparr>at_certainty := c, at_observation := Some o',
     at_filled_quantity := filled, at_observation_sha256 := Some sha, at_recorded_at := recorded_at,
     at_last_recorded_at := (if recorded_at = PNone then at_last_recorded_at a else Some recorded_at)\<rparr>"

definition on_observed :: "string \<Rightarrow> pydict \<Rightarrow> journal_state \<Rightarrow> journal_state res" where
  "on_observed sha data s =
     require (same_keys data [''attempt_id'', ''observation'']
         \<or> same_keys data [''attempt_id'', ''observation'', ''recorded_at''])
       (AccountSubmissionError ''observation references unknown attempt'')
    (bind_res (lookup_key (jn_attempts s) (dget data ''attempt_id'')) (\<lambda>found. case found of
       None \<Rightarrow> Inl (AccountSubmissionError ''observation references unknown attempt'')
     | Some a \<Rightarrow>
       bind_res (observed_fill (dget data ''observation'')) (\<lambda>(o', filled).
       bind_res (certainty_of o' (dget (at_data a) ''quantity'')) (\<lambda>c.
       bind_res (may_observe a o' filled c) (\<lambda>may.
       require may (AccountSubmissionError ''illegal or non-monotonic observation; UNKNOWN cannot be resolved'')
      (bind_res (watermark_checked a (dget data ''recorded_at'')) (\<lambda>_.
       Inr (s\<lparr>jn_attempts := dict_set (jn_attempts s) (text_of data ''attempt_id'')
         (take_observation sha a o' filled c (dget data ''recorded_at''))\<rparr>))))))))"

section \<open>Reducing the journal\<close>

definition apply_kind ::
  "string \<Rightarrow> pyval \<Rightarrow> nat \<Rightarrow> string \<Rightarrow> pydict \<Rightarrow> journal_state \<Rightarrow> journal_state res" where
  "apply_kind account kind sequence sha data s =
     (if kind = PStr ''CIRCUIT_BREAKER_OPEN'' then on_breaker_open data s
      else if kind = PStr ''DOMAIN_BOUND'' then on_domain_bound data s
      else if kind = PStr ''EQUITY_OBSERVED'' then on_equity_observed account data s
      else if kind = PStr ''RISK_RESERVED'' then on_risk_reserved data s
      else if kind = PStr ''RISK_RECONCILED'' then on_risk_reconciled data s
      else if kind = PStr ''PREPARED'' then on_prepared sequence sha data s
      else if kind = PStr ''OBSERVED'' then on_observed sha data s
      else Inl (AccountSubmissionError ''unsupported account event; no resolution API''))"

definition submission_contract :: string where
  "submission_contract = ''account_submission.v1''"

definition account_root_of :: "string \<Rightarrow> string" where
  "account_root_of account = ''v1/'' @ account"

definition event_fields :: "string list" where
  "event_fields = [''schema_version'', ''account_root'', ''sequence'', ''previous_sha256'', ''kind'', ''data'', ''event_sha256'']"

definition event_hash :: "pydict \<Rightarrow> string res" where
  "event_hash e = binding_digest (filter (\<lambda>(k, v). k \<noteq> ''event_sha256'') e)"

text \<open>One event: its place in the chain, then its handler.\<close>

definition apply_event :: "string \<Rightarrow> pydict \<Rightarrow> journal_state \<Rightarrow> journal_state res" where
  "apply_event account e s =
     (let sequence = Suc (jn_generation s); mismatch =
          AccountSubmissionError ''account journal schema/root/hash/sequence mismatch'' in
      require (same_keys e event_fields) (AccountSubmissionError ''invalid account journal event fields'')
     (require (dget e ''schema_version'' = PStr submission_contract
          \<and> dget e ''account_root'' = PStr (account_root_of account)
          \<and> dget e ''sequence'' = PInt (int sequence)
          \<and> dget e ''previous_sha256'' = PStr (jn_head_sha256 s)) mismatch
     (bind_res (event_hash e) (\<lambda>sha.
      require (dget e ''event_sha256'' = PStr sha) mismatch
     (case dget e ''data'' of
        PDict data \<Rightarrow> map_res (\<lambda>s'. s'\<lparr>jn_generation := sequence, jn_head_sha256 := sha\<rparr>)
          (apply_kind account (dget e ''kind'') sequence sha data s)
      | _ \<Rightarrow> Inl (AccountSubmissionError ''invalid account event data''))))))"

definition apply_text :: "string \<Rightarrow> string \<Rightarrow> journal_state \<Rightarrow> journal_state res" where
  "apply_text account text_v s = (case json_loads text_v of
     None \<Rightarrow> Inl (AccountSubmissionError ''invalid account journal JSON'')
   | Some (PDict e) \<Rightarrow> apply_event account e s
   | Some _ \<Rightarrow> Inl (AccountSubmissionError ''invalid account journal event fields''))"

text \<open>The loop over the sorted locations. Reading may raise; TypeError and ValueError mean an
  undecodable event.\<close>

fun replay_locations ::
  "string \<Rightarrow> (nat \<Rightarrow> string res) \<Rightarrow> (string \<Rightarrow> string res) \<Rightarrow> string list \<Rightarrow> journal_state \<Rightarrow> journal_state res" where
  "replay_locations account place read [] s = Inr s"
| "replay_locations account place read (u # us) s =
     bind_res (place (Suc (jn_generation s))) (\<lambda>expected.
     require (u = expected) (AccountSubmissionError ''incomplete or wrong account journal sequence'')
    (bind_res (reraise_type_value (read u) (AccountSubmissionError ''invalid account journal JSON'')) (\<lambda>text_v.
     bind_res (apply_text account text_v s) (replay_locations account place read us))))"

text \<open>Where the journal of an account is: \<open>_location\<close> with a sequence, and without.\<close>

definition sequence_name :: "nat \<Rightarrow> string" where
  "sequence_name n = zero_pad 20 (nat_str n)"

definition journal_dir :: "marker_store \<Rightarrow> 'w marker_backend \<Rightarrow> string \<Rightarrow> string" where
  "journal_dir st bk account = path_join (path_join (norm_path (mb_expanduser bk (the (ms_local_dir st))))
     ''account_submissions'') (account_root_of account)"

definition journal_place :: "marker_store \<Rightarrow> 'w marker_backend \<Rightarrow> string \<Rightarrow> nat \<Rightarrow> string res" where
  "journal_place st bk account n =
     (if on_cloud st then cloud_uri_for_namespace st (account_root_of account @ ''/'' @ sequence_name n)
        ''account_submissions''
      else Inr (path_join (journal_dir st bk account) (sequence_name n @ ''.json'')))"

definition read_state :: "marker_store \<Rightarrow> 'w marker_backend \<Rightarrow> string \<Rightarrow> 'w \<times> files \<Rightarrow> journal_state res" where
  "read_state st bk account w = (case w of (cw, fs) \<Rightarrow>
     bind_res (if on_cloud st
         then bind_res (cloud_prefix_for_namespace st (account_root_of account) ''account_submissions'')
           (\<lambda>p. os_list bk p cw)
         else Inr (filter (\<lambda>u. case path_below (journal_dir st bk account) u of
             Some [n] \<Rightarrow> ends_with ''.json'' n | _ \<Rightarrow> False) (file_names fs))) (\<lambda>locations.
     require (distinct locations) (AccountSubmissionError ''duplicate account journal sequence'')
       (replay_locations account (journal_place st bk account)
         (\<lambda>u. if on_cloud st then os_read_text bk u cw else fs_read u fs) (sort locations) initial_journal)))"

section \<open>Appending\<close>

definition new_event :: "string \<Rightarrow> journal_state \<Rightarrow> string \<Rightarrow> pydict \<Rightarrow> pydict res" where
  "new_event account s kind data =
     (let e = [(''schema_version'', PStr submission_contract), (''account_root'', PStr (account_root_of account)),
          (''sequence'', PInt (int (Suc (jn_generation s)))), (''previous_sha256'', PStr (jn_head_sha256 s)),
          (''kind'', PStr kind), (''data'', PDict data)]
      in map_res (\<lambda>sha. e @ [(''event_sha256'', PStr sha)]) (event_hash e))"

definition event_text :: "pydict \<Rightarrow> string" where
  "event_text e = json_dumps default_style (PDict e)"

text \<open>The body of \<open>_append\<close>: create the next sequence, never overwrite, and confirm by reading the
  journal back.\<close>

definition confirm_event ::
  "marker_store \<Rightarrow> 'w marker_backend \<Rightarrow> string \<Rightarrow> pydict \<Rightarrow> 'w \<times> files \<Rightarrow> pydict res" where
  "confirm_event st bk account e w =
     bind_res (read_state st bk account w) (\<lambda>confirmed.
     require (PInt (int (jn_generation confirmed)) = dget e ''sequence''
         \<and> PStr (jn_head_sha256 confirmed) = dget e ''event_sha256'')
       (AccountSubmissionError ''account event confirmation failed'') (Inr e))"

definition write_event ::
  "marker_store \<Rightarrow> 'w marker_backend \<Rightarrow> string \<Rightarrow> pydict \<Rightarrow> string \<Rightarrow> ('w \<times> files, pydict) act" where
  "write_event st bk account e place w =
     (case create_record st bk (Inr place) place (event_text e) ''existing durable execution store required'' w of
        (Inl err, w') \<Rightarrow> (Inl err, w')
      | (Inr created, w') \<Rightarrow>
          (if \<not> created then Inl (AccountSubmissionError ''account event create conflict; no submission grant'')
           else confirm_event st bk account e w', w'))"

end
