(* ===== verification/SubmissionHistory.thy ===== *)
theory SubmissionHistory
  imports SubmissionJournal
begin

text \<open>
  What the account submission journal guarantees. The abstract arbitration of an account is a
  step relation: what one event may do to the state. The handlers implement it, so that the
  invariants are shown once, by cases on the step, and hold of every journal that reads back.
\<close>

section \<open>The abstract arbitration\<close>

inductive account_step :: "journal_state \<Rightarrow> journal_state \<Rightarrow> bool" where
  Latch: "\<not> jn_circuit_breaker_open s \<Longrightarrow> account_step s (s\<lparr>jn_circuit_breaker_open := True\<rparr>)"
| Bind: "jn_domain_binding s = None \<Longrightarrow> account_step s (s\<lparr>jn_domain_binding := Some d\<rparr>)"
| Observe_equity: "account_step s (s\<lparr>jn_equity_observation := Some d, jn_snapshot_position_risk := x\<rparr>)"
| Reserve_risk: "map_of (jn_risk_reservations s) k = None \<Longrightarrow>
    account_step s (s\<lparr>jn_risk_reservations := dict_set (jn_risk_reservations s) k r\<rparr>)"
| Reconcile_risk: "map_of (jn_risk_reservations s) k = Some r \<Longrightarrow> rs_data r' = rs_data r \<Longrightarrow>
    account_step s (s\<lparr>jn_risk_reservations := dict_set (jn_risk_reservations s) k r',
      jn_snapshot_position_risk := x\<rparr>)"
| Prepare: "\<not> unresolved s \<Longrightarrow> map_of (jn_attempts s) i = None \<Longrightarrow>
    \<not> already_attempted s (dget d ''intent_id'') (dget d ''order_sha256'') \<Longrightarrow>
    (''new_risk'' \<in> set (keys d) \<longrightarrow> \<not> jn_circuit_breaker_open s) \<Longrightarrow>
    submission_number (dget d ''quantity'') = Inr q \<Longrightarrow>
    account_step s (s\<lparr>jn_attempts := dict_set (jn_attempts s) i (new_attempt n sha d s)\<rparr>)"
| Settle: "map_of (jn_attempts s) i = Some a \<Longrightarrow> at_certainty a \<notin> {UNKNOWN, TERMINAL} \<Longrightarrow>
    c \<noteq> PREPARED \<Longrightarrow> f_le (at_filled_quantity a) filled \<Longrightarrow> observed_fill (PDict ob) = Inr (ob, filled) \<Longrightarrow>
    py_lt (dget (at_data a) ''quantity'') (PFloat filled) = Inr False \<Longrightarrow>
    account_step s (s\<lparr>jn_attempts := dict_set (jn_attempts s) i (take_observation sha a ob filled c t)\<rparr>)"

inductive_cases account_stepE: "account_step s s'"

section \<open>The handlers implement it\<close>

lemma case_option_Inr_iff:
  "(case x of None \<Rightarrow> Inl e | Some a \<Rightarrow> f a) = Inr b \<longleftrightarrow> (\<exists>a. x = Some a \<and> f a = Inr b)"
  by (cases x) auto

lemma case_dict_Inr_iff:
  "(case v of PDict d \<Rightarrow> f d | _ \<Rightarrow> Inl e) = Inr b \<longleftrightarrow> (\<exists>d. v = PDict d \<and> f d = Inr b)"
  by (cases v) auto

lemmas handler_iffs = require_Inr_iff bind_res_Inr_iff map_res_Inr_iff case_option_Inr_iff case_dict_Inr_iff

lemma on_breaker_open_step: "on_breaker_open data s = Inr s' \<Longrightarrow> account_step s s'"
  by (auto simp: on_breaker_open_def require_Inr_iff bind_res_Inr_iff intro: Latch)

lemma on_domain_bound_step: "on_domain_bound data s = Inr s' \<Longrightarrow> account_step s s'"
  by (auto simp: on_domain_bound_def require_Inr_iff bind_res_Inr_iff intro: Bind)

lemma on_equity_observed_step: "on_equity_observed account data s = Inr s' \<Longrightarrow> account_step s s'"
  by (auto simp: on_equity_observed_def Let_def require_Inr_iff bind_res_Inr_iff
      intro: Observe_equity split: option.splits bool.splits)

lemma on_risk_reserved_step: "on_risk_reserved data s = Inr s' \<Longrightarrow> account_step s s'"
  unfolding on_risk_reserved_def handler_iffs by (auto simp: handler_iffs intro!: Reserve_risk)

lemma on_risk_reconciled_step: "on_risk_reconciled data s = Inr s' \<Longrightarrow> account_step s s'"
  unfolding on_risk_reconciled_def Let_def handler_iffs by (auto simp: handler_iffs intro!: Reconcile_risk)

lemma on_prepared_step:
  assumes "on_prepared sequence sha data s = Inr s'"
  shows "account_step s s'"
proof -
  obtain q where f: "''new_risk'' \<in> set (keys data) \<longrightarrow> \<not> jn_circuit_breaker_open s"
    "submission_number (dget data ''quantity'') = Inr q" "\<not> unresolved s"
    "map_of (jn_attempts s) (text_of data ''attempt_id'') = None"
    "\<not> already_attempted s (dget data ''intent_id'') (dget data ''order_sha256'')"
    "s' = s\<lparr>jn_attempts := dict_set (jn_attempts s) (text_of data ''attempt_id'')
      (new_attempt sequence sha data s)\<rparr>"
    using assms unfolding on_prepared_def Let_def require_Inr_iff bind_res_Inr_iff by blast
  show ?thesis unfolding f(6) by (rule Prepare [OF f(3, 4, 5, 1, 2)])
qed

lemma if_certainty:
  "(if b then x else y) = Inr (c :: certainty) \<longleftrightarrow> (if b then x = Inr c else y = Inr c)"
  "(if b then d else e) = c \<longleftrightarrow> (if b then d = c else e = c)"
  by auto

lemma certainty_not_prepared: "certainty_of ob quantity \<noteq> Inr PREPARED"
  by (simp add: certainty_of_def Let_def bind_res_Inr_iff if_certainty split del: if_split cong: if_cong)

lemma observed_fill_finite: "observed_fill v = Inr (ob, filled) \<Longrightarrow> f_isfinite filled"
  unfolding observed_fill_def
  by (auto simp: require_Inr_iff bind_res_Inr_iff dest: submission_number_finite split: pyval.splits)

lemma may_observe_True:
  "may_observe a ob filled c = Inr True \<longleftrightarrow>
     dget ob ''certainty'' = PStr (certainty_text c) \<and> \<not> f_lt filled (at_filled_quantity a)
     \<and> py_lt (dget (at_data a) ''quantity'') (PFloat filled) = Inr False
     \<and> at_certainty a \<notin> {UNKNOWN, TERMINAL}
     \<and> (case at_observation a of None \<Rightarrow> True | Some prior \<Rightarrow> truthy (dget prior ''broker_order_id'') \<longrightarrow>
          py_eq (dget prior ''broker_order_id'') (dget ob ''broker_order_id''))"
  by (auto simp: may_observe_def bind_res_Inr_iff)

section \<open>Invariants\<close>

text \<open>The state is arbitrated: attempts have ids of their own, fills are numbers within the
  quantity, at most one attempt is prepared and unobserved, and no two are for the same intent and
  order.\<close>

definition attempt_ok :: "attempt \<Rightarrow> bool" where
  "attempt_ok a \<longleftrightarrow> f_isfinite (at_filled_quantity a)
     \<and> (\<exists>q. submission_number (dget (at_data a) ''quantity'') = Inr q)
     \<and> (case at_observation a of None \<Rightarrow> at_filled_quantity a = Fin 0
        | Some ob \<Rightarrow> observed_fill (PDict ob) = Inr (ob, at_filled_quantity a)
            \<and> py_lt (dget (at_data a) ''quantity'') (PFloat (at_filled_quantity a)) = Inr False)"

definition rivals :: "attempt \<Rightarrow> attempt \<Rightarrow> bool" where
  "rivals a b \<longleftrightarrow> (at_certainty a = PREPARED \<and> at_certainty b = PREPARED)
     \<or> (dget (at_data a) ''intent_id'' = dget (at_data b) ''intent_id''
       \<and> dget (at_data a) ''order_sha256'' = dget (at_data b) ''order_sha256'')"

definition arbitrated :: "journal_state \<Rightarrow> bool" where
  "arbitrated s \<longleftrightarrow> distinct (map fst (jn_attempts s))
     \<and> (\<forall>i a. map_of (jn_attempts s) i = Some a \<longrightarrow> attempt_ok a)
     \<and> (\<forall>i j a b. map_of (jn_attempts s) i = Some a \<longrightarrow> map_of (jn_attempts s) j = Some b \<longrightarrow> i \<noteq> j
         \<longrightarrow> \<not> rivals a b)"

text \<open>What an attempt may become, and what a state may become.\<close>

definition attempt_grows :: "attempt \<Rightarrow> attempt \<Rightarrow> bool" where
  "attempt_grows a a' \<longleftrightarrow> at_data a' = at_data a \<and> at_generation a' = at_generation a
     \<and> at_event_sha256 a' = at_event_sha256 a
     \<and> f_le (at_filled_quantity a) (at_filled_quantity a')
     \<and> (at_certainty a \<in> {UNKNOWN, TERMINAL} \<longrightarrow> a' = a)
     \<and> (at_certainty a' = PREPARED \<longrightarrow> a' = a)"

definition grows :: "journal_state \<Rightarrow> journal_state \<Rightarrow> bool" where
  "grows s s' \<longleftrightarrow> (jn_circuit_breaker_open s \<longrightarrow> jn_circuit_breaker_open s')
     \<and> (\<forall>d. jn_domain_binding s = Some d \<longrightarrow> jn_domain_binding s' = Some d)
     \<and> (\<forall>i a. map_of (jn_attempts s) i = Some a \<longrightarrow>
         (\<exists>a'. map_of (jn_attempts s') i = Some a' \<and> attempt_grows a a'))
     \<and> (\<forall>k r. map_of (jn_risk_reservations s) k = Some r \<longrightarrow>
         (\<exists>r'. map_of (jn_risk_reservations s') k = Some r' \<and> rs_data r' = rs_data r))"

lemma on_observed_step:
  assumes "on_observed sha data s = Inr s'" "arbitrated s"
  shows "account_step s s'"
proof -
  obtain a ob filled c where f: "lookup_key (jn_attempts s) (dget data ''attempt_id'') = Inr (Some a)"
    "observed_fill (dget data ''observation'') = Inr (ob, filled)"
    "certainty_of ob (dget (at_data a) ''quantity'') = Inr c" "may_observe a ob filled c = Inr True"
    "s' = s\<lparr>jn_attempts := dict_set (jn_attempts s) (text_of data ''attempt_id'')
      (take_observation sha a ob filled c (dget data ''recorded_at''))\<rparr>"
    using assms(1) unfolding on_observed_def handler_iffs by (auto simp: handler_iffs)
  have i: "map_of (jn_attempts s) (text_of data ''attempt_id'') = Some a"
    using f(1) by (cases "dget data ''attempt_id''") (auto simp: lookup_key_def text_of_def)
  have "f_isfinite (at_filled_quantity a)" using assms(2) i unfolding arbitrated_def attempt_ok_def by blast
  moreover have c: "c \<noteq> PREPARED" using f(3) certainty_not_prepared by auto
  ultimately have le: "f_le (at_filled_quantity a) filled"
    using f(4) observed_fill_finite [OF f(2)] f_lt_not_le [of filled "at_filled_quantity a"]
    by (auto simp: may_observe_True dest: f_isfinite_not_NaN)
  have "observed_fill (PDict ob) = Inr (ob, filled)"
    using f(2) by (cases "dget data ''observation''") (auto simp: observed_fill_def res_simps)
  then show ?thesis unfolding f(5)
    using Settle [OF i _ c le] f(4) by (simp add: may_observe_True)
qed

lemma apply_kind_step:
  assumes "apply_kind account kind sequence sha data s = Inr s'" "arbitrated s"
  shows "account_step s s'"
  using assms
  by (auto simp: apply_kind_def intro: on_breaker_open_step on_domain_bound_step on_equity_observed_step
      on_risk_reserved_step on_risk_reconciled_step on_prepared_step on_observed_step split: if_splits)

lemma arbitrated_chain [simp]:
  "arbitrated (s\<lparr>jn_generation := n, jn_head_sha256 := h\<rparr>) = arbitrated s"
  "grows s (s'\<lparr>jn_generation := n, jn_head_sha256 := h\<rparr>) = grows s s'"
  by (simp_all add: arbitrated_def grows_def)

lemma arbitrated_initial: "arbitrated initial_journal"
  by (simp add: arbitrated_def initial_journal_def)

lemma distinct_dict_set: "distinct (map fst d) \<Longrightarrow> distinct (map fst (dict_set d k v))"
  using fst_dict_set [of _ k v] by (induction d) (auto simp: fst_dict_set)

lemma rivals_sym: "rivals a b \<Longrightarrow> rivals b a"
  by (auto simp: rivals_def)

lemma arbitrated_update:
  assumes "arbitrated s" "attempt_ok x"
    and "\<And>j b. map_of (jn_attempts s) j = Some b \<Longrightarrow> j \<noteq> i \<Longrightarrow> \<not> rivals x b"
  shows "arbitrated (s\<lparr>jn_attempts := dict_set (jn_attempts s) i x\<rparr>)"
  using assms unfolding arbitrated_def
  by (auto simp: map_of_dict_set distinct_dict_set simp del: map_of_eq_Some_iff dest: rivals_sym)

lemma attempt_grows_refl: "attempt_ok a \<Longrightarrow> attempt_grows a a"
  by (auto simp: attempt_grows_def attempt_ok_def intro: f_le_refl [OF f_isfinite_not_NaN])

lemma attempt_grows_trans: "attempt_grows a b \<Longrightarrow> attempt_grows b c \<Longrightarrow> attempt_grows a c"
  unfolding attempt_grows_def by (metis f_le_trans)

lemma grows_refl: "arbitrated s \<Longrightarrow> grows s s"
  unfolding grows_def arbitrated_def using attempt_grows_refl by blast

lemma grows_trans: "grows s t \<Longrightarrow> grows t u \<Longrightarrow> grows s u"
  unfolding grows_def by (intro conjI allI impI) (blast, metis, metis attempt_grows_trans, metis)

lemma grows_update:
  assumes "arbitrated s" "\<And>a. map_of (jn_attempts s) i = Some a \<Longrightarrow> attempt_grows a x"
  shows "grows s (s\<lparr>jn_attempts := dict_set (jn_attempts s) i x\<rparr>)"
  using assms unfolding grows_def arbitrated_def
  by (auto simp: map_of_dict_set simp del: map_of_eq_Some_iff intro: attempt_grows_refl)

lemma attempt_grows_settle:
  assumes "at_certainty a \<notin> {UNKNOWN, TERMINAL}" "c \<noteq> PREPARED" "f_le (at_filled_quantity a) filled"
  shows "attempt_grows a (take_observation sha a ob filled c t)"
  using assms by (auto simp: attempt_grows_def take_observation_def)

lemma account_step_grows: "account_step s s' \<Longrightarrow> arbitrated s \<Longrightarrow> grows s s'"
proof (induction rule: account_step.induct)
  case (Prepare s i d q n)
  then show ?case by (intro grows_update) simp_all
next
  case (Settle s i a c filled ob sha t)
  then show ?case by (intro grows_update) (auto intro: attempt_grows_settle)
qed (auto simp: grows_def arbitrated_def map_of_dict_set simp del: map_of_eq_Some_iff
    intro: attempt_grows_refl)

lemma account_step_arbitrated: "account_step s s' \<Longrightarrow> arbitrated s \<Longrightarrow> arbitrated s'"
proof (induction rule: account_step.induct)
  case (Prepare s i d q n)
  have "\<not> rivals (new_attempt n sha d s) b" if "map_of (jn_attempts s) j = Some b" for j b sha
    using Prepare.hyps map_of_SomeD [OF that]
    by (auto simp: rivals_def new_attempt_def unresolved_def already_attempted_def)
  then show ?case
    using Prepare.prems Prepare.hyps(5) by (intro arbitrated_update) (simp_all add: attempt_ok_def new_attempt_def)
next
  case (Settle s i a c filled ob sha t)
  have "\<not> rivals (take_observation sha a ob filled c t) b"
    if "map_of (jn_attempts s) j = Some b" "j \<noteq> i" for j b
  proof -
    have "\<not> rivals a b" using Settle that unfolding arbitrated_def by blast
    then show ?thesis using Settle.hyps(3) by (auto simp: rivals_def take_observation_def)
  qed
  moreover have "attempt_ok a" using Settle unfolding arbitrated_def by blast
  ultimately show ?case
    using Settle observed_fill_finite [OF Settle.hyps(5)]
    by (intro arbitrated_update) (simp_all add: attempt_ok_def take_observation_def)
qed (auto simp: arbitrated_def)

section \<open>Journals\<close>

lemma apply_text_history:
  assumes "apply_text account t s = Inr s'" "arbitrated s"
  shows "arbitrated s' \<and> grows s s' \<and> jn_generation s' = Suc (jn_generation s)"
proof -
  obtain e data sha s1 where "json_loads t = Some (PDict e)"
    and k: "apply_kind account (dget e ''kind'') (Suc (jn_generation s)) sha data s = Inr s1"
    and s': "s' = s1\<lparr>jn_generation := Suc (jn_generation s), jn_head_sha256 := sha\<rparr>"
    using assms(1) unfolding apply_text_def apply_event_def Let_def
    by (auto simp: handler_iffs)
  have "account_step s s1" by (rule apply_kind_step [OF k assms(2)])
  then show ?thesis
    using account_step_arbitrated account_step_grows assms(2) by (simp add: s')
qed

text \<open>The reduction of a list of event texts.\<close>

fun replay :: "string \<Rightarrow> string list \<Rightarrow> journal_state \<Rightarrow> journal_state res" where
  "replay account [] s = Inr s"
| "replay account (t # ts) s = bind_res (apply_text account t s) (replay account ts)"

lemma replay_append: "replay account (ts @ us) s = bind_res (replay account ts s) (replay account us)"
proof (induction ts arbitrary: s)
  case (Cons t ts)
  then show ?case by (cases "apply_text account t s") simp_all
qed simp

lemma replay_history:
  "replay account ts s = Inr s' \<Longrightarrow> arbitrated s \<Longrightarrow>
     arbitrated s' \<and> grows s s' \<and> jn_generation s' = jn_generation s + length ts"
proof (induction ts arbitrary: s)
  case (Cons t ts)
  from Cons.prems obtain s1 where s1: "apply_text account t s = Inr s1" "replay account ts s1 = Inr s'"
    by (auto simp: res_simps)
  from apply_text_history [OF s1(1) Cons.prems(2)] Cons.IH [OF s1(2)]
  show ?case using grows_trans by auto
qed (simp add: grows_refl)

text \<open>Reading the locations of a journal replays their texts, at the places of the sequence.\<close>

lemma replay_locations_replay:
  "replay_locations account place read us s = Inr s' \<Longrightarrow> arbitrated s \<Longrightarrow>
    \<exists>ts. replay account ts s = Inr s' \<and> list_all2 (\<lambda>u t. read u = Inr t) us ts
      \<and> map Inr us = map place [Suc (jn_generation s)..<Suc (jn_generation s + length us)]"
proof (induction us arbitrary: s)
  case (Cons u us)
  from Cons.prems obtain t s1 where t: "place (Suc (jn_generation s)) = Inr u" "read u = Inr t"
    "apply_text account t s = Inr s1" "replay_locations account place read us s1 = Inr s'"
    by (auto simp: res_simps)
  note h = apply_text_history [OF t(3) Cons.prems(2)]
  with Cons.IH [OF t(4)] obtain ts where ts: "replay account ts s1 = Inr s'"
    "list_all2 (\<lambda>u t. read u = Inr t) us ts"
    "map Inr us = map place [Suc (Suc (jn_generation s))..<Suc (Suc (jn_generation s) + length us)]"
    by auto
  have "[Suc (jn_generation s)..<Suc (jn_generation s + length (u # us))]
      = Suc (jn_generation s) # [Suc (Suc (jn_generation s))..<Suc (Suc (jn_generation s) + length us)]"
    by (simp add: upt_conv_Cons del: upt_Suc)
  then show ?case using t ts by (intro exI [of _ "t # ts"]) simp
qed simp

section \<open>Events read back\<close>

lemma all_finite_norm [simp]: "all_finite (json_norm v) = all_finite v"
  by (induction v) (auto simp: list_all_iff simp flip: sort_key_map)

text \<open>The dictionary a dictionary is read back as.\<close>

definition norm_dict :: "pydict \<Rightarrow> pydict" where
  "norm_dict d = map (\<lambda>(k, v). (k, json_norm v)) (sort_key fst d)"

lemma json_norm_PDict: "json_norm (PDict d) = PDict (norm_dict d)"
  by (simp add: norm_dict_def json_norm_dict del: json_norm.simps)

lemma norm_dict_filter:
  "filter (\<lambda>(k, v). k \<noteq> x) (norm_dict d) = norm_dict (filter (\<lambda>(k, v). k \<noteq> x) d)"
  unfolding norm_dict_def filter_sort [symmetric] by (simp add: filter_map comp_def split_def)

lemma binding_digest_norm: "binding_digest (norm_dict d) = binding_digest d"
proof -
  have "json_dumps_strict st (PDict (norm_dict d)) = json_dumps_strict st (PDict d)" for st
    unfolding json_norm_PDict [symmetric] json_dumps_strict_def
    by (simp only: all_finite_norm json_dumps_norm)
  moreover have "norm_dict d = [] \<longleftrightarrow> d = []" by (simp add: norm_dict_def) (metis length_0_conv length_sort)
  ultimately show ?thesis by (simp add: binding_digest_def)
qed

lemma apply_new_event:
  assumes "new_event account s kind data = Inr e" "json_ok (PDict data)"
  obtains sha where "dget e ''event_sha256'' = PStr sha"
    "apply_text account (event_text e) s
      = map_res (\<lambda>s'. s'\<lparr>jn_generation := Suc (jn_generation s), jn_head_sha256 := sha\<rparr>)
          (apply_kind account (PStr kind) (Suc (jn_generation s)) sha (norm_dict data) s)"
proof -
  define base where "base = [(''schema_version'', PStr submission_contract),
    (''account_root'', PStr (account_root_of account)), (''sequence'', PInt (int (Suc (jn_generation s)))),
    (''previous_sha256'', PStr (jn_head_sha256 s)), (''kind'', PStr kind), (''data'', PDict data)]"
  obtain sha where sha: "event_hash base = Inr sha" "e = base @ [(''event_sha256'', PStr sha)]"
    using assms(1) by (auto simp: new_event_def base_def res_simps)
  have ok: "json_ok (PDict e)" using assms(2) by (simp add: sha(2) base_def)
  have "json_loads (event_text e) = Some (json_norm (PDict e))"
    unfolding event_text_def by (rule json_loads_dumps [OF ok]) (rule style_ok_styles)
  then have read: "json_loads (event_text e) = Some (PDict (norm_dict e))"
    by (simp only: json_norm_PDict)
  have get: "dget (norm_dict e) k = json_norm (dget e k)" for k
    using ok unfolding norm_dict_def by (simp add: dget_norm_sorted)
  have fields: "dget (norm_dict e) ''schema_version'' = PStr submission_contract"
    "dget (norm_dict e) ''account_root'' = PStr (account_root_of account)"
    "dget (norm_dict e) ''sequence'' = PInt (int (Suc (jn_generation s)))"
    "dget (norm_dict e) ''previous_sha256'' = PStr (jn_head_sha256 s)"
    "dget (norm_dict e) ''event_sha256'' = PStr sha" "dget (norm_dict e) ''kind'' = PStr kind"
    "dget (norm_dict e) ''data'' = PDict (norm_dict data)"
    unfolding get by (simp_all add: sha(2) base_def json_norm_PDict del: json_norm.simps(3))
  have keys: "same_keys (norm_dict e) event_fields"
    unfolding same_keys_def norm_dict_def keys_norm_sorted
    by (auto simp: sha(2) base_def keys_def event_fields_def)
  have "event_hash (norm_dict e) = binding_digest (filter (\<lambda>(k, v). k \<noteq> ''event_sha256'') e)"
    unfolding event_hash_def norm_dict_filter by (rule binding_digest_norm)
  also have "\<dots> = event_hash base" by (simp add: event_hash_def sha(2))
  finally have hash: "event_hash (norm_dict e) = Inr sha" by (simp add: sha(1))
  show thesis
  proof
    show "dget e ''event_sha256'' = PStr sha" by (simp add: sha(2) base_def)
    show "apply_text account (event_text e) s
      = map_res (\<lambda>s'. s'\<lparr>jn_generation := Suc (jn_generation s), jn_head_sha256 := sha\<rparr>)
          (apply_kind account (PStr kind) (Suc (jn_generation s)) sha (norm_dict data) s)"
      by (simp add: apply_text_def read apply_event_def Let_def keys fields hash)
  qed
qed

end
