(* ===== verification/SubmissionSession.thy ===== *)
theory SubmissionSession
  imports SubmissionHistory NewRiskGate
begin

text \<open>
  A session on the account submission journal (\<open>AccountSubmissionSession\<close> of
  \<open>common/execution_state.py\<close>): the writer's exclusive ownership, the reservation of a submission,
  its dispatch to the broker at most once, the record of what the broker reported, and the latched
  circuit breaker. The session's own memory (grants it issued and used, whether it failed, the
  writer identity it holds) is threaded with the storage. The mutexes of the process serialise the
  operations and have no other effect; one operation is one step of the model.
\<close>

section \<open>Sessions\<close>

record session =
  ss_store :: marker_store
  ss_broker :: string
  ss_account_id :: string
  ss_owner_id :: string
  ss_profile :: string
  ss_intent_id :: string
  ss_release_id :: string
  ss_account :: string
  ss_domain :: pyval
  ss_observed_account_id :: pyval
  ss_broker_identity :: "broker_identity option"
  ss_observed_at :: pyval
  ss_decision_at :: pyval
  ss_observed :: observed_facts

text \<open>The constructor. \<open>ss_account\<close> is the digest in \<open>account_root\<close>.\<close>

definition open_session ::
  "marker_store \<Rightarrow> pyval \<Rightarrow> pyval \<Rightarrow> pyval \<Rightarrow> pyval \<Rightarrow> pyval \<Rightarrow> pyval \<Rightarrow> pyval \<Rightarrow> pyval
     \<Rightarrow> broker_identity option \<Rightarrow> pyval \<Rightarrow> pyval \<Rightarrow> observed_facts \<Rightarrow> session res" where
  "open_session st broker account_id owner_id profile intent_id release_id account_domain
     observed_account_id broker_identity observed_at decision_at observed =
     require (on_cloud st \<or> is_set (ms_local_dir st))
       (AccountSubmissionError ''existing durable execution store required'')
    (bind_res (submission_account broker account_id) (\<lambda>(b, account).
     bind_res (submission_text owner_id) (\<lambda>owner.
     bind_res (submission_text profile) (\<lambda>prof.
     bind_res (submission_digest intent_id) (\<lambda>intent.
     bind_res (submission_digest release_id) (\<lambda>release.
     bind_res (binding_digest [(''broker'', PStr b), (''account_id'', PStr account)]) (\<lambda>digest.
     Inr \<lparr>ss_store = st, ss_broker = b, ss_account_id = account, ss_owner_id = owner, ss_profile = prof,
       ss_intent_id = intent, ss_release_id = release, ss_account = digest, ss_domain = account_domain,
       ss_observed_account_id = observed_account_id, ss_broker_identity = broker_identity,
       ss_observed_at = observed_at, ss_decision_at = decision_at, ss_observed = observed\<rparr>)))))))"

text \<open>A grant, with the identity of the object: a copy with equal fields is another object.\<close>

record grant =
  gr_account_root :: string
  gr_attempt_id :: string
  gr_fence :: string
  gr_generation :: nat
  gr_event_sha256 :: string
  gr_intent_id :: string
  gr_order_sha256 :: string
  gr_release_id :: string
  gr_object :: nat

record 'w live =
  lv_issued :: "(string \<times> grant) list"
  lv_used :: "string list"
  lv_failed :: bool
  lv_writer :: "(string \<times> string) option"
  lv_world :: "'w \<times> files"

text \<open>What the session uses of its environment: the object store, the kernel's file lock (the inode
  a path is opened as, taking the lock, and whether the path still names the locked inode), this
  process's writer token, fresh identifiers and the clock.\<close>

record 'w session_env =
  ev_backend :: "'w marker_backend"
  ev_lock_open :: "string \<Rightarrow> bool \<Rightarrow> 'w \<Rightarrow> string res \<times> 'w"
  ev_lock_take :: "string \<Rightarrow> 'w \<Rightarrow> unit res \<times> 'w"
  ev_lock_held :: "string \<Rightarrow> string \<Rightarrow> 'w \<Rightarrow> bool"
  ev_token :: string
  ev_fresh :: "'w \<times> files \<Rightarrow> string \<times> string"
  ev_clock :: "'w \<times> files \<Rightarrow> pyval"

definition refuse :: "string \<Rightarrow> ('s, 'a) act" where
  "refuse message = raise_act (AccountSubmissionError message)"

definition ensure :: "bool \<Rightarrow> string \<Rightarrow> ('s, 'a) act \<Rightarrow> ('s, 'a) act" where
  "ensure b message k = (if b then k else refuse message)"

definition fail_session :: "('w live, unit) act" where
  "fail_session l = (Inr (), l\<lparr>lv_failed := True\<rparr>)"

text \<open>\<open>self.read_state()\<close>.\<close>

definition journal :: "session \<Rightarrow> 'w session_env \<Rightarrow> 'w live \<Rightarrow> journal_state res" where
  "journal sn env l = read_state (ss_store sn) (ev_backend env) (ss_account sn) (lv_world l)"

definition read_journal :: "session \<Rightarrow> 'w session_env \<Rightarrow> ('w live, journal_state) act" where
  "read_journal sn env l = (journal sn env l, l)"

section \<open>The writer\<close>

definition writer_location :: "session \<Rightarrow> 'w session_env \<Rightarrow> string res" where
  "writer_location sn env =
     (if on_cloud (ss_store sn)
      then cloud_uri_for_namespace (ss_store sn) (account_root_of (ss_account sn)) ''account_writer_ownership''
      else Inr (path_join (journal_dir (ss_store sn) (ev_backend env) (ss_account sn)) ''writer.lock''))"

definition writer_payload :: "'w session_env \<Rightarrow> string" where
  "writer_payload env = json_dumps default_style
     (PDict [(''kind'', PStr ''WRITER_OWNERSHIP''), (''token'', PStr (ev_token env))])"

text \<open>\<open>confirm_writer\<close>, for the identity the guard holds.\<close>

definition still_writer :: "session \<Rightarrow> 'w session_env \<Rightarrow> string \<times> string \<Rightarrow> 'w live \<Rightarrow> bool" where
  "still_writer sn env identity l = (case identity of (path, held) \<Rightarrow>
     if on_cloud (ss_store sn) then os_read_text (ev_backend env) path (fst (lv_world l)) = Inr held
     else ev_lock_held env path held (fst (lv_world l)))"

definition confirm_writer :: "session \<Rightarrow> 'w session_env \<Rightarrow> string \<times> string \<Rightarrow> ('w live, unit) act" where
  "confirm_writer sn env identity l =
     (if still_writer sn env identity l then (Inr (), l)
      else (Inl (AccountSubmissionError ''exclusive account writer identity lost or unknown''),
        l\<lparr>lv_failed := True\<rparr>))"

text \<open>On object storage: create the ownership marker on the first entry, and confirm that it is this
  process's.\<close>

definition enter_cloud :: "session \<Rightarrow> 'w session_env \<Rightarrow> string \<Rightarrow> ('w live, string \<times> string) act" where
  "enter_cloud sn env path l =
     (let identity = (path, writer_payload env);
          lost = (\<lambda>l'. (Inl (AccountSubmissionError ''exclusive account writer not established''),
            l'\<lparr>lv_failed := True\<rparr>));
          checked = (\<lambda>l'. if still_writer sn env identity l'
            then (Inr identity, l'\<lparr>lv_writer := Some identity\<rparr>) else lost l') in
      case lv_writer l of
        None \<Rightarrow> (case os_create_text (ev_backend env) path (writer_payload env) (fst (lv_world l)) of
            (r, cw) \<Rightarrow> let l' = l\<lparr>lv_world := (cw, snd (lv_world l))\<rparr> in
              if isl r then lost l' else checked l')
      | Some held \<Rightarrow> if held \<noteq> identity then lost l else checked l)"

text \<open>On the file system: open and lock \<open>writer.lock\<close>, creating it on the first entry only.\<close>

definition enter_local :: "session \<Rightarrow> 'w session_env \<Rightarrow> string \<Rightarrow> ('w live, string \<times> string) act" where
  "enter_local sn env path l = (case lv_world l of (cw, fs) \<Rightarrow>
     let failed = (\<lambda>e cw'. (Inl e, l\<lparr>lv_world := (cw', fs), lv_failed := True\<rparr>)) in
     case ev_lock_open env path (lv_writer l = None) cw of
       (Inl e, cw1) \<Rightarrow> failed e cw1
     | (Inr inode, cw1) \<Rightarrow>
       if lv_writer l \<noteq> None \<and> lv_writer l \<noteq> Some (path, inode)
       then failed (AccountSubmissionError ''exclusive account writer identity changed'') cw1
       else (case ev_lock_take env path cw1 of
           (Inl e, cw2) \<Rightarrow> failed e cw2
         | (Inr _, cw2) \<Rightarrow>
           bind_act (confirm_writer sn env (path, inode)) (\<lambda>_ l'.
             (Inr (path, inode), l'\<lparr>lv_writer := Some (path, inode)\<rparr>))
             (l\<lparr>lv_world := (cw2, fs)\<rparr>)))"

definition enter_writer :: "session \<Rightarrow> 'w session_env \<Rightarrow> ('w live, string \<times> string) act" where
  "enter_writer sn env l =
     (if lv_failed l then refuse ''session persistence uncertain'' l
      else bind_act (lift_res (writer_location sn env))
        (if on_cloud (ss_store sn) then enter_cloud sn env else enter_local sn env) l)"

definition writer_guard ::
  "session \<Rightarrow> 'w session_env \<Rightarrow> (string \<times> string \<Rightarrow> ('w live, 'a) act) \<Rightarrow> ('w live, 'a) act" where
  "writer_guard sn env body =
     bind_act (enter_writer sn env) (\<lambda>identity.
     bind_act (body identity) (\<lambda>r.
     bind_act (confirm_writer sn env identity) (\<lambda>_. ret r)))"

section \<open>Appending\<close>

text \<open>\<open>_append\<close>: any failure once the write is under way makes the session unusable.\<close>

definition journal_append ::
  "session \<Rightarrow> 'w session_env \<Rightarrow> journal_state \<Rightarrow> string \<Rightarrow> pydict \<Rightarrow> ('w live, pydict) act" where
  "journal_append sn env s kind data l =
     (case new_event (ss_account sn) s kind data of Inl e \<Rightarrow> (Inl e, l)
      | Inr e \<Rightarrow> (case journal_place (ss_store sn) (ev_backend env) (ss_account sn) (Suc (jn_generation s)) of
          Inl err \<Rightarrow> (Inl err, l)
        | Inr place \<Rightarrow>
          (let (r, w') = write_event (ss_store sn) (ev_backend env) (ss_account sn) e place (lv_world l)
           in (r, l\<lparr>lv_world := w', lv_failed := (lv_failed l \<or> isl r)\<rparr>))))"

section \<open>The circuit breaker\<close>

text \<open>The facts that are stored: a peak or drawdown that is no usable number is left out.\<close>

definition breaker_facts :: "session \<Rightarrow> injected_snapshot \<Rightarrow> pydict res" where
  "breaker_facts sn snapshot =
     bind_res (if sn_peak_equity_usd snapshot = PNone then Inr True
         else invalid_number not_positive (sn_peak_equity_usd snapshot)) (\<lambda>no_peak.
     bind_res (submission_number (sn_equity_usd snapshot)) (\<lambda>equity.
     bind_res (if no_peak then Inr PNone else map_res PFloat (submission_number (sn_peak_equity_usd snapshot))) (\<lambda>peak.
     bind_res (default_envelope (sn_equity_usd snapshot) (sn_drawdown_from_peak snapshot)) (\<lambda>env.
     bind_res (if ''INVALID_DRAWDOWN_FAIL_CLOSED'' \<in> set (en_reasons env) \<or> sn_drawdown_from_peak snapshot = PNone
         then Inr PNone else map_res PFloat (submission_number (sn_drawdown_from_peak snapshot))) (\<lambda>drawdown.
     Inr [(''equity_usd'', PFloat equity), (''peak_equity_usd'', peak), (''drawdown_from_peak'', drawdown),
       (''owner_id'', PStr (ss_owner_id sn)), (''profile'', PStr (ss_profile sn))])))))"

definition record_circuit_breaker_open ::
  "session \<Rightarrow> 'w session_env \<Rightarrow> injected_snapshot option \<Rightarrow> ('w live, unit) act" where
  "record_circuit_breaker_open sn env snapshot =
     writer_guard sn env (\<lambda>identity l.
       bind_act (lift_res (evaluate_new_risk_admission snapshot NoLimits)) (\<lambda>verdict.
       ensure (nr_hard_brake_triggered verdict)
         ''circuit breaker OPEN requires a drawdown breach''
       (bind_act (lift_res (breaker_facts sn (the snapshot))) (\<lambda>data.
        bind_act (read_journal sn env) (\<lambda>s.
        bind_act (confirm_writer sn env identity) (\<lambda>_.
        if jn_circuit_breaker_open s then ret ()
        else bind_act (journal_append sn env s ''CIRCUIT_BREAKER_OPEN'' data) (\<lambda>_. ret ())))))) l)"

section \<open>Reserving a submission\<close>

text \<open>\<open>_order\<close>: the digest of the order's content, and its quantity.\<close>

definition order_digest :: "session \<Rightarrow> order_intent \<Rightarrow> (string \<times> pyfloat) res" where
  "order_digest sn order =
     bind_res (submission_account (PStr (ss_broker sn)) (oi_account_id order)) (\<lambda>(_, account).
     require (account = ss_account_id sn) (AccountSubmissionError ''submission account differs from session'')
    (bind_res (submission_number (oi_quantity order)) (\<lambda>quantity.
     require (f_lt (Fin 0) quantity) (AccountSubmissionError ''positive submission quantity required'')
    (bind_res (optional_number (oi_limit_price order)) (\<lambda>limit.
     bind_res (submission_text (oi_symbol order)) (\<lambda>symbol.
     bind_res (submission_text (oi_side order)) (\<lambda>side.
     bind_res (submission_text (oi_order_type order)) (\<lambda>order_type.
     require (lower side \<in> {''buy'', ''sell''}) (AccountSubmissionError ''unsupported submission side'')
       (map_res (\<lambda>digest. (digest, quantity)) (binding_digest
         [(''account_id'', PStr account), (''symbol'', PStr (upper symbol)), (''side'', PStr (lower side)),
          (''quantity'', PFloat quantity), (''order_type'', PStr (lower order_type)),
          (''limit_price'', (case limit of None \<Rightarrow> PNone | Some x \<Rightarrow> PFloat x)),
          (''time_in_force'', PStr (upper (py_str (py_or (oi_time_in_force order) (PStr ''DAY''))))),
          (''metadata'', PDict (oi_metadata order))]))))))))))"

definition domain_binding_of :: "pyval \<Rightarrow> account_domain \<Rightarrow> pydict res" where
  "domain_binding_of value dm = map_res (\<lambda>key. [(''domain_key'', PStr key),
     (''account_type'', dget (dm_policy dm) ''account_type''), (''currency'', dget (dm_policy dm) ''currency'')])
     (account_domain_key value)"

definition same_binding :: "journal_state \<Rightarrow> pydict \<Rightarrow> bool" where
  "same_binding s binding \<longleftrightarrow> (case jn_domain_binding s of None \<Rightarrow> False
     | Some d \<Rightarrow> py_eq (PDict d) (PDict binding))"

text \<open>The domain of the session is active, observed at the broker, and bound to the journal. The first
  reservation binds it.\<close>

definition observed_account_checked :: "session \<Rightarrow> string res" where
  "observed_account_checked sn = map_res snd
     (reraise_type_value (submission_account (PStr (ss_broker sn)) (ss_observed_account_id sn))
       (AccountSubmissionError ''observed account identity required''))"

definition bind_domain :: "session \<Rightarrow> 'w session_env \<Rightarrow> journal_state \<Rightarrow> ('w live, journal_state) act" where
  "bind_domain sn env s =
     bind_act (lift_res (validate_account_domain (ss_domain sn) (Some (ss_broker sn)))) (\<lambda>dm.
     bind_act (lift_res (account_domain_policy_active (domain_value dm) (ss_decision_at sn))) (\<lambda>active.
     ensure active ''account domain policy not active''
    (bind_act (lift_res (observed_account_checked sn)) (\<lambda>account.
     bind_act (lift_res (if account \<noteq> ss_account_id sn then Inr False
         else account_domain_matches_broker_identity (domain_value dm) (ss_broker_identity sn) (ss_observed sn))) (\<lambda>same.
     ensure same ''account domain observation mismatch''
    (bind_act (lift_res (domain_binding_of (domain_value dm) dm)) (\<lambda>binding.
     bind_act (if jn_domain_binding s = None
         then bind_act (journal_append sn env s ''DOMAIN_BOUND'' binding) (\<lambda>_. read_journal sn env)
         else ret s) (\<lambda>s'.
     ensure (same_binding s' binding) ''account domain binding mismatch'' (ret s')))))))))"

text \<open>A reservation of account risk that is as recent as the last equity observation.\<close>

definition fresh_reservation :: "journal_state \<Rightarrow> string \<Rightarrow> unit res" where
  "fresh_reservation s digest = (case map_of (jn_risk_reservations s) digest of
     None \<Rightarrow> Inl (AccountSubmissionError ''account risk reservation required'')
   | Some r \<Rightarrow> require (case jn_equity_observation s of None \<Rightarrow> False
         | Some o' \<Rightarrow> py_eq (dget (rs_data r) ''valuation_at'') (dget o' ''valuation_at'')
             \<and> py_eq (dget (rs_data r) ''source_digest'') (dget o' ''source_digest''))
       (AccountSubmissionError ''account risk reservation is stale'') (Inr ()))"

text \<open>The last tests before a grant, shared with nothing but \<open>reserve\<close>.\<close>

definition may_reserve :: "session \<Rightarrow> journal_state \<Rightarrow> string \<Rightarrow> unit res" where
  "may_reserve sn s digest =
     bind_res (if ss_domain sn \<noteq> PNone then fresh_reservation s digest else Inr ()) (\<lambda>_.
     require (\<not> unresolved s) (AccountSubmissionError ''unresolved UNKNOWN/account submission'')
    (require (ss_domain sn \<noteq> PNone \<longrightarrow> \<not> reservation_used s (PStr digest))
       (AccountSubmissionError ''account risk reservation already used'')
    (require (\<not> already_attempted s (PStr (ss_intent_id sn)) (PStr digest))
       (AccountSubmissionError ''same intent/order already reserved; no retry grant'') (Inr ()))))"

definition prepared_data ::
  "session \<Rightarrow> string \<times> string \<Rightarrow> string \<Rightarrow> pyfloat \<Rightarrow> bool \<Rightarrow> pydict" where
  "prepared_data sn fresh digest quantity new_risk = (case fresh of (attempt_id, fence) \<Rightarrow>
     [(''attempt_id'', PStr attempt_id), (''fence'', PStr fence), (''intent_id'', PStr (ss_intent_id sn)),
      (''order_sha256'', PStr digest), (''release_id'', PStr (ss_release_id sn)),
      (''owner_id'', PStr (ss_owner_id sn)), (''profile'', PStr (ss_profile sn)), (''quantity'', PFloat quantity)]
     @ (if new_risk then [(''new_risk'', PBool True)] else []))"

definition issue_grant :: "session \<Rightarrow> string \<times> string \<Rightarrow> string \<Rightarrow> nat \<Rightarrow> pydict \<Rightarrow> ('w live, grant) act" where
  "issue_grant sn fresh digest generation e l =
     (let g = \<lparr>gr_account_root = account_root_of (ss_account sn), gr_attempt_id = fst fresh, gr_fence = snd fresh,
          gr_generation = generation, gr_event_sha256 = text_of e ''event_sha256'',
          gr_intent_id = ss_intent_id sn, gr_order_sha256 = digest, gr_release_id = ss_release_id sn,
          gr_object = length (lv_issued l)\<rparr>
      in (Inr g, l\<lparr>lv_issued := dict_set (lv_issued l) (fst fresh) g\<rparr>))"

definition reserve :: "session \<Rightarrow> 'w session_env \<Rightarrow> order_intent \<Rightarrow> bool \<Rightarrow> ('w live, grant) act" where
  "reserve sn env order new_risk l =
     ensure (\<not> lv_failed l) ''session persistence uncertain; no grant''
    (bind_act (lift_res (order_digest sn order)) (\<lambda>(digest, quantity).
     bind_act (read_journal sn env) (\<lambda>s0.
     ensure (\<not> (new_risk \<and> jn_circuit_breaker_open s0)) ''new risk prohibited by circuit breaker''
    (bind_act (if ss_domain sn \<noteq> PNone then bind_domain sn env s0
         else ensure (jn_domain_binding s0 = None) ''bound account domain required'' (ret s0)) (\<lambda>s.
     bind_act (lift_res (may_reserve sn s digest)) (\<lambda>_.
     (\<lambda>l. let fresh = ev_fresh env (lv_world l) in
        bind_act (journal_append sn env s ''PREPARED'' (prepared_data sn fresh digest quantity new_risk))
          (issue_grant sn fresh digest (Suc (jn_generation s))) l))))))) l"

section \<open>Recording what the broker reported\<close>

record broker_report =
  br_status :: pyval
  br_broker_order_id :: pyval
  br_filled_quantity :: pyval
  br_average_fill_price :: pyval

text \<open>The report None: every attribute takes its default.\<close>

definition no_report :: broker_report where
  "no_report = \<lparr>br_status = PNone, br_broker_order_id = PNone, br_filled_quantity = PNone,
     br_average_fill_price = PNone\<rparr>"

definition owned_grant :: "session \<Rightarrow> 'w session_env \<Rightarrow> grant \<Rightarrow> 'w live \<Rightarrow> (journal_state \<times> attempt) res" where
  "owned_grant sn env g l =
     require (map_of (lv_issued l) (gr_attempt_id g) = Some g
         \<and> gr_account_root g = account_root_of (ss_account sn)
         \<and> gr_intent_id g = ss_intent_id sn \<and> gr_release_id g = ss_release_id sn)
       (AccountSubmissionError ''wrong/stale/session grant'')
    (bind_res (journal sn env l) (\<lambda>s. case map_of (jn_attempts s) (gr_attempt_id g) of
       None \<Rightarrow> Inl (AccountSubmissionError ''grant fence/binding mismatch'')
     | Some a \<Rightarrow> require (dget (at_data a) ''fence'' = PStr (gr_fence g) \<and> at_generation a = gr_generation g
           \<and> at_event_sha256 a = gr_event_sha256 g \<and> dget (at_data a) ''order_sha256'' = PStr (gr_order_sha256 g))
         (AccountSubmissionError ''grant fence/binding mismatch'') (Inr (s, a))))"

definition own :: "session \<Rightarrow> 'w session_env \<Rightarrow> grant \<Rightarrow> ('w live, journal_state \<times> attempt) act" where
  "own sn env g l = (owned_grant sn env g l, l)"

definition prior_field :: "attempt \<Rightarrow> string \<Rightarrow> pyval" where
  "prior_field a k = (case at_observation a of None \<Rightarrow> PNone | Some prior \<Rightarrow> dget prior k)"

text \<open>The facts of a report. The flag says that they contradict the attempt, in which case the earlier
  facts are kept and the status is unknown.\<close>

definition report_facts :: "attempt \<Rightarrow> broker_report \<Rightarrow> (pydict \<times> bool) res" where
  "report_facts a report =
     (let status = strip (str_or_empty (br_status report));
          order_id = strip (str_or_empty (br_broker_order_id report));
          facts = (\<lambda>st oid filled price. [(''status'', PStr st), (''broker_order_id'', oid),
            (''filled_quantity'', PFloat filled), (''average_fill_price'', price)]);
          oid = (if order_id = [] then PNone else PStr order_id);
          prior_id = prior_field a ''broker_order_id'' in
      case bind_res (submission_number (py_or (br_filled_quantity report) (PFloat (Fin 0)))) (\<lambda>filled.
           bind_res (optional_number (br_average_fill_price report)) (\<lambda>price.
           bind_res (if f_lt filled (at_filled_quantity a) then Inr True
               else py_lt (dget (at_data a) ''quantity'') (PFloat filled)) (\<lambda>wrong.
           require (\<not> wrong) (AccountSubmissionError ''non-monotonic fill'')
          (bind_res (if order_id = [] then Inr [] else submission_text (PStr order_id)) (\<lambda>_.
           require (truthy prior_id \<longrightarrow> py_eq oid prior_id) (AccountSubmissionError ''broker order identity changed'')
             (Inr (filled, price))))))) of
        Inr (filled, price) \<Rightarrow>
          Inr (facts status oid filled (case price of None \<Rightarrow> PNone | Some x \<Rightarrow> PFloat x), False)
      | Inl (AccountSubmissionError _) \<Rightarrow>
          Inr (facts ''Unknown'' prior_id (at_filled_quantity a) (prior_field a ''average_fill_price''), True)
      | Inl e \<Rightarrow> Inl e)"

text \<open>The observation with its certainty.\<close>

definition report_observation :: "attempt \<Rightarrow> broker_report \<Rightarrow> (pydict \<times> bool) res" where
  "report_observation a report =
     bind_res (report_facts a report) (\<lambda>(facts, invalid).
     map_res (\<lambda>c. (facts @ [(''certainty'', PStr (certainty_text c))], invalid))
       (certainty_of facts (dget (at_data a) ''quantity'')))"

text \<open>Whether the time of reception is recorded with the observation.\<close>

definition usable_watermark :: "attempt \<Rightarrow> pyval \<Rightarrow> bool" where
  "usable_watermark a recorded_at \<longleftrightarrow> recorded_at \<noteq> PNone \<and> watermark_checked a recorded_at = Inr ()"

definition record_observation ::
  "session \<Rightarrow> 'w session_env \<Rightarrow> grant \<Rightarrow> broker_report \<Rightarrow> pyval \<Rightarrow> ('w live, bool) act" where
  "record_observation sn env g report recorded_at l =
     ensure (\<not> lv_failed l) ''session persistence uncertain''
    (bind_act (own sn env g) (\<lambda>(s, a).
     ensure (gr_attempt_id g \<in> set (lv_used l)) ''grant not dispatched''
    (bind_act (lift_res (report_observation a report)) (\<lambda>(observation, invalid).
     if at_observation a \<noteq> None \<and> py_eq (PDict (the (at_observation a))) (PDict observation) then
       (if invalid then refuse ''historical/non-monotonic observation rejected'' else ret False)
     else ensure (at_certainty a \<notin> {UNKNOWN, TERMINAL}) ''historical UNKNOWN/terminal cannot be changed''
      (bind_act (journal_append sn env s ''OBSERVED''
          ([(''attempt_id'', PStr (gr_attempt_id g)), (''observation'', PDict observation)]
           @ (if usable_watermark a recorded_at then [(''recorded_at'', recorded_at)] else []))) (\<lambda>_.
       if invalid then refuse ''invalid/non-monotonic broker observation; UNKNOWN persisted''
       else ret True)))))) l"

section \<open>Dispatching\<close>

definition still_prepared :: "journal_state \<Rightarrow> attempt \<Rightarrow> unit res" where
  "still_prepared s a =
     require (at_certainty a = PREPARED) (AccountSubmissionError ''grant no longer prepared'')
    (require (\<not> (truthy (dget (at_data a) ''new_risk'') \<and> jn_circuit_breaker_open s))
       (AccountSubmissionError ''new risk prohibited by circuit breaker'') (Inr ()))"

text \<open>The domain and the observation an order is dispatched under: bound, observed at the broker, active,
  still valid, and the ones its reservation (or its reduction) was made for.\<close>

definition observation_current :: "pydict \<Rightarrow> pyval \<Rightarrow> bool res" where
  "observation_current o' now =
     bind_res (domain_time (dget o' ''valuation_at'')) (\<lambda>valuation.
     bind_res (domain_time now) (\<lambda>t.
     if t < valuation then Inr False
     else map_res (\<lambda>until. t < until) (domain_time (dget o' ''valid_until''))))"

definition observation_fits :: "journal_state \<Rightarrow> attempt \<Rightarrow> string \<Rightarrow> pydict \<Rightarrow> bool" where
  "observation_fits s a digest o' =
     (if dget (at_data a) ''reduction'' = PBool True then
        truthy (dget o' ''open_orders_complete'') \<and> truthy (dget o' ''open_orders_empty'')
        \<and> py_eq (dget o' ''source_digest'') (dget (at_data a) ''reduction_source_digest'')
      else (case map_of (jn_risk_reservations s) digest of None \<Rightarrow> False
        | Some r \<Rightarrow> py_eq (dget o' ''valuation_at'') (dget (rs_data r) ''valuation_at'')
            \<and> py_eq (dget o' ''source_digest'') (dget (rs_data r) ''source_digest'')))"

definition dispatch_domain :: "session \<Rightarrow> pyval \<Rightarrow> journal_state \<Rightarrow> attempt \<Rightarrow> string \<Rightarrow> unit res" where
  "dispatch_domain sn now s a digest =
     bind_res (validate_account_domain (ss_domain sn) (Some (ss_broker sn))) (\<lambda>dm.
     bind_res (domain_binding_of (domain_value dm) dm) (\<lambda>binding.
     bind_res (submission_account (PStr (ss_broker sn)) (ss_observed_account_id sn)) (\<lambda>(_, account).
     bind_res (if \<not> same_binding s binding \<or> account \<noteq> ss_account_id sn then Inr False
         else account_domain_matches_broker_identity (domain_value dm) (ss_broker_identity sn) (ss_observed sn)) (\<lambda>same.
     bind_res (if same then account_domain_policy_active (domain_value dm) now else Inr False) (\<lambda>active.
     bind_res (case jn_equity_observation s of None \<Rightarrow> Inr False
         | Some o' \<Rightarrow> if active \<and> observation_fits s a digest o' then observation_current o' now else Inr False) (\<lambda>fits.
     require fits (AccountSubmissionError ''expired or mismatched domain observation'') (Inr ())))))))"

definition use_grant :: "grant \<Rightarrow> ('w live, unit) act" where
  "use_grant g l = (Inr (), l\<lparr>lv_used := gr_attempt_id g # lv_used l\<rparr>)"

definition on_world :: "('w \<times> files, 'a) act \<Rightarrow> ('w live, 'a) act" where
  "on_world m l = (case m (lv_world l) of (r, w') \<Rightarrow> (r, l\<lparr>lv_world := w'\<rparr>))"

text \<open>The submission itself. An exception leaves the outcome unknown: that is recorded, and the
  exception is raised again.\<close>

definition submit_once ::
  "session \<Rightarrow> 'w session_env \<Rightarrow> grant \<Rightarrow> string \<times> string \<Rightarrow> ('w \<times> files, broker_report) act
     \<Rightarrow> ('w live, broker_report) act" where
  "submit_once sn env g identity submit =
     try_act (bind_act (confirm_writer sn env identity) (\<lambda>_. on_world submit)) (\<lambda>exc.
       bind_act (try_act (bind_act (confirm_writer sn env identity) (\<lambda>_.
             bind_act (record_observation sn env g no_report PNone) (\<lambda>_. ret ())))
           (\<lambda>_. fail_session)) (\<lambda>_. raise_act exc))"

definition reception_time :: "'w session_env \<Rightarrow> bool \<Rightarrow> 'w live \<Rightarrow> pyval" where
  "reception_time env watermark l = (let now = ev_clock env (lv_world l) in
     if watermark \<and> \<not> isl (domain_time now) then now else PNone)"

definition own_prepared :: "session \<Rightarrow> 'w session_env \<Rightarrow> grant \<Rightarrow> ('w live, journal_state \<times> attempt) act" where
  "own_prepared sn env g =
     bind_act (own sn env g) (\<lambda>(s, a). bind_act (lift_res (still_prepared s a)) (\<lambda>_. ret (s, a)))"

definition known_status :: "broker_report \<Rightarrow> bool" where
  "known_status report \<longleftrightarrow>
     strip (py_str (br_status report)) \<in> set (submission_ack @ submission_partial @ submission_terminal)"

definition observe_outcome ::
  "session \<Rightarrow> 'w session_env \<Rightarrow> grant \<Rightarrow> broker_report \<Rightarrow> bool \<Rightarrow> ('w live, broker_report) act" where
  "observe_outcome sn env g report watermark l =
     bind_act (record_observation sn env g report (reception_time env watermark l)) (\<lambda>_.
     bind_act (read_journal sn env) (\<lambda>s. case map_of (jn_attempts s) (gr_attempt_id g) of
         None \<Rightarrow> raise_act (KeyError (gr_attempt_id g))
       | Some a \<Rightarrow> ensure (\<not> (at_certainty a = UNKNOWN \<and> known_status report))
           ''broker result facts are uncertain; original attempt retained'' (ret report))) l"

text \<open>What happens under the writer's exclusion.\<close>

definition dispatch_exclusive ::
  "session \<Rightarrow> 'w session_env \<Rightarrow> grant \<Rightarrow> ('w \<times> files, broker_report) act \<Rightarrow> bool \<Rightarrow> string \<times> string
     \<Rightarrow> ('w live, broker_report) act" where
  "dispatch_exclusive sn env g submit watermark identity =
     bind_act (own_prepared sn env g) (\<lambda>_.
     bind_act (confirm_writer sn env identity) (\<lambda>_.
     bind_act (use_grant g) (\<lambda>_.
     bind_act (submit_once sn env g identity submit) (\<lambda>report.
     bind_act (confirm_writer sn env identity) (\<lambda>_.
     observe_outcome sn env g report watermark)))))"

definition dispatch ::
  "session \<Rightarrow> 'w session_env \<Rightarrow> grant \<Rightarrow> order_intent \<Rightarrow> ('w \<times> files, broker_report) act \<Rightarrow> bool
     \<Rightarrow> ('w live, broker_report) act" where
  "dispatch sn env g order submit watermark l =
     ensure (\<not> lv_failed l) ''session persistence uncertain''
    (bind_act (own sn env g) (\<lambda>(s, a).
     bind_act (lift_res (order_digest sn order)) (\<lambda>(digest, _).
     ensure (digest = gr_order_sha256 g \<and> gr_attempt_id g \<notin> set (lv_used l))
       ''wrong order or already-used grant''
    (bind_act (lift_res (still_prepared s a)) (\<lambda>_.
     bind_act (if ss_domain sn \<noteq> PNone
         then lift_res (dispatch_domain sn (ev_clock env (lv_world l)) s a digest) else ret ()) (\<lambda>_.
     bind_act (own_prepared sn env g) (\<lambda>_.
     writer_guard sn env (dispatch_exclusive sn env g submit watermark)))))))) l"

section \<open>Identities bound by a submission\<close>

definition submission_release_digest :: "pyval \<Rightarrow> string res" where
  "submission_release_digest receipt =
     (let missing = AccountSubmissionError ''attested release binding required for submission'' in
      case receipt of
        PDict d \<Rightarrow> require (dget d ''attestation_state'' = PStr ''self_attested'' \<and> truthy (dget d ''release_id'')
            \<and> is_dict (dget d ''strategy_release'') \<and> truthy (dget d ''strategy_release'')) missing
          (binding_digest (filter (\<lambda>(k, v). k \<noteq> ''loaded_at'') d))
      | _ \<Rightarrow> Inl missing)"

definition submission_intent_digest :: "pydict \<Rightarrow> pyval \<Rightarrow> string res" where
  "submission_intent_digest metadata profile = (case dget metadata ''allocation'' of
     PDict allocation \<Rightarrow>
       require (allocation \<noteq> []) (AccountSubmissionError ''approved allocation identity required'')
      (bind_res (submission_text profile) (\<lambda>p.
       binding_digest ([(''profile'', PStr p), (''allocation'', PDict allocation)]
         @ map (\<lambda>k. (k, dget metadata k)) [''trade_date'', ''signal_date'', ''effective_date'',
             ''snapshot_as_of'', ''execution_timing_contract''])))
   | _ \<Rightarrow> Inl (AccountSubmissionError ''approved allocation identity required''))"

end
