(* ===== verification/SubmissionFiles.thy ===== *)
theory SubmissionFiles
  imports SubmissionHistory
begin

text \<open>
  The account submission journal on a file system: what a readable journal is, that a larger
  directory only continues it, and that an appended event is read back as the step of its handler.
\<close>

definition journal_files :: "marker_store \<Rightarrow> 'w marker_backend \<Rightarrow> string \<Rightarrow> files \<Rightarrow> string list" where
  "journal_files st bk account fs = filter (\<lambda>u. case path_below (journal_dir st bk account) u of
     Some [n] \<Rightarrow> ends_with ''.json'' n | _ \<Rightarrow> False) (file_names fs)"

text \<open>\<open>fs'\<close> keeps every file of \<open>fs\<close>.\<close>

definition keeps_files :: "files \<Rightarrow> files \<Rightarrow> bool" where
  "keeps_files fs fs' \<longleftrightarrow> (\<forall>p d. map_of fs p = Some d \<longrightarrow> map_of fs' p = Some d)"

lemma file_names_set: "u \<in> set (file_names fs) \<longleftrightarrow> map_of fs u \<noteq> None"
  by (simp add: file_names_def map_of_eq_None_iff)

lemma fs_read_Inr: "fs_read u fs = Inr d \<longleftrightarrow> map_of fs u = Some d"
  by (simp add: fs_read_def split: option.splits)

text \<open>A readable journal is the reduction of the texts at the first places.\<close>

lemma local_journal:
  assumes "\<not> on_cloud st" "read_state st bk account (cw, fs) = Inr s"
  obtains ts us where "replay account ts initial_journal = Inr s" "arbitrated s"
    "length ts = jn_generation s" "length us = jn_generation s" "mset us = mset (journal_files st bk account fs)"
    "\<forall>k < jn_generation s. journal_place st bk account (Suc k) = Inr (us ! k)
       \<and> map_of fs (us ! k) = Some (ts ! k)"
proof -
  let ?us = "sort (journal_files st bk account fs)"
  have "replay_locations account (journal_place st bk account) (\<lambda>u. fs_read u fs) ?us initial_journal = Inr s"
    using assms by (simp add: read_state_def journal_files_def res_simps)
  from replay_locations_replay [OF this arbitrated_initial] obtain ts where
    ts: "replay account ts initial_journal = Inr s" "list_all2 (\<lambda>u t. fs_read u fs = Inr t) ?us ts"
      "map Inr ?us = map (journal_place st bk account) [1..<Suc (length ?us)]"
    by (auto simp: initial_journal_def)
  note h = replay_history [OF ts(1) arbitrated_initial]
  have n: "length ts = jn_generation s" "length ?us = jn_generation s"
    using h list_all2_lengthD [OF ts(2)] by (simp_all add: initial_journal_def)
  show thesis
  proof (rule that [OF ts(1) _ n])
    show "arbitrated s" using h by simp
    show "mset ?us = mset (journal_files st bk account fs)" by simp
    show "\<forall>k < jn_generation s. journal_place st bk account (Suc k) = Inr (?us ! k)
        \<and> map_of fs (?us ! k) = Some (ts ! k)"
    proof (intro allI impI conjI)
      fix k assume k: "k < jn_generation s"
      then have "map Inr ?us ! k = map (journal_place st bk account) [1..<Suc (length ?us)] ! k"
        using ts(3) by simp
      then show "journal_place st bk account (Suc k) = Inr (?us ! k)"
        using k n by (simp del: upt_Suc)
      show "map_of fs (?us ! k) = Some (ts ! k)"
        using list_all2_nthD [OF ts(2), of k] k n by (simp add: fs_read_Inr)
    qed
  qed
qed

lemma journal_files_mono:
  assumes "keeps_files fs fs'"
  shows "length (journal_files st bk account fs) \<le> length (journal_files st bk account fs')"
proof -
  have "set (journal_files st bk account fs) \<subseteq> set (journal_files st bk account fs')"
    using assms by (auto simp: journal_files_def file_names_set keeps_files_def)
  then have "card (set (journal_files st bk account fs)) \<le> card (set (journal_files st bk account fs'))"
    by (simp add: card_mono)
  moreover have "distinct (journal_files st bk account gs)" for gs
    by (simp add: journal_files_def file_names_def)
  ultimately show ?thesis by (simp only: distinct_card)
qed

lemma local_journal_extends:
  assumes "\<not> on_cloud st" "read_state st bk account (cw, fs) = Inr s"
    and "read_state st bk account (cw', fs') = Inr s'" "keeps_files fs fs'"
  obtains ts where "replay account ts s = Inr s'" "arbitrated s" "length ts = jn_generation s' - jn_generation s"
    "jn_generation s \<le> jn_generation s'"
    "\<forall>k < length ts. \<exists>u. journal_place st bk account (Suc (jn_generation s + k)) = Inr u
       \<and> map_of fs' u = Some (ts ! k)"
proof -
  obtain ts us where t: "replay account ts initial_journal = Inr s" "arbitrated s"
    "length ts = jn_generation s" "length us = jn_generation s" "mset us = mset (journal_files st bk account fs)"
    "\<forall>k < jn_generation s. journal_place st bk account (Suc k) = Inr (us ! k)
       \<and> map_of fs (us ! k) = Some (ts ! k)"
    by (rule local_journal [OF assms(1, 2)])
  obtain ts' us' where t': "replay account ts' initial_journal = Inr s'" "arbitrated s'"
    "length ts' = jn_generation s'" "length us' = jn_generation s'" "mset us' = mset (journal_files st bk account fs')"
    "\<forall>k < jn_generation s'. journal_place st bk account (Suc k) = Inr (us' ! k)
       \<and> map_of fs' (us' ! k) = Some (ts' ! k)"
    by (rule local_journal [OF assms(1, 3)])
  have le: "jn_generation s \<le> jn_generation s'"
    using journal_files_mono [OF assms(4), of st bk account] mset_eq_length [OF t(5)] mset_eq_length [OF t'(5)]
      t(4) t'(4) by simp
  have same: "ts' ! k = ts ! k" if k: "k < jn_generation s" for k
  proof -
    have k': "k < jn_generation s'" using k le by simp
    have "us' ! k = us ! k" using t(6) t'(6) k k' by auto
    then show ?thesis using t(6) t'(6) k k' assms(4) by (auto simp: keeps_files_def)
  qed
  have "take (jn_generation s) ts' = ts"
    using le t(3) t'(3) same by (intro nth_equalityI) simp_all
  then have "ts' = ts @ drop (jn_generation s) ts'" using append_take_drop_id [of "jn_generation s" ts'] by simp
  then have "replay account (drop (jn_generation s) ts') s = Inr s'"
    using t(1) t'(1) replay_append [of account ts "drop (jn_generation s) ts'" initial_journal] by simp
  moreover have "\<forall>k < length (drop (jn_generation s) ts'). \<exists>u.
      journal_place st bk account (Suc (jn_generation s + k)) = Inr u
      \<and> map_of fs' u = Some (drop (jn_generation s) ts' ! k)"
    using t'(3, 6) le by auto
  ultimately show thesis using that t(2) t'(3) le by simp
qed

section \<open>Events are encoded\<close>

lemma json_ok_finite: "json_ok v \<Longrightarrow> all_finite v"
  by (induction v) (auto simp: float_ok_def list_all_iff)

lemma new_event_total:
  assumes "json_ok (PDict data)"
  obtains e where "new_event account s kind data = Inr e"
proof -
  have "all_finite (PDict data)" using assms by (rule json_ok_finite)
  then show thesis using that
    by (simp add: new_event_def event_hash_def binding_digest_def json_dumps_strict_def)
qed

section \<open>Journals arbitrate\<close>

text \<open>C3: whatever journal reads back, on the file system or on object storage, at most one of its
  attempts is prepared without an observation, no two attempts are for the same intent and order,
  no two have the same identifier, and every observed fill is a number within the attempt's quantity.\<close>

theorem journal_arbitrates:
  assumes "read_state st bk account w = Inr s"
    and "map_of (jn_attempts s) i = Some a" "map_of (jn_attempts s) j = Some b"
  shows "distinct (map fst (jn_attempts s)) \<and> f_isfinite (at_filled_quantity a)
    \<and> (at_observation a \<noteq> None \<longrightarrow> py_lt (dget (at_data a) ''quantity'') (PFloat (at_filled_quantity a)) = Inr False)
    \<and> (at_certainty a = PREPARED \<and> at_certainty b = PREPARED
         \<or> dget (at_data a) ''intent_id'' = dget (at_data b) ''intent_id''
           \<and> dget (at_data a) ''order_sha256'' = dget (at_data b) ''order_sha256'' \<longrightarrow> i = j)"
proof -
  obtain us place rd where "replay_locations account place rd us initial_journal = Inr s"
    using assms(1) by (auto simp: read_state_def res_simps split: prod.splits)
  from replay_locations_replay [OF this arbitrated_initial] obtain ts where
    "replay account ts initial_journal = Inr s" by blast
  from replay_history [OF this arbitrated_initial] have "arbitrated s" by simp
  moreover from this have "attempt_ok a" using assms(2) unfolding arbitrated_def by blast
  moreover have "i = j" if "rivals a b"
    using assms(2, 3) that \<open>arbitrated s\<close> unfolding arbitrated_def by blast
  moreover have "distinct (map fst (jn_attempts s))" using \<open>arbitrated s\<close> by (simp add: arbitrated_def)
  ultimately show ?thesis unfolding attempt_ok_def rivals_def by (auto split: option.splits)
qed

text \<open>The first attempt of a journal.\<close>

lemma first_prepared:
  assumes "json_ok (PDict d)" "set (keys d) = set prepared_fields"
    and "dget d ''attempt_id'' = PStr i" "is_sha256_hex i" "dget d ''fence'' = PStr f" "is_sha256_hex f"
    and "dget d ''intent_id'' = PStr n" "is_sha256_hex n" "dget d ''order_sha256'' = PStr order" "is_sha256_hex order"
    and "dget d ''release_id'' = PStr rel" "is_sha256_hex rel" "dget d ''owner_id'' = PStr owner" "identity_text owner"
    and "dget d ''profile'' = PStr prof" "identity_text prof"
    and "submission_number (json_norm (dget d ''quantity'')) = Inr q" "f_lt (Fin 0) q"
    and "jn_attempts s = []" "jn_domain_binding s = None"
  shows "on_prepared m sha (norm_dict d) s = Inr (s\<lparr>jn_attempts := [(i, new_attempt m sha (norm_dict d) s)]\<rparr>)"
proof -
  have get: "dget (norm_dict d) k = json_norm (dget d k)" for k
    using assms(1) by (simp add: norm_dict_def dget_norm_sorted)
  have keys: "set (keys (norm_dict d)) = set prepared_fields"
    unfolding norm_dict_def keys_norm_sorted by (rule assms(2))
  have dg: "submission_digest (PStr x) = Inr x" if "is_sha256_hex x" for x
    using that by (simp add: submission_digest_Inr)
  have tx: "submission_text (PStr x) = Inr x" if "identity_text x" for x
    using that by (simp add: submission_text_Inr)
  have other: "''reduction'' \<notin> set prepared_fields" "''new_risk'' \<notin> set prepared_fields"
    by (simp_all add: prepared_fields_def)
  show ?thesis
    using assms
    by (simp add: on_prepared_def same_keys_def keys get other absent_or_true_def dg tx unresolved_def
        already_attempted_def text_of_def)
qed

text \<open>A journal on an empty directory, and its first event.\<close>

definition sample_id :: string where
  "sample_id = replicate 64 (CHR ''a'')"

definition sample_submission :: pydict where
  "sample_submission = [(''attempt_id'', PStr sample_id), (''fence'', PStr (replicate 64 (CHR ''b''))),
     (''intent_id'', PStr (replicate 64 (CHR ''c''))), (''order_sha256'', PStr (replicate 64 (CHR ''d''))),
     (''release_id'', PStr (replicate 64 (CHR ''e''))), (''owner_id'', PStr ''alpha''),
     (''profile'', PStr ''core''), (''quantity'', PFloat (Fin 3))]"

abbreviation sample_place :: string where
  "sample_place \<equiv> ''/data/account_submissions/v1/acct/00000000000000000001.json''"

abbreviation sample_read :: "files \<Rightarrow> journal_state res" where
  "sample_read fs \<equiv> read_state sample_store no_cloud ''acct'' ((), fs)"

lemma sample_local: "\<not> on_cloud sample_store" "is_set (ms_local_dir sample_store)"
  by (simp_all add: sample_store_def is_set_def)

lemma initial_generation [simp]: "jn_generation initial_journal = 0"
  by (simp add: initial_journal_def)

lemma sample_empty: "sample_read [] = Inr initial_journal"
  by code_simp

lemma sample_journal_place: "journal_place sample_store no_cloud ''acct'' (Suc 0) = Inr sample_place"
  by code_simp

lemma sample_dir: "journal_dir sample_store no_cloud ''acct'' = ''/data/account_submissions/v1/acct''"
  by code_simp

lemma sample_journal_files:
  "journal_files sample_store no_cloud ''acct'' [(sample_place, t)] = [sample_place]"
  "journal_files sample_store no_cloud ''acct'' [(sample_place, t), (''/data/x'', u)] = [sample_place]"
proof -
  have p: "path_below ''/data/account_submissions/v1/acct'' sample_place = Some [''00000000000000000001.json'']"
    by (simp add: path_below_def starts_with_def split_on_single)
  have e: "ends_with ''.json'' ''00000000000000000001.json''" by code_simp
  show "journal_files sample_store no_cloud ''acct'' [(sample_place, t)] = [sample_place]"
    "journal_files sample_store no_cloud ''acct'' [(sample_place, t), (''/data/x'', u)] = [sample_place]"
    by (simp_all add: journal_files_def sample_dir file_names_def p e)
      (simp add: path_below_def starts_with_def)
qed

lemma sample_event:
  obtains e sha s where "new_event ''acct'' initial_journal ''PREPARED'' sample_submission = Inr e"
    "json_ok (PDict sample_submission)" "dget e ''event_sha256'' = PStr sha" "dget e ''sequence'' = PInt 1"
    "apply_text ''acct'' (event_text e) initial_journal = Inr s"
    "s = initial_journal\<lparr>jn_attempts := [(sample_id,
        new_attempt 1 sha (norm_dict sample_submission) initial_journal)], jn_generation := 1, jn_head_sha256 := sha\<rparr>"
proof -
  have ok: "json_ok (PDict sample_submission)" by (simp add: sample_submission_def float_ok_3)
  obtain e where e: "new_event ''acct'' initial_journal ''PREPARED'' sample_submission = Inr e"
    by (rule new_event_total [OF ok])
  have seq: "dget e ''sequence'' = PInt 1"
    using e by (auto simp: new_event_def res_simps)
  have k: "apply_kind ''acct'' (PStr ''PREPARED'') n sha (norm_dict sample_submission) initial_journal
      = Inr (initial_journal\<lparr>jn_attempts := [(sample_id, new_attempt n sha (norm_dict sample_submission) initial_journal)]\<rparr>)"
    for n sha
  proof -
    have t: "identity_text ''alpha''" "identity_text ''core''" by code_simp+
    have h: "is_sha256_hex (replicate 64 c)" if "is_hex_lower c" for c
      using that by (simp add: is_sha256_hex_def list_all_iff)
    have q: "submission_number (PFloat (Fin 3)) = Inr (Fin 3)" "f_lt (Fin 0) (Fin 3)"
      by (simp_all add: f_lt_def)
    have "on_prepared n sha (norm_dict sample_submission) initial_journal
        = Inr (initial_journal\<lparr>jn_attempts := [(sample_id, new_attempt n sha (norm_dict sample_submission) initial_journal)]\<rparr>)"
      by (rule first_prepared [OF ok])
        (auto simp: sample_submission_def sample_id_def prepared_fields_def keys_def t q
          initial_journal_def is_hex_lower_def is_digit_def intro!: h)
    then show ?thesis by (simp add: apply_kind_def)
  qed
  from apply_new_event [OF e ok] obtain sha where sha: "dget e ''event_sha256'' = PStr sha"
    "apply_text ''acct'' (event_text e) initial_journal
      = map_res (\<lambda>s'. s'\<lparr>jn_generation := Suc (jn_generation initial_journal), jn_head_sha256 := sha\<rparr>)
          (apply_kind ''acct'' (PStr ''PREPARED'') (Suc (jn_generation initial_journal)) sha
            (norm_dict sample_submission) initial_journal)"
    by blast
  show thesis by (intro that [OF e ok sha(1) seq _ refl]) (simp add: k sha(2))
qed

lemma sample_read_one:
  assumes "apply_text ''acct'' t initial_journal = Inr s"
  shows "sample_read [(sample_place, t)] = Inr s" "sample_read [(sample_place, t), (''/data/x'', u)] = Inr s"
  using assms sample_journal_files
  by (simp_all add: read_state_def sample_local journal_files_def sample_journal_place fs_read_def reraise_type_value_def)

theorem journal_arbitrates_witness:
  "\<exists>fs s a. sample_read fs = Inr s \<and> map_of (jn_attempts s) sample_id = Some a
    \<and> at_certainty a = PREPARED \<and> distinct (map fst (jn_attempts s))"
proof -
  obtain e sha s where "apply_text ''acct'' (event_text e) initial_journal = Inr s"
    and s: "s = initial_journal\<lparr>jn_attempts := [(sample_id,
        new_attempt 1 sha (norm_dict sample_submission) initial_journal)], jn_generation := 1, jn_head_sha256 := sha\<rparr>"
    by (rule sample_event)
  then have r: "sample_read [(sample_place, event_text e)] = Inr s" by (simp add: sample_read_one)
  have a: "map_of (jn_attempts s) sample_id
      = Some (new_attempt 1 sha (norm_dict sample_submission) initial_journal)"
    by (simp add: s)
  have "distinct (map fst (jn_attempts s))" using journal_arbitrates [OF r a a] by (rule conjunct1)
  moreover have "at_certainty (new_attempt 1 sha (norm_dict sample_submission) initial_journal) = PREPARED"
    by (simp add: new_attempt_def)
  ultimately show ?thesis using r a by (intro exI conjI)
qed

section \<open>Journals only grow\<close>

text \<open>C10: a journal on the file system never forgets. When the directory has kept its files, whoever
  added others, the breaker that was open is open, the account domain is the one that was bound, and
  every attempt is still there for the same submission, its fill no smaller, and unchanged if its
  outcome was unknown or terminal; every risk reservation is there with the same terms.\<close>

theorem journal_never_forgets:
  assumes "\<not> on_cloud st" "keeps_files fs fs'"
    and "read_state st bk account (cw, fs) = Inr s" "read_state st bk account (cw', fs') = Inr s'"
  shows "jn_generation s \<le> jn_generation s'
    \<and> (jn_circuit_breaker_open s \<longrightarrow> jn_circuit_breaker_open s')
    \<and> (\<forall>d. jn_domain_binding s = Some d \<longrightarrow> jn_domain_binding s' = Some d)
    \<and> (\<forall>i a. map_of (jn_attempts s) i = Some a \<longrightarrow> (\<exists>a'. map_of (jn_attempts s') i = Some a'
         \<and> at_data a' = at_data a \<and> f_le (at_filled_quantity a) (at_filled_quantity a')
         \<and> (at_certainty a \<in> {UNKNOWN, TERMINAL} \<longrightarrow> a' = a)
         \<and> (at_certainty a' = PREPARED \<longrightarrow> a' = a)))
    \<and> (\<forall>k r. map_of (jn_risk_reservations s) k = Some r \<longrightarrow>
         (\<exists>r'. map_of (jn_risk_reservations s') k = Some r' \<and> rs_data r' = rs_data r))"
proof -
  obtain ts where "replay account ts s = Inr s'" "arbitrated s" and le: "jn_generation s \<le> jn_generation s'"
    by (rule local_journal_extends [OF assms(1, 3, 4, 2)])
  from replay_history [OF this(1, 2)] have "grows s s'" by simp
  then show ?thesis using le unfolding grows_def attempt_grows_def by fast
qed

theorem journal_never_forgets_witness:
  "\<exists>fs fs' s s' a. sample_read fs = Inr s \<and> sample_read fs' = Inr s' \<and> fs \<noteq> fs'
    \<and> map_of (jn_attempts s) sample_id = Some a
    \<and> (\<exists>a'. map_of (jn_attempts s') sample_id = Some a' \<and> at_data a' = at_data a)"
proof -
  obtain e sha s where "apply_text ''acct'' (event_text e) initial_journal = Inr s"
    and s: "s = initial_journal\<lparr>jn_attempts := [(sample_id,
        new_attempt 1 sha (norm_dict sample_submission) initial_journal)], jn_generation := 1, jn_head_sha256 := sha\<rparr>"
    by (rule sample_event)
  then have r: "sample_read [(sample_place, event_text e)] = Inr s"
    "sample_read [(sample_place, event_text e), (''/data/x'', [])] = Inr s"
    by (simp_all add: sample_read_one)
  have k: "keeps_files [(sample_place, event_text e)] [(sample_place, event_text e), (''/data/x'', [])]"
    by (simp add: keeps_files_def)
  have a: "map_of (jn_attempts s) sample_id
      = Some (new_attempt 1 sha (norm_dict sample_submission) initial_journal)"
    by (simp add: s)
  from journal_never_forgets [OF sample_local(1) k r] a
  have "\<exists>a'. map_of (jn_attempts s) sample_id = Some a'
      \<and> at_data a' = at_data (new_attempt 1 sha (norm_dict sample_submission) initial_journal)"
    by blast
  with r a show ?thesis
    by (intro exI [of _ "[(sample_place, event_text e)]"] exI [of _ "[(sample_place, event_text e), (''/data/x'', [])]"]
        exI conjI) simp_all
qed

section \<open>Appending to a local journal\<close>

text \<open>What an append leaves on the file system, when it succeeds.\<close>

lemma local_append:
  assumes st: "\<not> on_cloud st" and s: "read_state st bk account (cw, fs) = Inr s"
    and e: "new_event account s kind data = Inr e"
    and place: "journal_place st bk account (Suc (jn_generation s)) = Inr p"
    and w: "write_event st bk account e p (cw, fs) = (Inr r, w')"
  obtains s' where "r = e" "map_of fs p = None" "w' = (cw, dict_set fs p (event_text e))"
    "apply_text account (event_text e) s = Inr s'" "read_state st bk account w' = Inr s'"
proof -
  have new: "map_of fs p = None" and w': "w' = (cw, dict_set fs p (event_text e))"
    and c: "confirm_event st bk account e w' = Inr r"
    using w st by (auto simp: write_event_def create_record_def fs_create_def split: if_splits)
  obtain s' where s': "read_state st bk account w' = Inr s'" "r = e"
    "PInt (int (jn_generation s')) = dget e ''sequence''"
    using c by (auto simp: confirm_event_def res_simps)
  have "dget e ''sequence'' = PInt (int (Suc (jn_generation s)))"
    using e by (auto simp: new_event_def res_simps)
  then have n: "jn_generation s' = Suc (jn_generation s)" using s'(3) by simp
  have "keeps_files fs (dict_set fs p (event_text e))"
    using new by (auto simp: keeps_files_def map_of_dict_set simp del: map_of_eq_Some_iff)
  from local_journal_extends [OF st s s'(1) [unfolded w'] this] obtain ts where
    ts: "replay account ts s = Inr s'" "length ts = jn_generation s' - jn_generation s"
      "\<forall>k < length ts. \<exists>u. journal_place st bk account (Suc (jn_generation s + k)) = Inr u
         \<and> map_of (dict_set fs p (event_text e)) u = Some (ts ! k)"
    by blast
  have "length ts = Suc 0" using ts(2) n by simp
  then obtain t where t: "ts = [t]" by (auto simp: length_Suc_conv)
  have "t = event_text e" using ts(3) place by (auto simp: t map_of_dict_set simp del: map_of_eq_Some_iff)
  then have "apply_text account (event_text e) s = Inr s'" using ts(1) by (auto simp: t res_simps)
  then show thesis by (rule that [OF s'(2) new w' _ s'(1)])
qed

text \<open>C11: an event that was appended to a local journal is read back. The file is new, the other files
  are as they were, and the journal then reads as the state in which the handler of the event's kind
  leaves the state the event was written for; the handler gets the data as its JSON encoding reads.\<close>

theorem append_then_read:
  assumes st: "\<not> on_cloud st" and s: "read_state st bk account (cw, fs) = Inr s"
    and e: "new_event account s kind data = Inr e" and ok: "json_ok (PDict data)"
    and place: "journal_place st bk account (Suc (jn_generation s)) = Inr p"
    and w: "write_event st bk account e p (cw, fs) = (Inr r, (cw', fs'))"
  shows "r = e \<and> map_of fs p = None \<and> cw' = cw \<and> fs' = dict_set fs p (event_text e)
    \<and> (\<exists>sha s'. apply_kind account (PStr kind) (Suc (jn_generation s)) sha (norm_dict data) s = Inr s'
        \<and> read_state st bk account (cw', fs')
          = Inr (s'\<lparr>jn_generation := Suc (jn_generation s), jn_head_sha256 := sha\<rparr>))"
proof -
  obtain s' where s': "r = e" "map_of fs p = None" "(cw', fs') = (cw, dict_set fs p (event_text e))"
    "apply_text account (event_text e) s = Inr s'" "read_state st bk account (cw', fs') = Inr s'"
    by (rule local_append [OF st s e place w])
  obtain sha where "apply_text account (event_text e) s
      = map_res (\<lambda>s'. s'\<lparr>jn_generation := Suc (jn_generation s), jn_head_sha256 := sha\<rparr>)
          (apply_kind account (PStr kind) (Suc (jn_generation s)) sha (norm_dict data) s)"
    by (rule apply_new_event [OF e ok])
  with s'(4) obtain s1 where
    "apply_kind account (PStr kind) (Suc (jn_generation s)) sha (norm_dict data) s = Inr s1"
    "s' = s1\<lparr>jn_generation := Suc (jn_generation s), jn_head_sha256 := sha\<rparr>"
    by (auto simp: map_res_Inr_iff)
  then show ?thesis using s' by blast
qed

lemma sample_write:
  obtains e s where "new_event ''acct'' initial_journal ''PREPARED'' sample_submission = Inr e"
    "json_ok (PDict sample_submission)"
    "write_event sample_store no_cloud ''acct'' e sample_place ((), [])
       = (Inr e, ((), [(sample_place, event_text e)]))"
    "sample_read [(sample_place, event_text e)] = Inr s"
    "\<exists>a. map_of (jn_attempts s) sample_id = Some a \<and> at_certainty a = PREPARED"
proof -
  obtain e sha s where e: "new_event ''acct'' initial_journal ''PREPARED'' sample_submission = Inr e"
    "json_ok (PDict sample_submission)" "dget e ''event_sha256'' = PStr sha" "dget e ''sequence'' = PInt 1"
    "apply_text ''acct'' (event_text e) initial_journal = Inr s"
    and s: "s = initial_journal\<lparr>jn_attempts := [(sample_id,
        new_attempt 1 sha (norm_dict sample_submission) initial_journal)], jn_generation := 1, jn_head_sha256 := sha\<rparr>"
    by (rule sample_event)
  have r: "sample_read [(sample_place, event_text e)] = Inr s" by (rule sample_read_one(1) [OF e(5)])
  have "write_event sample_store no_cloud ''acct'' e sample_place ((), [])
      = (Inr e, ((), [(sample_place, event_text e)]))"
    using r by (simp add: write_event_def create_record_def fs_create_def sample_local confirm_event_def e s)
  moreover have "\<exists>a. map_of (jn_attempts s) sample_id = Some a \<and> at_certainty a = PREPARED"
    by (simp add: s new_attempt_def)
  ultimately show thesis using that e(1, 2) r by blast
qed

theorem append_then_read_witness:
  "\<exists>e fs s sha. write_event sample_store no_cloud ''acct'' e sample_place ((), []) = (Inr e, ((), fs))
    \<and> apply_kind ''acct'' (PStr ''PREPARED'') 1 sha (norm_dict sample_submission) initial_journal = Inr s
    \<and> sample_read fs = Inr (s\<lparr>jn_generation := 1, jn_head_sha256 := sha\<rparr>)"
proof -
  obtain e s where e: "new_event ''acct'' initial_journal ''PREPARED'' sample_submission = Inr e"
    "json_ok (PDict sample_submission)"
    "write_event sample_store no_cloud ''acct'' e sample_place ((), [])
       = (Inr e, ((), [(sample_place, event_text e)]))"
    by (rule sample_write)
  have place: "journal_place sample_store no_cloud ''acct'' (Suc (jn_generation initial_journal)) = Inr sample_place"
    by (simp add: sample_journal_place)
  from append_then_read [OF sample_local(1) sample_empty e(1, 2) place e(3)]
  show ?thesis using e(3) by auto
qed

end
