(* ===== verification/SubmissionSafety.thy ===== *)
theory SubmissionSafety
  imports SubmissionSession SubmissionFiles
begin

text \<open>
  What a session guarantees on a local journal: a grant excludes every other until its outcome is
  recorded, a grant is dispatched at most once, and nothing is dispatched that the journal does not
  hold as prepared.
\<close>

section \<open>Appending\<close>

lemma refuse_act [simp]: "refuse message s = (Inl (AccountSubmissionError message), s)"
  by (simp add: refuse_def)

lemma ensure_act: "ensure b message k l = (if b then k l else (Inl (AccountSubmissionError message), l))"
  by (simp add: ensure_def)

lemma ensure_Inr_iff [res_simps]: "ensure b message k l = (Inr a, l') \<longleftrightarrow> b \<and> k l = (Inr a, l')"
  by (simp add: ensure_act)

lemma read_journal_Inr_iff [res_simps]: "read_journal sn env l = (Inr s, l') \<longleftrightarrow> journal sn env l = Inr s \<and> l' = l"
  by (auto simp: read_journal_def)

text \<open>A successful append on the file system: the journal is the next step, and the session's memory
  is as it was.\<close>

lemma journal_append_local:
  assumes "\<not> on_cloud (ss_store sn)" "journal sn env l = Inr s"
    and "journal_append sn env s kind data l = (Inr r, l')" "json_ok (PDict data)"
  obtains e sha s1 where "r = e" "new_event (ss_account sn) s kind data = Inr e"
    "dget e ''event_sha256'' = PStr sha"
    "apply_kind (ss_account sn) (PStr kind) (Suc (jn_generation s)) sha (norm_dict data) s = Inr s1"
    "journal sn env l' = Inr (s1\<lparr>jn_generation := Suc (jn_generation s), jn_head_sha256 := sha\<rparr>)"
    "l' = l\<lparr>lv_world := lv_world l'\<rparr>"
proof -
  obtain cw fs where w: "lv_world l = (cw, fs)" by fastforce
  obtain e p w' where e: "new_event (ss_account sn) s kind data = Inr e"
    and p: "journal_place (ss_store sn) (ev_backend env) (ss_account sn) (Suc (jn_generation s)) = Inr p"
    and wr: "write_event (ss_store sn) (ev_backend env) (ss_account sn) e p (cw, fs) = (Inr r, w')"
    and l': "l' = l\<lparr>lv_world := w', lv_failed := lv_failed l\<rparr>"
    using assms(3) w by (auto simp: journal_append_def split: sum.splits prod.splits)
  obtain s' where s': "r = e" "apply_text (ss_account sn) (event_text e) s = Inr s'"
    "read_state (ss_store sn) (ev_backend env) (ss_account sn) w' = Inr s'"
    using local_append [OF assms(1) _ e p wr] assms(2) w by (auto simp: journal_def)
  obtain sha where sha: "dget e ''event_sha256'' = PStr sha"
    "apply_text (ss_account sn) (event_text e) s
      = map_res (\<lambda>s'. s'\<lparr>jn_generation := Suc (jn_generation s), jn_head_sha256 := sha\<rparr>)
          (apply_kind (ss_account sn) (PStr kind) (Suc (jn_generation s)) sha (norm_dict data) s)"
    by (rule apply_new_event [OF e assms(4)])
  show thesis
    using s' sha l' by (auto simp: map_res_Inr_iff journal_def intro: that [OF s'(1) e sha(1)])
qed

section \<open>A grant excludes every other\<close>

lemma validated_policy_json:
  assumes "validate_account_domain v platform = Inr dm"
  shows "json_ok (dget (dm_policy dm) k)"
proof -
  obtain i where "list_all (\<lambda>(k, v). plain_text v) (i @ dm_policy dm)"
    using assms
    by (auto simp: validate_account_domain_def validate_domain_fields_def res_simps split: pyval.splits if_splits)
  then have "plain_text (dget (dm_policy dm) k) \<or> dget (dm_policy dm) k = PNone"
    by (auto simp: dget_def list_all_iff dest: map_of_SomeD split: option.splits)
  then show ?thesis by (cases "dget (dm_policy dm) k") auto
qed

lemma domain_binding_json_ok:
  "domain_binding_of v dm = Inr binding \<Longrightarrow> validate_account_domain w platform = Inr dm \<Longrightarrow>
     json_ok (PDict binding)"
  by (auto simp: domain_binding_of_def map_res_Inr_iff validated_policy_json)

text \<open>Binding the domain leaves the attempts as they are.\<close>

lemma bind_domain_attempts:
  assumes "\<not> on_cloud (ss_store sn)" "journal sn env l = Inr s"
    and "bind_domain sn env s l = (Inr s', l')"
  shows "journal sn env l' = Inr s' \<and> jn_attempts s' = jn_attempts s
    \<and> jn_circuit_breaker_open s' = jn_circuit_breaker_open s \<and> l' = l\<lparr>lv_world := lv_world l'\<rparr>"
proof -
  obtain dm binding l1 where dm: "validate_account_domain (ss_domain sn) (Some (ss_broker sn)) = Inr dm"
    "domain_binding_of (domain_value dm) dm = Inr binding"
    and b: "(if jn_domain_binding s = None
        then bind_act (journal_append sn env s ''DOMAIN_BOUND'' binding) (\<lambda>_. read_journal sn env)
        else ret s) l = (Inr s', l')"
    using assms(3) unfolding bind_domain_def by (auto simp: res_simps)
  note ok = domain_binding_json_ok [OF dm(2, 1)]
  show ?thesis
  proof (cases "jn_domain_binding s = None")
    case True
    then obtain r where r: "journal_append sn env s ''DOMAIN_BOUND'' binding l = (Inr r, l')"
      and s': "journal sn env l' = Inr s'"
      using b by (auto simp: res_simps)
    obtain sha s1 where "apply_kind (ss_account sn) (PStr ''DOMAIN_BOUND'') (Suc (jn_generation s)) sha
        (norm_dict binding) s = Inr s1"
      and j: "journal sn env l' = Inr (s1\<lparr>jn_generation := Suc (jn_generation s), jn_head_sha256 := sha\<rparr>)"
      and l': "l' = l\<lparr>lv_world := lv_world l'\<rparr>"
      by (rule journal_append_local [OF assms(1, 2) r ok])
    then have "jn_attempts s1 = jn_attempts s \<and> jn_circuit_breaker_open s1 = jn_circuit_breaker_open s"
      by (auto simp: apply_kind_def on_domain_bound_def res_simps)
    then show ?thesis using s' j l' by auto
  next
    case False
    then show ?thesis using b assms(2) by auto
  qed
qed

lemma unresolved_attempts: "jn_attempts s' = jn_attempts s \<Longrightarrow> unresolved s' = unresolved s"
  by (simp add: unresolved_def)

text \<open>No grant while the journal has an unresolved attempt.\<close>

lemma reserve_unresolved:
  assumes "\<not> on_cloud (ss_store sn)" "journal sn env l = Inr s" "unresolved s"
  shows "fst (reserve sn env order new_risk l) \<noteq> Inr g"
proof
  assume "fst (reserve sn env order new_risk l) = Inr g"
  then obtain l' where "reserve sn env order new_risk l = (Inr g, l')" by (cases "reserve sn env order new_risk l") auto
  then obtain digest quantity s' l1 where
    s': "(if ss_domain sn \<noteq> PNone then bind_domain sn env s
         else ensure (jn_domain_binding s = None) ''bound account domain required'' (ret s)) l = (Inr s', l1)"
    and m: "may_reserve sn s' digest = Inr ()"
    using assms(2) unfolding reserve_def by (auto simp: res_simps)
  have "unresolved s'"
    using s' bind_domain_attempts [OF assms(1, 2)] assms(3) by (auto simp: res_simps dest: unresolved_attempts split: if_splits)
  then show False using m by (auto simp: may_reserve_def res_simps)
qed

text \<open>What a grant stands for in the journal.\<close>

lemma prepared_data_json_ok: "float_ok quantity \<Longrightarrow> json_ok (PDict (prepared_data sn fresh digest quantity new_risk))"
  by (simp add: prepared_data_def split: prod.splits)

lemma reserve_issues:
  assumes "\<not> on_cloud (ss_store sn)" "reserve sn env order new_risk l = (Inr g, l')"
    and "order_digest sn order = Inr (digest, quantity)" "float_ok quantity"
  obtains s a where "journal sn env l' = Inr s" "map_of (jn_attempts s) (gr_attempt_id g) = Some a"
    "at_certainty a = PREPARED" "at_observation a = None" "owned_grant sn env g l' = Inr (s, a)"
    "gr_order_sha256 g = digest" "lv_used l' = lv_used l" "\<not> lv_failed l'"
    "new_risk \<longrightarrow> \<not> jn_circuit_breaker_open s" "truthy (dget (at_data a) ''new_risk'') = new_risk"
proof -
  obtain s0 s l1 e l2 where l: "\<not> lv_failed l" and s0: "journal sn env l = Inr s0"
    and brk: "\<not> (new_risk \<and> jn_circuit_breaker_open s0)"
    and b: "(if ss_domain sn \<noteq> PNone then bind_domain sn env s0
         else ensure (jn_domain_binding s0 = None) ''bound account domain required'' (ret s0)) l = (Inr s, l1)"
    and ap: "journal_append sn env s ''PREPARED''
        (prepared_data sn (ev_fresh env (lv_world l1)) digest quantity new_risk) l1 = (Inr e, l2)"
    and g: "issue_grant sn (ev_fresh env (lv_world l1)) digest (Suc (jn_generation s)) e l2 = (Inr g, l')"
    using assms(2, 3) unfolding reserve_def by (auto simp: res_simps Let_def)
  obtain i f where fresh: "ev_fresh env (lv_world l1) = (i, f)" by fastforce
  define data where "data = prepared_data sn (i, f) digest quantity new_risk"
  have s: "journal sn env l1 = Inr s" "l1 = l\<lparr>lv_world := lv_world l1\<rparr>"
    "jn_circuit_breaker_open s = jn_circuit_breaker_open s0"
    using b s0 bind_domain_attempts [OF assms(1) s0] by (auto simp: res_simps split: if_splits)
  have ok: "json_ok (PDict data)" unfolding data_def by (rule prepared_data_json_ok [OF assms(4)])
  obtain sha s1 where sha: "dget e ''event_sha256'' = PStr sha"
    "apply_kind (ss_account sn) (PStr ''PREPARED'') (Suc (jn_generation s)) sha (norm_dict data) s = Inr s1"
    "journal sn env l2 = Inr (s1\<lparr>jn_generation := Suc (jn_generation s), jn_head_sha256 := sha\<rparr>)"
    "l2 = l1\<lparr>lv_world := lv_world l2\<rparr>"
    by (rule journal_append_local [OF assms(1) s(1) ap [unfolded fresh, folded data_def] ok]) blast
  define s' where "s' = s1\<lparr>jn_generation := Suc (jn_generation s), jn_head_sha256 := sha\<rparr>"
  define a where "a = new_attempt (Suc (jn_generation s)) sha (norm_dict data) s"
  have get: "dget (norm_dict data) k = json_norm (dget data k)" for k
    using ok by (simp add: norm_dict_def dget_norm_sorted)
  have i: "text_of (norm_dict data) ''attempt_id'' = i"
    unfolding text_of_def get by (simp add: data_def prepared_data_def)
  have s1: "s1 = s\<lparr>jn_attempts := dict_set (jn_attempts s) i a\<rparr>"
    using sha(2) unfolding apply_kind_def on_prepared_def Let_def a_def by (auto simp: res_simps i)
  have att: "map_of (jn_attempts s') i = Some a" by (simp add: s'_def s1 map_of_dict_set del: map_of_eq_Some_iff)
  have gd: "gr_attempt_id g = i" "gr_fence g = f" "gr_generation g = Suc (jn_generation s)"
    "gr_event_sha256 g = sha" "gr_order_sha256 g = digest" "gr_intent_id g = ss_intent_id sn"
    "gr_release_id g = ss_release_id sn" "gr_account_root g = account_root_of (ss_account sn)"
    and l': "l' = l2\<lparr>lv_issued := dict_set (lv_issued l2) i g\<rparr>"
    using g sha(1) by (auto simp: issue_grant_def fresh Let_def text_of_def)
  have j: "journal sn env l' = Inr s'" using sha(3) by (simp add: l' s'_def journal_def)
  have fields: "dget (at_data a) ''fence'' = PStr f" "at_generation a = Suc (jn_generation s)"
    "at_event_sha256 a = sha" "dget (at_data a) ''order_sha256'' = PStr digest"
    by (simp_all add: a_def new_attempt_def get) (simp_all add: data_def prepared_data_def)
  have "owned_grant sn env g l' = Inr (s', a)"
    unfolding owned_grant_def using j att fields
    by (simp add: gd l' map_of_dict_set del: map_of_eq_Some_iff)
  moreover have "truthy (dget (at_data a) ''new_risk'') = new_risk"
    by (simp add: a_def new_attempt_def get) (simp add: data_def prepared_data_def)
  moreover have "lv_used l' = lv_used l" "\<not> lv_failed l'"
    using l s(2) sha(4) unfolding l' by (metis live.select_convs live.update_convs live.surjective)+
  moreover have "new_risk \<longrightarrow> \<not> jn_circuit_breaker_open s'" using brk s(3) by (simp add: s'_def s1)
  moreover have "at_certainty a = PREPARED" "at_observation a = None" by (simp_all add: a_def new_attempt_def)
  ultimately show thesis using that [OF j _ _ _ _ gd(5)] att gd(1) by auto
qed

text \<open>C2: a grant excludes every other. Once a session has reserved a submission on the file system,
  the journal holds its attempt as prepared, the grant is valid for it, and no session of the account,
  of whatever owner, with whatever order, obtains a grant on that journal.\<close>

theorem reserve_excludes:
  assumes "\<not> on_cloud (ss_store sn)" "reserve sn env order new_risk l = (Inr g, l')"
    and "order_digest sn order = Inr (digest, quantity)" "float_ok quantity"
  shows "(\<exists>s a. owned_grant sn env g l' = Inr (s, a) \<and> at_certainty a = PREPARED \<and> gr_order_sha256 g = digest)
    \<and> (\<forall>other env' order' new_risk' m. ss_store other = ss_store sn \<and> ss_account other = ss_account sn
        \<and> ev_backend env' = ev_backend env \<and> lv_world m = lv_world l'
        \<longrightarrow> (\<exists>e. fst (reserve other env' order' new_risk' m) = Inl e))"
proof -
  obtain s a where s: "journal sn env l' = Inr s" "map_of (jn_attempts s) (gr_attempt_id g) = Some a"
    "at_certainty a = PREPARED" "owned_grant sn env g l' = Inr (s, a)" "gr_order_sha256 g = digest"
    by (rule reserve_issues [OF assms])
  have u: "unresolved s" using s(3) map_of_SomeD [OF s(2)] by (auto simp: unresolved_def)
  have "\<exists>e. fst (reserve other env' order' new_risk' m) = Inl e"
    if o': "ss_store other = ss_store sn" "ss_account other = ss_account sn"
      "ev_backend env' = ev_backend env" "lv_world m = lv_world l'"
    for other env' order' new_risk' m
  proof -
    have "journal other env' m = Inr s" using s(1) by (simp add: journal_def o')
    from reserve_unresolved [OF _ this u] assms(1) show ?thesis
      by (cases "fst (reserve other env' order' new_risk' m)") (auto simp: o')
  qed
  then show ?thesis using s by blast
qed

section \<open>Dispatching\<close>

text \<open>Two computations that begin alike differ only where they go on differently.\<close>

lemma bind_act_same: "bind_act m f l = bind_act m f' l \<longleftrightarrow> (\<forall>a l1. m l = (Inr a, l1) \<longrightarrow> f a l1 = f' a l1)"
  by (auto simp: bind_act_def split: prod.splits sum.splits)

lemma bind_act_differ: "bind_act m f l \<noteq> bind_act m' f l \<Longrightarrow> m l \<noteq> m' l"
  by (auto simp: bind_act_def)

lemma ensure_same: "ensure b message k l = ensure b message k' l \<longleftrightarrow> (b \<longrightarrow> k l = k' l)"
  by (simp add: ensure_act)

lemmas act_differ = bind_act_same ensure_same

text \<open>A computation that forgets no grant it has used.\<close>

definition keeps_used :: "('w live, 'a) act \<Rightarrow> bool" where
  "keeps_used m \<longleftrightarrow> (\<forall>l. set (lv_used l) \<subseteq> set (lv_used (snd (m l))))"

named_theorems used_intros

lemma keeps_used_bind [used_intros]:
  "keeps_used m \<Longrightarrow> (\<And>a. keeps_used (f a)) \<Longrightarrow> keeps_used (bind_act m f)"
  unfolding keeps_used_def bind_act_def by (force split: prod.splits sum.splits)

lemma keeps_used_try [used_intros]:
  "keeps_used m \<Longrightarrow> (\<And>e. keeps_used (h e)) \<Longrightarrow> keeps_used (try_act m h)"
  unfolding keeps_used_def try_act_def by (force split: prod.splits sum.splits)

lemma keeps_used_ensure [used_intros]: "keeps_used k \<Longrightarrow> keeps_used (ensure b message k)"
  by (auto simp: keeps_used_def ensure_act)

lemma keeps_used_if [used_intros]: "keeps_used m \<Longrightarrow> keeps_used k \<Longrightarrow> keeps_used (if b then m else k)"
  by simp

lemma keeps_used_cond: "keeps_used m \<Longrightarrow> keeps_used k \<Longrightarrow> keeps_used (\<lambda>l. if P l then m l else k l)"
  by (simp add: keeps_used_def)

lemma keeps_used_basic [used_intros]:
  "keeps_used (ret a)" "keeps_used (raise_act e)" "keeps_used (lift_res r)" "keeps_used (refuse message)"
  "keeps_used fail_session" "keeps_used (use_grant g)" "keeps_used (on_world m)" "keeps_used (read_journal sn env)"
  "keeps_used (own sn env g)" "keeps_used (confirm_writer sn env identity)"
  by (auto simp: keeps_used_def fail_session_def use_grant_def on_world_def read_journal_def own_def
      confirm_writer_def split: prod.splits)

lemma keeps_used_case_prod [used_intros]: "(\<And>a b. keeps_used (f a b)) \<Longrightarrow> keeps_used (case p of (a, b) \<Rightarrow> f a b)"
  by (cases p) simp

lemma keeps_used_case_option [used_intros]:
  "keeps_used m \<Longrightarrow> (\<And>a. keeps_used (f a)) \<Longrightarrow> keeps_used (case x of None \<Rightarrow> m | Some a \<Rightarrow> f a)"
  by (cases x) simp_all

lemma keeps_usedD: "keeps_used m \<Longrightarrow> set (lv_used l) \<subseteq> set (lv_used (snd (m l)))"
  by (simp add: keeps_used_def)

lemma keeps_used_append [used_intros]: "keeps_used (journal_append sn env s kind data)"
  by (auto simp: keeps_used_def journal_append_def split: sum.splits prod.splits)

lemma keeps_used_record [used_intros]: "keeps_used (record_observation sn env g report recorded_at)"
proof -
  have "set (lv_used l) \<subseteq> set (lv_used (snd (record_observation sn env g report recorded_at l)))" for l
    unfolding record_observation_def by (rule keeps_usedD) (intro used_intros)
  then show ?thesis by (simp add: keeps_used_def)
qed

lemma keeps_used_observe [used_intros]: "keeps_used (observe_outcome sn env g report watermark)"
proof -
  have "set (lv_used l) \<subseteq> set (lv_used (snd (observe_outcome sn env g report watermark l)))" for l
    unfolding observe_outcome_def by (rule keeps_usedD) (intro used_intros)
  then show ?thesis by (simp add: keeps_used_def)
qed

lemma keeps_used_submit [used_intros]: "keeps_used (submit_once sn env g identity submit)"
  unfolding submit_once_def by (intro used_intros)

lemma keeps_used_own_prepared [used_intros]: "keeps_used (own_prepared sn env g)"
  unfolding own_prepared_def by (intro used_intros)

lemma keeps_used_enter [used_intros]: "keeps_used (enter_writer sn env)"
proof -
  have c: "keeps_used (enter_cloud sn env path)" for path
    by (auto simp: keeps_used_def enter_cloud_def Let_def split: option.splits prod.splits)
  have o: "keeps_used (enter_local sn env path)" for path
    by (auto simp: keeps_used_def enter_local_def Let_def bind_act_def confirm_writer_def
        split: option.splits prod.splits sum.splits)
  have "keeps_used (bind_act (lift_res (writer_location sn env))
      (if on_cloud (ss_store sn) then enter_cloud sn env else enter_local sn env))"
    by (intro used_intros) (simp add: c o)
  then show ?thesis unfolding enter_writer_def [abs_def] by (intro keeps_used_cond keeps_used_basic)
qed

lemma keeps_used_guard [used_intros]: "(\<And>identity. keeps_used (body identity)) \<Longrightarrow> keeps_used (writer_guard sn env body)"
  unfolding writer_guard_def by (intro used_intros)

lemma keeps_used_exclusive [used_intros]: "keeps_used (dispatch_exclusive sn env g submit watermark identity)"
  unfolding dispatch_exclusive_def by (intro used_intros)

lemma keeps_used_dispatch: "keeps_used (dispatch sn env g order submit watermark)"
proof -
  have "set (lv_used l) \<subseteq> set (lv_used (snd (dispatch sn env g order submit watermark l)))" for l
    unfolding dispatch_def by (rule keeps_usedD) (intro used_intros)
  then show ?thesis by (simp add: keeps_used_def)
qed

text \<open>The grant is marked as used before the submission.\<close>

lemma exclusive_uses:
  assumes "dispatch_exclusive sn env g submit watermark identity l
      \<noteq> dispatch_exclusive sn env g submit' watermark identity l"
  shows "gr_attempt_id g \<in> set (lv_used (snd (dispatch_exclusive sn env g submit watermark identity l)))"
    and "\<exists>s a. own_prepared sn env g l = (Inr (s, a), l)" and "still_writer sn env identity l"
proof -
  obtain sa l1 l2 where o: "own_prepared sn env g l = (Inr sa, l1)" "confirm_writer sn env identity l1 = (Inr (), l2)"
    using assms unfolding dispatch_exclusive_def act_differ by auto
  have l1: "l1 = l" using o(1) by (auto simp: own_prepared_def own_def res_simps split: prod.splits)
  have l2: "l2 = l" "still_writer sn env identity l"
    using o(2) by (auto simp: confirm_writer_def l1 split: if_splits)
  define rest where "rest = bind_act (submit_once sn env g identity submit) (\<lambda>report.
      bind_act (confirm_writer sn env identity) (\<lambda>_. observe_outcome sn env g report watermark))"
  have "dispatch_exclusive sn env g submit watermark identity l = rest (l\<lparr>lv_used := gr_attempt_id g # lv_used l\<rparr>)"
    unfolding dispatch_exclusive_def using o by (simp add: bind_act_def l1 l2 use_grant_def rest_def)
  moreover have "keeps_used rest" unfolding rest_def by (intro used_intros)
  ultimately show "gr_attempt_id g \<in> set (lv_used (snd (dispatch_exclusive sn env g submit watermark identity l)))"
    using keeps_usedD [of rest "l\<lparr>lv_used := gr_attempt_id g # lv_used l\<rparr>"] by auto
  show "\<exists>s a. own_prepared sn env g l = (Inr (s, a), l)" using o(1) l1 by (cases sa) auto
  show "still_writer sn env identity l" by (rule l2(2))
qed

lemma own_prepared_Inr_iff [res_simps]:
  "own_prepared sn env g l = (Inr (s, a), l') \<longleftrightarrow>
     owned_grant sn env g l = Inr (s, a) \<and> still_prepared s a = Inr () \<and> l' = l"
  by (auto simp: own_prepared_def own_def res_simps)

text \<open>Where two dispatches of a grant part.\<close>

lemma dispatch_parts:
  assumes "dispatch sn env g order submit watermark l \<noteq> dispatch sn env g order submit' watermark l"
  obtains s a digest quantity identity l1 s1 a1 where "\<not> lv_failed l" "gr_attempt_id g \<notin> set (lv_used l)"
    "owned_grant sn env g l = Inr (s, a)" "order_digest sn order = Inr (digest, quantity)"
    "digest = gr_order_sha256 g" "still_prepared s a = Inr ()"
    "ss_domain sn \<noteq> PNone \<Longrightarrow> dispatch_domain sn (ev_clock env (lv_world l)) s a digest = Inr ()"
    "enter_writer sn env l = (Inr identity, l1)" "still_writer sn env identity l1"
    "owned_grant sn env g l1 = Inr (s1, a1)" "still_prepared s1 a1 = Inr ()"
    "gr_attempt_id g \<in> set (lv_used (snd (dispatch sn env g order submit watermark l)))"
proof -
  obtain s a digest quantity u v where f: "\<not> lv_failed l" "own sn env g l = (Inr (s, a), l)"
    "order_digest sn order = Inr (digest, quantity)" "digest = gr_order_sha256 g"
    "gr_attempt_id g \<notin> set (lv_used l)" "still_prepared s a = Inr u"
    "(if ss_domain sn \<noteq> PNone then lift_res (dispatch_domain sn (ev_clock env (lv_world l)) s a digest) else ret ()) l
       = (Inr v, l)" "own_prepared sn env g l = (Inr (s, a), l)"
    and w: "writer_guard sn env (dispatch_exclusive sn env g submit watermark) l
       \<noteq> writer_guard sn env (dispatch_exclusive sn env g submit' watermark) l"
    using assms unfolding dispatch_def act_differ
    by (auto simp: own_def res_simps act_differ split: prod.splits if_splits)
  obtain identity l1 where e: "enter_writer sn env l = (Inr identity, l1)"
    and d: "dispatch_exclusive sn env g submit watermark identity l1
       \<noteq> dispatch_exclusive sn env g submit' watermark identity l1"
    using w unfolding writer_guard_def bind_act_same by (auto dest: bind_act_differ)
  note x = exclusive_uses [OF d]
  have eq: "dispatch sn env g order submit watermark l
      = writer_guard sn env (dispatch_exclusive sn env g submit watermark) l"
    unfolding dispatch_def using f by (cases "ss_domain sn = PNone") (auto simp: bind_act_def ensure_act)
  have "keeps_used (bind_act (ret r) (\<lambda>r. bind_act (confirm_writer sn env identity) (\<lambda>_. ret r)))" for r :: broker_report
    by (intro used_intros)
  then have "set (lv_used (snd (dispatch_exclusive sn env g submit watermark identity l1)))
      \<subseteq> set (lv_used (snd (writer_guard sn env (dispatch_exclusive sn env g submit watermark) l)))"
    unfolding writer_guard_def by (auto simp: bind_act_def e keeps_used_def split: prod.splits sum.splits)
  then have used: "gr_attempt_id g \<in> set (lv_used (snd (dispatch sn env g order submit watermark l)))"
    using x(1) eq by auto
  obtain s1 a1 where "owned_grant sn env g l1 = Inr (s1, a1)" "still_prepared s1 a1 = Inr ()"
    using x(2) by (auto simp: res_simps)
  moreover have "dispatch_domain sn (ev_clock env (lv_world l)) s a digest = Inr ()" if "ss_domain sn \<noteq> PNone"
    using f(7) that by simp
  moreover have "owned_grant sn env g l = Inr (s, a)" "still_prepared s a = Inr ()"
    using f(2, 6) by (simp_all add: own_def)
  ultimately show thesis using that f(1, 3, 4, 5) e x(3) used by blast
qed

text \<open>C4: what a submission needs. If it matters for a dispatch what the submission to the broker would do
  (so that it is called), then the session has not failed, the grant is one that it issued, for its
  account, intent and release, and has not used; the order has the digest of the grant; the journal holds
  the attempt as prepared, with the breaker closed if it is new risk, before and after the writer's
  exclusion was taken; the domain's observation is current; and the writer is still this process.\<close>

theorem dispatch_guarded:
  assumes "dispatch sn env g order submit watermark l \<noteq> dispatch sn env g order submit' watermark l"
  shows "\<not> lv_failed l \<and> gr_attempt_id g \<notin> set (lv_used l) \<and> map_of (lv_issued l) (gr_attempt_id g) = Some g
    \<and> gr_account_root g = account_root_of (ss_account sn) \<and> gr_intent_id g = ss_intent_id sn
    \<and> gr_release_id g = ss_release_id sn
    \<and> (\<exists>quantity. order_digest sn order = Inr (gr_order_sha256 g, quantity))
    \<and> (ss_domain sn \<noteq> PNone \<longrightarrow> (\<exists>s a. owned_grant sn env g l = Inr (s, a)
         \<and> dispatch_domain sn (ev_clock env (lv_world l)) s a (gr_order_sha256 g) = Inr ()))
    \<and> (\<exists>identity l'. enter_writer sn env l = (Inr identity, l') \<and> still_writer sn env identity l'
        \<and> (\<forall>m \<in> {l, l'}. \<exists>s a. journal sn env m = Inr s \<and> map_of (jn_attempts s) (gr_attempt_id g) = Some a
             \<and> at_certainty a = PREPARED \<and> dget (at_data a) ''order_sha256'' = PStr (gr_order_sha256 g)
             \<and> dget (at_data a) ''fence'' = PStr (gr_fence g)
             \<and> (truthy (dget (at_data a) ''new_risk'') \<longrightarrow> \<not> jn_circuit_breaker_open s)))"
proof -
  have held: "\<exists>s a. journal sn env m = Inr s \<and> map_of (jn_attempts s) (gr_attempt_id g) = Some a
        \<and> at_certainty a = PREPARED \<and> dget (at_data a) ''order_sha256'' = PStr (gr_order_sha256 g)
        \<and> dget (at_data a) ''fence'' = PStr (gr_fence g)
        \<and> (truthy (dget (at_data a) ''new_risk'') \<longrightarrow> \<not> jn_circuit_breaker_open s)"
    if "owned_grant sn env g m = Inr (s, a)" "still_prepared s a = Inr ()" for m s a
    using that unfolding owned_grant_def still_prepared_def handler_iffs by (auto simp: handler_iffs)
  have issued: "map_of (lv_issued l) (gr_attempt_id g) = Some g
      \<and> gr_account_root g = account_root_of (ss_account sn) \<and> gr_intent_id g = ss_intent_id sn
      \<and> gr_release_id g = ss_release_id sn"
    if "owned_grant sn env g l = Inr x" for x
    using that unfolding owned_grant_def require_Inr_iff by blast
  from assms show ?thesis
    by (rule dispatch_parts) (use held issued in blast)
qed

section \<open>At most once\<close>

text \<open>Dispatches of one grant, with anything between them.\<close>

type_synonym 'w dispatch_call =
  "order_intent \<times> ('w \<times> files, broker_report) act \<times> bool \<times> ('w live \<Rightarrow> 'w live)"

fun dispatches ::
  "session \<Rightarrow> 'w session_env \<Rightarrow> grant \<Rightarrow> 'w dispatch_call list \<Rightarrow> 'w live \<Rightarrow> broker_report res list \<times> 'w live" where
  "dispatches sn env g [] l = ([], l)"
| "dispatches sn env g ((order, submit, watermark, others) # calls) l =
     (case dispatch sn env g order submit watermark l of (r, l1) \<Rightarrow>
      case dispatches sn env g calls (others l1) of (rs, l2) \<Rightarrow> (r # rs, l2))"

text \<open>Calls that differ in their submissions only.\<close>

fun same_call :: "'w dispatch_call \<Rightarrow> 'w dispatch_call \<Rightarrow> bool" where
  "same_call (o1, s1, w1, f1) (o2, s2, w2, f2) \<longleftrightarrow> o1 = o2 \<and> w1 = w2 \<and> f1 = f2"

definition remembers :: "'w dispatch_call \<Rightarrow> bool" where
  "remembers c \<longleftrightarrow> (\<forall>l. set (lv_used l) \<subseteq> set (lv_used (snd (snd (snd c)) l)))"

lemma used_dispatches:
  "gr_attempt_id g \<in> set (lv_used l) \<Longrightarrow> list_all2 same_call calls calls' \<Longrightarrow> list_all remembers calls \<Longrightarrow>
     dispatches sn env g calls' l = dispatches sn env g calls l"
proof (induction calls arbitrary: calls' l)
  case (Cons c calls)
  obtain order submit watermark others where c: "c = (order, submit, watermark, others)" by (cases c) auto
  from Cons.prems(2) obtain submit' calls'' where c': "calls' = (order, submit', watermark, others) # calls''"
    and r: "list_all2 same_call calls calls''"
    by (auto simp: c list_all2_Cons1)
  have eq: "dispatch sn env g order submit' watermark l = dispatch sn env g order submit watermark l"
    using dispatch_parts [of sn env g order submit' watermark l submit] Cons.prems(1) by blast
  have "gr_attempt_id g \<in> set (lv_used (others (snd (dispatch sn env g order submit watermark l))))"
    using keeps_usedD [OF keeps_used_dispatch, of l sn env g order submit watermark] Cons.prems(1, 3)
    by (auto simp: c remembers_def)
  with Cons.IH [OF this r] Cons.prems(3) eq show ?case by (auto simp: c c' split: prod.splits)
qed simp


section \<open>The breaker stays open\<close>

text \<open>What the record of a breach leaves in the journal.\<close>

lemma record_breaker_open:
  assumes "\<not> on_cloud (ss_store sn)" "record_circuit_breaker_open sn env snapshot l = (Inr (), l')"
    and "breaker_facts sn (the snapshot) = Inr data" "json_ok (PDict data)"
  obtains s where "journal sn env l' = Inr s" "jn_circuit_breaker_open s"
proof -
  obtain identity l1 where l1: "enter_writer sn env l = (Inr identity, l1)"
    and b: "bind_act (read_journal sn env) (\<lambda>s. bind_act (confirm_writer sn env identity) (\<lambda>_.
        if jn_circuit_breaker_open s then ret ()
        else bind_act (journal_append sn env s ''CIRCUIT_BREAKER_OPEN'' data) (\<lambda>_. ret ()))) l1 = (Inr (), l')"
    using assms(2, 3) unfolding record_circuit_breaker_open_def writer_guard_def
    by (fastforce simp: res_simps confirm_writer_def split: if_splits)
  then obtain s where s: "journal sn env l1 = Inr s"
    and k: "(if jn_circuit_breaker_open s then ret ()
        else bind_act (journal_append sn env s ''CIRCUIT_BREAKER_OPEN'' data) (\<lambda>_. ret ())) l1 = (Inr (), l')"
    by (auto simp: res_simps confirm_writer_def split: if_splits)
  show thesis
  proof (cases "jn_circuit_breaker_open s")
    case True
    then show thesis using that s k by auto
  next
    case False
    then obtain r where r: "journal_append sn env s ''CIRCUIT_BREAKER_OPEN'' data l1 = (Inr r, l')"
      using k by (auto simp: res_simps)
    obtain sha s1 where "apply_kind (ss_account sn) (PStr ''CIRCUIT_BREAKER_OPEN'') (Suc (jn_generation s)) sha
        (norm_dict data) s = Inr s1"
      and j: "journal sn env l' = Inr (s1\<lparr>jn_generation := Suc (jn_generation s), jn_head_sha256 := sha\<rparr>)"
      by (rule journal_append_local [OF assms(1) s r assms(4)])
    then have "jn_circuit_breaker_open s1"
      by (auto simp: apply_kind_def on_breaker_open_def res_simps)
    then show thesis using that j by simp
  qed
qed

text \<open>C12: a recorded breach prohibits new risk for good. Once a session has recorded it on the file
  system, no session of the account obtains a grant for new risk, and no grant for new risk reaches
  the broker, on any later state of the directory that keeps its files.\<close>

theorem breaker_latches:
  assumes "\<not> on_cloud (ss_store sn)" "record_circuit_breaker_open sn env snapshot l = (Inr (), l')"
    and "breaker_facts sn (the snapshot) = Inr data" "json_ok (PDict data)"
    and "ss_store other = ss_store sn" "ss_account other = ss_account sn" "ev_backend env' = ev_backend env"
    and "keeps_files (snd (lv_world l')) (snd (lv_world m))"
  shows "(\<exists>s. journal sn env l' = Inr s \<and> jn_circuit_breaker_open s)
    \<and> (\<exists>e. fst (reserve other env' order True m) = Inl e)
    \<and> (\<forall>s a. journal other env' m = Inr s \<and> map_of (jn_attempts s) (gr_attempt_id g) = Some a
          \<and> truthy (dget (at_data a) ''new_risk'')
        \<longrightarrow> dispatch other env' g order submit watermark m = dispatch other env' g order submit' watermark m)"
proof -
  obtain s where s: "journal sn env l' = Inr s" "jn_circuit_breaker_open s"
    by (rule record_breaker_open [OF assms(1-4)])
  have open_later: "jn_circuit_breaker_open t" if "journal other env' m = Inr t" for t
  proof -
    obtain cw fs cw' fs' where w: "lv_world l' = (cw, fs)" "lv_world m = (cw', fs')" by fastforce
    have "read_state (ss_store sn) (ev_backend env) (ss_account sn) (cw, fs) = Inr s"
      and "read_state (ss_store sn) (ev_backend env) (ss_account sn) (cw', fs') = Inr t"
      and "keeps_files fs fs'"
      using s(1) that assms(5-8) w by (simp_all add: journal_def)
    from local_journal_extends [OF assms(1) this] obtain ts where
      "replay (ss_account sn) ts s = Inr t" "arbitrated s" by blast
    from replay_history [OF this] s(2) show ?thesis by (simp add: grows_def)
  qed
  have "fst (reserve other env' order True m) \<noteq> Inr g'" for g'
  proof
    assume "fst (reserve other env' order True m) = Inr g'"
    then obtain m' where "reserve other env' order True m = (Inr g', m')"
      by (cases "reserve other env' order True m") auto
    then show False unfolding reserve_def using open_later by (auto simp: res_simps)
  qed
  then have "\<exists>e. fst (reserve other env' order True m) = Inl e"
    by (cases "fst (reserve other env' order True m)") auto
  moreover have "dispatch other env' g order submit watermark m = dispatch other env' g order submit' watermark m"
    if "journal other env' m = Inr t" "map_of (jn_attempts t) (gr_attempt_id g) = Some a"
      "truthy (dget (at_data a) ''new_risk'')" for t a
  proof (rule ccontr)
    assume "\<not> ?thesis"
    then obtain u b where "owned_grant other env' g m = Inr (u, b)" "still_prepared u b = Inr ()"
      by (rule dispatch_parts)
    then show False using that open_later [OF that(1)]
      unfolding owned_grant_def still_prepared_def by (auto simp: handler_iffs)
  qed
  ultimately show ?thesis using s by blast
qed

section \<open>Concrete inputs\<close>

definition sample_session :: session where
  "sample_session = \<lparr>ss_store = sample_store, ss_broker = ''longbridge'', ss_account_id = ''A1'',
     ss_owner_id = ''alpha'', ss_profile = ''core'', ss_intent_id = replicate 64 (CHR ''c''),
     ss_release_id = replicate 64 (CHR ''e''), ss_account = ''acct'', ss_domain = PNone,
     ss_observed_account_id = PNone, ss_broker_identity = None, ss_observed_at = PNone,
     ss_decision_at = PNone, ss_observed = \<lparr>ob_environment = PNone, ob_server = PNone, ob_currency = PNone,
       ob_lifecycle_id = PNone\<rparr>\<rparr>"

definition sample_env :: "unit session_env" where
  "sample_env = \<lparr>ev_backend = no_cloud, ev_lock_open = \<lambda>p create w. (Inr ''inode'', w),
     ev_lock_take = \<lambda>p w. (Inr (), w), ev_lock_held = \<lambda>p i w. True, ev_token = ''t'',
     ev_fresh = \<lambda>w. (sample_id, replicate 64 (CHR ''b'')), ev_clock = \<lambda>w. PNone\<rparr>"

definition sample_live :: "unit live" where
  "sample_live = \<lparr>lv_issued = [], lv_used = [], lv_failed = False, lv_writer = None, lv_world = ((), [])\<rparr>"

definition buy_order :: order_intent where
  "buy_order = \<lparr>oi_symbol = PStr ''QQQ'', oi_side = PStr ''buy'', oi_quantity = PFloat (Fin 3),
     oi_order_type = PStr ''market'', oi_limit_price = PNone, oi_time_in_force = PNone,
     oi_account_id = PStr ''A1'', oi_metadata = []\<rparr>"

lemma buy_order_digest:
  obtains digest where "order_digest sample_session buy_order = Inr (digest, Fin 3)" "is_sha256_hex digest"
proof -
  have a: "submission_account (PStr (ss_broker sample_session)) (oi_account_id buy_order) = Inr (''longbridge'', ''A1'')"
    "ss_account_id sample_session = ''A1''"
    by code_simp+
  have t: "submission_text (oi_symbol buy_order) = Inr ''QQQ''" "submission_text (oi_side buy_order) = Inr ''buy''"
    "submission_text (oi_order_type buy_order) = Inr ''market''" "lower ''buy'' = ''buy''"
    by code_simp+
  have q: "submission_number (oi_quantity buy_order) = Inr (Fin 3)" "f_lt (Fin 0) (Fin 3)"
    by (simp_all add: buy_order_def f_lt_def)
  have l: "optional_number (oi_limit_price buy_order) = Inr None" by (simp add: buy_order_def optional_number_def)
  define d where "d = [(''account_id'', PStr ''A1''), (''symbol'', PStr (upper ''QQQ'')), (''side'', PStr ''buy''),
    (''quantity'', PFloat (Fin 3)), (''order_type'', PStr (lower ''market'')), (''limit_price'', PNone),
    (''time_in_force'', PStr (upper (py_str (py_or (oi_time_in_force buy_order) (PStr ''DAY''))))),
    (''metadata'', PDict (oi_metadata buy_order))]"
  have "all_finite (PDict d)" by (simp add: d_def buy_order_def)
  then obtain x where x: "binding_digest d = Inr (sha256_hex x)"
    by (auto simp: binding_digest_def json_dumps_strict_def d_def)
  have "order_digest sample_session buy_order = Inr (sha256_hex x, Fin 3)"
    using x unfolding order_digest_def by (simp add: a t q l d_def)
  then show thesis by (rule that) simp
qed

text \<open>The first event on an empty directory.\<close>

lemma sample_journal: "lv_world m = ((), []) \<Longrightarrow> journal sample_session sample_env m = Inr initial_journal"
  by (simp add: journal_def sample_session_def sample_env_def sample_empty)

lemma sample_append:
  assumes ok: "json_ok (PDict data)" and m: "lv_world m = ((), [])" "\<not> lv_failed m"
    and gen: "\<And>sha. jn_generation (s1 sha) = 0"
    and k: "\<And>sha. apply_kind ''acct'' (PStr kind) (Suc (jn_generation initial_journal)) sha (norm_dict data) initial_journal
      = Inr (s1 sha)"
  shows "\<exists>e. journal_append sample_session sample_env initial_journal kind data m
      = (Inr e, m\<lparr>lv_world := ((), [(sample_place, event_text e)])\<rparr>)"
proof -
  obtain e where e: "new_event ''acct'' initial_journal kind data = Inr e" by (rule new_event_total [OF ok])
  obtain sha where sha: "dget e ''event_sha256'' = PStr sha" "apply_text ''acct'' (event_text e) initial_journal
      = map_res (\<lambda>s'. s'\<lparr>jn_generation := Suc (jn_generation initial_journal), jn_head_sha256 := sha\<rparr>)
          (apply_kind ''acct'' (PStr kind) (Suc (jn_generation initial_journal)) sha (norm_dict data) initial_journal)"
    by (rule apply_new_event [OF e ok])
  have seq: "dget e ''sequence'' = PInt 1" using e by (auto simp: new_event_def res_simps)
  have r: "\<exists>s. sample_read [(sample_place, event_text e)] = Inr s \<and> jn_generation s = 1 \<and> jn_head_sha256 s = sha"
    using sample_read_one(1) [OF sha(2) [unfolded k map_res_simps]] by simp
  have w: "write_event sample_store no_cloud ''acct'' e sample_place ((), []) = (Inr e, ((), [(sample_place, event_text e)]))"
    using r by (auto simp: write_event_def create_record_def fs_create_def sample_local confirm_event_def sha(1) seq)
  show ?thesis
    by (rule exI, cases m) (use m in \<open>simp add: journal_append_def sample_session_def sample_env_def e sample_journal_place w\<close>)
qed

text \<open>The first reservation on an empty directory.\<close>

lemma sample_reserve:
  obtains digest g l where "order_digest sample_session buy_order = Inr (digest, Fin 3)"
    "reserve sample_session sample_env buy_order False sample_live = (Inr g, l)" "lv_writer l = None"
    "gr_attempt_id g = sample_id"
proof -
  obtain digest where o: "order_digest sample_session buy_order = Inr (digest, Fin 3)" "is_sha256_hex digest"
    by (rule buy_order_digest)
  define data where "data = prepared_data sample_session (sample_id, replicate 64 (CHR ''b'')) digest (Fin 3) False"
  have ok: "json_ok (PDict data)" unfolding data_def by (rule prepared_data_json_ok [OF float_ok_3])
  have t: "identity_text ''alpha''" "identity_text ''core''" by code_simp+
  have h: "is_sha256_hex (replicate 64 c)" if "is_hex_lower c" for c
    using that by (simp add: is_sha256_hex_def list_all_iff)
  have q: "submission_number (PFloat (Fin 3)) = Inr (Fin 3)" "f_lt (Fin 0) (Fin 3)" by (simp_all add: f_lt_def)
  have k: "apply_kind ''acct'' (PStr ''PREPARED'') (Suc (jn_generation initial_journal)) sha (norm_dict data) initial_journal
      = Inr (initial_journal\<lparr>jn_attempts := [(sample_id, new_attempt (Suc 0) sha (norm_dict data) initial_journal)]\<rparr>)"
    for sha
  proof -
    have "on_prepared (Suc 0) sha (norm_dict data) initial_journal
        = Inr (initial_journal\<lparr>jn_attempts := [(sample_id, new_attempt (Suc 0) sha (norm_dict data) initial_journal)]\<rparr>)"
      by (rule first_prepared [OF ok])
        (auto simp: data_def prepared_data_def sample_session_def prepared_fields_def keys_def t q o(2) sample_id_def
          initial_journal_def is_hex_lower_def is_digit_def intro!: h)
    then show ?thesis by (simp add: apply_kind_def)
  qed
  obtain e where ap: "journal_append sample_session sample_env initial_journal ''PREPARED'' data sample_live
      = (Inr e, sample_live\<lparr>lv_world := ((), [(sample_place, event_text e)])\<rparr>)"
    using sample_append [OF ok _ _ _ k, of sample_live] by (auto simp: sample_live_def)
  have j: "journal sample_session sample_env sample_live = Inr initial_journal"
    by (rule sample_journal) (simp add: sample_live_def)
  have simple: "ss_domain sample_session = PNone" "jn_domain_binding initial_journal = None"
    "\<not> unresolved initial_journal" "\<not> already_attempted initial_journal i d" "\<not> lv_failed sample_live" for i d
    by (simp_all add: sample_session_def initial_journal_def unresolved_def already_attempted_def sample_live_def)
  have fresh: "ev_fresh sample_env w = (sample_id, replicate 64 (CHR ''b''))" for w by (simp add: sample_env_def)
  obtain g l where g: "issue_grant sample_session (sample_id, replicate 64 (CHR ''b'')) digest (Suc 0) e
      (sample_live\<lparr>lv_world := ((), [(sample_place, event_text e)])\<rparr>) = (Inr g, l)"
    "gr_attempt_id g = sample_id" "lv_writer l = None"
    by (simp add: issue_grant_def Let_def sample_live_def)
  have "reserve sample_session sample_env buy_order False sample_live = (Inr g, l)"
    unfolding reserve_def
    by (simp add: simple o(1) bind_act_def read_journal_def j ensure_act may_reserve_def fresh Let_def
        data_def [symmetric] ap g)
  then show thesis by (rule that [OF o(1) _ g(3, 2)])
qed

theorem reserve_excludes_witness:
  "\<exists>g l. reserve sample_session sample_env buy_order False sample_live = (Inr g, l)
    \<and> (\<exists>e. fst (reserve (sample_session\<lparr>ss_owner_id := ''beta''\<rparr>) sample_env (buy_order\<lparr>oi_symbol := PStr ''SPY''\<rparr>) False
         (sample_live\<lparr>lv_world := lv_world l\<rparr>)) = Inl e)"
proof -
  obtain digest g l where r: "order_digest sample_session buy_order = Inr (digest, Fin 3)"
    "reserve sample_session sample_env buy_order False sample_live = (Inr g, l)"
    by (rule sample_reserve)
  have c: "\<not> on_cloud (ss_store sample_session)" by (simp add: sample_session_def sample_local)
  show ?thesis using reserve_excludes [OF c r(2, 1) float_ok_3] r(2) by (auto simp: sample_session_def)
qed

lemma submit_raises:
  assumes "still_writer sn env identity l"
  shows "fst (submit_once sn env g identity (raise_act e) l) = Inl e"
proof -
  have "fst (bind_act (try_act m (\<lambda>_. fail_session)) (\<lambda>_. raise_act e) l) = Inl e" for m :: "('a live, unit) act" and l
    by (auto simp: bind_act_def try_act_def fail_session_def split: prod.splits sum.splits)
  then show ?thesis using assms
    by (simp add: submit_once_def try_act_def bind_act_def [of "confirm_writer sn env identity" "\<lambda>_. on_world (raise_act e)"]
        confirm_writer_def on_world_def)
qed

lemma sample_held: "still_writer sample_session sample_env (p, i) m"
  by (simp add: still_writer_def sample_env_def sample_session_def sample_local)

lemma sample_enter:
  assumes "\<not> lv_failed l" "lv_writer l = None"
  shows "\<exists>path. enter_writer sample_session sample_env l
    = (Inr (path, ''inode''), l\<lparr>lv_writer := Some (path, ''inode'')\<rparr>)"
proof -
  have c: "\<not> on_cloud (ss_store sample_session)" by (simp add: sample_session_def sample_local)
  then obtain path where path: "writer_location sample_session sample_env = Inr path"
    by (simp add: writer_location_def)
  have lock: "ev_lock_open sample_env p b w = (Inr ''inode'', w)" "ev_lock_take sample_env p w = (Inr (), w)" for p b w
    by (simp_all add: sample_env_def)
  show ?thesis
    using assms c
    by (cases l) (auto simp: enter_writer_def path enter_local_def lock bind_act_def confirm_writer_def sample_held
      split: prod.splits)
qed

lemma sample_dispatch:
  obtains g l where "reserve sample_session sample_env buy_order False sample_live = (Inr g, l)"
    "\<And>e watermark. fst (dispatch sample_session sample_env g buy_order (raise_act e) watermark l) = Inl e"
proof -
  obtain digest g l where r: "order_digest sample_session buy_order = Inr (digest, Fin 3)"
    "reserve sample_session sample_env buy_order False sample_live = (Inr g, l)" "lv_writer l = None"
    by (rule sample_reserve)
  have c: "\<not> on_cloud (ss_store sample_session)" "ss_domain sample_session = PNone"
    by (simp_all add: sample_session_def sample_local)
  obtain s a where s: "at_certainty a = PREPARED" "owned_grant sample_session sample_env g l = Inr (s, a)"
    "gr_order_sha256 g = digest" "lv_used l = lv_used sample_live" "\<not> lv_failed l"
    "truthy (dget (at_data a) ''new_risk'') = False"
    by (rule reserve_issues [OF c(1) r(2, 1) float_ok_3])
  obtain path where enter0: "enter_writer sample_session sample_env l
      = (Inr (path, ''inode''), l\<lparr>lv_writer := Some (path, ''inode'')\<rparr>)"
    using sample_enter [OF s(5) r(3)] by auto
  define l1 where "l1 = l\<lparr>lv_writer := Some (path, ''inode'')\<rparr>"
  note enter = enter0 [folded l1_def] and held = sample_held
  have own1: "owned_grant sample_session sample_env g l1 = Inr (s, a)"
    using s(2) by (simp add: owned_grant_def journal_def l1_def)
  have prep: "still_prepared s a = Inr ()" using s(1, 6) by (simp add: still_prepared_def)
  have own: "own_prepared sample_session sample_env g m = (Inr (s, a), m)"
    if "owned_grant sample_session sample_env g m = Inr (s, a)" for m
    using that prep by (simp add: own_prepared_def own_def bind_act_def)
  have ex: "fst (dispatch_exclusive sample_session sample_env g (raise_act e) watermark (path, ''inode'') l1) = Inl e"
    for e watermark
    using own [OF own1] submit_raises [OF held [of path "''inode''" "l1\<lparr>lv_used := gr_attempt_id g # lv_used l1\<rparr>"], of g e]
    by (auto simp: dispatch_exclusive_def bind_act_def confirm_writer_def held use_grant_def split: prod.splits sum.splits)
  have "fst (dispatch sample_session sample_env g buy_order (raise_act e) watermark l) = Inl e" for e watermark
  proof -
    obtain m where "dispatch_exclusive sample_session sample_env g (raise_act e) watermark (path, ''inode'') l1 = (Inl e, m)"
      using ex [of e watermark]
      by (cases "dispatch_exclusive sample_session sample_env g (raise_act e) watermark (path, ''inode'') l1") auto
    then show ?thesis
      unfolding dispatch_def using s(2, 3, 4, 5) own [OF s(2)]
      by (simp add: ensure_act bind_act_def own_def r(1) sample_live_def prep c(2) writer_guard_def enter)
  qed
  with r(2) show thesis by (rule that)
qed

theorem dispatch_guarded_witness:
  "\<exists>g l s a. reserve sample_session sample_env buy_order False sample_live = (Inr g, l)
    \<and> dispatch sample_session sample_env g buy_order (raise_act OverflowError) True l
       \<noteq> dispatch sample_session sample_env g buy_order (raise_act FileNotFoundError) True l
    \<and> journal sample_session sample_env l = Inr s \<and> map_of (jn_attempts s) (gr_attempt_id g) = Some a
    \<and> at_certainty a = PREPARED"
proof -
  obtain g l where g: "reserve sample_session sample_env buy_order False sample_live = (Inr g, l)"
    "\<And>e watermark. fst (dispatch sample_session sample_env g buy_order (raise_act e) watermark l) = Inl e"
    by (rule sample_dispatch) blast
  have d: "dispatch sample_session sample_env g buy_order (raise_act OverflowError) True l
       \<noteq> dispatch sample_session sample_env g buy_order (raise_act FileNotFoundError) True l"
    using g(2) [of OverflowError True] g(2) [of FileNotFoundError True] by auto
  from dispatch_guarded [OF d] g(1) d show ?thesis by blast
qed


section \<open>A breach\<close>

definition breach_snapshot :: injected_snapshot where
  "breach_snapshot = healthy_snapshot
     \<lparr>sn_equity_usd := PFloat (Fin 3), sn_peak_equity_usd := PNone, sn_drawdown_from_peak := PFloat (Fin 3)\<rparr>"

lemma breach_envelope:
  "\<exists>e. default_envelope (PFloat (Fin 3)) (PFloat (Fin 3)) = Inr e
     \<and> ''DRAWDOWN_BRAKE_TRIPPED'' \<in> set (en_reasons e) \<and> ''INVALID_DRAWDOWN_FAIL_CLOSED'' \<notin> set (en_reasons e)
     \<and> \<not> en_new_risk_allowed e"
  by (simp add: default_envelope_def envelope_eval default_target)

lemma breach_verdict:
  obtains r where "evaluate_new_risk_admission (Some breach_snapshot) NoLimits = Inr r" "nr_hard_brake_triggered r"
proof -
  have v: "validate_injected_snapshot (Some breach_snapshot) = Inr breach_snapshot"
    by (simp add: validate_injected_snapshot_def breach_snapshot_def healthy_snapshot_def)
  obtain reasons scale where c: "evaluate_capital_axis breach_snapshot = Inr (reasons, scale)"
    "''DRAWDOWN_BRAKE_TRIPPED'' \<in> set reasons"
    by (simp add: breach_snapshot_def healthy_snapshot_def evaluate_capital_axis_def capital_verdict_def prohibiting_def envelope_prohibit_reasons_def
        derive_drawdown_from_peak_def envelope_eval default_target)
  show thesis
    using c(2) by (intro that) (simp_all add: evaluate_new_risk_admission_def v c(1) evaluate_daily_loss_axis_def Let_def,
      auto)
qed

definition breach_data :: pydict where
  "breach_data = [(''equity_usd'', PFloat (Fin 3)), (''peak_equity_usd'', PNone), (''drawdown_from_peak'', PFloat (Fin 3)),
     (''owner_id'', PStr ''alpha''), (''profile'', PStr ''core'')]"

lemma breach_facts: "breaker_facts sample_session breach_snapshot = Inr breach_data"
proof -
  have q: "submission_number (PFloat (Fin 3)) = Inr (Fin 3)" by (simp add: f_lt_def)
  show ?thesis
    using breach_envelope
    by (auto simp: breaker_facts_def breach_snapshot_def q breach_data_def sample_session_def)
qed

lemma breach_event:
  "apply_kind ''acct'' (PStr ''CIRCUIT_BREAKER_OPEN'') (Suc (jn_generation initial_journal)) sha (norm_dict breach_data)
     initial_journal = Inr (initial_journal\<lparr>jn_circuit_breaker_open := True\<rparr>)"
proof -
  have ok: "json_ok (PDict breach_data)" by (simp add: breach_data_def float_ok_3)
  have get: "dget (norm_dict breach_data) k = json_norm (dget breach_data k)" for k
    using ok by (simp add: norm_dict_def dget_norm_sorted)
  have keys: "set (keys (norm_dict breach_data)) = set (keys breach_data)"
    unfolding norm_dict_def keys_norm_sorted by (rule refl)
  have q: "submission_number (PFloat (Fin 3)) = Inr (Fin 3)" by (simp add: f_lt_def)
  have t: "submission_text (PStr ''alpha'') = Inr ''alpha''" "submission_text (PStr ''core'') = Inr ''core''"
    by code_simp+
  have v: "dget (norm_dict breach_data) ''equity_usd'' = PFloat (Fin 3)"
    "dget (norm_dict breach_data) ''peak_equity_usd'' = PNone"
    "dget (norm_dict breach_data) ''drawdown_from_peak'' = PFloat (Fin 3)"
    "dget (norm_dict breach_data) ''owner_id'' = PStr ''alpha''" "dget (norm_dict breach_data) ''profile'' = PStr ''core''"
    unfolding get by (simp_all add: breach_data_def)
  have same: "same_keys (norm_dict breach_data)
      [''equity_usd'', ''peak_equity_usd'', ''drawdown_from_peak'', ''owner_id'', ''profile'']"
    unfolding same_keys_def keys by (simp add: breach_data_def keys_def)
  obtain e where e: "default_envelope (PFloat (Fin 3)) (PFloat (Fin 3)) = Inr e"
    "''DRAWDOWN_BRAKE_TRIPPED'' \<in> set (en_reasons e)"
    using breach_envelope by blast
  have "on_breaker_open (norm_dict breach_data) initial_journal
      = Inr (initial_journal\<lparr>jn_circuit_breaker_open := True\<rparr>)"
    unfolding on_breaker_open_def same v by (simp add: optional_number_def q t e same) (simp add: initial_journal_def same)
  then show ?thesis by (simp add: apply_kind_def)
qed

theorem breaker_latches_witness:
  "\<exists>l. record_circuit_breaker_open sample_session sample_env (Some breach_snapshot) sample_live = (Inr (), l)
    \<and> (\<exists>s. journal sample_session sample_env l = Inr s \<and> jn_circuit_breaker_open s)
    \<and> (\<exists>e. fst (reserve (sample_session\<lparr>ss_owner_id := ''beta''\<rparr>) sample_env buy_order True l) = Inl e)"
proof -
  obtain r where r: "evaluate_new_risk_admission (Some breach_snapshot) NoLimits = Inr r" "nr_hard_brake_triggered r"
    by (rule breach_verdict)
  have ok: "json_ok (PDict breach_data)" by (simp add: breach_data_def float_ok_3)
  have local: "\<not> on_cloud (ss_store sample_session)" by (simp add: sample_session_def sample_local)
  obtain path where path: "enter_writer sample_session sample_env sample_live
      = (Inr (path, ''inode''), sample_live\<lparr>lv_writer := Some (path, ''inode'')\<rparr>)"
    using sample_enter [of sample_live] by (auto simp: sample_live_def)
  let ?l = "sample_live\<lparr>lv_writer := Some (path, ''inode'')\<rparr>"
  obtain e where e: "journal_append sample_session sample_env initial_journal ''CIRCUIT_BREAKER_OPEN'' breach_data ?l
      = (Inr e, ?l\<lparr>lv_world := ((), [(sample_place, event_text e)])\<rparr>)"
    using sample_append [OF ok _ _ _ breach_event, of ?l] by (auto simp: sample_live_def)
  have j: "journal sample_session sample_env ?l = Inr initial_journal"
    by (rule sample_journal) (simp add: sample_live_def)
  have rec: "record_circuit_breaker_open sample_session sample_env (Some breach_snapshot) sample_live
      = (Inr (), ?l\<lparr>lv_world := ((), [(sample_place, event_text e)])\<rparr>)"
    by (simp add: record_circuit_breaker_open_def writer_guard_def bind_act_def path r ensure_act breach_facts
        read_journal_def j confirm_writer_def sample_held e) (simp add: initial_journal_def)
  from breaker_latches [OF local rec _ ok, of "sample_session\<lparr>ss_owner_id := ''beta''\<rparr>" sample_env
      "?l\<lparr>lv_world := ((), [(sample_place, event_text e)])\<rparr>" buy_order] breach_facts
  show ?thesis using rec by (auto simp: sample_session_def keeps_files_def)
qed

end
