(* ===== verification/SubmissionRisk.thy ===== *)
theory SubmissionRisk
  imports SubmissionSafety
begin

text \<open>
  The account risk operations of a submission session (\<open>record_account_equity\<close>,
  \<open>reserve_account_risk\<close>, \<open>reconcile_account_risk\<close> and \<open>reserve_reduction\<close> of
  \<open>common/execution_state.py\<close>). Each validates its facts against the journal and appends one event,
  which the handlers of the reduction validate again.
\<close>

section \<open>Shared tests\<close>

text \<open>The journal is bound to the domain of the session, which the broker's identity matches and whose
  policy is active at the decision: an \<open>or\<close> of their negations, evaluated from the left.\<close>

definition domain_verified :: "session \<Rightarrow> journal_state \<Rightarrow> account_domain \<Rightarrow> bool res" where
  "domain_verified sn s dm =
     bind_res (domain_binding_of (domain_value dm) dm) (\<lambda>binding.
     bind_res (if \<not> same_binding s binding then Inr False
       else account_domain_matches_broker_identity (domain_value dm) (ss_broker_identity sn) (ss_observed sn)) (\<lambda>same.
     if same then account_domain_policy_active (domain_value dm) (ss_decision_at sn) else Inr False))"

definition observed_account :: "session \<Rightarrow> string res" where
  "observed_account sn = map_res snd (submission_account (PStr (ss_broker sn)) (ss_observed_account_id sn))"

text \<open>\<open>t1 <= t2 <= ... < t_n\<close> on instants: a chain stops at its first failure.\<close>

fun times_ordered :: "pyval list \<Rightarrow> pyval \<Rightarrow> pyval \<Rightarrow> bool res" where
  "times_ordered [] now until = bind_res (domain_time now) (\<lambda>t. map_res (\<lambda>u. t < u) (domain_time until))"
| "times_ordered (v # vs) now until =
     bind_res (domain_time v) (\<lambda>t. bind_res (domain_time (case vs of [] \<Rightarrow> now | w # _ \<Rightarrow> w)) (\<lambda>u.
       if t \<le> u then times_ordered vs now until else Inr False))"

text \<open>\<open>v / w\<close> of numbers: the quotient of integers is rounded once.\<close>

definition num_quot :: "pyval \<Rightarrow> pyval \<Rightarrow> pyfloat res" where
  "num_quot v w = (case (v, w) of
     (PInt i, PInt j) \<Rightarrow> if j = 0 then Inl (OtherError ''ZeroDivisionError'') else Inr (to_float (of_int i / of_int j))
   | _ \<Rightarrow> bind_res (num_float v) (\<lambda>x. bind_res (num_float w) (\<lambda>y.
       if f_is_zero y then Inl (OtherError ''ZeroDivisionError'') else Inr (f_quot x y))))"

text \<open>\<open>max(0.0, 1.0 - equity / peak)\<close>, and the envelope of the protected equity under it.\<close>

definition protected_envelope :: "pydict \<Rightarrow> envelope res" where
  "protected_envelope observed =
     bind_res (num_quot (dget observed ''equity'') (dget observed ''peak'')) (\<lambda>q.
       default_envelope (dget observed ''protected_equity'') (PFloat (f_max (Fin 0) (f_sub (Fin 1) q))))"

definition not_above_zero :: "pyval \<Rightarrow> bool res" where
  "not_above_zero v = map_res Not (py_lt (PInt 0) v)"

section \<open>Recording the account's equity\<close>

text \<open>\<open>snapshot.get(key, {})\<close>.\<close>

definition get_or_empty :: "pydict \<Rightarrow> string \<Rightarrow> pyval" where
  "get_or_empty d k = (if k \<in> set (keys d) then dget d k else PDict [])"

text \<open>The snapshot is complete, of this account and of the bound domain.\<close>

definition snapshot_of_account :: "session \<Rightarrow> pydict \<Rightarrow> pydict \<Rightarrow> bool res" where
  "snapshot_of_account sn binding snapshot =
     (if \<not> py_eq (dget snapshot ''account_domain_key'') (dget binding ''domain_key'')
        \<or> dget snapshot ''account_id'' \<noteq> PStr (ss_account_id sn)
        \<or> dget snapshot ''open_orders_complete'' \<noteq> PBool True
      then Inr False
      else map_res (\<lambda>_. True) (submission_number (dget snapshot ''pending_3x_exposure'')))"

definition offline_fraction :: pyval where
  "offline_fraction = PFloat (to_float (5 / 1000))"

text \<open>The data of the EQUITY_OBSERVED event, from the journal and the snapshot.\<close>

definition equity_event ::
  "session \<Rightarrow> journal_state \<Rightarrow> pydict \<Rightarrow> pydict \<Rightarrow> pyval \<Rightarrow> pyval \<Rightarrow> pydict res" where
  "equity_event sn s binding snapshot cash_flow baseline_confirmed =
     bind_res (snapshot_of_account sn binding snapshot) (\<lambda>ours.
     require ours (AccountSubmissionError ''snapshot account or pending observation mismatch'')
    (bind_res (available_new_risk_budget snapshot (dget binding ''currency'') (PInt 0) (PInt 0) (PInt 0) offline_fraction) (\<lambda>_.
     bind_res (times_ordered [dget snapshot ''valuation_at'', ss_observed_at sn] (ss_decision_at sn)
         (dget snapshot ''valid_until'')) (\<lambda>current.
     require current (AccountSubmissionError ''equity snapshot is not current at decision time'')
    (bind_res (submission_number (dget snapshot ''equity'')) (\<lambda>equity.
     bind_res (submission_number cash_flow) (\<lambda>flow.
     let previous = jn_equity_observation s in
     require (previous = None \<longrightarrow> baseline_confirmed = PBool True)
       (AccountSubmissionError ''trusted initial equity baseline required'')
    (bind_res (case previous of None \<Rightarrow> Inr True | Some p \<Rightarrow>
         bind_res (domain_time (dget snapshot ''valuation_at'')) (\<lambda>new.
         map_res (\<lambda>old. old < new) (domain_time (dget p ''valuation_at'')))) (\<lambda>later.
     require later (AccountSubmissionError ''invalid or non-monotonic equity observation'')
    (bind_res (expected_peak previous equity flow) (\<lambda>peak.
     bind_res (number_map True ''complete positions and pending observation required'' (dget snapshot ''positions'')) (\<lambda>_.
     require (is_bool (dget snapshot ''open_orders_empty''))
       (AccountSubmissionError ''complete positions and pending observation required'')
    (let covered = get_or_empty snapshot ''covered_fills''; fees = get_or_empty snapshot ''covered_fees'' in
     bind_res (number_map False ''invalid covered attempt ids'' covered) (\<lambda>_.
     bind_res (number_map False ''invalid covered fees'' fees) (\<lambda>_.
     bind_res (submission_number (dget snapshot ''position_3x_exposure'')) (\<lambda>_.
     bind_res (submission_number (dget snapshot ''position_risk'')) (\<lambda>_.
     bind_res (evidence_checked (dict_set snapshot ''account_binding'' (PStr (ss_account sn))) s) (\<lambda>_.
     bind_res (expected_protected previous equity) (\<lambda>protected.
     bind_res (mapM (\<lambda>k. py_float (dget snapshot k)) [''balance'', ''cash'', ''pending_3x_exposure'']) (\<lambda>floats.
     Inr ((if ''pending_order_evidence'' \<in> set (keys snapshot)
           then [(''pending_order_evidence'', dget snapshot ''pending_order_evidence'')] else [])
         @ [(''equity'', PFloat equity), (''cash_flow'', PFloat flow), (''peak'', PFloat peak),
            (''currency'', dget binding ''currency''), (''valuation_at'', dget snapshot ''valuation_at''),
            (''source_digest'', dget snapshot ''source_digest''), (''covered_fills'', covered),
            (''covered_fees'', fees), (''position_risk'', dget snapshot ''position_risk''),
            (''position_3x_exposure'', dget snapshot ''position_3x_exposure''), (''protected_equity'', protected),
            (''balance'', PFloat (floats ! 0)), (''cash'', PFloat (floats ! 1)),
            (''account_domain_key'', dget snapshot ''account_domain_key''),
            (''account_binding'', PStr (ss_account sn)), (''valid_until'', dget snapshot ''valid_until''),
            (''pending_3x_exposure'', PFloat (floats ! 2)), (''open_orders_complete'', PBool True),
            (''positions'', dget snapshot ''positions''),
            (''open_orders_empty'', dget snapshot ''open_orders_empty'')])))))))))))))))))))))"

definition record_account_equity ::
  "session \<Rightarrow> 'w session_env \<Rightarrow> pydict \<Rightarrow> pyval \<Rightarrow> pyval \<Rightarrow> ('w live, pydict) act" where
  "record_account_equity sn env snapshot cash_flow baseline_confirmed l =
     ensure (\<not> lv_failed l) ''session persistence uncertain''
    (bind_act (read_journal sn env) (\<lambda>s. case jn_domain_binding s of
       None \<Rightarrow> refuse ''bound domain required''
     | Some binding \<Rightarrow>
       ensure (ss_domain sn \<noteq> PNone) ''bound domain required''
      (bind_act (lift_res (validate_account_domain (ss_domain sn) (Some (ss_broker sn)))) (\<lambda>dm.
       bind_act (lift_res (domain_verified sn s dm)) (\<lambda>verified.
       ensure verified ''verified domain required''
      (bind_act (lift_res (observed_account sn)) (\<lambda>account.
       ensure (account = ss_account_id sn) ''account domain observation mismatch''
      (bind_act (lift_res (equity_event sn s binding snapshot cash_flow baseline_confirmed)) (\<lambda>data.
       journal_append sn env s ''EQUITY_OBSERVED'' data))))))))) l"

section \<open>Reserving account risk\<close>

text \<open>The keyword arguments of \<open>reserve_account_risk\<close>, besides the order.\<close>

record risk_request =
  rr_snapshot :: pydict
  rr_floor :: pyval
  rr_cost_buffer :: pyval
  rr_amount :: pyval
  rr_risk_fraction :: pyval
  rr_loss_per_unit :: pyval
  rr_estimated_fee :: pyval
  rr_quantity_step :: pyval
  rr_product_leverage_factor :: pyval
  rr_unit_price :: pyval
  rr_existing_3x_exposure :: pyval
  rr_pending_3x_exposure :: pyval
  rr_leverage_hitl_approved :: pyval
  rr_account_budget_policy :: pyval

definition snapshot_fields :: "string list" where
  "snapshot_fields = [''equity'', ''balance'', ''cash'', ''currency'', ''valuation_at'', ''source_digest'',
     ''account_domain_key'', ''valid_until'', ''pending_3x_exposure'', ''open_orders_complete'']"

definition budget_policy_fields :: "string list" where
  "budget_policy_fields = [''preference'', ''version'', ''source'', ''per_trade_fraction'',
     ''total_future_risk_limit'', ''floor'', ''cost_buffer'', ''contract_floor'']"

text \<open>\<open>sum(...)\<close> of floats, from the left.\<close>

definition f_sum :: "pyfloat list \<Rightarrow> pyfloat" where
  "f_sum xs = foldl f_add (Fin 0) xs"

text \<open>The recorded observation the request is made on, and the envelope of the protected equity.\<close>

definition request_envelope :: "journal_state \<Rightarrow> risk_request \<Rightarrow> (pydict \<times> envelope) res" where
  "request_envelope s rq = (case jn_equity_observation s of
     None \<Rightarrow> Inl (AccountSubmissionError ''matching recorded equity snapshot required'')
   | Some observed \<Rightarrow>
     require (list_all (\<lambda>k. py_eq (dget observed k) (dget (rr_snapshot rq) k)) snapshot_fields)
       (AccountSubmissionError ''matching recorded equity snapshot required'')
    (bind_res (not_above_zero (dget observed ''peak'')) (\<lambda>no_peak.
     require (\<not> no_peak) (AccountSubmissionError ''positive protected peak required'')
    (bind_res (protected_envelope observed) (\<lambda>env.
     require (en_new_risk_allowed env) (AccountSubmissionError ''protected drawdown brake prohibits new risk'')
       (Inr (observed, env)))))))"

text \<open>The exposure to the product: known, recorded, and within the cap of the leveraged products.\<close>

definition request_exposure ::
  "journal_state \<Rightarrow> risk_request \<Rightarrow> pydict \<Rightarrow> envelope \<Rightarrow> pyfloat
     \<Rightarrow> (pyfloat \<times> pyfloat \<times> pyfloat \<times> pyfloat) res" where
  "request_exposure s rq observed env quantity =
     bind_res (submission_number (rr_product_leverage_factor rq)) (\<lambda>factor.
     bind_res (submission_number (rr_unit_price rq)) (\<lambda>price.
     bind_res (submission_number (rr_existing_3x_exposure rq)) (\<lambda>existing.
     bind_res (submission_number (rr_pending_3x_exposure rq)) (\<lambda>pending.
     require ((f_eq factor (Fin 1) \<or> f_eq factor (Fin 3)) \<and> f_lt (Fin 0) price
         \<and> py_eq (PFloat existing) (dget observed ''position_3x_exposure''))
       (AccountSubmissionError ''known product exposure and pending exposure required'')
    (bind_res (if f_eq factor (Fin 3) then
         require (lc_new_leverage_requires_hitl (en_leverage_product_cap env)
             \<longrightarrow> rr_leverage_hitl_approved rq = PBool True)
           (AccountSubmissionError ''leverage approval required'')
        (bind_res (num_float (dget observed ''equity'')) (\<lambda>equity.
         require (\<not> f_lt (f_mul (lc_max_3x_etf_weight (en_leverage_product_cap env)) equity)
             (f_add (f_add (f_add existing pending)
               (f_sum (map (\<lambda>(k, r). rs_remaining_3x_exposure r) (jn_risk_reservations s))))
               (f_mul quantity price)))
           (AccountSubmissionError ''product leverage cap exceeded'') (Inr ())))
       else Inr ()) (\<lambda>_.
     Inr (factor, price, existing, pending)))))))"

text \<open>The quantity is within the risk amount, and a multiple of its step.\<close>

definition request_quantity :: "risk_request \<Rightarrow> pyfloat \<Rightarrow> pyfloat \<Rightarrow> unit res" where
  "request_quantity rq quantity amount =
     bind_res (maximum_risk_quantity (PFloat amount) (rr_loss_per_unit rq) (rr_estimated_fee rq) (rr_quantity_step rq)) (\<lambda>most.
     bind_res (fraction_of (PFloat quantity)) (\<lambda>n.
     bind_res (fraction_of (rr_quantity_step rq)) (\<lambda>step.
     let steps = n / step in
     require (\<not> f_lt most quantity \<and> \<bar>steps - of_int (round_half_even steps)\<bar> \<le> 1 / 10 ^ 9)
       (AccountSubmissionError ''quantity exceeds reserved risk or step'') (Inr ()))))"

text \<open>The budget policy the caller states: the domain's, with the caller's own numbers. The result is the
  limit on all future risk.\<close>

definition request_policy :: "account_domain \<Rightarrow> risk_request \<Rightarrow> (pydict \<times> pyfloat) res" where
  "request_policy dm rq = (case rr_account_budget_policy rq of
     PDict policy \<Rightarrow>
       require (same_keys policy budget_policy_fields) (AccountSubmissionError ''explicit account budget policy required'')
      (require (list_all (\<lambda>k. py_eq (dget policy k) (dget (dm_policy dm) k)) [''preference'', ''version'', ''source''])
         (AccountSubmissionError ''account budget policy binding mismatch'')
      (bind_res (submission_number (dget policy ''per_trade_fraction'')) (\<lambda>fraction.
       bind_res (submission_number (dget policy ''total_future_risk_limit'')) (\<lambda>limit.
       bind_res (submission_number (rr_risk_fraction rq)) (\<lambda>risk_fraction.
       bind_res (if \<not> f_eq fraction risk_fraction then Inr False else
           bind_res (submission_number (dget policy ''floor'')) (\<lambda>x.
           bind_res (submission_number (rr_floor rq)) (\<lambda>y.
           if \<not> f_eq x y then Inr False else
             bind_res (submission_number (dget policy ''cost_buffer'')) (\<lambda>x.
             map_res (\<lambda>y. f_eq x y) (submission_number (rr_cost_buffer rq)))))) (\<lambda>same.
       require same (AccountSubmissionError ''account budget policy values mismatch'')
      (bind_res (if dget (dm_policy dm) ''capital_kind'' = PStr ''FTMO_SIMULATED'' then
           bind_res (submission_number (dget policy ''contract_floor'')) (\<lambda>contract_floor.
           bind_res (submission_number (rr_floor rq)) (\<lambda>fl.
           require (f_lt (Fin 0) contract_floor \<and> \<not> f_lt fl contract_floor)
             (AccountSubmissionError ''FTMO confirmed contract floor required'')
          (require (\<not> f_lt (to_float (5 / 1000)) risk_fraction)
             (AccountSubmissionError ''FTMO risk fraction exceeds offline cap'') (Inr ()))))
         else require (dget policy ''contract_floor'' = PNone)
           (AccountSubmissionError ''unexpected contract floor for own account'') (Inr ())) (\<lambda>_.
       Inr (policy, limit)))))))))
   | _ \<Rightarrow> Inl (AccountSubmissionError ''explicit account budget policy required''))"

text \<open>All the risk the journal already carries.\<close>

definition existing_risk :: "journal_state \<Rightarrow> pyfloat" where
  "existing_risk s = f_add (jn_snapshot_position_risk s)
     (f_sum (map (\<lambda>(k, r). rs_remaining_amount r) (jn_risk_reservations s)))"

definition within_budget ::
  "journal_state \<Rightarrow> pydict \<Rightarrow> risk_request \<Rightarrow> pyfloat \<Rightarrow> pyfloat \<Rightarrow> unit res" where
  "within_budget s binding rq amount limit =
     bind_res (available_new_risk_budget (rr_snapshot rq) (dget binding ''currency'') (rr_floor rq)
         (PFloat (existing_risk s)) (rr_cost_buffer rq) (rr_risk_fraction rq)) (\<lambda>budget.
     require (\<not> f_lt budget amount \<and> \<not> f_lt limit (f_add (existing_risk s) amount))
       (AccountSubmissionError ''account risk budget exceeded'') (Inr ()))"

text \<open>The data of the RISK_RESERVED event.\<close>

definition risk_event ::
  "session \<Rightarrow> journal_state \<Rightarrow> account_domain \<Rightarrow> pydict \<Rightarrow> order_intent \<Rightarrow> risk_request \<Rightarrow> pydict res" where
  "risk_event sn s dm binding order rq =
     (let snapshot = rr_snapshot rq in
     bind_res (request_envelope s rq) (\<lambda>(observed, env).
     bind_res (order_digest sn order) (\<lambda>(digest, quantity).
     require (is_bool (rr_leverage_hitl_approved rq)) (AccountSubmissionError ''invalid leverage approval fact'')
    (bind_res (times_ordered [dget observed ''valuation_at'', ss_observed_at sn] (ss_decision_at sn)
         (dget observed ''valid_until'')) (\<lambda>current.
     require current (AccountSubmissionError ''account valuation is stale'')
    (require (dget snapshot ''account_id'' = PStr (ss_account_id sn)
         \<and> py_eq (rr_pending_3x_exposure rq) (dget observed ''pending_3x_exposure''))
       (AccountSubmissionError ''snapshot account or pending exposure mismatch'')
    (bind_res (request_exposure s rq observed env quantity) (\<lambda>(factor, price, existing, pending).
     bind_res (submission_number (rr_amount rq)) (\<lambda>amount.
     bind_res (request_quantity rq quantity amount) (\<lambda>_.
     require (f_lt (Fin 0) amount \<and> map_of (jn_risk_reservations s) digest = None)
       (AccountSubmissionError ''invalid or duplicate account risk reservation'')
    (bind_res (request_policy dm rq) (\<lambda>(policy, limit).
     bind_res (within_budget s binding rq amount limit) (\<lambda>_.
     bind_res (mapM py_float [rr_estimated_fee rq, rr_loss_per_unit rq, rr_quantity_step rq,
         rr_risk_fraction rq, rr_floor rq, rr_cost_buffer rq]) (\<lambda>floats.
     Inr [(''order_sha256'', PStr digest), (''amount'', PFloat amount), (''currency'', dget binding ''currency''),
       (''valuation_at'', dget snapshot ''valuation_at''), (''source_digest'', dget snapshot ''source_digest''),
       (''reserved_3x_exposure'', PFloat (if f_eq factor (Fin 3) then f_mul quantity price else Fin 0)),
       (''quantity'', PFloat quantity), (''estimated_fee'', PFloat (floats ! 0)),
       (''loss_per_unit'', PFloat (floats ! 1)), (''quantity_step'', PFloat (floats ! 2)),
       (''risk_fraction'', PFloat (floats ! 3)), (''product_leverage_factor'', PFloat factor),
       (''unit_price'', PFloat price), (''existing_3x_exposure'', PFloat existing),
       (''pending_3x_exposure'', PFloat pending), (''floor'', PFloat (floats ! 4)),
       (''cost_buffer'', PFloat (floats ! 5)), (''leverage_hitl_approved'', rr_leverage_hitl_approved rq),
       (''account_budget_policy'', PDict policy)]))))))))))))))"

definition reserve_account_risk ::
  "session \<Rightarrow> 'w session_env \<Rightarrow> order_intent \<Rightarrow> risk_request \<Rightarrow> ('w live, pydict) act" where
  "reserve_account_risk sn env order rq l =
     ensure (\<not> lv_failed l \<and> ss_domain sn \<noteq> PNone) ''bound domain and healthy journal required''
    (bind_act (read_journal sn env) (\<lambda>s.
     ensure (\<not> unresolved s) ''unresolved account submission''
    (bind_act (lift_res (validate_account_domain (ss_domain sn) (Some (ss_broker sn)))) (\<lambda>dm. case jn_domain_binding s of
       None \<Rightarrow> refuse ''verified domain must be bound before risk reservation''
     | Some binding \<Rightarrow>
       bind_act (lift_res (domain_verified sn s dm)) (\<lambda>verified.
       ensure verified ''verified domain must be bound before risk reservation''
      (bind_act (lift_res (observed_account sn)) (\<lambda>account.
       ensure (account = ss_account_id sn) ''account domain observation mismatch''
      (bind_act (lift_res (risk_event sn s dm binding order rq)) (\<lambda>data.
       journal_append sn env s ''RISK_RESERVED'' data))))))))) l"

section \<open>Reconciling account risk\<close>

definition reconcile_account_risk ::
  "session \<Rightarrow> 'w session_env \<Rightarrow> string \<Rightarrow> pyval \<Rightarrow> pyval \<Rightarrow> pyval \<Rightarrow> pyval \<Rightarrow> ('w live, pydict) act" where
  "reconcile_account_risk sn env attempt_id filled_quantity actual_fee snapshot_position_risk source_digest l =
     ensure (\<not> lv_failed l) ''session persistence uncertain''
    (bind_act (read_journal sn env) (\<lambda>s.
     ensure (ss_domain sn \<noteq> PNone) ''verified domain required''
    (bind_act (lift_res (validate_account_domain (ss_domain sn) (Some (ss_broker sn)))) (\<lambda>dm.
     bind_act (lift_res (observed_account sn)) (\<lambda>account.
     bind_act (lift_res (if account \<noteq> ss_account_id sn then Inr False else domain_verified sn s dm)) (\<lambda>verified.
     ensure verified ''verified domain required''
    (case map_of (jn_attempts s) attempt_id of None \<Rightarrow> refuse ''known broker observation required''
     | Some a \<Rightarrow> ensure (at_certainty a \<in> {TERMINAL, KNOWN_PENDING}) ''known broker observation required''
    (bind_act (lift_res (submission_number filled_quantity)) (\<lambda>filled.
     bind_act (lift_res (submission_number actual_fee)) (\<lambda>fee.
     bind_act (lift_res (submission_number snapshot_position_risk)) (\<lambda>position_risk.
     bind_act (lift_res (case (map_of (jn_risk_reservations s) (text_of (at_data a) ''order_sha256''),
           jn_equity_observation s) of
         (Some r, Some observation) \<Rightarrow>
           if \<not> py_eq source_digest (dget observation ''source_digest'') then Inr False
           else reconciliation_facts observation (PStr attempt_id) a r filled fee position_risk
       | _ \<Rightarrow> Inr False)) (\<lambda>match.
     ensure match ''risk reconciliation facts mismatch''
       (journal_append sn env s ''RISK_RECONCILED''
         [(''attempt_id'', PStr attempt_id), (''filled_quantity'', filled_quantity), (''actual_fee'', actual_fee),
          (''snapshot_position_risk'', snapshot_position_risk), (''source_digest'', source_digest)]))))))))))))) l"

section \<open>Reserving a reduction\<close>

text \<open>The observation is complete, without open orders, bound, verified and current.\<close>

definition reduction_observation :: "session \<Rightarrow> journal_state \<Rightarrow> account_domain \<Rightarrow> string \<Rightarrow> pydict option res" where
  "reduction_observation sn s dm account = (case jn_equity_observation s of
     None \<Rightarrow> Inr None
   | Some observed \<Rightarrow>
     if account \<noteq> ss_account_id sn \<or> \<not> truthy (dget observed ''open_orders_complete'')
       \<or> \<not> truthy (dget observed ''open_orders_empty'') then Inr None
     else bind_res (domain_verified sn s dm) (\<lambda>verified.
       if \<not> verified then Inr None
       else map_res (\<lambda>current. if current then Some observed else None)
         (times_ordered [dget observed ''valuation_at''] (ss_decision_at sn) (dget observed ''valid_until''))))"

text \<open>The drawdown brake is tripped on the recorded equity.\<close>

definition brake_verified :: "pydict \<Rightarrow> bool res" where
  "brake_verified observed =
     bind_res (not_above_zero (dget observed ''peak'')) (\<lambda>no_peak.
     if no_peak then Inr False
     else map_res (\<lambda>env. ''DRAWDOWN_BRAKE_TRIPPED'' \<in> set (en_reasons env)) (protected_envelope observed))"

text \<open>Every filled attempt is covered by the observation, and by a newer one than it was made on.\<close>

definition fill_covered :: "pydict \<Rightarrow> string \<times> attempt \<Rightarrow> bool res" where
  "fill_covered observed p = (case p of (i, a) \<Rightarrow>
     if f_le (at_filled_quantity a) (Fin 0) then Inr True
     else (case at_prepared_snapshot a of None \<Rightarrow> Inr False
       | Some source \<Rightarrow>
         if \<not> py_eq (covered_by observed ''covered_fills'' (PStr i)) (PFloat (at_filled_quantity a))
           \<or> \<not> (case dget observed ''covered_fees'' of PDict d \<Rightarrow> i \<in> set (keys d) | _ \<Rightarrow> False)
           \<or> py_eq (dget observed ''source_digest'') (dget source ''source_digest'') then Inr False
         else bind_res (domain_time (dget observed ''valuation_at'')) (\<lambda>new.
           map_res (\<lambda>old. old < new) (domain_time (dget source ''valuation_at'')))))"

definition fills_covered :: "pydict \<Rightarrow> (string \<times> attempt) list \<Rightarrow> unit res" where
  "fills_covered observed attempts = map_res (\<lambda>_. ()) (mapM (\<lambda>p. bind_res (fill_covered observed p) (\<lambda>covered.
     require covered (AccountSubmissionError ''filled submission requires a newer covering snapshot'') (Inr ()))) attempts)"

definition observed_position :: "pydict \<Rightarrow> string \<Rightarrow> pyval" where
  "observed_position observed symbol = (case dget observed ''positions'' of PDict d \<Rightarrow> dget d symbol | _ \<Rightarrow> PNone)"

text \<open>All that is asked of a reduction once its observation is verified.\<close>

definition reduction_allowed :: "session \<Rightarrow> journal_state \<Rightarrow> pydict \<Rightarrow> order_intent \<Rightarrow> (string \<times> pyfloat) res" where
  "reduction_allowed sn s observed order =
     bind_res (brake_verified observed) (\<lambda>braked.
     require braked (AccountSubmissionError ''independent drawdown brake not verified'')
    (bind_res (order_digest sn order) (\<lambda>(digest, quantity).
     let symbol = upper (strip (py_str (oi_symbol order))); side = lower (strip (py_str (oi_side order))) in
     bind_res (is_proven_risk_reducing_order (observed_position observed symbol) side (PFloat quantity) (PInt 0)) (\<lambda>proven.
     require proven (AccountSubmissionError ''order reduction not proven'')
    (require (\<forall>(i, a) \<in> set (jn_attempts s). at_certainty a = TERMINAL)
       (AccountSubmissionError ''unresolved account submission'')
    (bind_res (fills_covered observed (jn_attempts s)) (\<lambda>_.
     require (\<not> already_attempted s (PStr (ss_intent_id sn)) (PStr digest))
       (AccountSubmissionError ''same intent/order already reserved'') (Inr (digest, quantity)))))))))"

definition reduction_data :: "session \<Rightarrow> string \<times> string \<Rightarrow> string \<Rightarrow> pyfloat \<Rightarrow> pyval \<Rightarrow> pydict" where
  "reduction_data sn fresh digest quantity source = prepared_data sn fresh digest quantity False
     @ [(''reduction'', PBool True), (''reduction_source_digest'', source)]"

text \<open>\<open>admission\<close> is None where it is no \<open>NewRiskAdmissionResult\<close>.\<close>

definition reserve_reduction ::
  "session \<Rightarrow> 'w session_env \<Rightarrow> order_intent \<Rightarrow> new_risk_result option \<Rightarrow> ('w live, grant) act" where
  "reserve_reduction sn env order admission l =
     ensure (\<not> lv_failed l \<and> ss_domain sn \<noteq> PNone
         \<and> (case admission of None \<Rightarrow> False | Some r \<Rightarrow> nr_hard_brake_triggered r)) ''verified account brake required''
    (bind_act (read_journal sn env) (\<lambda>s.
     bind_act (lift_res (validate_account_domain (ss_domain sn) (Some (ss_broker sn)))) (\<lambda>dm.
     bind_act (lift_res (observed_account sn)) (\<lambda>account.
     bind_act (lift_res (reduction_observation sn s dm account)) (\<lambda>found. case found of
       None \<Rightarrow> refuse ''complete verified reduction observation required''
     | Some observed \<Rightarrow>
       bind_act (lift_res (reduction_allowed sn s observed order)) (\<lambda>(digest, quantity) l.
         let fresh = ev_fresh env (lv_world l) in
         bind_act (journal_append sn env s ''PREPARED''
             (reduction_data sn fresh digest quantity (dget observed ''source_digest'')))
           (issue_grant sn fresh digest (Suc (jn_generation s))) l)))))) l"

end
