(* ===== verification/SubmissionAcceptance.thy ===== *)
theory SubmissionAcceptance
  imports SubmissionRisk
begin

text \<open>
  What a session writes, the reduction of the journal accepts: an event that a session appends does
  not leave a journal that no longer reads. In particular whatever a broker reports can be recorded.
\<close>

section \<open>What is read back\<close>

lemma dget_norm_dict: "json_ok (PDict d) \<Longrightarrow> dget (norm_dict d) k = json_norm (dget d k)"
  by (simp add: norm_dict_def dget_norm_sorted)

lemma keys_norm_dict: "set (keys (norm_dict d)) = set (keys d)"
  unfolding norm_dict_def keys_norm_sorted by (rule refl)

lemma same_keys_norm [simp]: "same_keys (norm_dict d) names = same_keys d names"
  by (simp add: same_keys_def keys_norm_dict)

text \<open>Numbers and texts are read back as they are.\<close>

lemma json_norm_number: "submission_number v = Inr x \<Longrightarrow> json_norm v = v"
  by (cases v) (auto simp: submission_number_def py_float_def reraise_type_value_def res_simps)

lemma json_norm_optional: "optional_number v = Inr x \<Longrightarrow> json_norm v = v"
  by (auto simp: optional_number_def res_simps dest: json_norm_number split: if_splits)

section \<open>A broker's report\<close>

lemma certainty_of_cong:
  assumes "dget d ''status'' = dget e ''status''" "dget d ''broker_order_id'' = dget e ''broker_order_id''"
    and "dget d ''filled_quantity'' = dget e ''filled_quantity''"
    and "dget d ''average_fill_price'' = dget e ''average_fill_price''"
  shows "certainty_of d q = certainty_of e q"
  unfolding certainty_of_def assms by (rule refl)

text \<open>An identifier that is absent or a text.\<close>

definition id_ok :: "pyval \<Rightarrow> bool" where
  "id_ok v \<longleftrightarrow> v = PNone \<or> (\<exists>x. v = PStr x \<and> identity_text x)"

lemma id_ok_checked: "id_ok v \<Longrightarrow> \<exists>x. (if v = PNone then Inr [] else submission_text v) = Inr x"
  by (auto simp: id_ok_def submission_text_Inr)

lemma id_ok_eq: "id_ok v \<Longrightarrow> id_ok w \<Longrightarrow> py_eq v w \<longleftrightarrow> v = w"
  by (auto simp: id_ok_def)

lemma observed_fill_facts:
  "observed_fill (PDict ob) = Inr (ob, filled) \<longleftrightarrow>
     same_keys ob observation_fields \<and> is_text (dget ob ''status'') \<and> id_ok (dget ob ''broker_order_id'')
     \<and> submission_number (dget ob ''filled_quantity'') = Inr filled
     \<and> (\<exists>p. optional_number (dget ob ''average_fill_price'') = Inr p)"
  by (auto simp: observed_fill_def res_simps id_ok_def)

text \<open>The earlier identifier and price, with their defaults.\<close>

lemma prior_facts:
  assumes "attempt_ok a"
  shows "id_ok (prior_field a ''broker_order_id'')" "\<exists>p. optional_number (prior_field a ''average_fill_price'') = Inr p"
  using assms by (auto simp: attempt_ok_def prior_field_def observed_fill_facts id_ok_def optional_number_def
      split: option.splits)

text \<open>The facts that are recorded, consistent with what was recorded before.\<close>

lemma report_facts_shape:
  assumes "report_facts a report = Inr (f, invalid)" "attempt_ok a" "dget (at_data a) ''quantity'' = PFloat q"
  obtains st oid filled price where "f = [(''status'', PStr st), (''broker_order_id'', oid),
      (''filled_quantity'', PFloat filled), (''average_fill_price'', price)]"
    "id_ok oid" "f_isfinite filled" "\<not> f_lt filled (Fin 0)" "\<exists>p. optional_number price = Inr p"
    "\<not> f_lt filled (at_filled_quantity a)" "\<not> f_lt q filled"
    "truthy (prior_field a ''broker_order_id'') \<Longrightarrow> oid = prior_field a ''broker_order_id''"
    "invalid \<Longrightarrow> st = ''Unknown''"
proof -
  note prior = prior_facts [OF assms(2)]
  have self: "\<not> f_lt (at_filled_quantity a) (at_filled_quantity a)"
    using assms(2) f_le_refl [OF f_isfinite_not_NaN] by (auto simp: attempt_ok_def f_lt_def)
  have q: "\<not> f_lt q (Fin 0)" "f_isfinite q" using assms(2, 3) by (auto simp: attempt_ok_def)
  have fin: "f_isfinite (at_filled_quantity a)" using assms(2) by (simp add: attempt_ok_def)
  have pos: "\<not> f_lt (at_filled_quantity a) (Fin 0)" "\<not> f_lt q (at_filled_quantity a)"
    using assms(2, 3) q by (auto simp: attempt_ok_def observed_fill_facts py_lt_def f_lt_def dest: submission_number_finite
        split: option.splits)
  let ?oid = "strip (str_or_empty (br_broker_order_id report))"
  define checked where "checked =
      bind_res (submission_number (py_or (br_filled_quantity report) (PFloat (Fin 0)))) (\<lambda>filled.
           bind_res (optional_number (br_average_fill_price report)) (\<lambda>price.
           bind_res (if f_lt filled (at_filled_quantity a) then Inr True
               else py_lt (dget (at_data a) ''quantity'') (PFloat filled)) (\<lambda>wrong.
           require (\<not> wrong) (AccountSubmissionError ''non-monotonic fill'')
          (bind_res (if ?oid = [] then Inr [] else submission_text (PStr ?oid)) (\<lambda>_.
           require (truthy (prior_field a ''broker_order_id'') \<longrightarrow>
               py_eq (if ?oid = [] then PNone else PStr ?oid) (prior_field a ''broker_order_id''))
             (AccountSubmissionError ''broker order identity changed'') (Inr (filled, price)))))))"
  define make where "make = (\<lambda>st oid filled price. [(''status'', PStr st), (''broker_order_id'', oid),
            (''filled_quantity'', PFloat filled), (''average_fill_price'', price)])"
  have r: "report_facts a report = (case checked of
        Inr (filled, price) \<Rightarrow> Inr (make (strip (str_or_empty (br_status report)))
            (if ?oid = [] then PNone else PStr ?oid) filled (case price of None \<Rightarrow> PNone | Some x \<Rightarrow> PFloat x), False)
      | Inl (AccountSubmissionError _) \<Rightarrow>
          Inr (make ''Unknown'' (prior_field a ''broker_order_id'') (at_filled_quantity a) (prior_field a ''average_fill_price''), True)
      | Inl e \<Rightarrow> Inl e)"
    unfolding report_facts_def Let_def checked_def make_def by (rule refl)
  show thesis
  proof (cases checked)
    case (Inl e)
    then have "f = make ''Unknown'' (prior_field a ''broker_order_id'') (at_filled_quantity a) (prior_field a ''average_fill_price'')"
      using assms(1) r by (auto split: py_exc.splits)
    then show thesis
      using that [of "''Unknown''" "prior_field a ''broker_order_id''"] prior fin pos self by (auto simp: make_def)
  next
    case (Inr v)
    obtain filled price where v: "v = (filled, price)" by (cases v)
    have c: "submission_number (py_or (br_filled_quantity report) (PFloat (Fin 0))) = Inr filled"
      "optional_number (br_average_fill_price report) = Inr price"
      "\<not> f_lt filled (at_filled_quantity a)" "\<not> f_lt q filled"
      "?oid = [] \<or> identity_text ?oid"
      "truthy (prior_field a ''broker_order_id'') \<longrightarrow>
         py_eq (if ?oid = [] then PNone else PStr ?oid) (prior_field a ''broker_order_id'')"
      using Inr unfolding checked_def v
      by (auto simp: res_simps assms(3) py_lt_def submission_text_Inr split: if_splits)
    have oid: "id_ok (if ?oid = [] then PNone else PStr ?oid)" using c(5) by (auto simp: id_ok_def)
    have price: "\<exists>p. optional_number (case price of None \<Rightarrow> PNone | Some x \<Rightarrow> PFloat x) = Inr p"
      using c(2) by (auto simp: optional_number_def res_simps dest!: submission_number_finite simp: f_lt_def f_finite_not_lt
          split: option.splits if_splits)
    have pos': "f_isfinite filled" "\<not> f_lt filled (Fin 0)"
      using submission_number_finite [OF c(1)] by (auto simp: f_lt_def)
    have f: "f = make (strip (str_or_empty (br_status report))) (if ?oid = [] then PNone else PStr ?oid) filled
        (case price of None \<Rightarrow> PNone | Some x \<Rightarrow> PFloat x)" "\<not> invalid"
      using assms(1) r Inr v by auto
    show thesis
      using that [OF f(1) [unfolded make_def] oid pos' price c(3, 4)] c(6) f(2) id_ok_eq [OF oid prior(1)] by blast
  qed
qed

text \<open>The event of an observation.\<close>

definition observed_data :: "string \<Rightarrow> pydict \<Rightarrow> attempt \<Rightarrow> pyval \<Rightarrow> pydict" where
  "observed_data i ob a recorded_at = [(''attempt_id'', PStr i), (''observation'', PDict ob)]
     @ (if usable_watermark a recorded_at then [(''recorded_at'', recorded_at)] else [])"

lemma usable_watermark_text: "usable_watermark a t \<Longrightarrow> \<exists>x. t = PStr x"
  by (cases t) (auto simp: usable_watermark_def watermark_checked_def domain_time_def res_simps)

lemma unknown_status: "dget ob ''status'' = PStr ''Unknown'' \<Longrightarrow> certainty_of ob q = Inr c \<Longrightarrow> c = UNKNOWN"
  by (auto simp: certainty_of_def Let_def res_simps submission_ack_def submission_partial_def split: if_splits)

lemma report_observation_facts:
  assumes "report_observation a report = Inr (ob, invalid)" "attempt_ok a" "dget (at_data a) ''quantity'' = PFloat q"
    "json_ok (PDict ob)" "at_certainty a \<notin> {UNKNOWN, TERMINAL}"
  obtains filled c where "observed_fill (PDict (norm_dict ob)) = Inr (norm_dict ob, filled)"
    "certainty_of (norm_dict ob) (PFloat q) = Inr c" "may_observe a (norm_dict ob) filled c = Inr True"
    "c \<noteq> PREPARED" "invalid \<longrightarrow> c = UNKNOWN"
proof -
  obtain f c where f: "report_facts a report = Inr (f, invalid)" "certainty_of f (PFloat q) = Inr c"
    "ob = f @ [(''certainty'', PStr (certainty_text c))]"
    using assms(1, 3) by (auto simp: report_observation_def res_simps)
  obtain st oid filled price where sh: "f = [(''status'', PStr st), (''broker_order_id'', oid),
      (''filled_quantity'', PFloat filled), (''average_fill_price'', price)]"
    "id_ok oid" "f_isfinite filled" "\<not> f_lt filled (Fin 0)" "\<exists>p. optional_number price = Inr p"
    "\<not> f_lt filled (at_filled_quantity a)" "\<not> f_lt q filled"
    "truthy (prior_field a ''broker_order_id'') \<Longrightarrow> oid = prior_field a ''broker_order_id''"
    "invalid \<Longrightarrow> st = ''Unknown''"
    using report_facts_shape [OF f(1) assms(2, 3)] by blast
  have norm: "json_norm oid = oid" "json_norm price = price"
    using sh(2, 5) json_norm_optional by (auto simp: id_ok_def)
  note get = dget_norm_dict [OF assms(4)]
  have o': "dget (norm_dict ob) ''status'' = PStr st" "dget (norm_dict ob) ''broker_order_id'' = oid"
    "dget (norm_dict ob) ''filled_quantity'' = PFloat filled" "dget (norm_dict ob) ''average_fill_price'' = price"
    "dget (norm_dict ob) ''certainty'' = PStr (certainty_text c)"
    unfolding get by (simp_all add: f(3) sh(1) norm)
  have keys: "same_keys (norm_dict ob) observation_fields"
    unfolding same_keys_norm by (simp add: f(3) sh(1) same_keys_def keys_def observation_fields_def)
  have fill: "observed_fill (PDict (norm_dict ob)) = Inr (norm_dict ob, filled)"
    using sh(2-5) keys unfolding observed_fill_facts o' by simp
  have "certainty_of (norm_dict ob) (PFloat q) = certainty_of f (PFloat q)"
    by (rule certainty_of_cong) (simp_all add: o' sh(1))
  then have cert: "certainty_of (norm_dict ob) (PFloat q) = Inr c" using f(2) by simp
  have may: "may_observe a (norm_dict ob) filled c = Inr True"
    using sh(2, 6, 7, 8) assms(3, 5) prior_facts(1) [OF assms(2)]
    by (auto simp: may_observe_True o' py_lt_def prior_field_def id_ok_def split: option.splits)
  have "c \<noteq> PREPARED" using f(2) certainty_not_prepared by auto
  moreover have "invalid \<longrightarrow> c = UNKNOWN" using sh(9) unknown_status [OF _ cert] by (simp add: o')
  ultimately show thesis using that fill cert may by blast
qed

lemma observed_data_norm:
  assumes "json_ok (PDict ob)"
  shows "dget (norm_dict (observed_data i ob a t)) ''attempt_id'' = PStr i"
    and "dget (norm_dict (observed_data i ob a t)) ''observation'' = PDict (norm_dict ob)"
    and "watermark_checked a (dget (norm_dict (observed_data i ob a t)) ''recorded_at'') = Inr ()"
    and "same_keys (norm_dict (observed_data i ob a t)) [''attempt_id'', ''observation'']
      \<or> same_keys (norm_dict (observed_data i ob a t)) [''attempt_id'', ''observation'', ''recorded_at'']"
proof -
  have data_ok: "json_ok (PDict (observed_data i ob a t))"
    using assms usable_watermark_text [of a t] by (cases "usable_watermark a t") (auto simp: observed_data_def)
  show "dget (norm_dict (observed_data i ob a t)) ''attempt_id'' = PStr i"
    and "dget (norm_dict (observed_data i ob a t)) ''observation'' = PDict (norm_dict ob)"
    and "watermark_checked a (dget (norm_dict (observed_data i ob a t)) ''recorded_at'') = Inr ()"
    unfolding dget_norm_dict [OF data_ok] using usable_watermark_text [of a t]
    by (auto simp: observed_data_def json_norm_PDict usable_watermark_def watermark_checked_def simp del: json_norm.simps(3))
  show "same_keys (norm_dict (observed_data i ob a t)) [''attempt_id'', ''observation'']
      \<or> same_keys (norm_dict (observed_data i ob a t)) [''attempt_id'', ''observation'', ''recorded_at'']"
    unfolding same_keys_norm
    by (cases "usable_watermark a t") (simp_all add: observed_data_def same_keys_def keys_def)
qed


definition filled_report :: broker_report where
  "filled_report = \<lparr>br_status = PStr ''Filled'', br_broker_order_id = PStr ''B1'',
     br_filled_quantity = PFloat (Fin 3), br_average_fill_price = PFloat (Fin 3)\<rparr>"

definition filled_facts :: pydict where
  "filled_facts = [(''status'', PStr ''Filled''), (''broker_order_id'', PStr ''B1''),
     (''filled_quantity'', PFloat (Fin 3)), (''average_fill_price'', PFloat (Fin 3)), (''certainty'', PStr ''TERMINAL'')]"

lemma filled_observation:
  assumes "dget (at_data a) ''quantity'' = PFloat (Fin 3)" "at_filled_quantity a = Fin 0" "at_observation a = None"
  shows "report_observation a filled_report = Inr (filled_facts, False)"
proof -
  have q: "submission_number (PFloat (Fin 3)) = Inr (Fin 3)" by (simp add: f_lt_def)
  have t: "strip ''Filled'' = ''Filled''" "strip ''B1'' = ''B1''"
    "submission_text (PStr ''B1'') = Inr ''B1''" "py_or (PFloat (Fin 3)) (PFloat (Fin 0)) = PFloat (Fin 3)"
    by code_simp+
  have "report_facts a filled_report = Inr ([(''status'', PStr ''Filled''), (''broker_order_id'', PStr ''B1''),
     (''filled_quantity'', PFloat (Fin 3)), (''average_fill_price'', PFloat (Fin 3))], False)"
    using assms by (simp add: report_facts_def Let_def filled_report_def t q optional_number_def prior_field_def py_lt_def f_lt_def)
  moreover have "certainty_of [(''status'', PStr ''Filled''), (''broker_order_id'', PStr ''B1''),
     (''filled_quantity'', PFloat (Fin 3)), (''average_fill_price'', PFloat (Fin 3))] (PFloat (Fin 3)) = Inr TERMINAL"
    by (simp add: certainty_of_def Let_def py_lt_def f_lt_def f_eq_def exact_eq_def)
  ultimately show ?thesis by (simp add: report_observation_def assms(1) filled_facts_def)
qed


end
