(* ===== verification/RiskAcceptance.thy ===== *)
theory RiskAcceptance
  imports SubmissionAcceptance
begin

text \<open>
  A reservation of account risk: it stays within every limit of the account, and the reduction of the
  journal accepts it. A reduction is granted under a tripped brake only.
\<close>

section \<open>Numbers\<close>

lemma submission_number_py_float: "submission_number v = Inr x \<Longrightarrow> py_float v = Inr x"
  by (auto simp: submission_number_def res_simps split: if_splits)

lemma submission_PFloat: "f_isfinite x \<Longrightarrow> f_le (Fin 0) x \<Longrightarrow> submission_number (PFloat x) = Inr x"
  by (auto simp: f_lt_def)

lemma submission_number_again: "submission_number v = Inr x \<Longrightarrow> submission_number (PFloat x) = Inr x"
  using submission_number_finite [of v x] by (intro submission_PFloat) simp_all

lemma finite_numbers_Some:
  "finite_numbers vs = Inr (Some xs) \<Longrightarrow> list_all2 (\<lambda>v x. py_float v = Inr x \<and> f_isfinite x) vs xs"
proof (induction vs arbitrary: xs)
  case (Cons v vs)
  then obtain x ys where "invalid_number (\<lambda>_. False) v = Inr False" "py_float v = Inr x"
    "finite_numbers vs = Inr (Some ys)" "xs = x # ys"
    by (auto simp: finite_numbers_def res_simps split: if_splits)
  moreover from this have "f_isfinite x" using number_of_py_float by (fastforce simp: invalid_number_False)
  ultimately show ?case using Cons.IH by simp
qed (simp add: finite_numbers_def)

text \<open>A quantity that the risk amount allows.\<close>

lemma maximum_risk_quantity_positive:
  assumes "maximum_risk_quantity (PFloat amount) loss fee step = Inr most" "f_lt (Fin 0) quantity" "\<not> f_lt most quantity"
  obtains l f t where "py_float loss = Inr l" "py_float fee = Inr f" "py_float step = Inr t"
    "submission_number (PFloat l) = Inr l" "submission_number (PFloat f) = Inr f" "submission_number (PFloat t) = Inr t"
    "f_le f amount"
proof -
  obtain xs where xs: "finite_numbers [PFloat amount, loss, fee, step] = Inr (Some xs)"
    using assms(1) unfolding maximum_risk_quantity_def by (auto simp: res_simps split: option.splits)
  then obtain b l f t where n: "finite_numbers [PFloat amount, loss, fee, step] = Inr (Some [b, l, f, t])"
    using finite_numbers_Some [OF xs] by (auto simp: list_all2_Cons1)
  then have c: "\<not> (f_lt b (Fin 0) \<or> f_lt f (Fin 0) \<or> f_le l (Fin 0) \<or> f_le t (Fin 0))"
    and le: "f_le b f \<longrightarrow> most = Fin 0"
    using assms(1) unfolding maximum_risk_quantity_def by (auto simp: res_simps split: if_splits)
  from finite_numbers_Some [OF n] have x: "b = amount" "py_float loss = Inr l" "py_float fee = Inr f"
    "py_float step = Inr t" "f_isfinite b" "f_isfinite l" "f_isfinite f" "f_isfinite t"
    by auto
  have "\<not> f_le b f" using le assms(2, 3) by auto
  then have "f_le f amount" 
    using f_le_linear [OF f_isfinite_not_NaN f_isfinite_not_NaN, of f b] x by blast
  moreover have "f_le (Fin 0) l" "f_le (Fin 0) f" "f_le (Fin 0) t"
    using c x(6-8) f_finite_not_lt [of l "Fin 0"] f_finite_not_lt [of f "Fin 0"] f_finite_not_lt [of t "Fin 0"]
    by (auto simp: f_lt_def f_finite_le)
  ultimately show thesis using that x submission_PFloat by blast
qed

section \<open>Texts\<close>

lemma fingerprint_identity:
  assumes "fingerprint_text s"
  shows "identity_text s"
proof -
  have l: "length ''sha256:'' = 7" by simp
  have "take 7 s = ''sha256:''" and h: "is_sha256_hex (drop 7 s)"
    using assms unfolding fingerprint_text_def starts_with_def l by simp_all
  then have s: "s = ''sha256:'' @ drop 7 s" using append_take_drop_id [of 7 s] by metis
  have c: "32 \<le> ord c \<and> ord c \<le> 126 \<and> \<not> is_space c" if "c \<in> set s" for c
  proof -
    have "c \<in> set ''sha256:'' \<union> set (drop 7 s)" using that s set_append by metis
    then have "c \<in> set ''sha256:'' \<or> is_hex_lower c" using h by (auto simp: is_sha256_hex_def list_all_iff)
    then show ?thesis by (auto simp: is_hex_lower_def is_digit_def is_space_def)
  qed
  have "trimmed s" by (rule trimmed_all) (use c in blast)
  moreover have "length s = 7 + length (drop 7 s)" using s l length_append by metis
  then have "length s = 71" using h by (simp add: is_sha256_hex_def)
  then have "length s \<le> 256" "s \<noteq> []" by auto
  ultimately show ?thesis using c by (simp add: identity_text_def list_all_iff)
qed

section \<open>Reserving account risk\<close>

text \<open>What the request's policy says.\<close>

lemma request_policy_Inr:
  assumes "request_policy dm rq = Inr (policy, limit)"
  obtains fraction fl costs where "rr_account_budget_policy rq = PDict policy"
    "submission_number (dget policy ''total_future_risk_limit'') = Inr limit"
    "submission_number (rr_risk_fraction rq) = Inr fraction" "submission_number (rr_floor rq) = Inr fl"
    "submission_number (rr_cost_buffer rq) = Inr costs"
proof -
  obtain p where p: "rr_account_budget_policy rq = PDict p"
    using assms by (auto simp: request_policy_def split: pyval.splits)
  from assms obtain fraction x y where "p = policy" "submission_number (dget policy ''total_future_risk_limit'') = Inr limit"
    "submission_number (rr_risk_fraction rq) = Inr fraction" "submission_number (rr_floor rq) = Inr x"
    "submission_number (rr_cost_buffer rq) = Inr y"
    unfolding request_policy_def p pyval.case handler_iffs by (auto simp: handler_iffs split: if_splits)
  then show thesis using that p by blast
qed

text \<open>The parts of a successful reservation.\<close>

lemma risk_event_Inr:
  assumes "risk_event sn s dm binding order rq = Inr data"
  obtains observed env digest quantity factor price existing pending amount policy limit floats u v where
    "request_envelope s rq = Inr (observed, env)" "order_digest sn order = Inr (digest, quantity)"
    "is_bool (rr_leverage_hitl_approved rq)"
    "request_exposure s rq observed env quantity = Inr (factor, price, existing, pending)"
    "submission_number (rr_amount rq) = Inr amount" "request_quantity rq quantity amount = Inr u"
    "f_lt (Fin 0) amount" "map_of (jn_risk_reservations s) digest = None"
    "request_policy dm rq = Inr (policy, limit)" "within_budget s binding rq amount limit = Inr v"
    "mapM py_float [rr_estimated_fee rq, rr_loss_per_unit rq, rr_quantity_step rq,
         rr_risk_fraction rq, rr_floor rq, rr_cost_buffer rq] = Inr floats"
    "data = [(''order_sha256'', PStr digest), (''amount'', PFloat amount), (''currency'', dget binding ''currency''),
       (''valuation_at'', dget (rr_snapshot rq) ''valuation_at''),
       (''source_digest'', dget (rr_snapshot rq) ''source_digest''),
       (''reserved_3x_exposure'', PFloat (if f_eq factor (Fin 3) then f_mul quantity price else Fin 0)),
       (''quantity'', PFloat quantity), (''estimated_fee'', PFloat (floats ! 0)),
       (''loss_per_unit'', PFloat (floats ! 1)), (''quantity_step'', PFloat (floats ! 2)),
       (''risk_fraction'', PFloat (floats ! 3)), (''product_leverage_factor'', PFloat factor),
       (''unit_price'', PFloat price), (''existing_3x_exposure'', PFloat existing),
       (''pending_3x_exposure'', PFloat pending), (''floor'', PFloat (floats ! 4)),
       (''cost_buffer'', PFloat (floats ! 5)), (''leverage_hitl_approved'', rr_leverage_hitl_approved rq),
       (''account_budget_policy'', PDict policy)]"
  using assms unfolding risk_event_def Let_def handler_iffs split_paired_Ex prod.case by blast

lemma order_digest_Inr:
  assumes "order_digest sn order = Inr (digest, quantity)"
  shows "is_sha256_hex digest" "submission_number (PFloat quantity) = Inr quantity" "f_lt (Fin 0) quantity"
proof -
  obtain d where d: "binding_digest d = Inr digest" and q: "submission_number (oi_quantity order) = Inr quantity"
    "f_lt (Fin 0) quantity"
    using assms unfolding order_digest_def handler_iffs split_paired_Ex prod.case by blast
  show "is_sha256_hex digest" using d by (auto simp: binding_digest_def split: sum.splits if_splits)
  show "submission_number (PFloat quantity) = Inr quantity" "f_lt (Fin 0) quantity"
    using q submission_number_again by blast+
qed

lemma request_quantity_Inr:
  assumes "request_quantity rq quantity amount = Inr u"
  obtains most where "maximum_risk_quantity (PFloat amount) (rr_loss_per_unit rq) (rr_estimated_fee rq) (rr_quantity_step rq) = Inr most"
    "\<not> f_lt most quantity"
  using assms unfolding request_quantity_def Let_def handler_iffs by blast

lemma within_budget_Inr:
  assumes "within_budget s binding rq amount limit = Inr u"
  obtains budget where "available_new_risk_budget (rr_snapshot rq) (dget binding ''currency'') (rr_floor rq)
      (PFloat (existing_risk s)) (rr_cost_buffer rq) (rr_risk_fraction rq) = Inr budget"
    "\<not> f_lt budget amount" "\<not> f_lt limit (f_add (existing_risk s) amount)"
    "source_digest_text (dget (rr_snapshot rq) ''source_digest'')"
  using assms unfolding within_budget_def available_new_risk_budget_def handler_iffs by blast


text \<open>The texts of a reservation; the instant is any text that parses, so its form is a hypothesis.\<close>

lemma risk_event_texts:
  assumes "source_digest_text v"
  shows "\<exists>t. submission_text (json_norm v) = Inr t"
  using assms by (cases v) (auto simp: source_digest_text_def submission_text_Inr fingerprint_identity)

text \<open>What a reservation holds: every number is one the journal accepts as it is.\<close>

lemma risk_event_facts:
  assumes "risk_event sn s dm binding order rq = Inr data" "json_ok (PDict data)"
  obtains digest quantity amount x f l t fraction factor price existing pending fl costs src hitl policy where
    "order_digest sn order = Inr (digest, quantity)" "map_of (jn_risk_reservations s) digest = None"
    "f_lt (Fin 0) amount" "f_le f amount" "same_keys data reserved_fields"
    "dget data ''order_sha256'' = PStr digest" "dget data ''currency'' = dget binding ''currency''"
    "submission_text (json_norm (dget data ''source_digest'')) = Inr src"
    "dget data ''leverage_hitl_approved'' = PBool hitl" "dget data ''account_budget_policy'' = PDict policy"
    "list_all (\<lambda>(k, n). dget data k = PFloat n \<and> submission_number (PFloat n) = Inr n)
       [(''amount'', amount), (''reserved_3x_exposure'', x), (''quantity'', quantity), (''estimated_fee'', f),
        (''loss_per_unit'', l), (''quantity_step'', t), (''risk_fraction'', fraction),
        (''product_leverage_factor'', factor), (''unit_price'', price), (''existing_3x_exposure'', existing),
        (''pending_3x_exposure'', pending), (''floor'', fl), (''cost_buffer'', costs)]"
proof -
  obtain observed env digest quantity factor price existing pending amount policy limit floats u v where p:
    "order_digest sn order = Inr (digest, quantity)" "is_bool (rr_leverage_hitl_approved rq)"
    "request_exposure s rq observed env quantity = Inr (factor, price, existing, pending)"
    "submission_number (rr_amount rq) = Inr amount" "request_quantity rq quantity amount = Inr u"
    "f_lt (Fin 0) amount" "map_of (jn_risk_reservations s) digest = None"
    "request_policy dm rq = Inr (policy, limit)" "within_budget s binding rq amount limit = Inr v"
    "mapM py_float [rr_estimated_fee rq, rr_loss_per_unit rq, rr_quantity_step rq,
         rr_risk_fraction rq, rr_floor rq, rr_cost_buffer rq] = Inr floats"
    and data: "data = [(''order_sha256'', PStr digest), (''amount'', PFloat amount), (''currency'', dget binding ''currency''),
       (''valuation_at'', dget (rr_snapshot rq) ''valuation_at''),
       (''source_digest'', dget (rr_snapshot rq) ''source_digest''),
       (''reserved_3x_exposure'', PFloat (if f_eq factor (Fin 3) then f_mul quantity price else Fin 0)),
       (''quantity'', PFloat quantity), (''estimated_fee'', PFloat (floats ! 0)),
       (''loss_per_unit'', PFloat (floats ! 1)), (''quantity_step'', PFloat (floats ! 2)),
       (''risk_fraction'', PFloat (floats ! 3)), (''product_leverage_factor'', PFloat factor),
       (''unit_price'', PFloat price), (''existing_3x_exposure'', PFloat existing),
       (''pending_3x_exposure'', PFloat pending), (''floor'', PFloat (floats ! 4)),
       (''cost_buffer'', PFloat (floats ! 5)), (''leverage_hitl_approved'', rr_leverage_hitl_approved rq),
       (''account_budget_policy'', PDict policy)]"
    by (rule risk_event_Inr [OF assms(1)]) blast
  note order = order_digest_Inr [OF p(1)]
  obtain most where most: "maximum_risk_quantity (PFloat amount) (rr_loss_per_unit rq) (rr_estimated_fee rq)
      (rr_quantity_step rq) = Inr most" "\<not> f_lt most quantity"
    by (rule request_quantity_Inr [OF p(5)])
  obtain l f t where lft: "py_float (rr_loss_per_unit rq) = Inr l" "py_float (rr_estimated_fee rq) = Inr f"
    "py_float (rr_quantity_step rq) = Inr t" "submission_number (PFloat l) = Inr l"
    "submission_number (PFloat f) = Inr f" "submission_number (PFloat t) = Inr t" "f_le f amount"
    by (rule maximum_risk_quantity_positive [OF most(1) order(3) most(2)])
  obtain fraction fl costs where pol: "submission_number (rr_risk_fraction rq) = Inr fraction"
    "submission_number (rr_floor rq) = Inr fl" "submission_number (rr_cost_buffer rq) = Inr costs"
    by (rule request_policy_Inr [OF p(8)])
  have floats: "floats = [f, l, t, fraction, fl, costs]"
    using p(10) lft(1-3) pol [THEN submission_number_py_float] by simp
  have ex: "submission_number (PFloat factor) = Inr factor" "submission_number (PFloat price) = Inr price"
    "submission_number (PFloat existing) = Inr existing" "submission_number (PFloat pending) = Inr pending"
    using p(3) unfolding request_exposure_def handler_iffs by (blast intro: submission_number_again)+
  define x where "x = (if f_eq factor (Fin 3) then f_mul quantity price else Fin 0)"
  note data = data [folded x_def]
  have "f_isfinite x" using assms(2) unfolding data by (simp add: float_ok_def)
  then have x: "submission_number (PFloat x) = Inr x"
    using f_mul_nonneg [of quantity price] submission_number_finite [OF order(2)] submission_number_finite [OF ex(2)]
    by (intro submission_PFloat) (auto simp: x_def)
  obtain src where src: "submission_text (json_norm (dget (rr_snapshot rq) ''source_digest'')) = Inr src"
    using within_budget_Inr [OF p(9)] risk_event_texts by metis
  obtain hitl where hitl: "rr_leverage_hitl_approved rq = PBool hitl" using p(2) by (cases "rr_leverage_hitl_approved rq") auto
  note am = submission_number_again [OF p(4)] and pol' = pol [THEN submission_number_again]
  show thesis
    by (rule that [of digest quantity amount f src hitl policy x l t fraction factor price existing pending fl costs])
      (use p(1, 6, 7) src hitl x am pol' lft ex order(2) in
        \<open>simp_all add: data floats same_keys_def keys_def reserved_fields_def del: submission_number_PFloat\<close>)
qed


section \<open>Concrete inputs\<close>

lemma float_repr_1: "float_repr (Fin 1) = ''1.0''"
proof -
  have "digit_char (Suc 0) = CHR ''1''" by code_simp
  then show ?thesis
    by (simp add: float_digits_def digits_cand_def ilog10_def digits10.simps [of 1] eval_nat_numeral
        pow10_def float_eval layout_def rstrip_by_def)
qed

lemma float_ok_small: "float_ok (Fin 0)" "float_ok (Fin 1)"
proof -
  show "float_ok (Fin 0)" by code_simp
  have "p_number ''1.0'' = Some (PFloat (Fin 1), [])" by code_simp
  then show "float_ok (Fin 1)" by (simp add: float_ok_def float_repr_1 is_digit_def del: float_repr.simps)
qed

definition sample_source :: string where
  "sample_source = ''sha256:'' @ replicate 64 (CHR ''a'')"

definition sample_observed :: pydict where
  "sample_observed = [(''equity'', PFloat (Fin 30000)), (''balance'', PFloat (Fin 30000)),
     (''cash'', PFloat (Fin 30000)), (''currency'', PStr ''USD''),
     (''valuation_at'', PStr ''2026-01-02T10:00:00+00:00''),
     (''source_digest'', PStr sample_source), (''account_domain_key'', PStr ''k''),
     (''valid_until'', PStr ''2026-01-02T11:00:00+00:00''), (''pending_3x_exposure'', PFloat (Fin 0)),
     (''open_orders_complete'', PBool True), (''peak'', PFloat (Fin 30000)),
     (''protected_equity'', PFloat (Fin 30000)), (''position_3x_exposure'', PFloat (Fin 0)),
     (''complete'', PBool True), (''account_id'', PStr ''A1'')]"

definition sample_request :: risk_request where
  "sample_request = \<lparr>rr_snapshot = sample_observed, rr_floor = PFloat (Fin 0), rr_cost_buffer = PFloat (Fin 0),
     rr_amount = PFloat (Fin 3), rr_risk_fraction = PFloat (Fin 1), rr_loss_per_unit = PFloat (Fin 1),
     rr_estimated_fee = PFloat (Fin 0), rr_quantity_step = PFloat (Fin 3),
     rr_product_leverage_factor = PFloat (Fin 1), rr_unit_price = PFloat (Fin 1),
     rr_existing_3x_exposure = PFloat (Fin 0), rr_pending_3x_exposure = PFloat (Fin 0),
     rr_leverage_hitl_approved = PBool False,
     rr_account_budget_policy = PDict [(''preference'', PStr ''BALANCED_COMPOUNDING''), (''version'', PStr ''1''),
       (''source'', PStr ''file''), (''per_trade_fraction'', PFloat (Fin 1)),
       (''total_future_risk_limit'', PFloat (Fin 3)), (''floor'', PFloat (Fin 0)),
       (''cost_buffer'', PFloat (Fin 0)), (''contract_floor'', PNone)]\<rparr>"

definition sample_domain :: account_domain where
  "sample_domain = \<lparr>dm_identity = [], dm_policy = [(''capital_kind'', PStr ''OWN_REAL''),
     (''preference'', PStr ''BALANCED_COMPOUNDING''), (''version'', PStr ''1''), (''source'', PStr ''file'')]\<rparr>"

abbreviation sample_binding :: pydict where
  "sample_binding \<equiv> [(''domain_key'', PStr ''k''), (''account_type'', PStr ''CASH''), (''currency'', PStr ''USD'')]"

definition observed_journal :: journal_state where
  "observed_journal = initial_journal\<lparr>jn_domain_binding := Some sample_binding,
     jn_equity_observation := Some sample_observed\<rparr>"

definition timed_session :: session where
  "timed_session = sample_session\<lparr>ss_observed_at := PStr ''2026-01-02T10:01:00+00:00'',
     ss_decision_at := PStr ''2026-01-02T10:02:00+00:00''\<rparr>"

lemma sample_floats:
  "to_float 0 = Fin 0" "to_float 1 = Fin 1" "to_float 3 = Fin 3" "to_float 30000 = Fin 30000"
  "float_of_int 1 = Some (Fin 1)"
  by (simp_all add: float_eval float_of_int_def)

text \<open>Times of one day: their order is the order of their clocks.\<close>

lemma sample_instants:
  obtains d where "domain_time (PStr ''2026-01-02T10:00:00+00:00'') = Inr ((d * 86400 + 36000) * 1000000)"
    "domain_time (PStr ''2026-01-02T10:01:00+00:00'') = Inr ((d * 86400 + 36060) * 1000000)"
    "domain_time (PStr ''2026-01-02T10:02:00+00:00'') = Inr ((d * 86400 + 36120) * 1000000)"
    "domain_time (PStr ''2026-01-02T11:00:00+00:00'') = Inr ((d * 86400 + 39600) * 1000000)"
proof -
  obtain d where d: "date_fromisoformat ''2026-01-02'' = Some d"
    by (cases "date_fromisoformat ''2026-01-02''") (simp_all, code_simp)
  have v: "digit_val (CHR ''0'') = 0" "digit_val (CHR ''1'') = Suc 0" "digit_val (CHR ''2'') = Suc (Suc 0)"
    by code_simp+
  have c:
    "parse_clock ''10:00:00+00:00'' = Some (\<lparr>ct_fields = [10, 0, 0], ct_micro = 0, ct_more = True\<rparr>, Some 0)"
    "parse_clock ''10:01:00+00:00'' = Some (\<lparr>ct_fields = [10, 1, 0], ct_micro = 0, ct_more = True\<rparr>, Some 0)"
    "parse_clock ''10:02:00+00:00'' = Some (\<lparr>ct_fields = [10, 2, 0], ct_micro = 0, ct_more = True\<rparr>, Some 0)"
    "parse_clock ''11:00:00+00:00'' = Some (\<lparr>ct_fields = [11, 0, 0], ct_micro = 0, ct_more = True\<rparr>, Some 0)"
    by (simp_all add: parse_clock_def eval_nat_numeral take_digits_def char_at_def is_digit_def digits_val_def Let_def
        v clock_field_def)
  show thesis
    by (rule that [of "date_days d"])
      (simp_all add: domain_time_def utc_instant_def expand_zulu_def clock_field_def d c)
qed

lemma sample_gets:
  "dget sample_observed ''equity'' = PFloat (Fin 30000)"
  "dget sample_observed ''balance'' = PFloat (Fin 30000)"
  "dget sample_observed ''cash'' = PFloat (Fin 30000)"
  "dget sample_observed ''currency'' = PStr ''USD''"
  "dget sample_observed ''valuation_at'' = PStr ''2026-01-02T10:00:00+00:00''"
  "dget sample_observed ''source_digest'' = PStr sample_source"
  "dget sample_observed ''account_domain_key'' = PStr ''k''"
  "dget sample_observed ''valid_until'' = PStr ''2026-01-02T11:00:00+00:00''"
  "dget sample_observed ''pending_3x_exposure'' = PFloat (Fin 0)"
  "dget sample_observed ''open_orders_complete'' = PBool True"
  "dget sample_observed ''peak'' = PFloat (Fin 30000)"
  "dget sample_observed ''protected_equity'' = PFloat (Fin 30000)"
  "dget sample_observed ''position_3x_exposure'' = PFloat (Fin 0)"
  "dget sample_observed ''complete'' = PBool True"
  "dget sample_observed ''account_id'' = PStr ''A1''"
  by (simp_all add: sample_observed_def)

lemma sample_times:
  "times_ordered [PStr ''2026-01-02T10:00:00+00:00'', ss_observed_at timed_session] (ss_decision_at timed_session)
     (PStr ''2026-01-02T11:00:00+00:00'') = Inr True"
  by (rule sample_instants) (simp add: timed_session_def)

lemma sample_envelope_open:
  obtains env where "request_envelope observed_journal sample_request = Inr (sample_observed, env)"
proof -
  have "protected_envelope sample_observed = default_envelope (PFloat (Fin 30000)) (PFloat (Fin 0))"
    by (simp add: protected_envelope_def sample_gets num_quot_def num_float_def f_is_zero_def f_quot_def
        sample_floats f_sub_def f_max_def f_lt_def)
  moreover obtain env where "default_envelope (PFloat (Fin 30000)) (PFloat (Fin 0)) = Inr env" "en_new_risk_allowed env"
    by (simp add: default_envelope_def envelope_eval default_target)
  ultimately have "request_envelope observed_journal sample_request = Inr (sample_observed, env)"
    by (simp add: request_envelope_def observed_journal_def sample_request_def snapshot_fields_def not_above_zero_def
        py_lt_def f_lt_def sample_gets f_eq_def exact_eq_def)
  then show thesis by (rule that)
qed

lemma sample_exposure:
  "request_exposure observed_journal sample_request sample_observed env (Fin 3) = Inr (Fin 1, Fin 1, Fin 0, Fin 0)"
proof -
  have q: "submission_number (PFloat (Fin 1)) = Inr (Fin 1)" "submission_number (PFloat (Fin 0)) = Inr (Fin 0)"
    by (simp_all add: f_lt_def)
  show ?thesis
    by (simp add: request_exposure_def sample_request_def q f_eq_def f_lt_def sample_gets exact_eq_def)
qed

lemma sample_quantity: "request_quantity sample_request (Fin 3) (Fin 3) = Inr ()"
proof -
  have "fraction_of_text ''3.0'' = Some 3" by code_simp
  then have f: "fraction_of (PFloat (Fin 3)) = Inr 3"
    by (simp add: fraction_of_def py_str_def float_repr_3 del: float_repr.simps)
  show ?thesis
    by (simp add: request_quantity_def sample_request_def f maximum_risk_quantity_def finite_numbers_def invalid_number_def
        f_lt_def f_is_zero_def f_mul_def sample_floats f_sub_def f_quot_def floor_times_def round_half_even_def Let_def)
qed

lemma sample_policy: "\<exists>policy. request_policy sample_domain sample_request = Inr (policy, Fin 3)"
proof -
  have q: "submission_number (PFloat (Fin 1)) = Inr (Fin 1)" "submission_number (PFloat (Fin 0)) = Inr (Fin 0)"
    "submission_number (PFloat (Fin 3)) = Inr (Fin 3)"
    by (simp_all add: f_lt_def)
  show ?thesis
    by (simp add: request_policy_def sample_request_def sample_domain_def same_keys_def keys_def budget_policy_fields_def
        q f_eq_def)
qed

lemma sample_budget: "within_budget observed_journal sample_binding sample_request (Fin 3) (Fin 3) = Inr ()"
proof -
  have r: "existing_risk observed_journal = Fin 0"
    by (simp add: existing_risk_def observed_journal_def initial_journal_def f_sum_def sample_floats)
  obtain d where d: "domain_time (PStr ''2026-01-02T10:00:00+00:00'') = Inr d" by (rule sample_instants)
  have h: "source_digest_text (PStr sample_source)"
    by (simp add: source_digest_text_def sample_source_def fingerprint_text_def starts_with_def is_sha256_hex_def list_all_iff
        is_hex_lower_def is_digit_def)
  show ?thesis
    by (simp add: within_budget_def r sample_request_def available_new_risk_budget_def sample_gets d h finite_numbers_def
        invalid_number_def f_min_list_def f_min_def f_lt_def f_sub_def f_mul_def f_is_zero_def f_max_def sample_floats Let_def)
qed

lemma sample_risk_event:
  obtains digest data where "risk_event timed_session observed_journal sample_domain sample_binding buy_order sample_request
      = Inr data"
    "json_ok (PDict data)" "dget data ''valuation_at'' = PStr ''2026-01-02T10:00:00+00:00''"
    "dget data ''amount'' = PFloat (Fin 3)"
proof -
  obtain digest where "order_digest sample_session buy_order = Inr (digest, Fin 3)" by (rule buy_order_digest)
  then have digest: "order_digest timed_session buy_order = Inr (digest, Fin 3)"
    by (simp add: order_digest_def timed_session_def)
  obtain env where env: "request_envelope observed_journal sample_request = Inr (sample_observed, env)"
    by (rule sample_envelope_open)
  obtain policy where policy: "request_policy sample_domain sample_request = Inr (policy, Fin 3)"
    using sample_policy by blast
  have pol: "rr_account_budget_policy sample_request = PDict policy"
    by (rule request_policy_Inr [OF policy])
  have am: "submission_number (rr_amount sample_request) = Inr (Fin 3)" "f_lt (Fin 0) (Fin 3)"
    by (simp_all add: sample_request_def f_lt_def)
  have acc: "ss_account_id timed_session = ''A1''" by (simp add: timed_session_def sample_session_def)
  have snap: "rr_snapshot sample_request = sample_observed" "is_bool (rr_leverage_hitl_approved sample_request)"
    "rr_leverage_hitl_approved sample_request = PBool False"
    "py_eq (rr_pending_3x_exposure sample_request) (PFloat (Fin 0))"
    by (simp_all add: sample_request_def f_eq_def exact_eq_def)
  have none: "map_of (jn_risk_reservations observed_journal) digest = None"
    by (simp add: observed_journal_def initial_journal_def)
  have floats: "mapM py_float [rr_estimated_fee sample_request, rr_loss_per_unit sample_request,
      rr_quantity_step sample_request, rr_risk_fraction sample_request, rr_floor sample_request,
      rr_cost_buffer sample_request] = Inr [Fin 0, Fin 1, Fin 3, Fin 1, Fin 0, Fin 0]"
    by (simp add: sample_request_def)
  define data where "data = [(''order_sha256'', PStr digest), (''amount'', PFloat (Fin 3)), (''currency'', PStr ''USD''),
       (''valuation_at'', PStr ''2026-01-02T10:00:00+00:00''),
       (''source_digest'', PStr sample_source), (''reserved_3x_exposure'', PFloat (Fin 0)),
       (''quantity'', PFloat (Fin 3)), (''estimated_fee'', PFloat (Fin 0)), (''loss_per_unit'', PFloat (Fin 1)),
       (''quantity_step'', PFloat (Fin 3)), (''risk_fraction'', PFloat (Fin 1)),
       (''product_leverage_factor'', PFloat (Fin 1)), (''unit_price'', PFloat (Fin 1)),
       (''existing_3x_exposure'', PFloat (Fin 0)), (''pending_3x_exposure'', PFloat (Fin 0)),
       (''floor'', PFloat (Fin 0)), (''cost_buffer'', PFloat (Fin 0)), (''leverage_hitl_approved'', PBool False),
       (''account_budget_policy'', PDict policy)]"
  have data: "risk_event timed_session observed_journal sample_domain sample_binding buy_order sample_request = Inr data"
    unfolding risk_event_def floats data_def
    by (simp add: env digest snap sample_gets sample_times acc sample_exposure am sample_quantity none policy sample_budget
        f_eq_def del: times_ordered.simps)
  have "json_ok (PDict policy)"
    using pol by (auto simp: sample_request_def float_ok_small float_ok_3)
  then have "json_ok (PDict data)" by (simp add: data_def float_ok_small float_ok_3)
  with data show thesis by (rule that) (simp_all add: data_def)
qed



section \<open>Where a writer and the journal disagree\<close>

text \<open>The instant of a snapshot may have any character between its date and its time; the reservation
  that copies it is refused by the reduction, after it was written, if that character is not printable.\<close>

lemma unprintable_instant_rejected:
  "\<exists>v t. domain_time (PStr v) = Inr t
     \<and> (\<forall>data s. dget data ''valuation_at'' = PStr v \<longrightarrow> (\<exists>e. on_risk_reserved data s = Inl e))"
proof -
  let ?v = "''2026-01-02'' @ [CHR 0x0A] @ ''10:00:00+00:00''"
  obtain t where "domain_time (PStr ''2026-01-02T10:00:00+00:00'') = Inr t" by (rule sample_instants)
  moreover have "expand_zulu ?v = ?v" "take 10 ?v = ''2026-01-02''" "drop 11 ?v = ''10:00:00+00:00''" by code_simp+
  moreover have "expand_zulu ''2026-01-02T10:00:00+00:00'' = ''2026-01-02T10:00:00+00:00''"
    "take 10 ''2026-01-02T10:00:00+00:00'' = ''2026-01-02''" "drop 11 ''2026-01-02T10:00:00+00:00'' = ''10:00:00+00:00''"
    by code_simp+
  ultimately have t: "domain_time (PStr ?v) = Inr t" unfolding domain_time_def utc_instant_def pyval.case by metis
  have n: "\<not> identity_text ?v" by (simp add: identity_text_def)
  have "\<exists>e. on_risk_reserved data s = Inl e" if v: "dget data ''valuation_at'' = PStr ?v" for data s
  proof (cases "on_risk_reserved data s")
    case (Inr s')
    then obtain x where "submission_text (dget data ''valuation_at'') = Inr x"
      unfolding on_risk_reserved_def handler_iffs by blast
    then have "identity_text ?v" unfolding v submission_text_Inr by simp
    with n show ?thesis by blast
  qed blast
  with t show ?thesis by blast
qed

text \<open>A filled quantity that is an integer beyond the floats is not recorded: the exception is not one
  that is taken for a contradictory report.\<close>

lemma overflowing_fill_not_recorded:
  assumes "float_of_int i = None" "i \<noteq> 0"
  shows "report_observation a (filled_report\<lparr>br_filled_quantity := PInt i\<rparr>) = Inl OverflowError"
proof -
  have "submission_number (py_or (PInt i) (PFloat (Fin 0))) = Inl OverflowError"
    using assms by (simp add: submission_number_def py_or_def py_float_def reraise_type_value_def)
  then show ?thesis by (simp add: report_observation_def report_facts_def filled_report_def)
qed

end
