(* ===== verification/Spec2Isabelle.thy ===== *)
theory Spec2Isabelle
  imports ExecutionKernel PaperConsumer RuntimeControl ReduceOnly
    NewRiskGate RiskEngine ExecutionOutcomes ExecutionReports CnCalendar
    RiskAcceptance
begin

text \<open>
  A verification of the order path of QuantPlatformKit: the code that decides whether a strategy may
  send an order, that makes an order happen at most once, and that remembers what became of it.
  Paths are under \<open>src/src/quant_platform_kit/\<close>. Functions keep their Python names; a method
  carries the name of its class where two would clash, and a part of a long function has a name
  of its own.

  \<^bold>\<open>How the parts interact.\<close> A strategy release is a content-addressed manifest
  (\<open>common/strategy_release.py\<close>) the runtime attests to have loaded. A decision under a release becomes a
  durable execution command with an append-only event history (\<open>common/execution_commands.py\<close>) on a file
  system or an object store (\<open>cloud/\<close>). A consumer claims each due command
  (\<open>common/paper_execution_command_consumer.py\<close>), admits it against a risk receipt
  (\<open>common/paper_execution_admission.py\<close>) and passes every effect through the runtime command gate
  (\<open>common/runtime_command_gate.py\<close>) under the reviewed runtime control (\<open>common/runtime_control.py\<close>). The
  account's capital decides how much new risk is left (\<open>risk/capital_risk_envelope.py\<close>,
  \<open>risk/account_new_risk_gate.py\<close>, \<open>risk/engine.py\<close>); reductions have a path of their own
  (\<open>common/long_only_reduce.py\<close>, \<open>common/reduce_only_command_admission.py\<close>). A live order passes the
  account submission journal (\<open>common/execution_state.py\<close>), a hash-chained log per broker account in
  which one writer at a time reserves a submission, dispatches it once and records the report; the
  journal also holds the account's domain, its equity, the risk it has reserved and a latched circuit
  breaker. Markers in the same file deduplicate runs and claim accounts.
\<close>

text \<open>
  \<^bold>\<open>The foundations.\<close>
  \<^item> Prelude: exceptions as a datatype, computations that may raise as a sum, stateful ones as functions to
    a result and a state, with the simplification rules (\<open>res_simps\<close>, \<open>err_simps\<close>) that split a
    successful computation into its steps. An exception keeps the state it was raised in.
  \<^item> PyText, PyDate, PyInstant, PyFloat, PyNumber, PyEnum, PyCompare: the parts of Python's \<open>str\<close>, \<open>datetime\<close>,
    \<open>float\<close>, conversions and comparisons the code uses. A finite float is the rational it stands for;
    arithmetic computes exactly and rounds to binary64, half to even, so overflow, rounding, negative
    zero and NaN are those of the machine. Dates are read as Python 3.10 does, the oldest that
    \<open>pyproject.toml\<close> admits, and a sum of floats goes from the left as it does there.
  \<^item> PyJson, JsonRoundtrip: dynamically typed values, \<open>json.dumps\<close> and \<open>json.loads\<close>. The decoder takes fuel:
    twice the length of the text plus one, which every call of it can use up only by consuming the text;
    JsonRoundtrip proves that it suffices for every encoded value, and that decoding inverts encoding up
    to tuples becoming lists.
  \<^item> Sha256: the digest on 32-bit words. No theorem assumes that it is injective; where an argument
    needs that two texts do not collide, it says so of those two.

  \<^bold>\<open>The components.\<close>
  \<^item> ExecutionKernel (\<open>execution_kernel/types.py\<close>, \<open>guards.py\<close>): three pure guards of a live submission.
  \<^item> StrategyRelease: manifest, identity, binding and the receipt of a loaded release; a receipt is
    accepted exactly when it was built from that release.
  \<^item> ObjectStore (\<open>cloud/ports.py\<close>, \<open>local_provider.py\<close>, \<open>gcp_provider.py\<close>): the locales \<open>create_only\<close> and
    \<open>listing_store\<close> are what a store promises (an object is created once, never changed, and listed); they are
    interpreted on the file system, the local provider and, through the locale \<open>blob_service\<close> of a client, the
    GCS provider.
  \<^item> ExecutionCommands, CommandStore, CommandLog, CommandBackends: commands and their identity, the state
    machine of events, the store, and the interleaving of processes as a step relation. The locale
    \<open>event_backend\<close> extends \<open>create_only\<close>; its invariant says that the files are exactly the events of a valid
    history, and both backends satisfy it.
  \<^item> RuntimeCommandGate, PaperAdmission, PaperConsumer: what blocks a broker write, when a receipt admits a
    command, and the consumer, which leaves no claimed command unsettled whatever fails.
  \<^item> RuntimeControl: strict parsing, and overrides that can only tighten the reviewed control.
  \<^item> ReduceOnly: sells that cannot exceed the reconciled position, bound to a command by digest.
  \<^item> RiskNumbers, CapitalEnvelope, NewRiskGate, RiskEngine: the envelope of an equity and a drawdown, the
    admission of new risk, and the aggregation of plugin signals to their worst case.
  \<^item> ExecutionOutcomes, ExecutionMarkers, ExecutionReports: the stage of a run, markers and account owners, the
    scan of earlier reports and the digest of the ledger.
  \<^item> CnCalendar: trading days; the loops are partial functions, and that they return is a theorem.
\<close>

text \<open>
  \<^bold>\<open>The account submission journal\<close> (\<open>common/execution_state.py\<close> from line 759, \<open>common/account_domain.py\<close>,
  \<open>common/account_risk_budget.py\<close>, \<open>common/pending_order_evidence.py\<close>).
  \<^item> AccountDomain, SubmissionTypes, PendingEvidence: the identity and policy of an account, the budget a
    snapshot leaves, the state the journal reduces to, and the evidence of pending orders.
  \<^item> SubmissionJournal: one handler for each event kind, the reduction \<open>read_state\<close>, and \<open>_append\<close>.
  \<^item> SubmissionHistory: the abstract arbitration as a step relation. Each handler refines it, so what it
    keeps (at most one unresolved attempt, one attempt for each intent and order, fills that only grow
    and never exceed the order) holds of every journal that reads back.
  \<^item> SubmissionFiles: on a file system an append creates exactly the next file, which reads back as the step
    of its handler, and whoever adds files can only continue the journal.
  \<^item> SubmissionSession, SubmissionRisk: the operations of \<open>AccountSubmissionSession\<close>. The record \<open>session\<close> holds
    its frozen arguments, \<open>live\<close> its mutable fields with the storage, \<open>session_env\<close> what is outside: the
    object store, the inode lock, the process token, fresh identifiers and the clock.
  \<^item> SubmissionSafety: a grant excludes every other until its outcome is recorded; over any number of
    dispatches of a session a grant reaches the broker at most once; nothing is dispatched that the journal
    does not hold as prepared, under an open breaker or outside the account's domain. That an operation
    reaches the broker is stated as a dependence of its result on the submission function.
  \<^item> SubmissionAcceptance, RiskAcceptance: the checks of the writing session and those of the reading
    handler agree: whatever a broker reports can be recorded, and a reservation of risk is within every
    limit and is accepted. Two inputs for which they do not agree are stated as theorems of their own,
    \<open>unprintable_instant_rejected\<close> and \<open>overflowing_fill_not_recorded\<close>.

  \<^bold>\<open>Conventions.\<close> A property is followed by a witness that applies it to a concrete input. Equivalences
  characterise when an operation succeeds, so that both its results and its errors are determined.
  Parameters stand for code outside the repository: the object-store client, the plugins and the regime
  detector of the risk engine, the drift store, the reader of snapshots, the reconciler, the broker.
  Their documented behaviour is a named hypothesis, or an assumption of a locale that is interpreted on
  a memory client.
\<close>

text \<open>
  \<^bold>\<open>Not modelled.\<close>
  \<^item> Texts outside the first 256 code points: a string is a list of HOL's 8-bit characters. Their UTF-8 encoding
    agrees with the code's on ASCII, which the identifiers of the order path are.
  \<^item> Process mutexes: each operation of a session is one step, which is what they enforce within a
    process. Between processes the interleaving of whole operations is modelled for the journal, and that of
    single writes for the command store.
  \<^item> The AWS and Azure providers repeat the port over vendor libraries; of the others, creation, reading and
    listing are modelled and the secret, deployment and time services of \<open>cloud/\<close> are not.
  \<^item> \<open>strategy_lifecycle/\<close>, \<open>research_stats/\<close>, \<open>research_factory/\<close>, \<open>adaptive_allocation/\<close>, \<open>backtest/\<close> and
    \<open>position_sizing.py\<close>: research over data frames, arrays and language models outside the repository. The order
    path takes from them a drift status and a tuple of profile names.
  \<^item> \<open>common/strategy_plugins.py\<close>, \<open>common/strategy_contracts.py\<close> and the strategy catalogs: they load packages
    that are not here. \<open>risk/gate/\<close>: the offline review of candidate allocations.
  \<^item> \<open>common/broker_reconciliation.py\<close> and \<open>common/reconciliation_recovery.py\<close>: their result enters as the injected
    snapshot of the new-risk gate.
  \<^item> Market data, broker adapters, notifications, configuration, logging and display.
\<close>

end
